(* ===== verification/Net_Prelude.thy ===== *)
theory Net_Prelude
  imports Main "HOL-Library.Word" "HOL-Library.Monad_Syntax"
begin

text \<open>
  Shared ground of the development: the collections the component proofs draw on, the facts about
  the option monad, list update and machine words that several components need, and the type
  synonyms of the model.

  A call of a C function is a HOL function from the state to \<open>(result \<times> state) option\<close>.
  The value \<^term>\<open>None\<close> stands for "the C call does not return normally": it dereferences a
  null pointer, calls through a null function pointer, reads or writes outside an array, touches
  freed memory, stops in an assertion, or loops for ever. An error code that the C function
  \<^emph>\<open>returns\<close> is an ordinary integer result. The do-notation of \<open>Monad_Syntax\<close> threads the state by
  name: \<open>do { (r, s) \<leftarrow> f s; \<dots> }\<close>.
\<close>

unbundle bit_operations_syntax

named_theorems net_defs \<open>definitions of the small operations every component proof unfolds\<close>
named_theorems frame \<open>what an operation leaves unchanged\<close>
named_theorems os_held \<open>the locks held after an operation\<close>

type_synonym u8 = "8 word"
type_synonym u16 = "16 word"
type_synonym u32 = "32 word"
type_synonym bytes = "8 word list"

text \<open>Pointers are numbers; a pointer that may be null is an option.\<close>

type_synonym netref = nat   \<comment> \<open>a \<open>net_if_handle_t *\<close>\<close>
type_synonym drvref = nat   \<comment> \<open>a \<open>net_if_drv_t *\<close>\<close>
type_synonym tlsref = nat   \<comment> \<open>a \<open>net_tls_data_t *\<close>\<close>
type_synonym handlerref = nat \<comment> \<open>a \<open>const net_event_handler_t *\<close>\<close>

subsection \<open>Option monad\<close>

lemma bind_Some_iff: "(Option.bind m f = Some y) \<longleftrightarrow> (\<exists>x. m = Some x \<and> f x = Some y)"
  by (cases m) auto

lemma bind_SomeE:
  assumes "Option.bind m f = Some y"
  obtains x where "m = Some x" and "f x = Some y"
  using assms by (cases m) auto

lemma bind_pair_SomeE:
  assumes "Option.bind m f = Some y"
  obtains a b where "m = Some (a, b)" and "f (a, b) = Some y"
  using assms by (cases m) auto

lemma bind_None_iff: "(Option.bind m f = None) \<longleftrightarrow> (m = None \<or> (\<exists>x. m = Some x \<and> f x = None))"
  by (cases m) auto

subsection \<open>Lists\<close>

lemma list_update_nth_map:
  "i < length xs \<Longrightarrow> xs[i := f (xs ! i)] ! j = (if i = j then f (xs ! i) else xs ! j)"
  by (auto simp: nth_list_update)

lemma find_index_upt_Some:
  "List.find P [0..<n] = Some i \<longleftrightarrow> i < n \<and> P i \<and> (\<forall>j<i. \<not> P j)"
proof -
  have "List.find P [0..<n] = Some i \<longleftrightarrow> (\<exists>k<n. P k \<and> i = k \<and> (\<forall>j<k. \<not> P j))"
    by (auto simp: find_Some_iff)
  then show ?thesis by auto
qed

lemma find_upt_None: "List.find P [0..<n] = None \<longleftrightarrow> (\<forall>i<n. \<not> P i)"
  by (auto simp: find_None_iff)

subsection \<open>Signed and unsigned 32-bit views\<close>

text \<open>A C \<open>int32_t\<close> is an \<^typ>\<open>int\<close>; these are the casts between it and \<open>uint32_t\<close>.\<close>

definition int32_of :: "u32 \<Rightarrow> int" where
  "int32_of w = sint w"

definition u32_of :: "int \<Rightarrow> u32" where
  "u32_of i = word_of_int i"

lemma u32_of_int32_of [simp]: "u32_of (int32_of w) = w"
  by (simp add: u32_of_def int32_of_def)

lemma int32_of_range: "- (2 ^ 31) \<le> int32_of w" "int32_of w < 2 ^ 31"
  using sint_range_size [of w] by (simp_all add: int32_of_def word_size)

lemma unat_u32 [simp]: "unat (w :: u32) < 4294967296"
  using unsigned_less [of w] by simp

lemma unat_of_nat_u32: "n < 2 ^ 32 \<Longrightarrow> unat (of_nat n :: u32) = n"
  by (simp add: unat_of_nat take_bit_nat_eq_self)

lemma of_nat_le_u32: "a < 2 ^ 32 \<Longrightarrow> b < 2 ^ 32 \<Longrightarrow> ((of_nat a :: u32) \<le> of_nat b) \<longleftrightarrow> a \<le> b"
  by (simp add: word_le_nat_alt unat_of_nat_u32)

text \<open>Equality of words bit by bit, with the 32 positions listed so that masks evaluate.\<close>

lemma u32_bits: "n < 32 \<longleftrightarrow> n \<in> {0, 1, 2, 3, 4, 5, 6, 7, 8, 9, 10, 11, 12, 13, 14, 15, 16, 17, 18,
    19, 20, 21, 22, 23, 24, 25, 26, 27, 28, 29, 30, 31 :: nat}"
  by (simp, presburger)

lemma u32_eqI:
  "(\<forall>n\<in>{0, 1, 2, 3, 4, 5, 6, 7, 8, 9, 10, 11, 12, 13, 14, 15, 16, 17, 18, 19, 20, 21, 22, 23, 24, 25,
      26, 27, 28, 29, 30, 31}. bit a n = bit b n) \<Longrightarrow> a = (b :: u32)"
  by (rule bit_word_eqI) (use u32_bits in auto)

lemma u16_bits: "n < 16 \<longleftrightarrow> n \<in> {0, 1, 2, 3, 4, 5, 6, 7, 8, 9, 10, 11, 12, 13, 14, 15 :: nat}"
  by (simp, presburger)

lemma u16_eqI:
  "(\<forall>n\<in>{0, 1, 2, 3, 4, 5, 6, 7, 8, 9, 10, 11, 12, 13, 14, 15}. bit a n = bit b n) \<Longrightarrow> a = (b :: u16)"
  by (rule bit_word_eqI) (use u16_bits in auto)

end
