(* ===== verification/Net_Types.thy ===== *)
theory Net_Types
  imports Net_Prelude
begin

text \<open>
  The data of the library, from the headers \<open>Includes/net_errors.h\<close>, \<open>net_connect.h\<close>,
  \<open>net_core.h\<close>, \<open>net_address.h\<close>, \<open>net_wifi.h\<close>, \<open>net_class_extension.h\<close> and \<open>net_mbedtls.h\<close>:
  error codes, enumerations, the interface handle, the driver table, the socket and the TLS data,
  and the system state every operation works on.

  Configuration modelled: \<open>NET_USE_RTOS\<close> and \<open>NET_MBEDTLS_HOST_SUPPORT\<close> defined,
  \<open>NET_USE_DEFAULT_INTERFACE = 1\<close>, \<open>NET_USE_IPV6 = 0\<close>, \<open>NET_MAX_SOCKETS_NBR = 5\<close> (the default of
  \<open>net_conf_template.h\<close>), local address definitions (\<open>NET_USE_LWIP_DEFINITIONS\<close> undefined).

  Code outside \<open>src/\<close> (the radio module, the RTOS, mbedTLS, the allocator, the application's
  callback) is the record \<open>env\<close>: its functions work on a state \<^typ>\<open>'w\<close> of their own.
\<close>

section \<open>Error codes (net_errors.h)\<close>

abbreviation (input) NET_OK :: int where "NET_OK \<equiv> 0"
abbreviation (input) NET_TIMEOUT :: int where "NET_TIMEOUT \<equiv> -1"
abbreviation (input) NET_ERROR_UNSUPPORTED :: int where "NET_ERROR_UNSUPPORTED \<equiv> -3"
abbreviation (input) NET_ERROR_PARAMETER :: int where "NET_ERROR_PARAMETER \<equiv> -4"
abbreviation (input) NET_ERROR_NO_CONNECTION :: int where "NET_ERROR_NO_CONNECTION \<equiv> -5"
abbreviation (input) NET_ERROR_INVALID_SOCKET :: int where "NET_ERROR_INVALID_SOCKET \<equiv> -6"
abbreviation (input) NET_ERROR_NO_MEMORY :: int where "NET_ERROR_NO_MEMORY \<equiv> -8"
abbreviation (input) NET_ERROR_DNS_FAILURE :: int where "NET_ERROR_DNS_FAILURE \<equiv> -10"
abbreviation (input) NET_ERROR_DEVICE_ERROR :: int where "NET_ERROR_DEVICE_ERROR \<equiv> -13"
abbreviation (input) NET_ERROR_IS_CONNECTED :: int where "NET_ERROR_IS_CONNECTED \<equiv> -16"
abbreviation (input) NET_ERROR_INTERFACE_FAILURE :: int where "NET_ERROR_INTERFACE_FAILURE \<equiv> -17"
abbreviation (input) NET_ERROR_SOCKET_FAILURE :: int where "NET_ERROR_SOCKET_FAILURE \<equiv> -19"
abbreviation (input) NET_ERROR_DISCONNECTED :: int where "NET_ERROR_DISCONNECTED \<equiv> -22"
abbreviation (input) NET_ERROR_IS_NOT_SECURE :: int where "NET_ERROR_IS_NOT_SECURE \<equiv> -24"
abbreviation (input) NET_ERROR_FRAMEWORK :: int where "NET_ERROR_FRAMEWORK \<equiv> -25"
abbreviation (input) NET_ERROR_STATE_TRANSITION :: int where "NET_ERROR_STATE_TRANSITION \<equiv> -26"
abbreviation (input) NET_ERROR_INVALID_STATE_TRANSITION :: int
  where "NET_ERROR_INVALID_STATE_TRANSITION \<equiv> -27"
abbreviation (input) NET_ERROR_INVALID_STATE :: int where "NET_ERROR_INVALID_STATE \<equiv> -28"
abbreviation (input) NET_ERROR_GENERIC :: int where "NET_ERROR_GENERIC \<equiv> -29"
abbreviation (input) NET_ERROR_MBEDTLS_CRT_PARSE :: int where "NET_ERROR_MBEDTLS_CRT_PARSE \<equiv> -101"
abbreviation (input) NET_ERROR_MBEDTLS_KEY_PARSE :: int where "NET_ERROR_MBEDTLS_KEY_PARSE \<equiv> -102"
abbreviation (input) NET_ERROR_MBEDTLS_SET_HOSTNAME :: int where "NET_ERROR_MBEDTLS_SET_HOSTNAME \<equiv> -103"
abbreviation (input) NET_ERROR_MBEDTLS_REMOTE_AUTH :: int where "NET_ERROR_MBEDTLS_REMOTE_AUTH \<equiv> -105"
abbreviation (input) NET_ERROR_MBEDTLS_CONFIG :: int where "NET_ERROR_MBEDTLS_CONFIG \<equiv> -106"
abbreviation (input) NET_ERROR_MBEDTLS_SSL_SETUP :: int where "NET_ERROR_MBEDTLS_SSL_SETUP \<equiv> -107"
abbreviation (input) NET_ERROR_MBEDTLS_CONNECT :: int where "NET_ERROR_MBEDTLS_CONNECT \<equiv> -108"
abbreviation (input) NET_ERROR_MBEDTLS :: int where "NET_ERROR_MBEDTLS \<equiv> -109"

section \<open>Socket constants and options (net_connect.h)\<close>

abbreviation (input) NET_AF_INET :: int where "NET_AF_INET \<equiv> 2"
abbreviation (input) NET_SOCK_STREAM :: int where "NET_SOCK_STREAM \<equiv> 1"
abbreviation (input) NET_SOCK_DGRAM :: int where "NET_SOCK_DGRAM \<equiv> 2"
abbreviation (input) NET_IPPROTO_IP :: int where "NET_IPPROTO_IP \<equiv> 0"
abbreviation (input) NET_IPPROTO_TCP :: int where "NET_IPPROTO_TCP \<equiv> 6"
abbreviation (input) NET_IPPROTO_UDP :: int where "NET_IPPROTO_UDP \<equiv> 17"
abbreviation (input) NET_IPPROTO_TCP_TLS :: int where "NET_IPPROTO_TCP_TLS \<equiv> 36"
abbreviation (input) NET_SHUTDOWN_R :: int where "NET_SHUTDOWN_R \<equiv> 0"
abbreviation (input) NET_SHUTDOWN_W :: int where "NET_SHUTDOWN_W \<equiv> 1"
abbreviation (input) NET_SHUTDOWN_RW :: int where "NET_SHUTDOWN_RW \<equiv> 2"
abbreviation (input) NET_SOL_SOCKET :: int where "NET_SOL_SOCKET \<equiv> 0xfff"
abbreviation (input) NET_MSG_DONTWAIT :: int where "NET_MSG_DONTWAIT \<equiv> 8"
abbreviation (input) NET_SOCK_DEFAULT_RECEIVE_TO :: int where "NET_SOCK_DEFAULT_RECEIVE_TO \<equiv> 60000"
abbreviation (input) NET_SOCK_DEFAULT_SEND_TO :: int where "NET_SOCK_DEFAULT_SEND_TO \<equiv> 60000"
abbreviation (input) NET_UDP_MAX_SEND_BLOCK_TO :: int where "NET_UDP_MAX_SEND_BLOCK_TO \<equiv> 1024"
abbreviation (input) NET_MAX_SOCKETS_NBR :: nat where "NET_MAX_SOCKETS_NBR \<equiv> 5"

datatype net_socketoption =
    NET_SO_RCVTIMEO | NET_SO_SNDTIMEO | NET_TCP_NODELAY | NET_SO_BINDTODEVICE | NET_SO_BLOCKING
  | NET_SO_SECURE | NET_SO_TLS_CA_CERT | NET_SO_TLS_CA_CRL | NET_SO_TLS_DEV_KEY
  | NET_SO_TLS_DEV_CERT | NET_SO_TLS_SERVER_VERIFICATION | NET_SO_TLS_SERVER_NAME
  | NET_SO_TLS_PASSWORD | NET_SO_TLS_CERT_PROF | NET_SO_BROADCAST

text \<open>What the \<open>const void *optvalue\<close> of \<open>setsockopt\<close> points to.\<close>

datatype optval = OptNull | OptIf netref | OptI32 int | OptBool bool | OptStr string | OptProf nat

section \<open>Interface state machine enumerations (net_connect.h)\<close>

datatype net_evt = NET_EVENT_STATE_CHANGE | NET_EVENT | NET_EVENT_WIFI

datatype net_state =
    NET_STATE_DEINITIALIZED | NET_STATE_INITIALIZED | NET_STATE_STARTING | NET_STATE_READY
  | NET_STATE_CONNECTING | NET_STATE_CONNECTED | NET_STATE_STOPPING | NET_STATE_DISCONNECTING
  | NET_STATE_CONNECTION_LOST

datatype net_state_event =
    NET_EVENT_CMD_INIT | NET_EVENT_CMD_START | NET_EVENT_CMD_CONNECT | NET_EVENT_CMD_DISCONNECT
  | NET_EVENT_CMD_STOP | NET_EVENT_CMD_DEINIT | NET_EVENT_INTERFACE_INITIALIZED
  | NET_EVENT_INTERFACE_READY | NET_EVENT_LINK_UP | NET_EVENT_LINK_DOWN | NET_EVENT_IPADDR

text \<open>The cast \<open>(uint32_t) state\<close>: the position in the enumeration.\<close>

fun state_code :: "net_state \<Rightarrow> u32" where
  "state_code NET_STATE_DEINITIALIZED = 0"
| "state_code NET_STATE_INITIALIZED = 1"
| "state_code NET_STATE_STARTING = 2"
| "state_code NET_STATE_READY = 3"
| "state_code NET_STATE_CONNECTING = 4"
| "state_code NET_STATE_CONNECTED = 5"
| "state_code NET_STATE_STOPPING = 6"
| "state_code NET_STATE_DISCONNECTING = 7"
| "state_code NET_STATE_CONNECTION_LOST = 8"

datatype dhcp_client_ver = DHCP_CLIENT_V4 | DHCP_CLIENT_V6

datatype net_interface_class =
    NET_INTERFACE_CLASS_WIFI | NET_INTERFACE_CLASS_ETHERNET | NET_INTERFACE_CLASS_CUSTOM

section \<open>Addresses (net_address.h)\<close>

record net_sockaddr =
  sa_len :: u8
  sa_family :: u8
  sin_port :: u16          \<comment> \<open>network byte order\<close>
  sin_addr :: u32          \<comment> \<open>network byte order\<close>

section \<open>Interface handle (net_connect.h) and driver data (net_core.h, net_class_extension.h)\<close>

record net_if_handle =
  h_next :: "netref option"
  h_ipaddr :: u32
  h_gateway :: u32
  h_netmask :: u32
  h_static_ipaddr :: u32
  h_static_gateway :: u32
  h_static_netmask :: u32
  h_static_dnserver :: u32
  h_dhcp_mode :: bool
  h_dhcp_server :: bool
  h_dhcp_inform_flag :: bool
  h_dhcp_release_on_link_lost :: bool
  h_dhcp_version :: dhcp_client_ver
  h_DeviceName :: string
  h_DeviceID :: string
  h_DeviceVer :: string
  h_macaddr :: bytes
  h_state :: net_state
  h_pdrv :: "drvref option"
  h_netif :: "nat option"
  h_event_handler :: "handlerref option"

datatype net_wifi_mode = NET_WIFI_MODE_STA | NET_WIFI_MODE_AP
datatype net_wifi_powersave =
  WIFI_POWERSAVE_ACTIVE | WIFI_POWERSAVE_LIGHT_SLEEP | WIFI_POWERSAVE_DEEP_SLEEP

text \<open>
  A pointer to such a value: to an object the application keeps, to a local variable of a function that is running, or to
  one of a function that has returned. Only the first two can be read.
\<close>

datatype powersave_ptr = To_object net_wifi_powersave | To_local net_wifi_powersave | Dangling

fun powersave_at :: "powersave_ptr \<Rightarrow> net_wifi_powersave option" where
  "powersave_at (To_object v) = Some v"
| "powersave_at (To_local v) = Some v"
| "powersave_at Dangling = None"

datatype net_wifi_scan_mode = NET_WIFI_SCAN_PASSIVE | NET_WIFI_SCAN_ACTIVE | NET_WIFI_SCAN_AUTO
datatype net_wifi_param = NET_WIFI_MODE

record net_wifi_credentials =
  cr_ssid :: string
  cr_psk :: string
  cr_security_mode :: int

record net_wifi_scan_result =
  sr_ssid_length :: u8
  sr_ssid :: bytes
  sr_bssid :: bytes
  sr_security :: u32
  sr_channel :: u8
  sr_country :: string
  sr_rssi :: u8

text \<open>The data members of \<open>net_if_wifi_class_extension_s\<close>; its functions are in the driver table.\<close>

record wifi_ext =
  x_credentials :: "net_wifi_credentials option"
  x_mode :: net_wifi_mode
  x_access_channel :: u8
  x_max_connections :: u8
  x_AP_hidden :: bool
  x_powersave :: "powersave_ptr option"
  x_information_element :: "nat option"

text \<open>The data members of \<open>net_if_drv_s\<close>: class, context and the WiFi extension pointer.\<close>

record drv_data =
  d_if_class :: net_interface_class
  d_context :: "nat option"
  d_wifi :: "wifi_ext option"
  d_wifi_ref :: nat  \<comment> \<open>the address the extension was allocated at\<close>

end
