(* ===== verification/Net_System.thy ===== *)
theory Net_System
  imports Net_Types
begin

text \<open>
  The system state of the library and the functions it is linked with.

  \<^item> \<open>net_tls_data\<close>, \<open>net_socket\<close>: the structures of \<open>net_mbedtls.h\<close> and \<open>net_core.h\<close>;
  \<^item> \<open>net_if_drv\<close>: the function pointers of \<open>struct net_if_drv_s\<close> (a null pointer is
    \<^term>\<open>None\<close>), over any state type;
  \<^item> \<open>net\<close>: the file-scope variables (\<open>NetIfList\<close>, \<open>NetInitialized\<close>, \<open>Sockets\<close>), the
    memory the pointers lead to (\<open>Netifs\<close>, \<open>Drivers\<close>, \<open>TlsHeap\<close>), the sequence of RTOS lock
    operations performed so far (\<open>oslog\<close>) and the state of everything outside \<open>src/\<close> (\<open>dev\<close>);
  \<^item> \<open>env\<close>: the functions outside \<open>src/\<close>, parameters of every operation that uses them.
\<close>

section \<open>TLS data and sockets\<close>

record net_tls_data =
  tls_ca_certs :: "string option"
  tls_ca_crl :: "string option"
  tls_dev_cert :: "string option"
  tls_dev_key :: "string option"
  tls_dev_pwd :: "string option"
  tls_dev_pwd_len :: nat
  tls_srv_verification :: bool
  tls_srv_name :: "string option"
  tls_flags :: u32
  tls_cert_prof :: "nat option"
  tls_bio :: "nat option"  \<comment> \<open>in \<open>ssl\<close>: the socket registered with \<open>mbedtls_ssl_set_bio\<close>\<close>

datatype socket_state = SOCKET_NOT_ALIVE | SOCKET_ALLOCATED | SOCKET_CONNECTED

record net_socket =
  s_pnetif :: "netref option"
  s_ulsocket :: int
  s_status :: socket_state
  s_domain :: int
  s_type :: int
  s_protocol :: int
  s_cloneserver :: bool
  s_connected :: bool
  s_is_secure :: bool
  s_tlsData :: "tlsref option"
  s_tls_started :: bool
  s_read_timeout :: int
  s_write_timeout :: int
  s_blocking :: bool
  s_idx :: int

text \<open>The value every element of \<open>static net_socket_t Sockets[] = {0}\<close> starts with.\<close>

definition zero_socket :: net_socket where
  "zero_socket = \<lparr>s_pnetif = None, s_ulsocket = 0, s_status = SOCKET_NOT_ALIVE, s_domain = 0,
     s_type = 0, s_protocol = 0, s_cloneserver = False, s_connected = False, s_is_secure = False,
     s_tlsData = None, s_tls_started = False, s_read_timeout = 0, s_write_timeout = 0,
     s_blocking = False, s_idx = 0\<rparr>"

section \<open>The driver table (struct net_if_drv_s)\<close>

text \<open>
  An out-parameter is passed by value and its new value is part of the result: \<open>precv\<close> takes the
  buffer and returns it as it is after the call.
\<close>

record 's net_if_drv =
  if_init :: "(netref \<Rightarrow> 's \<Rightarrow> (int \<times> 's) option) option"
  if_deinit :: "(netref \<Rightarrow> 's \<Rightarrow> (int \<times> 's) option) option"
  if_start :: "(netref \<Rightarrow> 's \<Rightarrow> (int \<times> 's) option) option"
  if_stop :: "(netref \<Rightarrow> 's \<Rightarrow> (int \<times> 's) option) option"
  if_yield :: "(netref \<Rightarrow> u32 \<Rightarrow> 's \<Rightarrow> (int \<times> 's) option) option"
  if_connect :: "(netref \<Rightarrow> 's \<Rightarrow> (int \<times> 's) option) option"
  if_disconnect :: "(netref \<Rightarrow> 's \<Rightarrow> (int \<times> 's) option) option"
  if_atcmd :: "(netref \<Rightarrow> string \<Rightarrow> string \<Rightarrow> 's \<Rightarrow> ((int \<times> string) \<times> 's) option) option"
  if_powersave_enable :: "(netref \<Rightarrow> 's \<Rightarrow> (int \<times> 's) option) option"
  if_powersave_disable :: "(netref \<Rightarrow> 's \<Rightarrow> (int \<times> 's) option) option"
  psocket :: "(int \<Rightarrow> int \<Rightarrow> int \<Rightarrow> 's \<Rightarrow> (int \<times> 's) option) option"
  pbind :: "(int \<Rightarrow> net_sockaddr option \<Rightarrow> u32 \<Rightarrow> 's \<Rightarrow> (int \<times> 's) option) option"
  plisten :: "(int \<Rightarrow> int \<Rightarrow> 's \<Rightarrow> (int \<times> 's) option) option"
  paccept :: "(int \<Rightarrow> net_sockaddr option \<Rightarrow> u32 \<Rightarrow> 's \<Rightarrow>
                ((int \<times> net_sockaddr option \<times> u32) \<times> 's) option) option"
  pconnect :: "(int \<Rightarrow> net_sockaddr option \<Rightarrow> u32 \<Rightarrow> 's \<Rightarrow> (int \<times> 's) option) option"
  psend :: "(int \<Rightarrow> bytes \<Rightarrow> int \<Rightarrow> int \<Rightarrow> 's \<Rightarrow> (int \<times> 's) option) option"
  precv :: "(int \<Rightarrow> bytes \<Rightarrow> int \<Rightarrow> int \<Rightarrow> 's \<Rightarrow> ((int \<times> bytes) \<times> 's) option) option"
  psendto :: "(int \<Rightarrow> bytes \<Rightarrow> int \<Rightarrow> int \<Rightarrow> net_sockaddr option \<Rightarrow> u32 \<Rightarrow> 's \<Rightarrow> (int \<times> 's) option) option"
  precvfrom :: "(int \<Rightarrow> bytes \<Rightarrow> int \<Rightarrow> int \<Rightarrow> net_sockaddr option \<Rightarrow> u32 \<Rightarrow> 's \<Rightarrow>
                ((int \<times> bytes \<times> net_sockaddr option \<times> u32) \<times> 's) option) option"
  psetsockopt :: "(int \<Rightarrow> int \<Rightarrow> net_socketoption \<Rightarrow> optval \<Rightarrow> u32 \<Rightarrow> 's \<Rightarrow> (int \<times> 's) option) option"
  pgetsockopt :: "(int \<Rightarrow> int \<Rightarrow> net_socketoption \<Rightarrow> optval \<Rightarrow> u32 \<Rightarrow> 's \<Rightarrow>
                ((int \<times> optval \<times> u32) \<times> 's) option) option"
  pgetsockname :: "(int \<Rightarrow> net_sockaddr \<Rightarrow> u32 \<Rightarrow> 's \<Rightarrow> ((int \<times> net_sockaddr \<times> u32) \<times> 's) option) option"
  pgetpeername :: "(int \<Rightarrow> net_sockaddr \<Rightarrow> u32 \<Rightarrow> 's \<Rightarrow> ((int \<times> net_sockaddr \<times> u32) \<times> 's) option) option"
  pclose :: "(int \<Rightarrow> bool \<Rightarrow> 's \<Rightarrow> (int \<times> 's) option) option"
  pshutdown :: "(int \<Rightarrow> int \<Rightarrow> 's \<Rightarrow> (int \<times> 's) option) option"
  pgethostbyname :: "(netref \<Rightarrow> net_sockaddr \<Rightarrow> string \<Rightarrow> 's \<Rightarrow> ((int \<times> net_sockaddr) \<times> 's) option) option"
  pping :: "(netref \<Rightarrow> net_sockaddr \<Rightarrow> int \<Rightarrow> int \<Rightarrow> int list \<Rightarrow> 's \<Rightarrow> ((int \<times> int list) \<times> 's) option) option"
  wifi_scan :: "(netref \<Rightarrow> net_wifi_scan_mode \<Rightarrow> string option \<Rightarrow> 's \<Rightarrow> (int \<times> 's) option) option"
  wifi_get_scan_results :: "(netref \<Rightarrow> net_wifi_scan_result list \<Rightarrow> u8 \<Rightarrow> 's \<Rightarrow>
                ((int \<times> net_wifi_scan_result list) \<times> 's) option) option"
  wifi_set_param :: "(net_wifi_param \<Rightarrow> nat \<Rightarrow> 's \<Rightarrow> (int \<times> 's) option) option"
  wifi_switch_mode :: "(netref \<Rightarrow> net_wifi_mode \<Rightarrow> 's \<Rightarrow> (int \<times> 's) option) option"

definition null_drv :: "'s net_if_drv" where
  "null_drv = \<lparr>if_init = None, if_deinit = None, if_start = None, if_stop = None, if_yield = None,
     if_connect = None, if_disconnect = None, if_atcmd = None, if_powersave_enable = None, if_powersave_disable = None,
     psocket = None, pbind = None, plisten = None, paccept = None, pconnect = None, psend = None,
     precv = None, psendto = None, precvfrom = None, psetsockopt = None, pgetsockopt = None, pgetsockname = None,
     pgetpeername = None, pclose = None, pshutdown = None, pgethostbyname = None, pping = None,
     wifi_scan = None, wifi_get_scan_results = None, wifi_set_param = None,
     wifi_switch_mode = None\<rparr>"

section \<open>RTOS lock operations\<close>

text \<open>
  \<open>net_lock\<close>, \<open>net_unlock\<close>, \<open>net_lock_nochk\<close>, \<open>net_unlock_nochk\<close>, \<open>net_init_locks\<close> and
  \<open>net_destroy_locks\<close> of \<open>net_os.c\<close> call semaphores of the RTOS. The model records the calls in
  order and leaves the semaphores themselves to the RTOS; \<open>held_after\<close> replays the sequence and
  gives the set of locks held, or \<^term>\<open>None\<close> when the sequence takes a lock that is already held
  (the caller would wait for itself for ever), releases one that is not held, or uses a lock while
  the semaphores do not exist (both stop in \<open>NET_ASSERT\<close>). \<open>Tls_init\<close> and \<open>Tls_destroy\<close> are the calls that hand
  the mutex functions of the RTOS to mbedTLS and take them back.
\<close>

datatype os_event = Lock nat | Unlock nat | Wait_state_change | Signal_state_change
  | Init_locks | Destroy_locks | Tls_init | Tls_destroy

datatype locks = No_locks | Locks "nat set" | Lock_error

fun lock_step :: "locks \<Rightarrow> os_event \<Rightarrow> locks" where
  "lock_step Lock_error _ = Lock_error"
| "lock_step L Init_locks = Locks {}"
| "lock_step L Destroy_locks = No_locks"
| "lock_step L Wait_state_change = L"
| "lock_step L Signal_state_change = L"
| "lock_step L Tls_init = L"
| "lock_step L Tls_destroy = L"
| "lock_step No_locks (Lock i) = Lock_error"
| "lock_step No_locks (Unlock i) = Lock_error"
| "lock_step (Locks H) (Lock i) = (if i \<in> H then Lock_error else Locks (insert i H))"
| "lock_step (Locks H) (Unlock i) = (if i \<in> H then Locks (H - {i}) else Lock_error)"

definition held_after :: "os_event list \<Rightarrow> locks" where
  "held_after evs = foldl lock_step No_locks evs"

lemma held_after_snoc [simp]: "held_after (evs @ [e]) = lock_step (held_after evs) e"
  by (simp add: held_after_def)

lemma held_after_Nil [simp]: "held_after [] = No_locks"
  by (simp add: held_after_def)

lemma lock_step_Locks [simp]:
  "i \<notin> H \<Longrightarrow> lock_step (Locks H) (Lock i) = Locks (insert i H)"
  "i \<notin> H \<Longrightarrow> lock_step (Locks (insert i H)) (Unlock i) = Locks H"
  "lock_step L Wait_state_change = L" "lock_step L Signal_state_change = L"
  "lock_step L Tls_init = L" "lock_step L Tls_destroy = L"
  by (cases L; auto)+

section \<open>System state\<close>

record 'w net =
  Netifs :: "netref \<Rightarrow> net_if_handle"
  NetIfList :: "netref option"
  NetInitialized :: bool
  Sockets :: "net_socket list"
  Drivers :: "drvref \<Rightarrow> drv_data"
  TlsHeap :: "tlsref \<rightharpoonup> net_tls_data"
  oslog :: "os_event list"
  dev :: 'w

type_synonym ('a, 'w) res = "('a \<times> 'w net) option"

definition held :: "'w net \<Rightarrow> locks" where
  "held s = held_after (oslog s)"

text \<open>The macros \<open>LOCK_SOCK\<close>, \<open>LOCK_SOCK_ARRAY\<close>, \<open>LOCK_NETIF_LIST\<close> and their counterparts.\<close>

definition net_os_op :: "os_event \<Rightarrow> 'w net \<Rightarrow> 'w net" where
  "net_os_op e s = s\<lparr>oslog := oslog s @ [e]\<rparr>"

abbreviation (input) NET_LOCK_SOCKET_ARRAY :: nat where
  "NET_LOCK_SOCKET_ARRAY \<equiv> NET_MAX_SOCKETS_NBR"
abbreviation (input) NET_LOCK_NETIF_LIST :: nat where
  "NET_LOCK_NETIF_LIST \<equiv> NET_MAX_SOCKETS_NBR + 1"

definition LOCK_SOCK :: "int \<Rightarrow> 'w net \<Rightarrow> 'w net" where
  "LOCK_SOCK i = net_os_op (Lock (nat i))"
definition UNLOCK_SOCK :: "int \<Rightarrow> 'w net \<Rightarrow> 'w net" where
  "UNLOCK_SOCK i = net_os_op (Unlock (nat i))"
definition LOCK_SOCK_ARRAY :: "'w net \<Rightarrow> 'w net" where
  "LOCK_SOCK_ARRAY = net_os_op (Lock NET_LOCK_SOCKET_ARRAY)"
definition UNLOCK_SOCK_ARRAY :: "'w net \<Rightarrow> 'w net" where
  "UNLOCK_SOCK_ARRAY = net_os_op (Unlock NET_LOCK_SOCKET_ARRAY)"
definition LOCK_NETIF_LIST :: "'w net \<Rightarrow> 'w net" where
  "LOCK_NETIF_LIST = net_os_op (Lock NET_LOCK_NETIF_LIST)"
definition UNLOCK_NETIF_LIST :: "'w net \<Rightarrow> 'w net" where
  "UNLOCK_NETIF_LIST = net_os_op (Unlock NET_LOCK_NETIF_LIST)"
definition SIGNAL_STATE_CHANGE :: "'w net \<Rightarrow> 'w net" where
  "SIGNAL_STATE_CHANGE = net_os_op Signal_state_change"

lemmas lock_op_defs = LOCK_SOCK_def UNLOCK_SOCK_def LOCK_SOCK_ARRAY_def UNLOCK_SOCK_ARRAY_def
  LOCK_NETIF_LIST_def UNLOCK_NETIF_LIST_def SIGNAL_STATE_CHANGE_def

lemma net_os_op_sel [simp]:
  "Netifs (net_os_op e s) = Netifs s" "NetIfList (net_os_op e s) = NetIfList s"
  "NetInitialized (net_os_op e s) = NetInitialized s" "Sockets (net_os_op e s) = Sockets s"
  "Drivers (net_os_op e s) = Drivers s" "TlsHeap (net_os_op e s) = TlsHeap s"
  "dev (net_os_op e s) = dev s" "oslog (net_os_op e s) = oslog s @ [e]"
  by (simp_all add: net_os_op_def)

lemma held_net_os_op [simp, os_held]: "held (net_os_op e s) = lock_step (held s) e"
  by (simp add: held_def)

lemma held_update [simp]:
  "held (s\<lparr>Netifs := a\<rparr>) = held s" "held (s\<lparr>NetIfList := b\<rparr>) = held s"
  "held (s\<lparr>NetInitialized := c\<rparr>) = held s" "held (s\<lparr>Sockets := d\<rparr>) = held s"
  "held (s\<lparr>Drivers := e\<rparr>) = held s" "held (s\<lparr>TlsHeap := f\<rparr>) = held s"
  "held (s\<lparr>dev := g\<rparr>) = held s"
  by (simp_all add: held_def)

section \<open>Code outside the repository\<close>

text \<open>
  mbedTLS: calls that only touch the TLS objects (\<open>mb_void\<close>, \<open>mb_int\<close>, named by the datatypes), and
  the calls that move data through the two functions registered with \<open>mbedtls_ssl_set_bio\<close>, which
  therefore take them as an argument and work on the whole state.
\<close>

datatype mb_void_call =
    Mb_set_calloc_free | Mb_ssl_init | Mb_ssl_config_init | Mb_conf_dbg | Mb_cacert_init | Mb_clicert_init | Mb_pk_init
  | Mb_conf_cert_profile nat | Mb_conf_authmode_required | Mb_conf_authmode_optional | Mb_conf_rng
  | Mb_conf_ca_chain | Mb_set_bio | Mb_conf_read_timeout u32
  | Mb_verify_info u32 | Mb_crt_info | Mb_clicert_free | Mb_pk_free | Mb_cacert_free | Mb_ssl_free | Mb_ssl_config_free

datatype mb_int_call =
    Mb_crt_parse_ca string | Mb_crt_parse_cli string | Mb_pk_parse_key string "string option" nat
  | Mb_config_defaults | Mb_conf_own_cert | Mb_ssl_setup | Mb_set_hostname string
  | Mb_get_verify_result | Mb_get_record_expansion | Mb_get_peer_cert

record 's bio =
  bio_send :: "bytes \<Rightarrow> u32 \<Rightarrow> 's \<Rightarrow> (int \<times> 's) option"
  bio_recv :: "bytes \<Rightarrow> u32 \<Rightarrow> u32 \<Rightarrow> 's \<Rightarrow> ((int \<times> bytes) \<times> 's) option"

text \<open>The values \<open>mbedtls/ssl.h\<close> and \<open>x509.h\<close> document for the codes the library tests.\<close>

abbreviation (input) MBEDTLS_ERR_SSL_TIMEOUT :: int where "MBEDTLS_ERR_SSL_TIMEOUT \<equiv> - 0x6800"
abbreviation (input) MBEDTLS_ERR_SSL_WANT_READ :: int where "MBEDTLS_ERR_SSL_WANT_READ \<equiv> - 0x6900"
abbreviation (input) MBEDTLS_ERR_SSL_WANT_WRITE :: int where "MBEDTLS_ERR_SSL_WANT_WRITE \<equiv> - 0x6880"
abbreviation (input) MBEDTLS_ERR_SSL_INTERNAL_ERROR :: int where "MBEDTLS_ERR_SSL_INTERNAL_ERROR \<equiv> - 0x6C00"
abbreviation (input) MBEDTLS_ERR_SSL_PEER_CLOSE_NOTIFY :: int
  where "MBEDTLS_ERR_SSL_PEER_CLOSE_NOTIFY \<equiv> - 0x7880"
abbreviation (input) MBEDTLS_ERR_X509_CERT_VERIFY_FAILED :: int
  where "MBEDTLS_ERR_X509_CERT_VERIFY_FAILED \<equiv> - 0x2700"
abbreviation (input) NET_MBEDTLS_CONNECT_TIMEOUT :: u32 where "NET_MBEDTLS_CONNECT_TIMEOUT \<equiv> 10000"

text \<open>The types whose \<open>sizeof\<close> the code passes to the allocator; their sizes belong to the target.\<close>

datatype c_type = Sizeof_net_tls_data | Sizeof_x509_crt_profile | Sizeof_net_if_drv | Sizeof_wifi_extension

record 'w env =
  env_drv :: "drvref \<Rightarrow> 'w net net_if_drv"
    \<comment> \<open>the driver tables the interfaces point to\<close>
  env_notify :: "handlerref \<Rightarrow> net_evt \<Rightarrow> u32 \<Rightarrow> 'w \<Rightarrow> 'w"
    \<comment> \<open>the application's event callback (it does not re-enter the library)\<close>
  env_tick :: "'w \<Rightarrow> u32 \<times> 'w"
    \<comment> \<open>\<open>HAL_GetTick\<close> / \<open>NET_TICK\<close>: milliseconds since start\<close>
  env_wait :: "u32 \<Rightarrow> 'w net \<Rightarrow> 'w net"
    \<comment> \<open>what other tasks do while this one waits on the state-change semaphore\<close>
  env_sizeof :: "c_type \<Rightarrow> nat"
  env_malloc :: "nat \<Rightarrow> 'w \<Rightarrow> nat option \<times> 'w"
  env_free :: "nat \<Rightarrow> 'w \<Rightarrow> 'w"
  mb_void :: "mb_void_call \<Rightarrow> tlsref \<Rightarrow> 'w \<Rightarrow> 'w"
  mb_int :: "mb_int_call \<Rightarrow> tlsref \<Rightarrow> 'w \<Rightarrow> int \<times> 'w"
  mb_handshake :: "'w net bio \<Rightarrow> tlsref \<Rightarrow> 'w net \<Rightarrow> (int \<times> 'w net) option"
  mb_ssl_read :: "'w net bio option \<Rightarrow> tlsref \<Rightarrow> bytes \<Rightarrow> u32 \<Rightarrow> 'w net \<Rightarrow> ((int \<times> bytes) \<times> 'w net) option"
  mb_ssl_write :: "'w net bio option \<Rightarrow> tlsref \<Rightarrow> bytes \<Rightarrow> u32 \<Rightarrow> 'w net \<Rightarrow> (int \<times> 'w net) option"
  mb_close_notify :: "'w net bio option \<Rightarrow> tlsref \<Rightarrow> 'w net \<Rightarrow> (int \<times> 'w net) option"

definition upd_netif :: "netref \<Rightarrow> (net_if_handle \<Rightarrow> net_if_handle) \<Rightarrow> 'w net \<Rightarrow> 'w net" where
  "upd_netif p f s = s\<lparr>Netifs := (Netifs s)(p := f (Netifs s p))\<rparr>"

definition drv_of :: "'w env \<Rightarrow> netref \<Rightarrow> 'w net \<Rightarrow> 'w net net_if_drv option" where
  "drv_of E p s = map_option (env_drv E) (h_pdrv (Netifs s p))"

lemma upd_netif_sel [simp]:
  "NetIfList (upd_netif p f s) = NetIfList s" "NetInitialized (upd_netif p f s) = NetInitialized s"
  "Sockets (upd_netif p f s) = Sockets s" "Drivers (upd_netif p f s) = Drivers s"
  "TlsHeap (upd_netif p f s) = TlsHeap s" "dev (upd_netif p f s) = dev s"
  "oslog (upd_netif p f s) = oslog s" "held (upd_netif p f s) = held s"
  "Netifs (upd_netif p f s) = (Netifs s)(p := f (Netifs s p))"
  by (simp_all add: upd_netif_def)

section \<open>Access to a socket and to the driver behind it\<close>

definition sock_at :: "nat \<Rightarrow> 'w net \<Rightarrow> net_socket" where
  "sock_at i s = Sockets s ! i"

definition upd_sock :: "nat \<Rightarrow> (net_socket \<Rightarrow> net_socket) \<Rightarrow> 'w net \<Rightarrow> 'w net" where
  "upd_sock i f s = s\<lparr>Sockets := (Sockets s)[i := f (Sockets s ! i)]\<rparr>"

text \<open>\<open>p_socket->pnetif->pdrv\<close>; \<^term>\<open>None\<close> when one of the two pointers is null.\<close>

definition sock_drv :: "'w env \<Rightarrow> nat \<Rightarrow> 'w net \<Rightarrow> 'w net net_if_drv option" where
  "sock_drv E i s = do { p \<leftarrow> s_pnetif (sock_at i s); drv_of E p s }"

definition net_malloc :: "'w env \<Rightarrow> nat \<Rightarrow> 'w net \<Rightarrow> nat option \<times> 'w net" where
  "net_malloc E n s = (let (p, w) = env_malloc E n (dev s) in (p, s\<lparr>dev := w\<rparr>))"

definition net_free :: "'w env \<Rightarrow> nat \<Rightarrow> 'w net \<Rightarrow> 'w net" where
  "net_free E p s = s\<lparr>dev := env_free E p (dev s)\<rparr>"

lemma upd_sock_sel [simp]:
  "Netifs (upd_sock i f s) = Netifs s" "NetIfList (upd_sock i f s) = NetIfList s"
  "NetInitialized (upd_sock i f s) = NetInitialized s" "Drivers (upd_sock i f s) = Drivers s"
  "TlsHeap (upd_sock i f s) = TlsHeap s" "dev (upd_sock i f s) = dev s"
  "oslog (upd_sock i f s) = oslog s" "held (upd_sock i f s) = held s"
  "length (Sockets (upd_sock i f s)) = length (Sockets s)"
  "Sockets (upd_sock i f s) = (Sockets s)[i := f (Sockets s ! i)]"
  by (simp_all add: upd_sock_def)

lemma sock_at_upd_sock:
  "i < length (Sockets s) \<Longrightarrow> sock_at j (upd_sock i f s) = (if i = j then f (sock_at i s) else sock_at j s)"
  by (auto simp: sock_at_def)

end
