(* ===== verification/Net_Registry.thy ===== *)
theory Net_Registry
  imports Net_System
begin

text \<open>
  The list of registered interfaces of \<open>core/net_core.c\<close>: a list threaded through the \<open>next\<close>
  pointers of the handles, with its head in \<open>NetIfList\<close>. The operations are translated on the
  pointers (a walk over a cyclic list does not end, hence \<open>partial_function\<close>). \<open>chain\<close> relates the
  pointers to the list of registered handles, the locale \<open>registry\<close> states what the rest of the
  library relies on, and the pointer operations are shown to provide it.
\<close>

section \<open>Operations\<close>

text \<open>\<open>while (p_last_netif->next != NULL) p_last_netif = p_last_netif->next;\<close>\<close>

partial_function (option) last_netif :: "(netref \<Rightarrow> net_if_handle) \<Rightarrow> netref \<Rightarrow> netref option" where
  "last_netif h p = (case h_next (h p) of None \<Rightarrow> Some p | Some q \<Rightarrow> last_netif h q)"

definition netif_add_to_list :: "netref \<Rightarrow> 'w net \<Rightarrow> 'w net option" where
  "netif_add_to_list p s =
     (let s = LOCK_NETIF_LIST s in
      case NetIfList s of
        None \<Rightarrow> Some (UNLOCK_NETIF_LIST (s\<lparr>NetIfList := Some p\<rparr>))
      | Some head \<Rightarrow> do {
          q \<leftarrow> last_netif (Netifs s) head;
          Some (UNLOCK_NETIF_LIST (upd_netif q (\<lambda>h. h\<lparr>h_next := Some p\<rparr>) s)) })"

text \<open>
  The \<open>for\<close> loop of \<open>netif_remove_from_list\<close>: \<open>prev\<close> is dereferenced before it is tested, so an
  empty list faults.
\<close>

partial_function (option) unlink_after ::
  "(netref \<Rightarrow> net_if_handle) \<Rightarrow> netref \<Rightarrow> netref \<Rightarrow> (netref \<Rightarrow> net_if_handle) option" where
  "unlink_after h prev p =
     (case h_next (h prev) of
        None \<Rightarrow> Some h
      | Some q \<Rightarrow>
          if q = p then Some (h(prev := (h prev)\<lparr>h_next := h_next (h p)\<rparr>))
          else unlink_after h q p)"

definition netif_remove_from_list :: "netref \<Rightarrow> 'w net \<Rightarrow> 'w net option" where
  "netif_remove_from_list p s =
     (let s = LOCK_NETIF_LIST s in
      if NetIfList s = Some p
      then Some (UNLOCK_NETIF_LIST (s\<lparr>NetIfList := h_next (Netifs s p)\<rparr>))
      else do {
        head \<leftarrow> NetIfList s;
        h \<leftarrow> unlink_after (Netifs s) head p;
        Some (UNLOCK_NETIF_LIST (s\<lparr>Netifs := h\<rparr>)) })"

text \<open>The \<open>do ... while\<close> of \<open>net_if_find\<close>: \<open>ptr\<close> is dereferenced before it is tested.\<close>

partial_function (option) find_ip :: "(netref \<Rightarrow> net_if_handle) \<Rightarrow> u32 \<Rightarrow> netref \<Rightarrow> netref option option" where
  "find_ip h ip p =
     (if h_ipaddr (h p) = ip then Some (Some p)
      else case h_next (h p) of None \<Rightarrow> Some None | Some q \<Rightarrow> find_ip h ip q)"

definition net_get_ip_addr :: "net_sockaddr \<Rightarrow> u32" where
  "net_get_ip_addr a = sin_addr a"

definition net_if_find :: "net_sockaddr option \<Rightarrow> 'w net \<Rightarrow> (netref option, 'w) res" where
  "net_if_find addr s =
     (let ipaddr = (case addr of None \<Rightarrow> 0 | Some a \<Rightarrow> net_get_ip_addr a);
          s = LOCK_NETIF_LIST s;
          ptr = NetIfList s in
      if ipaddr \<noteq> 0
      then do { p \<leftarrow> ptr; r \<leftarrow> find_ip (Netifs s) ipaddr p; Some (r, UNLOCK_NETIF_LIST s) }
      else Some (ptr, UNLOCK_NETIF_LIST s))"

definition netif_check :: "netref option \<Rightarrow> 'w net \<Rightarrow> (netref option, 'w) res" where
  "netif_check pnetif s = (case pnetif of None \<Rightarrow> net_if_find None s | Some p \<Rightarrow> Some (Some p, s))"

section \<open>The list the pointers form\<close>

fun chain :: "(netref \<Rightarrow> net_if_handle) \<Rightarrow> netref option \<Rightarrow> netref list \<Rightarrow> bool" where
  "chain h start [] \<longleftrightarrow> start = None"
| "chain h start (p # ps) \<longleftrightarrow> start = Some p \<and> chain h (h_next (h p)) ps"

definition registered :: "'w net \<Rightarrow> netref list \<Rightarrow> bool" where
  "registered s ps \<longleftrightarrow> chain (Netifs s) (NetIfList s) ps \<and> distinct ps"

lemma chain_None [simp]: "chain h None ps \<longleftrightarrow> ps = []"
  by (cases ps) auto

lemma chain_unique: "chain h a ps \<Longrightarrow> chain h a qs \<Longrightarrow> ps = qs"
  by (induction ps arbitrary: a qs) (case_tac [!] qs, auto)

lemma chain_cong:
  "chain h a ps \<Longrightarrow> (\<And>p. p \<in> set ps \<Longrightarrow> h_next (h' p) = h_next (h p)) \<Longrightarrow> chain h' a ps"
  by (induction ps arbitrary: a) auto

lemma chain_append_last:
  assumes "chain h a (ps @ [q])" and "distinct (ps @ [q])" and "p \<notin> set ps" and "p \<noteq> q"
    and "h_next (h p) = None"
  shows "chain (h(q := (h q)\<lparr>h_next := Some p\<rparr>)) a (ps @ [q, p])"
  using assms by (induction ps arbitrary: a) auto

lemma last_netif_step:
  "h_next (h p) = None \<Longrightarrow> last_netif h p = Some p"
  "h_next (h p) = Some q \<Longrightarrow> last_netif h p = last_netif h q"
  by (subst last_netif.simps, simp)+

lemma unlink_after_step:
  "h_next (h r) = None \<Longrightarrow> unlink_after h r p = Some h"
  "h_next (h r) = Some p \<Longrightarrow>
     unlink_after h r p = Some (h(r := (h r)\<lparr>h_next := h_next (h p)\<rparr>))"
  "h_next (h r) = Some q \<Longrightarrow> q \<noteq> p \<Longrightarrow> unlink_after h r p = unlink_after h q p"
  by (subst unlink_after.simps, simp)+

lemma find_ip_step:
  "h_ipaddr (h p) = ip \<Longrightarrow> find_ip h ip p = Some (Some p)"
  "h_ipaddr (h p) \<noteq> ip \<Longrightarrow> h_next (h p) = None \<Longrightarrow> find_ip h ip p = Some None"
  "h_ipaddr (h p) \<noteq> ip \<Longrightarrow> h_next (h p) = Some q \<Longrightarrow> find_ip h ip p = find_ip h ip q"
  by (subst find_ip.simps, simp)+

lemmas walk_steps = last_netif_step unlink_after_step find_ip_step

lemma last_netif_chain: "chain h (Some p) ps \<Longrightarrow> last_netif h p = Some (last ps)"
proof (induction ps arbitrary: p)
  case Nil
  then show ?case by simp
next
  case (Cons x xs)
  then show ?case
    by (cases xs) (auto simp: walk_steps)
qed

lemma chain_unlink:
  assumes "chain h a (xs @ q # p # ys)" and "distinct (xs @ q # p # ys)"
  shows "chain (h(q := (h q)\<lparr>h_next := h_next (h p)\<rparr>)) a (xs @ q # ys)"
  using assms
proof (induction xs arbitrary: a)
  case Nil
  then show ?case by (auto intro: chain_cong)
next
  case (Cons x xs)
  then show ?case by auto
qed

lemma unlink_after_absent:
  "chain h (Some q) ps \<Longrightarrow> p \<notin> set (tl ps) \<Longrightarrow> unlink_after h q p = Some h"
proof (induction ps arbitrary: q)
  case Nil
  then show ?case by simp
next
  case (Cons x xs)
  then show ?case
    by (cases xs) (auto simp: walk_steps)
qed

lemma unlink_after_present:
  assumes "chain h (Some r) (xs @ q # p # ys)" and "distinct (xs @ q # p # ys)"
  shows "unlink_after h r p = Some (h(q := (h q)\<lparr>h_next := h_next (h p)\<rparr>))"
  using assms
proof (induction xs arbitrary: r)
  case Nil
  then show ?case by (auto simp: fun_eq_iff walk_steps)
next
  case (Cons x xs)
  then obtain y where y: "h_next (h x) = Some y" "chain h (Some y) (xs @ q # p # ys)" and "r = x"
    by (cases xs) auto
  moreover have "y \<noteq> p" using y Cons.prems(2) by (cases xs) auto
  moreover have "unlink_after h y p = Some (h(q := (h q)\<lparr>h_next := h_next (h p)\<rparr>))"
    by (rule Cons.IH [OF y(2)]) (use Cons.prems(2) in simp)
  ultimately show ?case by (metis unlink_after_step(3))
qed

lemma find_ip_chain:
  "chain h (Some p) ps \<Longrightarrow> find_ip h ip p = Some (List.find (\<lambda>q. h_ipaddr (h q) = ip) ps)"
proof (induction ps arbitrary: p)
  case Nil
  then show ?case by simp
next
  case (Cons x xs)
  then show ?case
    by (cases xs; cases "h_ipaddr (h x) = ip") (auto simp: walk_steps)
qed


section \<open>The registry interface\<close>

text \<open>
  What the rest of the library relies on. \<open>members s ps\<close>: the registered handles are \<open>ps\<close>, in order
  of registration; \<open>clear s p\<close>: the link of \<open>p\<close> is null, as it has to be before registration.
\<close>

locale registry =
  fixes add :: "'p \<Rightarrow> 's \<Rightarrow> 's option"
    and remove :: "'p \<Rightarrow> 's \<Rightarrow> 's option"
    and default :: "'s \<Rightarrow> 'p option"
    and members :: "'s \<Rightarrow> 'p list \<Rightarrow> bool"
    and clear :: "'s \<Rightarrow> 'p \<Rightarrow> bool"
  assumes members_distinct: "members s ps \<Longrightarrow> distinct ps"
    and members_unique: "members s ps \<Longrightarrow> members s qs \<Longrightarrow> ps = qs"
    and default_first: "members s ps \<Longrightarrow> default s = (case ps of [] \<Rightarrow> None | p # _ \<Rightarrow> Some p)"
    and add_members: "members s ps \<Longrightarrow> p \<notin> set ps \<Longrightarrow> clear s p \<Longrightarrow>
          \<exists>s'. add p s = Some s' \<and> members s' (ps @ [p])"
    and add_clear: "members s ps \<Longrightarrow> q \<notin> set ps \<Longrightarrow> clear s q \<Longrightarrow> add p s = Some s' \<Longrightarrow> clear s' q"
    and remove_members: "members s ps \<Longrightarrow> ps \<noteq> [] \<Longrightarrow>
          \<exists>s'. remove p s = Some s' \<and> members s' (remove1 p ps)"
begin

lemma add_remove:
  assumes "members s ps" and "p \<notin> set ps" and "clear s p"
  shows "\<exists>s1 s2. add p s = Some s1 \<and> remove p s1 = Some s2 \<and> members s2 ps"
proof -
  obtain s1 where s1: "add p s = Some s1" "members s1 (ps @ [p])"
    using add_members [OF assms] by blast
  then obtain s2 where "remove p s1 = Some s2" "members s2 (remove1 p (ps @ [p]))"
    using remove_members [OF s1(2), of p] by auto
  with s1 assms(2) show ?thesis by (simp add: remove1_append)
qed

fun add_all :: "'p list \<Rightarrow> 's \<Rightarrow> 's option" where
  "add_all [] s = Some s"
| "add_all (p # ps) s = Option.bind (add p s) (add_all ps)"

lemma add_all_members:
  assumes "members s ps" and "distinct (ps @ qs)" and "\<forall>q\<in>set qs. clear s q"
  shows "\<exists>s'. add_all qs s = Some s' \<and> members s' (ps @ qs)"
  using assms
proof (induction qs arbitrary: s ps)
  case Nil
  then show ?case by simp
next
  case (Cons q qs)
  then obtain s1 where s1: "add q s = Some s1" "members s1 (ps @ [q])"
    using add_members [of s ps q] by auto
  have "\<forall>r\<in>set qs. clear s1 r"
    using Cons.prems add_clear [OF Cons.prems(1) _ _ s1(1)] by auto
  with Cons.IH [OF s1(2)] Cons.prems(2) s1(1) show ?case by auto
qed

lemma default_after_add:
  "members s ps \<Longrightarrow> p \<notin> set ps \<Longrightarrow> clear s p \<Longrightarrow> add p s = Some s' \<Longrightarrow>
     default s' = (case default s of None \<Rightarrow> Some p | Some d \<Rightarrow> Some d)"
  using add_members [of s ps p] default_first [of s ps] default_first [of s' "ps @ [p]"]
  by (auto split: list.splits)

end

section \<open>The pointer list provides the interface\<close>

lemma registered_add:
  assumes "registered s ps" and "p \<notin> set ps" and "h_next (Netifs s p) = None"
  shows "\<exists>s'. netif_add_to_list p s = Some s' \<and> registered s' (ps @ [p])"
proof (cases ps rule: rev_cases)
  case Nil
  then show ?thesis
    using assms by (auto simp: netif_add_to_list_def registered_def lock_op_defs)
next
  case (snoc xs q)
  then obtain a where a: "NetIfList s = Some a"
    using assms(1) by (cases xs) (auto simp: registered_def)
  then have "last_netif (Netifs s) a = Some q"
    using assms(1) snoc last_netif_chain [of "Netifs s" a ps] by (simp add: registered_def)
  moreover have "chain ((Netifs s)(q := (Netifs s q)\<lparr>h_next := Some p\<rparr>)) (Some a) (ps @ [p])"
    using chain_append_last [of "Netifs s" "Some a" xs q p] assms snoc a
    by (simp add: registered_def)
  ultimately show ?thesis
    using a assms by (auto simp: netif_add_to_list_def registered_def lock_op_defs)
qed

lemma registered_remove:
  assumes "registered s ps" and "ps \<noteq> []"
  shows "\<exists>s'. netif_remove_from_list p s = Some s' \<and> registered s' (remove1 p ps)"
proof -
  obtain a as where as: "ps = a # as" "NetIfList s = Some a" "chain (Netifs s) (h_next (Netifs s a)) as"
    using assms by (cases ps) (auto simp: registered_def)
  show ?thesis
  proof (cases "p = a")
    case True
    then show ?thesis
      using as assms by (simp add: netif_remove_from_list_def registered_def lock_op_defs)
  next
    case False
    show ?thesis
    proof (cases "p \<in> set as")
      case True
      then obtain xs q ys where split: "ps = xs @ q # p # ys"
        by (metis as(1) False append_butlast_last_id in_set_conv_decomp_first append.assoc
            append_Cons append_Nil list.distinct(1) list.inject neq_Nil_conv)
      then have "p \<notin> set (xs @ [q])" using assms(1) by (auto simp: registered_def)
      then have "remove1 p ps = xs @ q # ys" using split by (simp add: remove1_append)
      then show ?thesis
        using unlink_after_present [of "Netifs s" a xs q p ys] chain_unlink [of "Netifs s" "Some a" xs q p ys]
          assms(1) split as(2) False
        by (auto simp: netif_remove_from_list_def registered_def lock_op_defs)
    next
      case False
      then show ?thesis
        using unlink_after_absent [of "Netifs s" a ps p] as assms \<open>p \<noteq> a\<close>
        by (auto simp: netif_remove_from_list_def registered_def lock_op_defs remove1_idem)
    qed
  qed
qed

lemma registered_add_clear:
  assumes "registered s ps" and "q \<notin> set ps" and "h_next (Netifs s q) = None"
    and "netif_add_to_list p s = Some s'"
  shows "h_next (Netifs s' q) = None"
proof (cases ps)
  case Nil
  then show ?thesis using assms by (auto simp: netif_add_to_list_def registered_def lock_op_defs)
next
  case (Cons a as)
  then have "last_netif (Netifs s) a = Some (last ps)" "last ps \<in> set ps" "NetIfList s = Some a"
    using assms(1) last_netif_chain [of "Netifs s" a ps] by (auto simp: registered_def)
  then show ?thesis using assms by (auto simp: netif_add_to_list_def lock_op_defs)
qed

lemma registered_distinct: "registered s ps \<Longrightarrow> distinct ps"
  by (simp add: registered_def)

lemma registered_unique: "registered s ps \<Longrightarrow> registered s qs \<Longrightarrow> ps = qs"
  by (auto simp: registered_def intro: chain_unique)

lemma registered_first: "registered s ps \<Longrightarrow> NetIfList s = (case ps of [] \<Rightarrow> None | p # _ \<Rightarrow> Some p)"
  by (cases ps) (auto simp: registered_def)

interpretation iflist: registry netif_add_to_list netif_remove_from_list NetIfList registered
    "\<lambda>s p. h_next (Netifs s p) = None"
  by unfold_locales
    (fact registered_distinct registered_unique registered_first registered_add
      registered_add_clear registered_remove)+


section \<open>Lookup, locks and frame\<close>

lemma net_if_find_None [simp]:
  "net_if_find None s = Some (NetIfList s, UNLOCK_NETIF_LIST (LOCK_NETIF_LIST s))"
  by (simp add: net_if_find_def lock_op_defs)

lemma netif_check_Some [simp]: "netif_check (Some p) s = Some (Some p, s)"
  by (simp add: netif_check_def)

lemma netif_check_None [simp]:
  "netif_check None s = Some (NetIfList s, UNLOCK_NETIF_LIST (LOCK_NETIF_LIST s))"
  by (simp add: netif_check_def)

lemma net_if_find_registered:
  assumes "registered s ps" and "ps \<noteq> []" and "net_get_ip_addr a \<noteq> 0"
  shows "net_if_find (Some a) s =
     Some (List.find (\<lambda>p. h_ipaddr (Netifs s p) = net_get_ip_addr a) ps,
           UNLOCK_NETIF_LIST (LOCK_NETIF_LIST s))"
  using assms find_ip_chain [of "Netifs s" _ ps]
  by (cases ps) (auto simp: net_if_find_def registered_def lock_op_defs)

lemma held_pass_netif_list [os_held]:
  "held s = Locks H \<Longrightarrow> NET_LOCK_NETIF_LIST \<notin> H \<Longrightarrow>
     held (UNLOCK_NETIF_LIST (LOCK_NETIF_LIST s)) = Locks H"
  by (simp add: lock_op_defs)

lemma net_if_find_cases:
  assumes "net_if_find a s = Some (r, s')"
  shows "s' = UNLOCK_NETIF_LIST (LOCK_NETIF_LIST s)"
  using assms by (auto simp: net_if_find_def lock_op_defs Let_def bind_Some_iff split: if_splits)

text \<open>Only links, the head of the list and the lock log differ.\<close>

definition links_only :: "'w net \<Rightarrow> 'w net \<Rightarrow> bool" where
  "links_only s s' \<longleftrightarrow> (\<forall>q. \<exists>n. Netifs s' q = (Netifs s q)\<lparr>h_next := n\<rparr>)
     \<and> Sockets s' = Sockets s \<and> Drivers s' = Drivers s \<and> TlsHeap s' = TlsHeap s \<and> dev s' = dev s
     \<and> NetInitialized s' = NetInitialized s"

lemma unlink_after_links:
  "unlink_after h a p = Some h' \<Longrightarrow> \<exists>n. h' q = (h q)\<lparr>h_next := n\<rparr>"
proof (rule unlink_after.raw_induct [where P = "\<lambda>h a p h'. \<forall>q. \<exists>n. h' q = (h q)\<lparr>h_next := n\<rparr>",
      THEN spec])
  fix f h a p h'
  assume IH: "\<And>h a p h'. f h a p = Some h' \<Longrightarrow> \<forall>q. \<exists>n. h' q = (h q)\<lparr>h_next := n\<rparr>"
    and eq: "(case h_next (h a) of None \<Rightarrow> Some h
       | Some q \<Rightarrow> if q = p then Some (h(a := h a\<lparr>h_next := h_next (h p)\<rparr>)) else f h q p) = Some h'"
  have self: "\<exists>n. h q = (h q)\<lparr>h_next := n\<rparr>" for q
    by (rule exI [of _ "h_next (h q)"]) simp
  show "\<forall>q. \<exists>n. h' q = (h q)\<lparr>h_next := n\<rparr>"
    using eq IH self by (auto split: option.splits if_splits)
qed

lemma self_link: "\<exists>n. h = h\<lparr>h_next := n\<rparr>" for h :: net_if_handle
  by (rule exI [of _ "h_next h"]) simp

lemma netif_add_links: "netif_add_to_list p s = Some s' \<Longrightarrow> links_only s s'"
  by (auto simp: netif_add_to_list_def links_only_def lock_op_defs Let_def bind_Some_iff self_link
      split: option.splits)

lemma netif_remove_links: "netif_remove_from_list p s = Some s' \<Longrightarrow> links_only s s'"
  by (auto simp: netif_remove_from_list_def links_only_def lock_op_defs Let_def bind_Some_iff
      self_link intro: unlink_after_links split: if_splits)

lemma held_add_remove [os_held]:
  assumes "held s = Locks H" and "NET_LOCK_NETIF_LIST \<notin> H"
  shows "netif_add_to_list p s = Some s' \<Longrightarrow> held s' = Locks H"
    and "netif_remove_from_list p s = Some s' \<Longrightarrow> held s' = Locks H"
  using assms by (auto simp: netif_add_to_list_def netif_remove_from_list_def lock_op_defs Let_def
      bind_Some_iff split: option.splits if_splits)

section \<open>What registering twice does\<close>

text \<open>A second \<open>netif_add_to_list\<close> of the last handle makes it its own successor.\<close>

lemma last_netif_self_loop: "h_next (h p) = Some p \<Longrightarrow> last_netif h p = None"
proof (rule ccontr)
  assume loop: "h_next (h p) = Some p" and "last_netif h p \<noteq> None"
  then obtain r where ret: "last_netif h p = Some r" by auto
  have "h_next (h p) = Some p \<longrightarrow> False"
  proof (rule last_netif.raw_induct [where P = "\<lambda>h p r. h_next (h p) = Some p \<longrightarrow> False", OF _ ret])
    fix f h p r
    assume IH: "\<And>h p r. f h p = Some r \<Longrightarrow> h_next (h p) = Some p \<longrightarrow> False"
      and eq: "(case h_next (h p) of None \<Rightarrow> Some p | Some q \<Rightarrow> f h q) = Some r"
    show "h_next (h p) = Some p \<longrightarrow> False"
      using IH eq by (auto split: option.splits)
  qed
  then show False using loop by simp
qed

lemma register_twice:
  assumes "registered s [p]"
  shows "\<exists>s'. netif_add_to_list p s = Some s' \<and> (\<forall>q. netif_add_to_list q s' = None)"
  using assms
  by (auto simp: registered_def netif_add_to_list_def lock_op_defs last_netif_self_loop
      last_netif_step(1))

end
