(* ===== verification/Net_Demo.thy ===== *)
theory Net_Demo
  imports Net_System
begin

text \<open>
  A concrete environment for the closed instances of the theorems: a driver that answers every call
  with success without sending events, a clock that advances with each reading and each wait, a bump
  allocator and a TLS library that accepts everything. The outside state is one counter.
\<close>

definition demo_drv :: "'s net_if_drv" where
  "demo_drv = \<lparr>if_init = Some (\<lambda>_ s. Some (0, s)), if_deinit = Some (\<lambda>_ s. Some (0, s)), if_start = Some (\<lambda>_ s. Some (0, s)),
     if_stop = Some (\<lambda>_ s. Some (0, s)), if_yield = None,
     if_connect = Some (\<lambda>_ s. Some (0, s)), if_disconnect = Some (\<lambda>_ s. Some (0, s)),
     if_atcmd = None, if_powersave_enable = None, if_powersave_disable = None,
     psocket = Some (\<lambda>_ _ _ s. Some (7, s)), pbind = Some (\<lambda>_ _ _ s. Some (0, s)),
     plisten = Some (\<lambda>_ _ s. Some (0, s)), paccept = Some (\<lambda>_ a l s. Some ((9, a, l), s)),
     pconnect = Some (\<lambda>_ _ _ s. Some (0, s)), psend = Some (\<lambda>_ _ n _ s. Some (n, s)),
     precv = Some (\<lambda>_ b n _ s. Some ((n, b), s)), psendto = Some (\<lambda>_ _ n _ _ _ s. Some (n, s)),
     precvfrom = Some (\<lambda>_ b n _ a l s. Some ((n, b, a, l), s)),
     psetsockopt = Some (\<lambda>_ _ _ _ _ s. Some (0, s)),
     pgetsockopt = None, pgetsockname = Some (\<lambda>_ a l s. Some ((0, a, l), s)),
     pgetpeername = Some (\<lambda>_ a l s. Some ((0, a, l), s)),
     pclose = Some (\<lambda>_ _ s. Some (0, s)), pshutdown = Some (\<lambda>_ _ s. Some (0, s)),
     pgethostbyname = Some (\<lambda>_ a _ s. Some ((0, a), s)),
     pping = Some (\<lambda>_ _ _ _ r s. Some ((0, r), s)),
     wifi_scan = None, wifi_get_scan_results = None, wifi_set_param = None,
     wifi_switch_mode = None\<rparr>"

definition demo_env :: "nat env" where
  "demo_env = \<lparr>env_drv = (\<lambda>_. demo_drv), env_notify = (\<lambda>_ _ _ w. w),
     env_tick = (\<lambda>w. (of_nat w, Suc w)), env_wait = (\<lambda>_ s. s\<lparr>dev := Suc (dev s)\<rparr>),
     env_sizeof = (\<lambda>_. 64), env_malloc = (\<lambda>_ w. (Some w, Suc w)), env_free = (\<lambda>_ w. w),
     mb_void = (\<lambda>_ _ w. w), mb_int = (\<lambda>_ _ w. (0, w)),
     mb_handshake = (\<lambda>_ _ s. Some (0, s)), mb_ssl_read = (\<lambda>_ _ b n s. Some ((int (unat n), b), s)),
     mb_ssl_write = (\<lambda>_ _ _ n s. Some (int (unat n), s)),
     mb_close_notify = (\<lambda>_ _ s. Some (0, s))\<rparr>"

definition demo_netif :: "net_state \<Rightarrow> net_if_handle" where
  "demo_netif st = \<lparr>h_next = None, h_ipaddr = 0x0100A8C0, h_gateway = 0, h_netmask = 0,
     h_static_ipaddr = 0, h_static_gateway = 0, h_static_netmask = 0, h_static_dnserver = 0,
     h_dhcp_mode = True, h_dhcp_server = False, h_dhcp_inform_flag = False,
     h_dhcp_release_on_link_lost = False, h_dhcp_version = DHCP_CLIENT_V4,
     h_DeviceName = [], h_DeviceID = [], h_DeviceVer = [], h_macaddr = [1, 2, 3, 4, 5, 6],
     h_state = st, h_pdrv = Some 0, h_netif = None, h_event_handler = Some 0\<rparr>"

definition demo_wifi :: wifi_ext where
  "demo_wifi = \<lparr>x_credentials = None, x_mode = NET_WIFI_MODE_STA, x_access_channel = 0,
     x_max_connections = 0, x_AP_hidden = False, x_powersave = None, x_information_element = None\<rparr>"

text \<open>One registered interface (number 1) in the given state, no socket in use, all locks free.\<close>

definition demo_net :: "net_state \<Rightarrow> nat net" where
  "demo_net st = \<lparr>Netifs = (\<lambda>_. demo_netif st), NetIfList = Some 1, NetInitialized = True,
     Sockets = replicate 5 zero_socket,
     Drivers = (\<lambda>_. \<lparr>d_if_class = NET_INTERFACE_CLASS_WIFI, d_context = Some 0, d_wifi = Some demo_wifi,
       d_wifi_ref = 50\<rparr>),
     TlsHeap = Map.empty, oslog = [Tls_init, Init_locks], dev = 100\<rparr>"

text \<open>The same before any interface was registered.\<close>

definition boot_net :: "nat net" where
  "boot_net = (demo_net NET_STATE_DEINITIALIZED)
     \<lparr>NetIfList := None, NetInitialized := False, oslog := []\<rparr>"

lemmas demo_defs = demo_drv_def demo_env_def demo_netif_def demo_wifi_def demo_net_def boot_net_def
  zero_socket_def held_def

lemma demo_held [simp]: "held (demo_net st) = Locks {}"
  by (simp add: demo_defs held_after_def)

end
