(* ===== verification/Net_State.thy ===== *)
theory Net_State
  imports Net_Registry Net_Demo
begin

text \<open>
  The interface state machine of \<open>core/net_state.c\<close> with \<open>net_if_notify\<close> of \<open>net_core.c\<close>. The
  handlers are translated one by one; the driver is called through its table and may itself send
  events to the machine. \<open>ends_in\<close> is the state diagram the code is meant to follow, command by command and
  event by event; the locale \<open>netif_driver\<close> is the contract of a driver, and the handlers are shown to end where
  the diagram allows for every driver that keeps the contract.
\<close>

section \<open>The handlers\<close>

definition net_if_notify :: "'w env \<Rightarrow> netref \<Rightarrow> net_evt \<Rightarrow> u32 \<Rightarrow> 'w net \<Rightarrow> 'w net" where
  "net_if_notify E p event_class event_id s =
     (case h_event_handler (Netifs s p) of
        None \<Rightarrow> s
      | Some h \<Rightarrow> s\<lparr>dev := env_notify E h event_class event_id (dev s)\<rparr>)"

definition set_state :: "'w env \<Rightarrow> netref \<Rightarrow> net_state \<Rightarrow> 'w net \<Rightarrow> 'w net" where
  "set_state E p st s =
     (let s = upd_netif p (\<lambda>h. h\<lparr>h_state := st\<rparr>) s;
          s = net_if_notify E p NET_EVENT_STATE_CHANGE (state_code st) s
      in SIGNAL_STATE_CHANGE s)"

text \<open>\<open>pnetif->pdrv->op(pnetif)\<close>: null if the interface has no driver or the driver no such function.\<close>

definition call_if ::
  "('w net net_if_drv \<Rightarrow> (netref \<Rightarrow> 'w net \<Rightarrow> (int, 'w) res) option) \<Rightarrow>
     'w env \<Rightarrow> netref \<Rightarrow> 'w net \<Rightarrow> (int, 'w) res" where
  "call_if op E p s = do { d \<leftarrow> drv_of E p s; f \<leftarrow> op d; f p s }"

definition if_failure :: "int \<Rightarrow> int" where
  "if_failure ret = (if ret \<noteq> NET_OK then NET_ERROR_INTERFACE_FAILURE else ret)"

definition net_state_initialized ::
  "'w env \<Rightarrow> netref \<Rightarrow> net_state_event \<Rightarrow> 'w net \<Rightarrow> (int, 'w) res" where
  "net_state_initialized E p event s =
     (case event of
        NET_EVENT_CMD_START \<Rightarrow> do {
          let s = set_state E p NET_STATE_STARTING s;
          (ret, s) \<leftarrow> call_if if_start E p s;
          Some (if_failure ret, s) }
      | NET_EVENT_CMD_DEINIT \<Rightarrow> do {
          (ret, s) \<leftarrow> call_if if_deinit E p s;
          let s = set_state E p NET_STATE_DEINITIALIZED s;
          Some (if_failure ret, s) }
      | _ \<Rightarrow> Some (NET_OK, s))"

definition net_state_starting ::
  "'w env \<Rightarrow> netref \<Rightarrow> net_state_event \<Rightarrow> 'w net \<Rightarrow> (int, 'w) res" where
  "net_state_starting E p event s =
     (case event of
        NET_EVENT_INTERFACE_READY \<Rightarrow> Some (NET_OK, set_state E p NET_STATE_READY s)
      | NET_EVENT_CMD_STOP \<Rightarrow> do {
          let s = set_state E p NET_STATE_INITIALIZED s;
          (ret, s) \<leftarrow> call_if if_stop E p s;
          Some (if_failure ret, s) }
      | _ \<Rightarrow> Some (NET_OK, s))"

definition net_state_ready ::
  "'w env \<Rightarrow> netref \<Rightarrow> net_state_event \<Rightarrow> 'w net \<Rightarrow> (int, 'w) res" where
  "net_state_ready E p event s =
     (case event of
        NET_EVENT_CMD_CONNECT \<Rightarrow> do {
          let s = set_state E p NET_STATE_CONNECTING s;
          (ret, s) \<leftarrow> call_if if_connect E p s;
          Some (if_failure ret, s) }
      | NET_EVENT_CMD_STOP \<Rightarrow> do {
          let s = set_state E p NET_STATE_STOPPING s;
          (ret, s) \<leftarrow> call_if if_stop E p s;
          Some (if_failure ret, s) }
      | _ \<Rightarrow> Some (NET_OK, s))"

definition net_state_connecting ::
  "'w env \<Rightarrow> netref \<Rightarrow> net_state_event \<Rightarrow> 'w net \<Rightarrow> (int, 'w) res" where
  "net_state_connecting E p event s =
     (case event of
        NET_EVENT_IPADDR \<Rightarrow> Some (NET_OK, set_state E p NET_STATE_CONNECTED s)
      | NET_EVENT_CMD_DISCONNECT \<Rightarrow> Some (NET_OK, set_state E p NET_STATE_READY s)
      | _ \<Rightarrow> Some (NET_OK, s))"

definition net_state_connected ::
  "'w env \<Rightarrow> netref \<Rightarrow> net_state_event \<Rightarrow> 'w net \<Rightarrow> (int, 'w) res" where
  "net_state_connected E p event s =
     (case event of
        NET_EVENT_CMD_DISCONNECT \<Rightarrow> do {
          let s = set_state E p NET_STATE_DISCONNECTING s;
          (ret, s) \<leftarrow> call_if if_disconnect E p s;
          Some (if_failure ret, s) }
      | NET_EVENT_LINK_DOWN \<Rightarrow> Some (NET_OK, set_state E p NET_STATE_CONNECTION_LOST s)
      | NET_EVENT_IPADDR \<Rightarrow> Some (NET_OK, set_state E p NET_STATE_CONNECTED s)
      | _ \<Rightarrow> Some (NET_OK, s))"

definition net_state_disconnecting ::
  "'w env \<Rightarrow> netref \<Rightarrow> net_state_event \<Rightarrow> 'w net \<Rightarrow> (int, 'w) res" where
  "net_state_disconnecting E p event s =
     (case event of
        NET_EVENT_INTERFACE_READY \<Rightarrow> Some (NET_OK, set_state E p NET_STATE_READY s)
      | _ \<Rightarrow> Some (NET_OK, s))"

definition net_state_stopping ::
  "'w env \<Rightarrow> netref \<Rightarrow> net_state_event \<Rightarrow> 'w net \<Rightarrow> (int, 'w) res" where
  "net_state_stopping E p event s =
     (case event of
        NET_EVENT_INTERFACE_INITIALIZED \<Rightarrow> Some (NET_OK, set_state E p NET_STATE_INITIALIZED s)
      | _ \<Rightarrow> Some (NET_OK, s))"

definition net_state_connection_lost ::
  "'w env \<Rightarrow> netref \<Rightarrow> net_state_event \<Rightarrow> 'w net \<Rightarrow> (int, 'w) res" where
  "net_state_connection_lost E p event s =
     (case event of
        NET_EVENT_LINK_UP \<Rightarrow> Some (NET_OK, set_state E p NET_STATE_CONNECTING s)
      | _ \<Rightarrow> Some (NET_OK, s))"

definition net_state_manage_event ::
  "'w env \<Rightarrow> netref option \<Rightarrow> net_state_event \<Rightarrow> 'w net \<Rightarrow> (int, 'w) res" where
  "net_state_manage_event E pnetif event s = do {
     (p_netif, s) \<leftarrow> netif_check pnetif s;
     (case p_netif of
        None \<Rightarrow> Some (NET_ERROR_PARAMETER, s)
      | Some p \<Rightarrow>
          (case h_state (Netifs s p) of
             NET_STATE_INITIALIZED \<Rightarrow> net_state_initialized E p event s
           | NET_STATE_STARTING \<Rightarrow> net_state_starting E p event s
           | NET_STATE_READY \<Rightarrow> net_state_ready E p event s
           | NET_STATE_CONNECTING \<Rightarrow> net_state_connecting E p event s
           | NET_STATE_CONNECTED \<Rightarrow> net_state_connected E p event s
           | NET_STATE_DISCONNECTING \<Rightarrow> net_state_disconnecting E p event s
           | NET_STATE_CONNECTION_LOST \<Rightarrow> net_state_connection_lost E p event s
           | NET_STATE_STOPPING \<Rightarrow> net_state_stopping E p event s
           | NET_STATE_DEINITIALIZED \<Rightarrow> Some (NET_ERROR_INVALID_STATE, s))) }"

lemmas handler_defs = net_state_initialized_def net_state_starting_def net_state_ready_def
  net_state_connecting_def net_state_connected_def net_state_disconnecting_def
  net_state_stopping_def net_state_connection_lost_def

section \<open>What a state change touches\<close>

lemma set_state_sel [simp]:
  "NetIfList (set_state E p st s) = NetIfList s"
  "NetInitialized (set_state E p st s) = NetInitialized s"
  "Sockets (set_state E p st s) = Sockets s" "Drivers (set_state E p st s) = Drivers s"
  "TlsHeap (set_state E p st s) = TlsHeap s" "held (set_state E p st s) = held s"
  "Netifs (set_state E p st s) = (Netifs s)(p := (Netifs s p)\<lparr>h_state := st\<rparr>)"
  by (simp_all add: set_state_def net_if_notify_def lock_op_defs Let_def split: option.split)

lemma drv_of_set_state [simp]: "drv_of E q (set_state E p st s) = drv_of E q s"
  by (simp add: drv_of_def)

lemma drv_of_cong: "h_pdrv (Netifs s' q) = h_pdrv (Netifs s q) \<Longrightarrow> drv_of E q s' = drv_of E q s"
  by (simp add: drv_of_def)

text \<open>
  What an operation on interface \<open>p\<close> may change besides the state of \<open>p\<close>: the addresses and driver
  data of \<open>p\<close>, the outside world and the lock log, which ends with the same locks held.
\<close>

definition only_netif :: "netref \<Rightarrow> 'w net \<Rightarrow> 'w net \<Rightarrow> bool" where
  "only_netif p s s' \<longleftrightarrow> (\<forall>q. q \<noteq> p \<longrightarrow> Netifs s' q = Netifs s q)
     \<and> h_next (Netifs s' p) = h_next (Netifs s p)
     \<and> h_event_handler (Netifs s' p) = h_event_handler (Netifs s p)
     \<and> NetIfList s' = NetIfList s \<and> NetInitialized s' = NetInitialized s
     \<and> Sockets s' = Sockets s \<and> TlsHeap s' = TlsHeap s \<and> held s' = held s"

lemma only_netif_refl [simp]: "only_netif p s s"
  by (simp add: only_netif_def)

lemma only_netif_trans [trans]: "only_netif p s t \<Longrightarrow> only_netif p t u \<Longrightarrow> only_netif p s u"
  by (simp add: only_netif_def)

lemma only_netif_set_state [simp]: "only_netif p s (set_state E p st s)"
  by (simp add: only_netif_def)

lemma only_netif_registered: "only_netif p s s' \<Longrightarrow> registered s ps \<Longrightarrow> registered s' ps"
  unfolding registered_def only_netif_def by (metis (mono_tags, lifting) chain_cong)

section \<open>The state diagram\<close>

text \<open>Moves the driver makes by sending an event, and moves the application asks for.\<close>

inductive driver_move :: "net_state \<Rightarrow> net_state \<Rightarrow> bool" where
  started: "driver_move NET_STATE_STARTING NET_STATE_READY"
| got_address: "driver_move NET_STATE_CONNECTING NET_STATE_CONNECTED"
| new_address: "driver_move NET_STATE_CONNECTED NET_STATE_CONNECTED"
| link_down: "driver_move NET_STATE_CONNECTED NET_STATE_CONNECTION_LOST"
| link_up: "driver_move NET_STATE_CONNECTION_LOST NET_STATE_CONNECTING"
| disconnected: "driver_move NET_STATE_DISCONNECTING NET_STATE_READY"
| stopped: "driver_move NET_STATE_STOPPING NET_STATE_INITIALIZED"

inductive command_move :: "net_state \<Rightarrow> net_state \<Rightarrow> bool" where
  start: "command_move NET_STATE_INITIALIZED NET_STATE_STARTING"
| abort_start: "command_move NET_STATE_STARTING NET_STATE_INITIALIZED"
| connect: "command_move NET_STATE_READY NET_STATE_CONNECTING"
| abort_connect: "command_move NET_STATE_CONNECTING NET_STATE_READY"
| disconnect: "command_move NET_STATE_CONNECTED NET_STATE_DISCONNECTING"
| stop: "command_move NET_STATE_READY NET_STATE_STOPPING"
| deinit: "command_move NET_STATE_INITIALIZED NET_STATE_DEINITIALIZED"

inductive_simps driver_move_simps [simp]:
  "driver_move NET_STATE_DEINITIALIZED b" "driver_move NET_STATE_INITIALIZED b"
  "driver_move NET_STATE_STARTING b" "driver_move NET_STATE_READY b"
  "driver_move NET_STATE_CONNECTING b" "driver_move NET_STATE_CONNECTED b"
  "driver_move NET_STATE_STOPPING b" "driver_move NET_STATE_DISCONNECTING b"
  "driver_move NET_STATE_CONNECTION_LOST b"

inductive_simps command_move_simps [simp]:
  "command_move NET_STATE_DEINITIALIZED b" "command_move NET_STATE_INITIALIZED b"
  "command_move NET_STATE_STARTING b" "command_move NET_STATE_READY b"
  "command_move NET_STATE_CONNECTING b" "command_move NET_STATE_CONNECTED b"
  "command_move NET_STATE_STOPPING b" "command_move NET_STATE_DISCONNECTING b"
  "command_move NET_STATE_CONNECTION_LOST b"

inductive_cases into_connected: "driver_move a NET_STATE_CONNECTED"

text \<open>The state an accepted event leads to before the driver is called; \<^term>\<open>None\<close>: not accepted.\<close>

fun next_state :: "net_state \<Rightarrow> net_state_event \<Rightarrow> net_state option" where
  "next_state NET_STATE_DEINITIALIZED e = None"
| "next_state NET_STATE_INITIALIZED e =
     (if e = NET_EVENT_CMD_START then Some NET_STATE_STARTING
      else if e = NET_EVENT_CMD_DEINIT then Some NET_STATE_DEINITIALIZED else None)"
| "next_state NET_STATE_STARTING e =
     (if e = NET_EVENT_INTERFACE_READY then Some NET_STATE_READY
      else if e = NET_EVENT_CMD_STOP then Some NET_STATE_INITIALIZED else None)"
| "next_state NET_STATE_READY e =
     (if e = NET_EVENT_CMD_CONNECT then Some NET_STATE_CONNECTING
      else if e = NET_EVENT_CMD_STOP then Some NET_STATE_STOPPING else None)"
| "next_state NET_STATE_CONNECTING e =
     (if e = NET_EVENT_IPADDR then Some NET_STATE_CONNECTED
      else if e = NET_EVENT_CMD_DISCONNECT then Some NET_STATE_READY else None)"
| "next_state NET_STATE_CONNECTED e =
     (if e = NET_EVENT_CMD_DISCONNECT then Some NET_STATE_DISCONNECTING
      else if e = NET_EVENT_LINK_DOWN then Some NET_STATE_CONNECTION_LOST
      else if e = NET_EVENT_IPADDR then Some NET_STATE_CONNECTED else None)"
| "next_state NET_STATE_STOPPING e =
     (if e = NET_EVENT_INTERFACE_INITIALIZED then Some NET_STATE_INITIALIZED else None)"
| "next_state NET_STATE_DISCONNECTING e =
     (if e = NET_EVENT_INTERFACE_READY then Some NET_STATE_READY else None)"
| "next_state NET_STATE_CONNECTION_LOST e =
     (if e = NET_EVENT_LINK_UP then Some NET_STATE_CONNECTING else None)"

fun driver_event :: "net_state_event \<Rightarrow> bool" where
  "driver_event NET_EVENT_INTERFACE_INITIALIZED = True"
| "driver_event NET_EVENT_INTERFACE_READY = True"
| "driver_event NET_EVENT_LINK_UP = True"
| "driver_event NET_EVENT_LINK_DOWN = True"
| "driver_event NET_EVENT_IPADDR = True"
| "driver_event _ = False"

lemma next_state_driver: "next_state a e = Some b \<Longrightarrow> driver_event e \<Longrightarrow> driver_move a b"
  by (cases a) (auto split: if_splits)


section \<open>Each handler against the diagram\<close>

lemma manage_event_Some:
  "net_state_manage_event E (Some p) e s =
     (case h_state (Netifs s p) of
        NET_STATE_INITIALIZED \<Rightarrow> net_state_initialized E p e s
      | NET_STATE_STARTING \<Rightarrow> net_state_starting E p e s
      | NET_STATE_READY \<Rightarrow> net_state_ready E p e s
      | NET_STATE_CONNECTING \<Rightarrow> net_state_connecting E p e s
      | NET_STATE_CONNECTED \<Rightarrow> net_state_connected E p e s
      | NET_STATE_DISCONNECTING \<Rightarrow> net_state_disconnecting E p e s
      | NET_STATE_CONNECTION_LOST \<Rightarrow> net_state_connection_lost E p e s
      | NET_STATE_STOPPING \<Rightarrow> net_state_stopping E p e s
      | NET_STATE_DEINITIALIZED \<Rightarrow> Some (NET_ERROR_INVALID_STATE, s))"
  by (simp add: net_state_manage_event_def)

lemma manage_event_ignored:
  assumes "next_state (h_state (Netifs s p)) e = None"
    and "h_state (Netifs s p) \<noteq> NET_STATE_DEINITIALIZED"
  shows "net_state_manage_event E (Some p) e s = Some (NET_OK, s)"
  using assms by (cases "h_state (Netifs s p)"; cases e) (simp_all add: manage_event_Some handler_defs)

lemma manage_event_deinitialized:
  "h_state (Netifs s p) = NET_STATE_DEINITIALIZED \<Longrightarrow>
     net_state_manage_event E (Some p) e s = Some (NET_ERROR_INVALID_STATE, s)"
  by (simp add: manage_event_Some)

lemma manage_event_from_driver:
  assumes "driver_event e" and "h_state (Netifs s p) \<noteq> NET_STATE_DEINITIALIZED"
  shows "net_state_manage_event E (Some p) e s =
     Some (NET_OK, case next_state (h_state (Netifs s p)) e of None \<Rightarrow> s | Some b \<Rightarrow> set_state E p b s)"
  using assms by (cases "h_state (Netifs s p)"; cases e) (simp_all add: manage_event_Some handler_defs)

lemma set_state_cong:
  "env_notify E' = env_notify E \<Longrightarrow> set_state E' p b s = set_state E p b s"
  by (cases "h_event_handler (Netifs s p)") (simp_all add: set_state_def net_if_notify_def Let_def)

text \<open>The events a driver sends never call the driver: only the event callback matters.\<close>

lemma manage_event_driver_free:
  assumes "driver_event e" and "env_notify E' = env_notify E"
  shows "net_state_manage_event E' (Some p) e s = net_state_manage_event E (Some p) e s"
  using assms manage_event_from_driver [of e s p E] manage_event_from_driver [of e s p E']
  by (cases "h_state (Netifs s p) = NET_STATE_DEINITIALIZED")
    (auto simp: manage_event_deinitialized set_state_cong [of E' E] split: option.split)

section \<open>The contract of a driver\<close>

definition driver_ok :: "netref \<Rightarrow> 'w net \<Rightarrow> 'w net \<Rightarrow> bool" where
  "driver_ok p s s' \<longleftrightarrow>
     driver_move\<^sup>*\<^sup>* (h_state (Netifs s p)) (h_state (Netifs s' p)) \<and> only_netif p s s'"

lemma driver_ok_refl [simp]: "driver_ok p s s"
  by (simp add: driver_ok_def)

lemma driver_ok_trans [trans]: "driver_ok p s t \<Longrightarrow> driver_ok p t u \<Longrightarrow> driver_ok p s u"
  by (auto simp: driver_ok_def intro: only_netif_trans)

lemma driver_ok_event:
  assumes "net_state_manage_event E (Some p) e s = Some (r, s')" and "driver_event e"
  shows "driver_ok p s s'"
proof (cases "h_state (Netifs s p) = NET_STATE_DEINITIALIZED")
  case True
  then show ?thesis using assms by (simp add: manage_event_deinitialized)
next
  case False
  then show ?thesis
    using assms manage_event_from_driver [of e s p E]
    by (auto simp: driver_ok_def split: option.splits dest: next_state_driver)
qed

lemma stuck_without_event: "driver_move\<^sup>*\<^sup>* NET_STATE_INITIALIZED b \<Longrightarrow> b = NET_STATE_INITIALIZED"
  by (induction rule: rtranclp_induct) auto

text \<open>
  The states in which an event may leave the interface, once the handler and the driver it calls are done: a driver
  that keeps its contract may report no progress, its success, and after a connect the loss of the link as well.
  An event that does not appear leaves the state as it is.
\<close>

fun ends_in :: "net_state \<Rightarrow> net_state_event \<Rightarrow> net_state set" where
  "ends_in NET_STATE_INITIALIZED NET_EVENT_CMD_START = {NET_STATE_STARTING, NET_STATE_READY}"
| "ends_in NET_STATE_INITIALIZED NET_EVENT_CMD_DEINIT = {NET_STATE_DEINITIALIZED}"
| "ends_in NET_STATE_STARTING NET_EVENT_INTERFACE_READY = {NET_STATE_READY}"
| "ends_in NET_STATE_STARTING NET_EVENT_CMD_STOP = {NET_STATE_INITIALIZED}"
| "ends_in NET_STATE_READY NET_EVENT_CMD_CONNECT =
     {NET_STATE_CONNECTING, NET_STATE_CONNECTED, NET_STATE_CONNECTION_LOST}"
| "ends_in NET_STATE_READY NET_EVENT_CMD_STOP = {NET_STATE_STOPPING, NET_STATE_INITIALIZED}"
| "ends_in NET_STATE_CONNECTING NET_EVENT_IPADDR = {NET_STATE_CONNECTED}"
| "ends_in NET_STATE_CONNECTING NET_EVENT_CMD_DISCONNECT = {NET_STATE_READY}"
| "ends_in NET_STATE_CONNECTED NET_EVENT_CMD_DISCONNECT = {NET_STATE_DISCONNECTING, NET_STATE_READY}"
| "ends_in NET_STATE_CONNECTED NET_EVENT_LINK_DOWN = {NET_STATE_CONNECTION_LOST}"
| "ends_in NET_STATE_STOPPING NET_EVENT_INTERFACE_INITIALIZED = {NET_STATE_INITIALIZED}"
| "ends_in NET_STATE_DISCONNECTING NET_EVENT_INTERFACE_READY = {NET_STATE_READY}"
| "ends_in NET_STATE_CONNECTION_LOST NET_EVENT_LINK_UP = {NET_STATE_CONNECTING}"
| "ends_in a e = {a}"

lemma driver_moves_reach:
  "driver_move\<^sup>*\<^sup>* a b \<Longrightarrow>
     b \<in> (case a of NET_STATE_STARTING \<Rightarrow> {NET_STATE_STARTING, NET_STATE_READY}
        | NET_STATE_STOPPING \<Rightarrow> {NET_STATE_STOPPING, NET_STATE_INITIALIZED}
        | NET_STATE_DISCONNECTING \<Rightarrow> {NET_STATE_DISCONNECTING, NET_STATE_READY}
        | NET_STATE_INITIALIZED \<Rightarrow> {NET_STATE_INITIALIZED}
        | NET_STATE_READY \<Rightarrow> {NET_STATE_READY}
        | NET_STATE_DEINITIALIZED \<Rightarrow> {NET_STATE_DEINITIALIZED}
        | _ \<Rightarrow> {NET_STATE_CONNECTING, NET_STATE_CONNECTED, NET_STATE_CONNECTION_LOST})"
  by (induction rule: rtranclp_induct) (auto split: net_state.splits)

lemma ends_in_driver:
  assumes "driver_event e"
  shows "ends_in a e = {case next_state a e of None \<Rightarrow> a | Some b \<Rightarrow> b}"
  using assms by (cases a; cases e) auto

lemma ends_in_ignored: "next_state a e = None \<Longrightarrow> ends_in a e = {a}"
  by (cases a; cases e) auto

locale netif_driver =
  fixes E :: "'w env"
  assumes deinit_ok: "call_if if_deinit E p s = Some (r, s') \<Longrightarrow> driver_ok p s s'"
    and start_ok: "call_if if_start E p s = Some (r, s') \<Longrightarrow> driver_ok p s s'"
    and stop_ok: "call_if if_stop E p s = Some (r, s') \<Longrightarrow> driver_ok p s s'"
    and connect_ok: "call_if if_connect E p s = Some (r, s') \<Longrightarrow> driver_ok p s s'"
    and disconnect_ok: "call_if if_disconnect E p s = Some (r, s') \<Longrightarrow> driver_ok p s s'"
begin

lemmas calls_ok = start_ok stop_ok connect_ok disconnect_ok

lemma after_command:
  assumes "driver_ok p (set_state E p b s) s'"
  shows "driver_move\<^sup>*\<^sup>* b (h_state (Netifs s' p)) \<and> only_netif p s s'"
  using assms only_netif_trans [OF only_netif_set_state [of p s E b]] by (auto simp: driver_ok_def)

lemma manage_event_only_netif:
  assumes "net_state_manage_event E (Some p) e s = Some (r, s')"
  shows "only_netif p s s'"
proof (cases "driver_event e \<or> next_state (h_state (Netifs s p)) e = None")
  case True
  then show ?thesis
    using assms driver_ok_event [OF assms] manage_event_ignored [of s p e E]
      manage_event_deinitialized [of s p E e]
    by (cases "h_state (Netifs s p) = NET_STATE_DEINITIALIZED") (auto simp: driver_ok_def)
next
  case False
  then show ?thesis
    using assms
    by (cases "h_state (Netifs s p)"; cases e)
      (auto simp: manage_event_Some handler_defs bind_Some_iff dest!: calls_ok deinit_ok after_command
        simp: driver_ok_def intro: only_netif_trans)
qed

lemma manage_event_ends_in:
  assumes "net_state_manage_event E (Some p) e s = Some (r, s')"
  shows "h_state (Netifs s' p) \<in> ends_in (h_state (Netifs s p)) e"
proof (cases "driver_event e \<or> next_state (h_state (Netifs s p)) e = None")
  case True
  then show ?thesis
    using assms manage_event_ignored [of s p e E] manage_event_deinitialized [of s p E e]
      manage_event_from_driver [of e s p E]
    by (cases "h_state (Netifs s p) = NET_STATE_DEINITIALIZED")
      (auto simp: ends_in_driver ends_in_ignored split: option.splits)
next
  case False
  then show ?thesis
    using assms
    by (cases "h_state (Netifs s p)"; cases e)
      (auto simp: manage_event_Some handler_defs bind_Some_iff
        dest!: calls_ok after_command dest: driver_moves_reach)
qed

end

section \<open>Event sequences\<close>

fun run_events ::
  "'w env \<Rightarrow> netref \<Rightarrow> net_state_event list \<Rightarrow> 'w net \<Rightarrow> (int list, 'w) res" where
  "run_events E p [] s = Some ([], s)"
| "run_events E p (e # es) s = do {
     (r, s) \<leftarrow> net_state_manage_event E (Some p) e s;
     (rs, s) \<leftarrow> run_events E p es s;
     Some (r # rs, s) }"

text \<open>The states the diagram allows after a sequence.\<close>

fun ends_after :: "net_state_event list \<Rightarrow> net_state \<Rightarrow> net_state set" where
  "ends_after [] a = {a}"
| "ends_after (e # es) a = (\<Union>b\<in>ends_in a e. ends_after es b)"

text \<open>
  The machine as a table: the accepted event fixes the new state (\<open>next_state\<close>), the command fixes
  the driver function. De-initialisation calls the driver before the state changes, every other
  command after it.
\<close>

definition table_machine :: "'w env \<Rightarrow> netref \<Rightarrow> net_state_event \<Rightarrow> 'w net \<Rightarrow> (int, 'w) res" where
  "table_machine E p e s =
     (let st = h_state (Netifs s p);
          after = (\<lambda>op s. map_option (\<lambda>(r, s). (if_failure r, s)) (call_if op E p s)) in
      if st = NET_STATE_DEINITIALIZED then Some (NET_ERROR_INVALID_STATE, s)
      else case next_state st e of
        None \<Rightarrow> Some (NET_OK, s)
      | Some b \<Rightarrow>
          (if e = NET_EVENT_CMD_DEINIT
           then map_option (\<lambda>(r, s). (r, set_state E p b s)) (after if_deinit s)
           else if e = NET_EVENT_CMD_START then after if_start (set_state E p b s)
           else if e = NET_EVENT_CMD_STOP then after if_stop (set_state E p b s)
           else if e = NET_EVENT_CMD_CONNECT then after if_connect (set_state E p b s)
           else if e = NET_EVENT_CMD_DISCONNECT \<and> st = NET_STATE_CONNECTED
             then after if_disconnect (set_state E p b s)
           else Some (NET_OK, set_state E p b s)))"

lemma bind_result: "Option.bind m (\<lambda>x. Some (f x)) = map_option f m"
  by (cases m) auto

lemma demo_netif_driver: "netif_driver demo_env"
  by unfold_locales
    (auto simp: call_if_def drv_of_def demo_env_def demo_drv_def bind_Some_iff)

section \<open>Properties\<close>

text \<open>
  C1. For every environment, interface, state and event, the nine handlers of \<open>net_state.c\<close> dispatched
  by \<open>net_state_manage_event\<close> compute exactly the transition table: new state, driver function called,
  order of state change and driver call, and result code.
\<close>

theorem manage_event_is_table: "net_state_manage_event E (Some p) e s = table_machine E p e s"
  by (cases "h_state (Netifs s p)"; cases e)
    (simp_all add: manage_event_Some handler_defs table_machine_def Let_def bind_result
      option.map_comp comp_def split_def)

text \<open>
  C34. Under any driver that keeps its contract, a whole sequence of commands and events that returns leaves the
  interface in a state the diagram allows for exactly this sequence, and touches nothing but this interface: not
  its link or event handler, the list of interfaces, the socket table, TLS data or the locks.
\<close>

theorem events_end_where_allowed:
  assumes "netif_driver E" and "run_events E p es s = Some (rs, s')"
  shows "h_state (Netifs s' p) \<in> ends_after es (h_state (Netifs s p)) \<and> only_netif p s s'"
  using assms(2)
proof (induction es arbitrary: s rs)
  case Nil
  then show ?case by simp
next
  case (Cons e es)
  then obtain r t rs' where t: "net_state_manage_event E (Some p) e s = Some (r, t)"
    and rest: "run_events E p es t = Some (rs', s')"
    by (auto simp: bind_Some_iff)
  have "h_state (Netifs t p) \<in> ends_in (h_state (Netifs s p)) e"
    by (rule netif_driver.manage_event_ends_in [OF assms(1) t])
  moreover have "only_netif p s t"
    by (rule netif_driver.manage_event_only_netif [OF assms(1) t])
  ultimately show ?case
    using Cons.IH [OF rest] by (auto intro: only_netif_trans)
qed

theorem events_end_where_allowed_witness:
  "\<exists>rs s'. run_events demo_env 1 [NET_EVENT_CMD_START, NET_EVENT_INTERFACE_READY, NET_EVENT_CMD_CONNECT,
        NET_EVENT_CMD_DISCONNECT] (demo_net NET_STATE_INITIALIZED) = Some (rs, s')
     \<and> h_state (Netifs s' 1) \<in> {NET_STATE_READY, NET_STATE_DISCONNECTING, NET_STATE_CONNECTION_LOST}"
proof -
  let ?s = "demo_net NET_STATE_INITIALIZED"
  let ?es = "[NET_EVENT_CMD_START, NET_EVENT_INTERFACE_READY, NET_EVENT_CMD_CONNECT, NET_EVENT_CMD_DISCONNECT]"
  have "\<exists>rs s'. run_events demo_env 1 ?es ?s = Some (rs, s')"
    by (simp add: manage_event_Some handler_defs call_if_def drv_of_def demo_defs)
  then obtain rs s' where r: "run_events demo_env 1 ?es ?s = Some (rs, s')"
    by blast
  have "h_state (Netifs ?s 1) = NET_STATE_INITIALIZED"
    by (simp add: demo_defs)
  then show ?thesis using events_end_where_allowed [OF demo_netif_driver r] r by auto
qed

text \<open>
  A command or event that the current state does not accept is dropped silently: the call
  reports success although nothing at all changed. (So \<open>net_if_connect\<close> on an interface that was
  never started returns \<open>NET_OK\<close>.)
\<close>

theorem rejected_event_reports_success:
  assumes "h_state (Netifs s p) \<noteq> NET_STATE_DEINITIALIZED"
    and "next_state (h_state (Netifs s p)) e = None"
  shows "net_state_manage_event E (Some p) e s = Some (NET_OK, s)"
  using assms by (intro manage_event_ignored)

theorem rejected_event_reports_success_witness:
  "net_state_manage_event demo_env (Some 1) NET_EVENT_CMD_CONNECT (demo_net NET_STATE_INITIALIZED)
     = Some (NET_OK, demo_net NET_STATE_INITIALIZED)"
  by (rule rejected_event_reports_success) (simp_all add: demo_defs)

text \<open>
  A de-initialised interface stays so: whatever is sent to it, each call answers
  \<open>NET_ERROR_INVALID_STATE\<close> and the whole system state is unchanged, driver included.
\<close>

theorem deinitialized_is_final:
  assumes "h_state (Netifs s p) = NET_STATE_DEINITIALIZED"
  shows "run_events E p es s = Some (replicate (length es) NET_ERROR_INVALID_STATE, s)"
  using assms by (induction es) (simp_all add: manage_event_deinitialized)

theorem deinitialized_is_final_witness:
  "run_events demo_env 1 [NET_EVENT_CMD_START, NET_EVENT_IPADDR] (demo_net NET_STATE_DEINITIALIZED)
     = Some ([-28, -28], demo_net NET_STATE_DEINITIALIZED)"
  using deinitialized_is_final [of "demo_net NET_STATE_DEINITIALIZED" 1 demo_env
      "[NET_EVENT_CMD_START, NET_EVENT_IPADDR]"]
  by (simp add: demo_defs)

end
