(* ===== verification/Net_Core.thy ===== *)
theory Net_Core
  imports Net_State
begin

text \<open>
  The interface control functions of \<open>core/net_core.c\<close>: initialisation and de-initialisation with
  the RTOS locks, the state commands, \<open>net_if_wait_state\<close>, and the get and set functions. The macro
  \<open>WAIT_STATE_CHANGE\<close> is the RTOS variant (a wait on the state-change semaphore).
\<close>

section \<open>Waiting for a state\<close>

definition HAL_GetTick :: "'w env \<Rightarrow> 'w net \<Rightarrow> u32 \<times> 'w net" where
  "HAL_GetTick E s = (let (t, w) = env_tick E (dev s) in (t, s\<lparr>dev := w\<rparr>))"

definition WAIT_STATE_CHANGE :: "'w env \<Rightarrow> u32 \<Rightarrow> 'w net \<Rightarrow> 'w net" where
  "WAIT_STATE_CHANGE E timeout s = env_wait E timeout (net_os_op Wait_state_change s)"

partial_function (option) wait_state_loop ::
  "'w env \<Rightarrow> netref \<Rightarrow> net_state \<Rightarrow> u32 \<Rightarrow> u32 \<Rightarrow> 'w net \<Rightarrow> (int \<times> 'w net) option" where
  "wait_state_loop E p st start timeout s =
     (if h_state (Netifs s p) = st then Some (NET_OK, s)
      else let (now, s) = HAL_GetTick E s in
        if start + timeout \<le> now then Some (NET_TIMEOUT, s)
        else let (now, s) = HAL_GetTick E s in
          wait_state_loop E p st start timeout (WAIT_STATE_CHANGE E (timeout - (now - start)) s))"

definition net_if_wait_state :: "'w env \<Rightarrow> netref \<Rightarrow> net_state \<Rightarrow> u32 \<Rightarrow> 'w net \<Rightarrow> (int, 'w) res" where
  "net_if_wait_state E p st timeout s =
     (let (start, s) = HAL_GetTick E s in wait_state_loop E p st start timeout s)"

section \<open>Initialisation and de-initialisation\<close>

definition net_tls_init :: "'w net \<Rightarrow> 'w net" where
  "net_tls_init = net_os_op Tls_init"

definition net_tls_destroy :: "'w net \<Rightarrow> 'w net" where
  "net_tls_destroy = net_os_op Tls_destroy"

text \<open>The loop over the semaphores of \<open>NetMutex\<close> is one operation of the record.\<close>

definition net_init_locks :: "'w net \<Rightarrow> 'w net" where
  "net_init_locks s = net_os_op Init_locks (net_tls_init s)"

definition net_destroy_locks :: "'w net \<Rightarrow> 'w net" where
  "net_destroy_locks s = net_os_op Destroy_locks (net_tls_destroy s)"

definition net_if_init ::
  "netref option \<Rightarrow> (netref \<Rightarrow> 'w net \<Rightarrow> (int, 'w) res) \<Rightarrow> handlerref option \<Rightarrow> 'w net \<Rightarrow> (int, 'w) res" where
  "net_if_init pnetif driver_init event_handler s = do {
     let s = (if \<not> NetInitialized s then (net_init_locks s)\<lparr>NetInitialized := True\<rparr> else s);
     (ret, s) \<leftarrow> (case pnetif of
        None \<Rightarrow> Some (NET_ERROR_PARAMETER, s)
      | Some p \<Rightarrow> do {
          let s = upd_netif p (\<lambda>h. h\<lparr>h_event_handler := event_handler\<rparr>) s;
          let s = upd_netif p (\<lambda>h. h\<lparr>h_state := NET_STATE_INITIALIZED\<rparr>) s;
          s \<leftarrow> netif_add_to_list p s;
          (ret, s) \<leftarrow> driver_init p s;
          (if ret \<noteq> NET_OK then do {
             let s = upd_netif p (\<lambda>h. h\<lparr>h_state := NET_STATE_DEINITIALIZED\<rparr>) s;
             s \<leftarrow> netif_remove_from_list p s;
             Some (NET_ERROR_INTERFACE_FAILURE, s) }
           else Some (ret, s)) });
     let s = (if ret \<noteq> NET_OK then (net_destroy_locks s)\<lparr>NetInitialized := False\<rparr> else s);
     Some (ret, s) }"

definition net_if_deinit :: "'w env \<Rightarrow> netref option \<Rightarrow> 'w net \<Rightarrow> (int, 'w) res" where
  "net_if_deinit E pnetif s = do {
     (ret, s) \<leftarrow> net_state_manage_event E pnetif NET_EVENT_CMD_DEINIT s;
     p \<leftarrow> pnetif;
     let s = upd_netif p (\<lambda>h. h\<lparr>h_state := NET_STATE_DEINITIALIZED\<rparr>) s;
     s \<leftarrow> (if ret = NET_OK then do {
            s \<leftarrow> netif_remove_from_list p s;
            Some (upd_netif p (\<lambda>h. h\<lparr>h_next := None\<rparr>) s) }
          else Some s);
     let s = (if NetInitialized s then (net_destroy_locks s)\<lparr>NetInitialized := False\<rparr> else s);
     Some (ret, s) }"

section \<open>Commands\<close>

definition net_if_start :: "'w env \<Rightarrow> netref option \<Rightarrow> 'w net \<Rightarrow> (int, 'w) res" where
  "net_if_start E pnetif = net_state_manage_event E pnetif NET_EVENT_CMD_START"

definition net_if_stop :: "'w env \<Rightarrow> netref option \<Rightarrow> 'w net \<Rightarrow> (int, 'w) res" where
  "net_if_stop E pnetif = net_state_manage_event E pnetif NET_EVENT_CMD_STOP"

definition net_if_connect :: "'w env \<Rightarrow> netref option \<Rightarrow> 'w net \<Rightarrow> (int, 'w) res" where
  "net_if_connect E pnetif = net_state_manage_event E pnetif NET_EVENT_CMD_CONNECT"

definition net_if_disconnect :: "'w env \<Rightarrow> netref option \<Rightarrow> 'w net \<Rightarrow> (int, 'w) res" where
  "net_if_disconnect E pnetif = net_state_manage_event E pnetif NET_EVENT_CMD_DISCONNECT"

definition net_if_getState :: "netref option \<Rightarrow> 'w net \<Rightarrow> (int \<times> net_state, 'w) res" where
  "net_if_getState pnetif s = do {
     (p_netif, s) \<leftarrow> netif_check pnetif s;
     (case p_netif of
        None \<Rightarrow> Some ((NET_ERROR_PARAMETER, NET_STATE_DEINITIALIZED), s)
      | Some p \<Rightarrow> Some ((NET_OK, h_state (Netifs s p)), s)) }"

definition net_if_yield :: "'w env \<Rightarrow> netref option \<Rightarrow> u32 \<Rightarrow> 'w net \<Rightarrow> (int, 'w) res" where
  "net_if_yield E pnetif timeout s = do {
     (p_netif, s) \<leftarrow> netif_check pnetif s;
     (case p_netif of
        None \<Rightarrow> Some (NET_ERROR_PARAMETER, s)
      | Some p \<Rightarrow> do {
          ((_, state), s) \<leftarrow> net_if_getState (Some p) s;
          (if state = NET_STATE_CONNECTED then do {
             d \<leftarrow> drv_of E p s;
             (ret, s) \<leftarrow> (case if_yield d of None \<Rightarrow> Some (NET_OK, s) | Some f \<Rightarrow> f p timeout s);
             Some (if ret \<noteq> NET_OK then NET_ERROR_STATE_TRANSITION else ret, s) }
           else Some (NET_ERROR_INVALID_STATE_TRANSITION, s)) }) }"

definition net_if_atcmd ::
  "'w env \<Rightarrow> netref option \<Rightarrow> string \<Rightarrow> string \<Rightarrow> 'w net \<Rightarrow> (int \<times> string, 'w) res" where
  "net_if_atcmd E pnetif cmd resp s = do {
     (p_netif, s) \<leftarrow> netif_check pnetif s;
     (case p_netif of
        None \<Rightarrow> Some ((NET_ERROR_FRAMEWORK, resp), s)
      | Some p \<Rightarrow> do {
          d \<leftarrow> drv_of E p s;
          (case if_atcmd d of
             None \<Rightarrow> Some ((NET_ERROR_FRAMEWORK, resp), s)
           | Some f \<Rightarrow> f p cmd resp s) }) }"

definition net_if_powersave_enable :: "'w env \<Rightarrow> netref option \<Rightarrow> 'w net \<Rightarrow> (int, 'w) res" where
  "net_if_powersave_enable E pnetif s = do {
     (p_netif, s) \<leftarrow> netif_check pnetif s;
     (case p_netif of
        None \<Rightarrow> Some (NET_ERROR_PARAMETER, s)
      | Some p \<Rightarrow>
          (if h_state (Netifs s p) = NET_STATE_CONNECTED then call_if if_powersave_enable E p s
           else Some (NET_ERROR_INVALID_STATE_TRANSITION, s))) }"

section \<open>Get and set\<close>

text \<open>The out-parameter is passed with its old value (\<^term>\<open>None\<close> for a null pointer).\<close>

definition net_if_get_mac_address :: "netref option \<Rightarrow> bytes option \<Rightarrow> 'w net \<Rightarrow> (int \<times> bytes option, 'w) res" where
  "net_if_get_mac_address pnetif mac s = do {
     (p_netif, s) \<leftarrow> netif_check pnetif s;
     (case (p_netif, mac) of
        (Some p, Some _) \<Rightarrow>
          (if NET_STATE_DEINITIALIZED \<noteq> h_state (Netifs s p)
           then Some ((NET_OK, Some (h_macaddr (Netifs s p))), s)
           else Some ((NET_ERROR_INTERFACE_FAILURE, mac), s))
      | _ \<Rightarrow> Some ((NET_ERROR_PARAMETER, mac), s)) }"

definition net_if_get_ip_address :: "netref option \<Rightarrow> u32 option \<Rightarrow> 'w net \<Rightarrow> (int \<times> u32 option, 'w) res" where
  "net_if_get_ip_address pnetif ip s = do {
     (p_netif, s) \<leftarrow> netif_check pnetif s;
     (case (p_netif, ip) of
        (Some p, Some _) \<Rightarrow>
          (if h_state (Netifs s p) = NET_STATE_CONNECTED
           then Some ((NET_OK, Some (h_ipaddr (Netifs s p))), s)
           else Some ((NET_ERROR_INTERFACE_FAILURE, ip), s))
      | _ \<Rightarrow> Some ((NET_ERROR_PARAMETER, ip), s)) }"

definition net_if_gethostbyname ::
  "'w env \<Rightarrow> netref option \<Rightarrow> net_sockaddr \<Rightarrow> string \<Rightarrow> 'w net \<Rightarrow> (int \<times> net_sockaddr, 'w) res" where
  "net_if_gethostbyname E pnetif addr name s = do {
     (p_netif, s) \<leftarrow> netif_check pnetif s;
     (case p_netif of
        None \<Rightarrow> Some ((NET_ERROR_FRAMEWORK, addr), s)
      | Some p \<Rightarrow> do { d \<leftarrow> drv_of E p s; f \<leftarrow> pgethostbyname d; f p addr name s }) }"

definition net_if_ping ::
  "'w env \<Rightarrow> netref option \<Rightarrow> net_sockaddr \<Rightarrow> int \<Rightarrow> int \<Rightarrow> int list \<Rightarrow> 'w net \<Rightarrow> (int \<times> int list, 'w) res" where
  "net_if_ping E pnetif addr count delay response s = do {
     (p_netif, s) \<leftarrow> netif_check pnetif s;
     (case p_netif of
        None \<Rightarrow> Some ((NET_ERROR_FRAMEWORK, response), s)
      | Some p \<Rightarrow> do { d \<leftarrow> drv_of E p s; f \<leftarrow> pping d; f p addr count delay response s }) }"

definition net_if_set_dhcp_mode :: "netref option \<Rightarrow> bool \<Rightarrow> 'w net \<Rightarrow> (int, 'w) res" where
  "net_if_set_dhcp_mode pnetif mode s = do {
     (p_netif, s) \<leftarrow> netif_check pnetif s;
     (case p_netif of
        None \<Rightarrow> Some (NET_ERROR_FRAMEWORK, s)
      | Some p \<Rightarrow> Some (NET_OK, upd_netif p (\<lambda>h. h\<lparr>h_dhcp_mode := mode\<rparr>) s)) }"

definition net_if_set_dhcp_server_mode :: "netref option \<Rightarrow> bool \<Rightarrow> 'w net \<Rightarrow> (int, 'w) res" where
  "net_if_set_dhcp_server_mode pnetif mode s = do {
     (p_netif, s) \<leftarrow> netif_check pnetif s;
     (case p_netif of
        None \<Rightarrow> Some (NET_ERROR_FRAMEWORK, s)
      | Some p \<Rightarrow> Some (NET_OK, upd_netif p (\<lambda>h. h\<lparr>h_dhcp_server := mode\<rparr>) s)) }"

definition net_if_set_dhcp_version :: "netref option \<Rightarrow> dhcp_client_ver \<Rightarrow> 'w net \<Rightarrow> (int, 'w) res" where
  "net_if_set_dhcp_version pnetif version s = do {
     (p_netif, s) \<leftarrow> netif_check pnetif s;
     (case p_netif of
        None \<Rightarrow> Some (NET_ERROR_FRAMEWORK, s)
      | Some p \<Rightarrow> Some (NET_OK, upd_netif p (\<lambda>h. h\<lparr>h_dhcp_version := version\<rparr>) s)) }"

definition net_if_set_ipaddr :: "netref option \<Rightarrow> u32 \<Rightarrow> u32 \<Rightarrow> u32 \<Rightarrow> 'w net \<Rightarrow> (int, 'w) res" where
  "net_if_set_ipaddr pnetif ipaddr gateway netmask s = do {
     (p_netif, s) \<leftarrow> netif_check pnetif s;
     (case p_netif of
        None \<Rightarrow> Some (NET_ERROR_FRAMEWORK, s)
      | Some p \<Rightarrow> Some (NET_OK, upd_netif p (\<lambda>h. h\<lparr>h_static_ipaddr := ipaddr,
            h_static_gateway := gateway, h_static_netmask := netmask\<rparr>) s)) }"

section \<open>Facts the properties share\<close>

lemma registered_upd_link:
  "registered s ps \<Longrightarrow> (\<And>h. h_next (f h) = h_next h) \<Longrightarrow> registered (upd_netif p f s) ps"
  unfolding registered_def by (auto elim!: chain_cong)

lemma registered_upd_other:
  "registered s ps \<Longrightarrow> p \<notin> set ps \<Longrightarrow> registered (upd_netif p f s) ps"
  unfolding registered_def by (auto elim!: chain_cong)

lemma registered_frame [simp]:
  "registered (s\<lparr>NetInitialized := b\<rparr>) ps = registered s ps"
  "registered (s\<lparr>dev := w\<rparr>) ps = registered s ps"
  "registered (net_os_op e s) ps = registered s ps"
  by (simp_all add: registered_def)

lemma net_lock_creation_sel [simp]:
  "Netifs (net_init_locks s) = Netifs s" "Netifs (net_destroy_locks s) = Netifs s"
  "NetInitialized (net_init_locks s) = NetInitialized s"
  "NetInitialized (net_destroy_locks s) = NetInitialized s"
  "dev (net_init_locks s) = dev s" "dev (net_destroy_locks s) = dev s"
  "registered (net_init_locks s) ps = registered s ps"
  "registered (net_destroy_locks s) ps = registered s ps"
  "held (net_init_locks s) = lock_step (held s) Init_locks"
  "held (net_destroy_locks s) = lock_step (held s) Destroy_locks"
  by (simp_all add: net_init_locks_def net_destroy_locks_def net_tls_init_def net_tls_destroy_def)

text \<open>\<open>NetInitialized\<close> says whether the semaphores exist; between calls none is held.\<close>

definition locks_match :: "'w net \<Rightarrow> bool" where
  "locks_match s \<longleftrightarrow> held s = (if NetInitialized s then Locks {} else No_locks)"

lemma links_onlyD:
  assumes "links_only s s'"
  shows "h_state (Netifs s' q) = h_state (Netifs s q)" "h_pdrv (Netifs s' q) = h_pdrv (Netifs s q)"
    "h_event_handler (Netifs s' q) = h_event_handler (Netifs s q)"
    "NetInitialized s' = NetInitialized s" "dev s' = dev s" "Sockets s' = Sockets s"
    "TlsHeap s' = TlsHeap s" "Drivers s' = Drivers s"
proof -
  obtain n where "Netifs s' q = (Netifs s q)\<lparr>h_next := n\<rparr>"
    using assms unfolding links_only_def by blast
  then show "h_state (Netifs s' q) = h_state (Netifs s q)" "h_pdrv (Netifs s' q) = h_pdrv (Netifs s q)"
    "h_event_handler (Netifs s' q) = h_event_handler (Netifs s q)"
    by simp_all
qed (use assms in \<open>simp_all add: links_only_def\<close>)

section \<open>Properties: waiting\<close>

lemma HAL_GetTick_eq: "HAL_GetTick E s = (fst (env_tick E (dev s)), s\<lparr>dev := snd (env_tick E (dev s))\<rparr>)"
  by (simp add: HAL_GetTick_def split_def Let_def)

definition wait_result :: "'w env \<Rightarrow> netref \<Rightarrow> net_state \<Rightarrow> u32 \<Rightarrow> int \<Rightarrow> 'w net \<Rightarrow> bool" where
  "wait_result E p st deadline r s' \<longleftrightarrow>
     (r = NET_OK \<and> h_state (Netifs s' p) = st)
     \<or> (r = NET_TIMEOUT \<and> h_state (Netifs s' p) \<noteq> st
        \<and> (\<exists>w. dev s' = snd (env_tick E w) \<and> deadline \<le> fst (env_tick E w)))"

lemma wait_state_loop_result:
  assumes "wait_state_loop E p st start timeout s = Some (r, s')"
  shows "wait_result E p st (start + timeout) r s'"
proof -
  have "case (r, s') of (r, s') \<Rightarrow> wait_result E p st (start + timeout) r s'"
  proof (rule wait_state_loop.raw_induct
      [where P = "\<lambda>E p st start timeout s x. case x of (r, s') \<Rightarrow> wait_result E p st (start + timeout) r s'",
        OF _ assms])
    fix f :: "'a env \<Rightarrow> netref \<Rightarrow> net_state \<Rightarrow> u32 \<Rightarrow> u32 \<Rightarrow> 'a net \<Rightarrow> (int \<times> 'a net) option"
      and E p st start timeout s x
    assume IH: "\<And>E p st start timeout s x. f E p st start timeout s = Some x \<Longrightarrow>
        case x of (r, s') \<Rightarrow> wait_result E p st (start + timeout) r s'"
      and eq: "(if h_state (Netifs s p) = st then Some (NET_OK, s)
       else let (now, s) = HAL_GetTick E s
            in if start + timeout \<le> now then Some (NET_TIMEOUT, s)
               else let (now, s) = HAL_GetTick E s
                    in f E p st start timeout (WAIT_STATE_CHANGE E (timeout - (now - start)) s)) = Some x"
    show "case x of (r, s') \<Rightarrow> wait_result E p st (start + timeout) r s'"
      using eq by (auto simp: HAL_GetTick_eq wait_result_def Let_def split: if_splits dest!: IH)
  qed
  then show ?thesis by simp
qed

text \<open>
  \<open>net_if_wait_state\<close> is sound: it answers \<open>NET_OK\<close> only with the interface in the state waited for,
  and \<open>NET_TIMEOUT\<close> only in another state, after a clock reading at or past the start reading plus the
  timeout.
\<close>

theorem wait_state_sound:
  assumes "net_if_wait_state E p st timeout s = Some (r, s')"
  shows "(r = NET_OK \<and> h_state (Netifs s' p) = st)
     \<or> (r = NET_TIMEOUT \<and> h_state (Netifs s' p) \<noteq> st
        \<and> (\<exists>w. dev s' = snd (env_tick E w) \<and> fst (env_tick E (dev s)) + timeout \<le> fst (env_tick E w)))"
  using wait_state_loop_result [of E p st "fst (env_tick E (dev s))" timeout _ r s'] assms
  by (simp add: wait_result_def net_if_wait_state_def HAL_GetTick_eq)

theorem wait_state_sound_witness:
  "\<exists>s'. net_if_wait_state demo_env 1 NET_STATE_READY 2 (demo_net NET_STATE_STARTING) = Some (NET_TIMEOUT, s')
     \<and> h_state (Netifs s' 1) \<noteq> NET_STATE_READY"
proof -
  have "\<exists>s'. net_if_wait_state demo_env 1 NET_STATE_READY 2 (demo_net NET_STATE_STARTING) = Some (NET_TIMEOUT, s')"
    by (simp add: net_if_wait_state_def HAL_GetTick_eq demo_defs wait_state_loop.simps
        WAIT_STATE_CHANGE_def)
  then obtain s' where "net_if_wait_state demo_env 1 NET_STATE_READY 2 (demo_net NET_STATE_STARTING)
      = Some (NET_TIMEOUT, s')" by blast
  with wait_state_sound [OF this] show ?thesis by auto
qed


text \<open>
  The remaining time is computed from a second reading of the clock. When the deadline passes between the two
  readings it underflows.
\<close>

definition NET_OS_WAIT_FOREVER :: u32 where
  "NET_OS_WAIT_FOREVER = 0xffffffff"

text \<open>
  C38. If in a round of \<open>net_if_wait_state\<close> the deadline lies after the first reading of the clock and \<open>k\<close>
  milliseconds before the second, the call does not time out: it waits for the state-change semaphore with a limit
  of \<open>2\<^sup>3\<^sup>2 - k\<close> milliseconds, which for one millisecond is \<open>NET_OS_WAIT_FOREVER\<close>, and looks at the state and the clock
  again only after that.
\<close>

theorem late_reading_waits_for_ever:
  assumes "h_state (Netifs s p) \<noteq> st"
    and "env_tick E (dev s) = (now, w)" and "now < start + timeout"
    and "env_tick E w = (start + timeout + k, w')" and "0 < k"
  shows "wait_state_loop E p st start timeout s =
       wait_state_loop E p st start timeout (WAIT_STATE_CHANGE E (- k) (s\<lparr>dev := w'\<rparr>))
     \<and> unat (- k) = 2 ^ 32 - unat k \<and> (k = 1 \<longrightarrow> - k = NET_OS_WAIT_FOREVER)"
proof (intro conjI impI)
  show "wait_state_loop E p st start timeout s =
       wait_state_loop E p st start timeout (WAIT_STATE_CHANGE E (- k) (s\<lparr>dev := w'\<rparr>))"
    using assms(1,2,4) assms(3) [folded not_le] wait_state_loop.simps [of E p st start timeout s]
    by (simp add: HAL_GetTick_def)
  have "0 < unat k" "unat k < 2 ^ 32"
    using assms(5) unat_u32 [of k] by (simp_all add: word_less_nat_alt)
  have "of_nat (2 ^ 32 - unat k) = of_nat (2 ^ 32) - (of_nat (unat k) :: u32)"
    using \<open>unat k < 2 ^ 32\<close> by (intro of_nat_diff less_imp_le)
  then have "of_nat (2 ^ 32 - unat k) = - k"
    by simp
  then show "unat (- k) = 2 ^ 32 - unat k"
    using unat_of_nat_u32 [of "2 ^ 32 - unat k"] \<open>0 < unat k\<close> by simp
  show "- k = NET_OS_WAIT_FOREVER" if "k = 1"
    using that by (simp add: NET_OS_WAIT_FOREVER_def)
qed

text \<open>A clock that moves by two at each reading.\<close>

definition fast_clock :: "nat env" where
  "fast_clock = demo_env\<lparr>env_tick := (\<lambda>w. (of_nat w, w + 2))\<rparr>"

theorem late_reading_waits_for_ever_witness:
  "wait_state_loop fast_clock 1 NET_STATE_READY 100 3 ((demo_net NET_STATE_STARTING)\<lparr>dev := 102\<rparr>)
   = wait_state_loop fast_clock 1 NET_STATE_READY 100 3
       (WAIT_STATE_CHANGE fast_clock NET_OS_WAIT_FOREVER ((demo_net NET_STATE_STARTING)\<lparr>dev := 106\<rparr>))"
proof -
  let ?s = "(demo_net NET_STATE_STARTING)\<lparr>dev := 102\<rparr>"
  have "h_state (Netifs ?s 1) \<noteq> NET_STATE_READY" by (simp add: demo_net_def demo_netif_def)
  moreover have "env_tick fast_clock (dev ?s) = (102, 104)" "env_tick fast_clock 104 = (100 + 3 + 1, 106)"
    by (simp_all add: fast_clock_def)
  ultimately show ?thesis
    using late_reading_waits_for_ever [of ?s 1 NET_STATE_READY fast_clock 102 104 100 3 1 106] by simp
qed

text \<open>
  A clock that does not jump: reading the tick moves it by at most one, and a wait takes at least one tick and at
  most the time asked for (one tick if that is zero). This says more than the RTOS promises: the semaphore is created
  with a count, so a wait may return at once, and another task may run between two readings.
\<close>

definition fair_clock :: "'w env \<Rightarrow> ('w \<Rightarrow> nat) \<Rightarrow> bool" where
  "fair_clock E clk \<longleftrightarrow>
     (\<forall>w. fst (env_tick E w) = of_nat (clk w) \<and> clk w \<le> clk (snd (env_tick E w))
          \<and> clk (snd (env_tick E w)) \<le> Suc (clk w))
     \<and> (\<forall>to s. clk (dev s) < clk (dev (env_wait E to s))
          \<and> clk (dev (env_wait E to s)) \<le> clk (dev s) + max 1 (unat to))"

lemma dev_WAIT_STATE_CHANGE: "\<exists>t. WAIT_STATE_CHANGE E to s = env_wait E to t \<and> dev t = dev s"
  by (auto simp: WAIT_STATE_CHANGE_def intro: exI [of _ "net_os_op Wait_state_change s"])

lemma wait_state_loop_terminates:
  assumes clock: "fair_clock E clk" and bound: "c0 + unat timeout + 2 < 2 ^ 32"
    and "c0 \<le> clk (dev s)" and "clk (dev s) \<le> c0 + unat timeout + 2"
  shows "\<exists>r s'. wait_state_loop E p st (of_nat c0) timeout s = Some (r, s')"
  using assms(3,4)
proof (induction "c0 + unat timeout + 3 - clk (dev s)" arbitrary: s rule: less_induct)
  case less
  let ?D = "c0 + unat timeout"
  let ?c = "clk (dev s)"
  let ?s1 = "s\<lparr>dev := snd (env_tick E (dev s))\<rparr>"
  let ?s2 = "?s1\<lparr>dev := snd (env_tick E (dev ?s1))\<rparr>"
  have tick: "fst (env_tick E w) = of_nat (clk w)" "clk w \<le> clk (snd (env_tick E w))"
      "clk (snd (env_tick E w)) \<le> Suc (clk w)" for w
    using clock by (auto simp: fair_clock_def)
  have cmp: "(of_nat c0 + timeout \<le> (of_nat ?c :: u32)) \<longleftrightarrow> ?D \<le> ?c"
    using of_nat_le_u32 [of ?D ?c] bound less.prems by simp
  show ?case
  proof (cases "h_state (Netifs s p) = st \<or> ?D \<le> ?c")
    case True
    then show ?thesis
      using cmp by (auto simp: wait_state_loop.simps [of E p st _ _ s] HAL_GetTick_eq tick)
  next
    case False
    let ?c1 = "clk (dev ?s1)"
    let ?to = "timeout - (of_nat ?c1 - of_nat c0)"
    have c1: "c0 \<le> ?c1" "?c1 \<le> ?D" using less.prems False tick(2,3) [of "dev s"] by auto
    have "?to = of_nat (?D - ?c1)" using c1 by (simp add: of_nat_diff)
    then have to: "unat ?to = ?D - ?c1" using bound by (simp add: unat_of_nat_u32)
    obtain t where t: "WAIT_STATE_CHANGE E ?to ?s2 = env_wait E ?to t" "dev t = dev ?s2"
      using dev_WAIT_STATE_CHANGE by blast
    let ?s3 = "WAIT_STATE_CHANGE E ?to ?s2"
    have "clk (dev u) < clk (dev (env_wait E x u))
        \<and> clk (dev (env_wait E x u)) \<le> clk (dev u) + max 1 (unat x)" for u x
      using clock by (simp add: fair_clock_def)
    from this [of t ?to] have "clk (dev ?s2) < clk (dev ?s3)"
        "clk (dev ?s3) \<le> clk (dev ?s2) + max 1 (?D - ?c1)"
      unfolding t(1) [symmetric] t(2) to by blast+
    moreover have "?c1 \<le> clk (dev ?s2)" "clk (dev ?s2) \<le> Suc ?c1"
      using tick(2,3) [of "dev ?s1"] by auto
    ultimately have c3: "?c < clk (dev ?s3)" "clk (dev ?s3) \<le> ?D + 2"
      using c1 tick(2) [of "dev s"] by auto
    then have "\<exists>r s'. wait_state_loop E p st (of_nat c0) timeout ?s3 = Some (r, s')"
      using less.hyps [of ?s3] less.prems by auto
    then show ?thesis
      using False cmp by (simp add: wait_state_loop.simps [of E p st _ _ s] HAL_GetTick_eq tick)
  qed
qed

text \<open>
  Under such a clock \<open>net_if_wait_state\<close> returns, if the deadline does not pass the 32-bit end of the clock.
\<close>

theorem wait_state_returns:
  assumes "fair_clock E clk" and "clk (dev s) + unat timeout + 3 < 2 ^ 32"
  shows "\<exists>r s'. net_if_wait_state E p st timeout s = Some (r, s')"
proof -
  have "fst (env_tick E (dev s)) = of_nat (clk (dev s))"
    "clk (dev s) \<le> clk (snd (env_tick E (dev s)))" "clk (snd (env_tick E (dev s))) \<le> Suc (clk (dev s))"
    using assms(1) by (auto simp: fair_clock_def)
  then show ?thesis
    using wait_state_loop_terminates [OF assms(1), of "clk (dev s)" timeout
        "s\<lparr>dev := snd (env_tick E (dev s))\<rparr>" p st] assms(2)
    by (simp add: net_if_wait_state_def HAL_GetTick_eq)
qed

lemma demo_fair_clock: "fair_clock demo_env id"
  by (simp add: fair_clock_def demo_env_def)

theorem wait_state_returns_witness:
  "\<exists>r s'. net_if_wait_state demo_env 1 NET_STATE_READY 5000 (demo_net NET_STATE_STARTING) = Some (r, s')"
  by (rule wait_state_returns [OF demo_fair_clock]) (simp add: demo_defs)

text \<open>
  When the start reading plus the timeout wraps around, the deadline lies in the past: the call
  times out at the first check, before it has waited at all, however long the timeout is.
\<close>

theorem wait_state_wraps_to_immediate_timeout:
  assumes "h_state (Netifs s p) \<noteq> st"
    and "2 ^ 32 \<le> unat (fst (env_tick E (dev s))) + unat timeout"
    and "fst (env_tick E (dev s)) \<le> fst (env_tick E (snd (env_tick E (dev s))))"
  shows "\<exists>s'. net_if_wait_state E p st timeout s = Some (NET_TIMEOUT, s') \<and> oslog s' = oslog s"
proof -
  let ?a = "fst (env_tick E (dev s))"
  have small: "unat ?a < 2 ^ 32" "unat timeout < 2 ^ 32"
    using unat_u32 [of ?a] unat_u32 [of timeout] by simp_all
  have "unat (?a + timeout) = (unat ?a + unat timeout) mod 2 ^ 32"
    by (simp add: unat_word_ariths)
  also have "\<dots> = unat ?a + unat timeout - 2 ^ 32"
    using assms(2) small by (simp only: le_mod_geq) (rule mod_less, linarith)
  finally have "?a + timeout \<le> ?a"
    using small by (simp only: word_le_nat_alt)
  then have "?a + timeout \<le> fst (env_tick E (snd (env_tick E (dev s))))"
    using assms(3) by (rule order_trans)
  then show ?thesis
    using assms(1)
    by (simp add: net_if_wait_state_def HAL_GetTick_eq
        wait_state_loop.simps [of E p st _ _ "s\<lparr>dev := snd (env_tick E (dev s))\<rparr>"])
qed

theorem wait_state_wraps_to_immediate_timeout_witness:
  "\<exists>s'. net_if_wait_state demo_env 1 NET_STATE_READY 10000
        ((demo_net NET_STATE_STARTING)\<lparr>dev := 4294960000\<rparr>) = Some (NET_TIMEOUT, s')
     \<and> oslog s' = [Tls_init, Init_locks]"
  using wait_state_wraps_to_immediate_timeout [of "(demo_net NET_STATE_STARTING)\<lparr>dev := 4294960000\<rparr>" 1
      NET_STATE_READY demo_env 10000]
  by (simp add: demo_defs)

section \<open>Properties: initialisation\<close>

text \<open>A driver initialisation function that returns and keeps the driver contract.\<close>

definition init_driver_ok :: "(netref \<Rightarrow> 'w net \<Rightarrow> (int, 'w) res) \<Rightarrow> netref \<Rightarrow> bool" where
  "init_driver_ok driver_init p \<longleftrightarrow> (\<forall>t. \<exists>r t'. driver_init p t = Some (r, t') \<and> driver_ok p t t')"

lemma init_locked:
  assumes "locks_match s"
  shows "held (if \<not> NetInitialized s then (net_init_locks s)\<lparr>NetInitialized := True\<rparr> else s) = Locks {}"
  using assms by (simp add: locks_match_def)

lemma init_registered:
  assumes reg: "registered s ps" "p \<notin> set ps" "h_next (Netifs s p) = None" and held: "held s = Locks {}"
    and drv: "init_driver_ok driver_init p"
  obtains t r u where
    "netif_add_to_list p (upd_netif p (\<lambda>h. h\<lparr>h_state := NET_STATE_INITIALIZED\<rparr>)
        (upd_netif p (\<lambda>h. h\<lparr>h_event_handler := eh\<rparr>) s)) = Some t"
    "driver_init p t = Some (r, u)" "registered t (ps @ [p])" "h_state (Netifs t p) = NET_STATE_INITIALIZED"
    "h_event_handler (Netifs t p) = eh" "held t = Locks {}" "NetInitialized t = NetInitialized s"
    "registered u (ps @ [p])" "held u = Locks {}"
    "h_state (Netifs u p) = NET_STATE_INITIALIZED" "NetInitialized u = NetInitialized s"
proof -
  let ?s = "upd_netif p (\<lambda>h. h\<lparr>h_state := NET_STATE_INITIALIZED\<rparr>)
        (upd_netif p (\<lambda>h. h\<lparr>h_event_handler := eh\<rparr>) s)"
  have "registered ?s ps" using reg by (intro registered_upd_other)
  then obtain t where t: "netif_add_to_list p ?s = Some t" "registered t (ps @ [p])"
    using iflist.add_members [of ?s ps p] reg by auto
  from drv obtain r u where u: "driver_init p t = Some (r, u)" "driver_ok p t u"
    unfolding init_driver_ok_def by blast
  have t': "h_state (Netifs t p) = NET_STATE_INITIALIZED" "NetInitialized t = NetInitialized s"
      "h_event_handler (Netifs t p) = eh"
    using links_onlyD(1,3,4) [OF netif_add_links [OF t(1)]] by simp_all
  moreover have held_t: "held t = Locks {}"
    using held_add_remove(1) [OF _ _ t(1)] held by simp
  ultimately have "registered u (ps @ [p])" "held u = Locks {}"
      "h_state (Netifs u p) = NET_STATE_INITIALIZED" "NetInitialized u = NetInitialized s"
    using u(2) t(2) stuck_without_event
    by (auto simp: driver_ok_def only_netif_def intro: only_netif_registered [of p t u] dest: stuck_without_event)
  with t t' held_t u(1) that show thesis by blast
qed

text \<open>What \<open>net_if_init\<close> does, by the answer of the driver.\<close>

definition init_follows_driver ::
  "(netref \<Rightarrow> 'w net \<Rightarrow> (int, 'w) res) \<Rightarrow> netref \<Rightarrow> netref list \<Rightarrow> handlerref option \<Rightarrow> 'w net \<Rightarrow> int \<Rightarrow> 'w net \<Rightarrow> bool"
where
  "init_follows_driver driver_init p ps eh t r s' \<longleftrightarrow>
     registered t (ps @ [p]) \<and> h_state (Netifs t p) = NET_STATE_INITIALIZED \<and> h_event_handler (Netifs t p) = eh
     \<and> NetInitialized t \<and> held t = Locks {}
     \<and> (\<exists>answer u. driver_init p t = Some (answer, u) \<and>
         (if answer = NET_OK
          then r = NET_OK \<and> s' = u \<and> registered s' (ps @ [p])
            \<and> h_state (Netifs s' p) = NET_STATE_INITIALIZED \<and> NetInitialized s' \<and> held s' = Locks {}
          else r = NET_ERROR_INTERFACE_FAILURE \<and> registered s' ps \<and> dev s' = dev u
            \<and> h_state (Netifs s' p) = NET_STATE_DEINITIALIZED \<and> \<not> NetInitialized s' \<and> held s' = No_locks))"

lemma net_if_init_follows:
  assumes "registered s ps" and "p \<notin> set ps" and "h_next (Netifs s p) = None" and "locks_match s"
    and "init_driver_ok driver_init p"
  shows "\<exists>t r s'. net_if_init (Some p) driver_init eh s = Some (r, s')
     \<and> init_follows_driver driver_init p ps eh t r s'"
proof -
  let ?s = "if \<not> NetInitialized s then (net_init_locks s)\<lparr>NetInitialized := True\<rparr> else s"
  have pre: "registered ?s ps" "h_next (Netifs ?s p) = None" "held ?s = Locks {}" "NetInitialized ?s"
    using assms init_locked [OF assms(4)] by simp_all
  obtain t r u where tu: "netif_add_to_list p (upd_netif p (\<lambda>h. h\<lparr>h_state := NET_STATE_INITIALIZED\<rparr>)
        (upd_netif p (\<lambda>h. h\<lparr>h_event_handler := eh\<rparr>) ?s)) = Some t" "driver_init p t = Some (r, u)"
      and t: "registered t (ps @ [p])" "h_state (Netifs t p) = NET_STATE_INITIALIZED"
        "h_event_handler (Netifs t p) = eh" "held t = Locks {}" "NetInitialized t = NetInitialized ?s"
      and u: "registered u (ps @ [p])" "held u = Locks {}"
        "h_state (Netifs u p) = NET_STATE_INITIALIZED" "NetInitialized u = NetInitialized ?s"
    by (rule init_registered [OF pre(1) assms(2) pre(2,3) assms(5)])
  show ?thesis
  proof (cases "r = NET_OK")
    case True
    then show ?thesis
      using tu t u pre by (intro exI [of _ t]) (simp add: net_if_init_def Let_def init_follows_driver_def)
  next
    case False
    let ?v = "upd_netif p (\<lambda>h. h\<lparr>h_state := NET_STATE_DEINITIALIZED\<rparr>) u"
    have "registered ?v (ps @ [p])" using u(1) by (rule registered_upd_link) simp
    then obtain w where w: "netif_remove_from_list p ?v = Some w" "registered w ps"
      using iflist.remove_members [of ?v "ps @ [p]" p] assms(2) by (auto simp: remove1_append)
    moreover have "h_state (Netifs w p) = NET_STATE_DEINITIALIZED" "held w = Locks {}" "dev w = dev u"
      using links_onlyD(1,5) [OF netif_remove_links [OF w(1)]] held_add_remove(2) [OF _ _ w(1)] u(2)
      by simp_all
    ultimately show ?thesis
      using False tu t pre by (intro exI [of _ t]) (simp add: net_if_init_def Let_def init_follows_driver_def)
  qed
qed

text \<open>
  C35. Initialising an interface that is not registered, with a driver initialisation that returns and keeps the
  driver contract, returns: the driver is called with the interface registered last, in state INITIALIZED, its event
  handler set and the locks existing and free. If it answers \<open>NET_OK\<close> this is how it stays; if it refuses,
  the interface is taken off the list again and left DEINITIALIZED, the locks are destroyed and the error is
  \<open>NET_ERROR_INTERFACE_FAILURE\<close>.
\<close>

theorem init_outcome:
  assumes "registered s ps" and "p \<notin> set ps" and "h_next (Netifs s p) = None" and "locks_match s"
    and "init_driver_ok driver_init p"
  shows "\<exists>t r s'. net_if_init (Some p) driver_init eh s = Some (r, s')
     \<and> init_follows_driver driver_init p ps eh t r s'"
  using assms by (rule net_if_init_follows)

lemma demo_registered: "registered (demo_net st) [1]"
  by (simp add: registered_def demo_defs)

lemma demo_locks_match: "locks_match (demo_net st)"
  unfolding locks_match_def demo_held by (simp add: demo_net_def)

theorem init_outcome_witness:
  "\<exists>r s'. net_if_init (Some 2) (\<lambda>_ s. Some (NET_OK, s)) (Some 5) (demo_net NET_STATE_READY) = Some (r, s')
     \<and> r = NET_OK \<and> registered s' [1, 2] \<and> h_state (Netifs s' 2) = NET_STATE_INITIALIZED"
proof -
  have "init_driver_ok (\<lambda>_ s. Some (NET_OK, s)) 2"
    by (simp add: init_driver_ok_def)
  from init_outcome [OF demo_registered _ _ demo_locks_match this, of NET_STATE_READY "Some 5"]
  show ?thesis by (fastforce simp: demo_defs init_follows_driver_def)
qed

text \<open>
  C39. If a further interface fails to initialise while others are registered, the locks all of them
  share are destroyed: the others stay on the list, but the next lock operation of any socket or list
  function is an error.
\<close>

theorem failed_init_destroys_shared_locks:
  assumes "registered s ps" and "p \<notin> set ps" and "h_next (Netifs s p) = None" and "locks_match s"
    and "init_driver_ok driver_init p"
    and "net_if_init (Some p) driver_init eh s = Some (r, s')" and "r \<noteq> NET_OK"
  shows "registered s' ps \<and> held s' = No_locks \<and> held (LOCK_SOCK i s') = Lock_error
     \<and> held (LOCK_SOCK_ARRAY s') = Lock_error \<and> held (LOCK_NETIF_LIST s') = Lock_error"
proof -
  have "registered s' ps" "held s' = No_locks"
    using net_if_init_follows [OF assms(1-5), of eh] assms(6,7)
    by (auto simp: init_follows_driver_def split: if_splits)
  then show ?thesis by (simp add: lock_op_defs)
qed

theorem failed_init_destroys_shared_locks_witness:
  "\<exists>s'. net_if_init (Some 2) (\<lambda>_ s. Some (-3, s)) None (demo_net NET_STATE_CONNECTED)
       = Some (NET_ERROR_INTERFACE_FAILURE, s')
     \<and> registered s' [1] \<and> held (LOCK_SOCK 0 s') = Lock_error"
proof -
  let ?s = "demo_net NET_STATE_CONNECTED"
  have ok: "init_driver_ok (\<lambda>_ s. Some (-3, s)) 2"
    by (simp add: init_driver_ok_def)
  have clear: "h_next (Netifs ?s 2) = None" "2 \<notin> set [1::nat]" by (simp_all add: demo_defs)
  have "\<exists>s'. net_if_init (Some 2) (\<lambda>_ s. Some (-3, s)) None ?s = Some (NET_ERROR_INTERFACE_FAILURE, s')"
    by (simp add: net_if_init_def netif_add_to_list_def netif_remove_from_list_def lock_op_defs
        demo_defs walk_steps Let_def)
  then obtain s' where
    s': "net_if_init (Some 2) (\<lambda>_ s. Some (-3, s)) None ?s = Some (NET_ERROR_INTERFACE_FAILURE, s')"
    by blast
  from failed_init_destroys_shared_locks [OF demo_registered clear(2,1) demo_locks_match ok s'] s'
  show ?thesis by auto
qed

section \<open>Properties: de-initialisation\<close>

lemma deinit_unlink:
  assumes "registered s ps" and "p \<in> set ps" and "locks_match s"
  obtains t where "netif_remove_from_list p (upd_netif p (\<lambda>h. h\<lparr>h_state := st\<rparr>) s) = Some t"
    and "registered (upd_netif p (\<lambda>h. h\<lparr>h_next := None\<rparr>) t) (remove1 p ps)"
    and "links_only (upd_netif p (\<lambda>h. h\<lparr>h_state := st\<rparr>) s) t" and "NetInitialized s \<Longrightarrow> held t = Locks {}"
proof -
  let ?s = "upd_netif p (\<lambda>h. h\<lparr>h_state := st\<rparr>) s"
  have "registered ?s ps" using assms(1) by (rule registered_upd_link) simp
  then obtain t where t: "netif_remove_from_list p ?s = Some t" "registered t (remove1 p ps)"
    using iflist.remove_members [of ?s ps p] assms(2) by fastforce
  moreover have "registered (upd_netif p (\<lambda>h. h\<lparr>h_next := None\<rparr>) t) (remove1 p ps)"
    using t(2) assms(1) by (intro registered_upd_other) (auto simp: registered_def)
  moreover have "NetInitialized s \<Longrightarrow> held t = Locks {}"
    using held_add_remove(2) [OF _ _ t(1)] assms(3) by (simp add: locks_match_def)
  ultimately show thesis using that netif_remove_links by blast
qed



lemma deinit_without_locks:
  assumes "registered s ps" and "p \<in> set ps" and "held s = No_locks" and "\<not> NetInitialized s"
    and "h_state (Netifs s p) \<notin> {NET_STATE_INITIALIZED, NET_STATE_DEINITIALIZED}"
  shows "\<exists>s'. net_if_deinit E (Some p) s = Some (NET_OK, s') \<and> held s' = Lock_error"
proof -
  let ?s = "upd_netif p (\<lambda>h. h\<lparr>h_state := NET_STATE_DEINITIALIZED\<rparr>) s"
  have "registered ?s ps" using assms(1) by (rule registered_upd_link) simp
  then obtain t where t: "netif_remove_from_list p ?s = Some t"
    using iflist.remove_members [of ?s ps p] assms(2) by fastforce
  then have "held t = Lock_error" using assms(3)
    by (auto simp: netif_remove_from_list_def lock_op_defs Let_def bind_Some_iff split: if_splits)
  moreover have "net_state_manage_event E (Some p) NET_EVENT_CMD_DEINIT s = Some (NET_OK, s)"
    using assms(5) by (intro manage_event_ignored; cases "h_state (Netifs s p)") auto
  ultimately show ?thesis
    using t links_onlyD(4) [OF netif_remove_links [OF t]] assms(4)
    by (simp add: net_if_deinit_def Let_def)
qed

text \<open>
  With two interfaces up, de-initialising both goes wrong: the first call destroys the shared locks,
  so the second one uses a lock that no longer exists, although it too would report success.
\<close>

theorem second_deinit_uses_destroyed_locks:
  assumes "registered s ps" and "p \<in> set ps" and "q \<in> set ps" and "q \<noteq> p" and "locks_match s"
    and "NetInitialized s"
    and "h_state (Netifs s p) \<notin> {NET_STATE_INITIALIZED, NET_STATE_DEINITIALIZED}"
    and "h_state (Netifs s q) \<notin> {NET_STATE_INITIALIZED, NET_STATE_DEINITIALIZED}"
  shows "\<exists>s1 s2. net_if_deinit E (Some p) s = Some (NET_OK, s1) \<and>
     net_if_deinit E (Some q) s1 = Some (NET_OK, s2) \<and> held s2 = Lock_error"
proof -
  obtain t where t: "netif_remove_from_list p (upd_netif p (\<lambda>h. h\<lparr>h_state := NET_STATE_DEINITIALIZED\<rparr>) s) = Some t"
      "registered (upd_netif p (\<lambda>h. h\<lparr>h_next := None\<rparr>) t) (remove1 p ps)"
      "links_only (upd_netif p (\<lambda>h. h\<lparr>h_state := NET_STATE_DEINITIALIZED\<rparr>) s) t"
      "NetInitialized s \<Longrightarrow> held t = Locks {}"
    using deinit_unlink [OF assms(1,2,5)] by blast
  let ?s1 = "(net_destroy_locks (upd_netif p (\<lambda>h. h\<lparr>h_next := None\<rparr>) t))\<lparr>NetInitialized := False\<rparr>"
  have "net_state_manage_event E (Some p) NET_EVENT_CMD_DEINIT s = Some (NET_OK, s)"
    using assms(7) by (intro manage_event_ignored; cases "h_state (Netifs s p)") auto
  then have 1: "net_if_deinit E (Some p) s = Some (NET_OK, ?s1)"
    using t links_onlyD(4) [OF t(3)] assms(6) by (simp add: net_if_deinit_def Let_def)
  have "registered ?s1 (remove1 p ps)" "held ?s1 = No_locks" "\<not> NetInitialized ?s1"
    "h_state (Netifs ?s1 q) = h_state (Netifs s q)"
    using t(2,4) assms(4,6) links_onlyD(1) [OF t(3), of q] by simp_all
  then show ?thesis
    using 1 deinit_without_locks [of ?s1 "remove1 p ps" q E] assms(3,4,8) by (simp add: in_set_remove1)
qed

theorem second_deinit_uses_destroyed_locks_witness:
  "\<exists>s1 s2. net_if_deinit demo_env (Some 1) ((demo_net NET_STATE_READY)
        \<lparr>Netifs := (\<lambda>_. demo_netif NET_STATE_READY)(1 := (demo_netif NET_STATE_READY)\<lparr>h_next := Some 2\<rparr>)\<rparr>)
       = Some (NET_OK, s1)
     \<and> net_if_deinit demo_env (Some 2) s1 = Some (NET_OK, s2) \<and> held s2 = Lock_error"
  by (rule second_deinit_uses_destroyed_locks [where ps = "[1, 2]"])
    (simp_all add: registered_def locks_match_def demo_defs held_after_def)

section \<open>Properties: the default interface\<close>

text \<open>
  A null handle means the interface registered first, in every function that accepts one; with no
  interface registered each of them reports its error and changes nothing but the lock log.
\<close>

theorem null_handle_is_default:
  "registered s ps \<Longrightarrow>
   (let s0 = UNLOCK_NETIF_LIST (LOCK_NETIF_LIST s) in
    case ps of
      [] \<Rightarrow>
        net_state_manage_event E None e s = Some (NET_ERROR_PARAMETER, s0)
        \<and> net_if_yield E None to s = Some (NET_ERROR_PARAMETER, s0)
        \<and> net_if_powersave_enable E None s = Some (NET_ERROR_PARAMETER, s0)
        \<and> net_if_getState None s = Some ((NET_ERROR_PARAMETER, NET_STATE_DEINITIALIZED), s0)
        \<and> net_if_get_ip_address None ip s = Some ((NET_ERROR_PARAMETER, ip), s0)
        \<and> net_if_get_mac_address None mac s = Some ((NET_ERROR_PARAMETER, mac), s0)
        \<and> net_if_set_dhcp_mode None b s = Some (NET_ERROR_FRAMEWORK, s0)
        \<and> net_if_set_ipaddr None x y z s = Some (NET_ERROR_FRAMEWORK, s0)
    | p # _ \<Rightarrow>
        net_state_manage_event E None e s = net_state_manage_event E (Some p) e s0
        \<and> net_if_yield E None to s = net_if_yield E (Some p) to s0
        \<and> net_if_powersave_enable E None s = net_if_powersave_enable E (Some p) s0
        \<and> net_if_getState None s = net_if_getState (Some p) s0
        \<and> net_if_get_ip_address None ip s = net_if_get_ip_address (Some p) ip s0
        \<and> net_if_get_mac_address None mac s = net_if_get_mac_address (Some p) mac s0
        \<and> net_if_set_dhcp_mode None b s = net_if_set_dhcp_mode (Some p) b s0
        \<and> net_if_set_ipaddr None x y z s = net_if_set_ipaddr (Some p) x y z s0)"
  using iflist.default_first [of s ps]
  by (cases ps)
    (simp_all add: net_state_manage_event_def net_if_yield_def net_if_powersave_enable_def
      net_if_getState_def net_if_get_ip_address_def net_if_get_mac_address_def
      net_if_set_dhcp_mode_def net_if_set_ipaddr_def Let_def)

theorem null_handle_is_default_witness:
  "net_if_getState None (demo_net NET_STATE_READY)
     = net_if_getState (Some 1) (UNLOCK_NETIF_LIST (LOCK_NETIF_LIST (demo_net NET_STATE_READY)))"
  using null_handle_is_default [OF demo_registered [of NET_STATE_READY]] by (simp add: Let_def)

end
