(* ===== verification/Net_Address.thy ===== *)
theory Net_Address
  imports Net_Types
begin

text \<open>
  \<open>core/net_address.c\<close> and the byte-order macros of \<open>Includes/net_address.h\<close> (IPv4, local address
  definitions): printing an address (\<open>net_ntoa_r\<close>, \<open>net_ntoa\<close>), parsing one (\<open>net_aton\<close>,
  \<open>net_aton_r\<close>) and the port accessors. The target is little-endian, so byte \<open>n\<close> of a \<open>uint32_t\<close> in
  memory is bits \<open>8 n\<close> to \<open>8 n + 7\<close>. A C string is the list of its characters before the terminating
  zero; a character buffer is a list of fixed length, and a write outside it is \<^term>\<open>None\<close>.
\<close>

section \<open>Byte order\<close>

definition NET_HTONL :: "u32 \<Rightarrow> u32" where
  "NET_HTONL A = drop_bit 24 (A AND 0xff000000) OR drop_bit 8 (A AND 0x00ff0000)
     OR push_bit 8 (A AND 0x0000ff00) OR push_bit 24 (A AND 0x000000ff)"

abbreviation (input) NET_NTOHL :: "u32 \<Rightarrow> u32" where "NET_NTOHL \<equiv> NET_HTONL"

definition NET_HTONS :: "u16 \<Rightarrow> u16" where
  "NET_HTONS A = drop_bit 8 (A AND 0xff00) OR push_bit 8 (A AND 0x00ff)"

abbreviation (input) NET_NTOHS :: "u16 \<Rightarrow> u16" where "NET_NTOHS \<equiv> NET_HTONS"

definition net_get_port :: "net_sockaddr \<Rightarrow> u16" where
  "net_get_port a = NET_NTOHS (sin_port a)"

definition net_set_port :: "net_sockaddr \<Rightarrow> u16 \<Rightarrow> net_sockaddr" where
  "net_set_port a port = a\<lparr>sin_port := NET_HTONS port\<rparr>"

lemma NET_HTONL_involution [simp]: "NET_HTONL (NET_HTONL x) = x"
  unfolding NET_HTONL_def by (rule u32_eqI) (simp add: bit_simps)

lemma NET_HTONS_involution [simp]: "NET_HTONS (NET_HTONS x) = x"
  unfolding NET_HTONS_def by (rule u16_eqI) (simp add: bit_simps)

section \<open>Printing\<close>

definition octet :: "u32 \<Rightarrow> nat \<Rightarrow> u32" where
  "octet a n = drop_bit (8 * n) a AND 0xff"

definition digit :: "nat \<Rightarrow> char" where
  "digit d = char_of (48 + d)"

text \<open>The \<open>do ... while (val != 0)\<close> loop: the characters of \<open>inv[0 .. i - 1]\<close>.\<close>

fun inv_digits :: "nat \<Rightarrow> string" where
  "inv_digits val = (let rem = val mod 10; val = val div 10 in
     digit rem # (if val \<noteq> 0 then inv_digits val else []))"

declare inv_digits.simps [simp del]

definition put_char :: "char \<Rightarrow> int \<Rightarrow> string \<times> nat \<Rightarrow> (string \<times> nat) option" where
  "put_char c buflen = (\<lambda>(buf, len).
     if int len < buflen
     then if len < length buf then Some (buf[len := c], Suc len) else None
     else Some (buf, len))"

fun put_chars :: "string \<Rightarrow> int \<Rightarrow> string \<times> nat \<Rightarrow> (string \<times> nat) option" where
  "put_chars [] buflen st = Some st"
| "put_chars (c # cs) buflen st = do { st \<leftarrow> put_char c buflen st; put_chars cs buflen st }"

definition ntoa_octet :: "u32 \<Rightarrow> int \<Rightarrow> nat \<Rightarrow> string \<times> nat \<Rightarrow> (string \<times> nat) option" where
  "ntoa_octet addr buflen n st = do {
     st \<leftarrow> put_chars (rev (inv_digits (unat (octet addr n)))) buflen st;
     (if n < 3 then put_char (CHR ''.'') buflen st else Some st) }"

text \<open>The result is whether the returned pointer is the buffer (not null), and the buffer.\<close>

definition net_ntoa_r :: "u32 \<Rightarrow> string \<Rightarrow> int \<Rightarrow> (bool \<times> string) option" where
  "net_ntoa_r addr buf buflen = do {
     st \<leftarrow> ntoa_octet addr buflen 0 (buf, 0);
     st \<leftarrow> ntoa_octet addr buflen 1 st;
     st \<leftarrow> ntoa_octet addr buflen 2 st;
     (buf, len) \<leftarrow> ntoa_octet addr buflen 3 st;
     (if int len < buflen
      then if len < length buf then Some (True, buf[len := CHR 0x00]) else None
      else Some (False, buf)) }"

definition net_ntoa :: "u32 \<Rightarrow> (bool \<times> string) option" where
  "net_ntoa addr = net_ntoa_r addr (replicate 16 (CHR 0x00)) 16"

section \<open>Parsing\<close>

definition code :: "char \<Rightarrow> nat" where
  "code c = of_char c"

definition NET_ISDIGIT :: "char \<Rightarrow> bool" where
  "NET_ISDIGIT c \<longleftrightarrow> 48 \<le> code c \<and> code c \<le> 57"
definition NET_ISXDIGIT :: "char \<Rightarrow> bool" where
  "NET_ISXDIGIT c \<longleftrightarrow> NET_ISDIGIT c \<or> 97 \<le> code c \<and> code c \<le> 102 \<or> 65 \<le> code c \<and> code c \<le> 70"
definition NET_ISLOWER :: "char \<Rightarrow> bool" where
  "NET_ISLOWER c \<longleftrightarrow> 97 \<le> code c \<and> code c \<le> 122"
definition NET_ISSPACE :: "char \<Rightarrow> bool" where
  "NET_ISSPACE c \<longleftrightarrow> code c \<in> {32, 12, 10, 13, 9, 11}"

text \<open>\<open>*cp\<close>: the character read at the end of the string is the terminating zero.\<close>

definition peek :: "string \<Rightarrow> char" where
  "peek s = (case s of [] \<Rightarrow> CHR 0x00 | c # _ \<Rightarrow> c)"

fun scan_number :: "u32 \<Rightarrow> u32 \<Rightarrow> string \<Rightarrow> u32 \<times> string" where
  "scan_number base val [] = (val, [])"
| "scan_number base val (c # cs) =
     (if NET_ISDIGIT c then scan_number base (val * base + of_nat (code c) - 48) cs
      else if base = 16 \<and> NET_ISXDIGIT c
        then scan_number base
          (push_bit 4 val OR (of_nat (code c) + 10 - (if NET_ISLOWER c then 97 else 65))) cs
      else (val, c # cs))"

definition scan_prefix :: "string \<Rightarrow> u32 \<times> string" where
  "scan_prefix s =
     (if peek s = CHR ''0''
      then if peek (tl s) = CHR ''x'' \<or> peek (tl s) = CHR ''X'' then (16, tl (tl s)) else (8, tl s)
      else (10, s))"

lemma scan_number_length: "length (snd (scan_number b v s)) \<le> length s"
  by (induction b v s rule: scan_number.induct) auto

lemma scan_prefix_length: "length (snd (scan_prefix s)) \<le> length s"
  by (auto simp: scan_prefix_def)

text \<open>
  The outer loop: \<open>ret\<close> (still 1), the last number, the numbers stored in \<open>parts\<close> and the rest of the
  string, when the loop stops.
\<close>

function aton_loop :: "u32 \<Rightarrow> u32 list \<Rightarrow> string \<Rightarrow> bool \<times> u32 \<times> u32 list \<times> string" where
  "aton_loop val parts s =
     (if \<not> NET_ISDIGIT (peek s) then (False, val, parts, s)
      else let (base, s) = scan_prefix s; (val, s) = scan_number base 0 s in
        if peek s = CHR ''.''
        then if length parts \<ge> 3 then (False, val, parts, s) else aton_loop val (parts @ [val]) (tl s)
        else (True, val, parts, s))"
  by pat_completeness auto
termination
proof (relation "measure (\<lambda>(val, parts, s). length s)")
  fix val parts s x base s1 y val' s2
  assume "x = scan_prefix s" "(base, s1) = x" "y = scan_number base 0 s1" "(val', s2) = y"
    and dot: "peek s2 = CHR ''.''"
  then have "length s2 \<le> length s"
    using scan_prefix_length [of s] scan_number_length [of base 0 s1] by (metis order_trans snd_conv)
  moreover have "s2 \<noteq> []" using dot by (auto simp: peek_def)
  ultimately show "((val', parts @ [val'], tl s2), (val, parts, s))
      \<in> measure (\<lambda>(val, parts, s). length s)"
    by (cases s2) auto
qed simp

declare aton_loop.simps [simp del]

text \<open>\<open>switch (pp - parts + 1)\<close>: the range check and the assembled value.\<close>

definition concoct :: "u32 \<Rightarrow> u32 list \<Rightarrow> bool \<times> u32" where
  "concoct val parts =
     (case parts of
        [] \<Rightarrow> (True, val)
      | [a] \<Rightarrow> (\<not> val > 0xffffff, val OR push_bit 24 a)
      | [a, b] \<Rightarrow> (if val > 0xffff then (False, val) else (True, val OR (push_bit 24 a OR push_bit 16 b)))
      | [a, b, c] \<Rightarrow> (if val > 0xff then (False, val)
                    else (True, val OR (push_bit 24 a OR push_bit 16 b OR push_bit 8 c)))
      | _ \<Rightarrow> (False, val))"

text \<open>The address pointer may be null; otherwise its content is the second argument.\<close>

definition net_aton :: "string \<Rightarrow> u32 option \<Rightarrow> int \<times> u32 option" where
  "net_aton ptr addr =
     (let (ret, val, parts, rest) = aton_loop 0 [] ptr;
          c0 = peek rest;
          (ret, val) =
            (if c0 \<noteq> CHR 0x00 \<and> \<not> NET_ISSPACE c0 then (False, val)
             else let (ok, val) = concoct val parts in (ret \<and> ok, val))
      in if ret then (1, map_option (\<lambda>_. NET_HTONL val) addr) else (0, addr))"

definition net_aton_r :: "string \<Rightarrow> int" where
  "net_aton_r cp = (let (ret, val) = net_aton cp (Some 0) in
     if ret \<noteq> 0 then int32_of (case val of None \<Rightarrow> 0 | Some v \<Rightarrow> v) else 0)"

section \<open>Reference: dotted decimal notation\<close>

fun digits10 :: "nat \<Rightarrow> nat list" where
  "digits10 n = (if n < 10 then [n] else digits10 (n div 10) @ [n mod 10])"

declare digits10.simps [simp del]

definition decimal :: "nat \<Rightarrow> string" where
  "decimal n = map digit (digits10 n)"

definition dotted4 :: "nat \<Rightarrow> nat \<Rightarrow> nat \<Rightarrow> nat \<Rightarrow> string" where
  "dotted4 a b c d = decimal a @ ''.'' @ decimal b @ ''.'' @ decimal c @ ''.'' @ decimal d"

definition dotted :: "u32 \<Rightarrow> string" where
  "dotted x = dotted4 (unat (octet x 0)) (unat (octet x 1)) (unat (octet x 2)) (unat (octet x 3))"

lemma inv_digits_decimal: "rev (inv_digits n) = decimal n"
proof (induction n rule: digits10.induct)
  case (1 n)
  show ?case
  proof (cases "n < 10")
    case True
    then show ?thesis
      by (simp add: inv_digits.simps [of n] digits10.simps [of n] decimal_def)
  next
    case False
    then have "n div 10 \<noteq> 0" by presburger
    with 1 False show ?thesis
      by (simp add: inv_digits.simps [of n] digits10.simps [of n] decimal_def)
  qed
qed

lemma octet_less: "unat (octet x n) < 256"
proof -
  have "octet x n \<le> 255" unfolding octet_def by (rule word_and_le1)
  then show ?thesis by (simp add: word_le_nat_alt)
qed

lemma decimal_length: "n < 256 \<Longrightarrow> length (decimal n) \<le> 3"
  by (simp add: decimal_def digits10.simps [of n] digits10.simps [of "n div 10"]
      digits10.simps [of "n div 10 div 10"])

lemma dotted_length: "length (dotted x) \<le> 15"
  using decimal_length [OF octet_less [of x 0]] decimal_length [OF octet_less [of x 1]]
    decimal_length [OF octet_less [of x 2]] decimal_length [OF octet_less [of x 3]]
  by (simp add: dotted_def dotted4_def)

section \<open>Printing against the reference\<close>

text \<open>The buffer holds as much of \<open>t\<close> as fits below \<open>L\<close>, the rest of it is untouched.\<close>

definition filled :: "string \<Rightarrow> int \<Rightarrow> string \<Rightarrow> string \<times> nat \<Rightarrow> bool" where
  "filled b L t st \<longleftrightarrow> snd st = min (length t) (nat L) \<and> fst st = take (nat L) t @ drop (snd st) b"

lemma filled_put_char:
  assumes "filled b L t st" and "nat L \<le> length b"
  shows "\<exists>st'. put_char c L st = Some st' \<and> filled b L (t @ [c]) st'"
proof -
  obtain buf len where st: "st = (buf, len)" by (cases st)
  show ?thesis
  proof (cases "int len < L")
    case True
    then have len: "len = length t" "length t < length b" "buf = t @ drop (length t) b"
      using assms by (auto simp: filled_def st)
    then have "buf[len := c] = (t @ [c]) @ drop (Suc (length t)) b"
      by (simp add: list_update_append Cons_nth_drop_Suc [symmetric])
    then show ?thesis using True len by (auto simp: put_char_def st filled_def)
  next
    case False
    then have "nat L \<le> length t" using assms by (auto simp: filled_def st)
    then show ?thesis using False assms by (auto simp: put_char_def st filled_def)
  qed
qed

lemma filled_put_chars:
  assumes "filled b L t st" and "nat L \<le> length b"
  shows "\<exists>st'. put_chars cs L st = Some st' \<and> filled b L (t @ cs) st'"
  using assms(1)
proof (induction cs arbitrary: t st)
  case Nil
  then show ?case by simp
next
  case (Cons c cs)
  obtain st1 where "put_char c L st = Some st1" "filled b L (t @ [c]) st1"
    using filled_put_char [OF Cons.prems assms(2)] by blast
  with Cons.IH [of "t @ [c]" st1] show ?case by auto
qed

lemma filled_ntoa_octet:
  assumes "filled b L t st" and "nat L \<le> length b"
  shows "\<exists>st'. ntoa_octet x L n st = Some st' \<and>
     filled b L (t @ decimal (unat (octet x n)) @ (if n < 3 then ''.'' else [])) st'"
proof -
  obtain st1 where st1: "put_chars (decimal (unat (octet x n))) L st = Some st1"
      "filled b L (t @ decimal (unat (octet x n))) st1"
    using filled_put_chars [OF assms] by blast
  then show ?thesis
    using filled_put_char [OF st1(2) assms(2), of "CHR ''.''"]
    by (cases "n < 3") (auto simp: ntoa_octet_def inv_digits_decimal simp del: split_paired_Ex)
qed

lemma ntoa_r_dotted:
  assumes "nat buflen \<le> length buf"
  shows "net_ntoa_r x buf buflen = Some
     (if int (length (dotted x)) < buflen
      then (True, dotted x @ CHR 0x00 # drop (Suc (length (dotted x))) buf)
      else (False, take (nat buflen) (dotted x) @ drop (nat buflen) buf))"
proof -
  have "filled buf buflen [] (buf, 0)" by (simp add: filled_def)
  then obtain st0 where st0: "ntoa_octet x buflen 0 (buf, 0) = Some st0"
      and f0: "filled buf buflen (decimal (unat (octet x 0)) @ ''.'') st0"
    using filled_ntoa_octet [OF _ assms, of "[]" "(buf, 0)" x 0] by auto
  obtain st1 where st1: "ntoa_octet x buflen 1 st0 = Some st1"
      and f1: "filled buf buflen (decimal (unat (octet x 0)) @ ''.'' @ decimal (unat (octet x 1)) @ ''.'') st1"
    using filled_ntoa_octet [OF f0 assms, of x 1] by auto
  obtain st2 where st2: "ntoa_octet x buflen 2 st1 = Some st2"
      and f2: "filled buf buflen (decimal (unat (octet x 0)) @ ''.'' @ decimal (unat (octet x 1)) @ ''.''
        @ decimal (unat (octet x 2)) @ ''.'') st2"
    using filled_ntoa_octet [OF f1 assms, of x 2] by auto
  obtain b len where st3: "ntoa_octet x buflen 3 st2 = Some (b, len)"
      and f3: "filled buf buflen (dotted x) (b, len)"
    using filled_ntoa_octet [OF f2 assms, of x 3] by (auto simp: dotted_def dotted4_def)
  have eq: "net_ntoa_r x buf buflen =
      (if int len < buflen then if len < length b then Some (True, b[len := CHR 0x00]) else None
       else Some (False, b))"
    by (simp add: net_ntoa_r_def st0 st1 st2 st3 del: One_nat_def)
  show ?thesis
  proof (cases "int (length (dotted x)) < buflen")
    case True
    then have "len = length (dotted x)" "b = dotted x @ drop (length (dotted x)) buf"
        "length (dotted x) < length buf"
      using f3 assms by (auto simp: filled_def)
    then show ?thesis
      using True eq by (simp add: list_update_append Cons_nth_drop_Suc [symmetric])
  next
    case False
    then have "len = nat buflen" "b = take (nat buflen) (dotted x) @ drop (nat buflen) buf"
      using f3 by (auto simp: filled_def)
    then show ?thesis using False eq by simp
  qed
qed

text \<open>
  \<open>net_ntoa_r\<close> prints exactly the dotted-decimal form of the address, if it and the terminating
  zero fit into \<open>buflen\<close>; otherwise it returns null and has written a prefix of it. In both cases it
  never writes at or beyond \<open>buflen\<close>, whatever the address and the length.
\<close>

theorem ntoa_r_prints_dotted:
  assumes "nat buflen \<le> length buf"
  shows "net_ntoa_r x buf buflen = Some
     (if int (length (dotted x)) < buflen
      then (True, dotted x @ CHR 0x00 # drop (Suc (length (dotted x))) buf)
      else (False, take (nat buflen) (dotted x) @ drop (nat buflen) buf))"
  using assms by (rule ntoa_r_dotted)

theorem ntoa_r_prints_dotted_witness:
  "net_ntoa_r 0x0A01A8C0 (replicate 8 CHR ''#'') 5 = Some (False, ''192.1###'')"
proof -
  have "dotted 0x0A01A8C0 = ''192.168.1.10''"
    by code_simp
  with ntoa_r_prints_dotted [of 5 "replicate 8 CHR ''#''" "0x0A01A8C0"] show ?thesis
    by (simp add: numeral_eq_Suc)
qed

lemma net_ntoa_dotted:
  "net_ntoa x = Some (True, dotted x @ replicate (16 - length (dotted x)) (CHR 0x00))"
proof -
  have "16 - length (dotted x) = Suc (15 - length (dotted x))"
    using dotted_length [of x] by simp
  then show ?thesis
    using dotted_length [of x] ntoa_r_dotted [of 16 "replicate 16 (CHR 0x00)" x]
    by (simp add: net_ntoa_def)
qed

text \<open>The 16-byte buffer of \<open>net_ntoa\<close> is always enough: every address prints in full.\<close>

theorem ntoa_always_fits:
  "net_ntoa x = Some (True, dotted x @ replicate (16 - length (dotted x)) (CHR 0x00))"
  by (rule net_ntoa_dotted)

section \<open>Parsing against the reference\<close>

lemma code_digit: "d < 10 \<Longrightarrow> code (digit d) = 48 + d"
  by (simp add: code_def digit_def of_char_of)

lemma digit_is_digit: "d < 10 \<Longrightarrow> NET_ISDIGIT (digit d)"
  by (simp add: NET_ISDIGIT_def code_digit)

lemma digit_is_zero: "d < 10 \<Longrightarrow> digit d = CHR ''0'' \<longleftrightarrow> d = 0"
proof -
  assume d: "d < 10"
  have zero: "CHR ''0'' = digit 0" by code_simp
  show ?thesis
    using code_digit [OF d] code_digit [of 0] by (auto simp: zero)
qed

lemma digits10_range: "d \<in> set (digits10 n) \<Longrightarrow> d < 10"
proof (induction n rule: digits10.induct)
  case (1 n)
  then show ?case by (cases "n < 10") (auto simp: digits10.simps [of n])
qed

lemma digits10_Cons: "\<exists>d ds. digits10 n = d # ds \<and> (d = 0 \<longrightarrow> n = 0 \<and> ds = [])"
proof (induction n rule: digits10.induct)
  case (1 n)
  show ?case
  proof (cases "n < 10")
    case True
    then show ?thesis by (simp add: digits10.simps [of n])
  next
    case False
    then obtain d ds where "digits10 (n div 10) = d # ds" "d = 0 \<longrightarrow> n div 10 = 0"
      using 1 by blast
    then show ?thesis using False by (auto simp: digits10.simps [of n])
  qed
qed

lemma digits10_value:
  "foldl (\<lambda>v d. v * 10 + of_nat d) 0 (digits10 n) = (of_nat n :: u32)"
proof (induction n rule: digits10.induct)
  case (1 n)
  show ?case
  proof (cases "n < 10")
    case True
    then show ?thesis by (simp add: digits10.simps [of n])
  next
    case False
    then have "foldl (\<lambda>v d. v * 10 + of_nat d) 0 (digits10 n)
        = of_nat (n div 10) * 10 + (of_nat (n mod 10) :: u32)"
      using 1 by (simp add: digits10.simps [of n])
    also have "\<dots> = of_nat (n div 10 * 10 + n mod 10)" by (simp only: of_nat_add of_nat_mult of_nat_numeral)
    finally show ?thesis by simp
  qed
qed

text \<open>What follows a number: a character that neither extends it nor makes it hexadecimal.\<close>

definition stops :: "string \<Rightarrow> bool" where
  "stops rest \<longleftrightarrow> \<not> NET_ISDIGIT (peek rest) \<and> peek rest \<noteq> CHR ''x'' \<and> peek rest \<noteq> CHR ''X''"

lemma scan_number_stops: "stops rest \<Longrightarrow> base \<noteq> 16 \<Longrightarrow> scan_number base v rest = (v, rest)"
  by (cases rest) (auto simp: stops_def peek_def)

lemma scan_number_digits:
  assumes "stops rest" "\<forall>d\<in>set ds. d < 10"
  shows "scan_number 10 v (map digit ds @ rest) = (foldl (\<lambda>v d. v * 10 + of_nat d) v ds, rest)"
  using assms(2)
proof (induction ds arbitrary: v)
  case Nil
  then show ?case using scan_number_stops [OF assms(1), of 10] by simp
next
  case (Cons d ds)
  then show ?case by (simp add: digit_is_digit code_digit algebra_simps)
qed

lemma scan_decimal:
  assumes "stops rest"
  obtains base s where "scan_prefix (decimal n @ rest) = (base, s)"
    and "scan_number base 0 s = (of_nat n, rest)" and "NET_ISDIGIT (peek (decimal n @ rest))"
proof -
  obtain d ds where ds: "digits10 n = d # ds" "d = 0 \<longrightarrow> n = 0 \<and> ds = []"
    using digits10_Cons by blast
  have d: "d < 10" using digits10_range [of d n] ds by simp
  have dig: "NET_ISDIGIT (peek (decimal n @ rest))"
    using ds d by (simp add: decimal_def peek_def digit_is_digit)
  show thesis
  proof (cases "d = 0")
    case True
    then have "scan_prefix (decimal n @ rest) = (8, rest)"
      using ds assms digit_is_zero [of 0] by (simp add: scan_prefix_def decimal_def peek_def stops_def)
    then show thesis using that dig scan_number_stops [OF assms, of 8] ds True by simp
  next
    case False
    then have "scan_prefix (decimal n @ rest) = (10, decimal n @ rest)"
      using ds d digit_is_zero [of d] by (simp add: scan_prefix_def decimal_def peek_def)
    moreover have "scan_number 10 0 (decimal n @ rest) = (of_nat n, rest)"
      using scan_number_digits [OF assms, of "digits10 n" 0] digits10_range digits10_value [of n]
      by (simp add: decimal_def)
    ultimately show thesis using that dig by simp
  qed
qed

lemma stops_dot [simp]: "stops (CHR ''.'' # s)" "stops []"
  by (simp_all add: stops_def peek_def NET_ISDIGIT_def code_def)

lemma aton_loop_dot:
  assumes "length parts < 3"
  shows "aton_loop v parts (decimal n @ ''.'' @ s) = aton_loop (of_nat n) (parts @ [of_nat n]) s"
  by (rule scan_decimal [of "''.'' @ s" n])
    (use assms in \<open>simp_all add: aton_loop.simps [of v parts "decimal n @ CHR ''.'' # s"] peek_def\<close>)

lemma aton_loop_last: "aton_loop v parts (decimal n) = (True, of_nat n, parts, [])"
  by (rule scan_decimal [of "[]" n])
    (simp_all add: aton_loop.simps [of v parts "decimal n"] peek_def)

lemma aton_loop_dotted4:
  "aton_loop 0 [] (dotted4 a b c d) = (True, of_nat d, [of_nat a, of_nat b, of_nat c], [])"
  unfolding dotted4_def
  by (simp add: aton_loop_dot aton_loop_last del: append_Cons append.simps)

text \<open>
  Parsing four decimal numbers of any size, separated by dots: \<open>net_aton\<close> accepts exactly when the
  \<^emph>\<open>last\<close> number (modulo \<open>2\<^sup>3\<^sup>2\<close>) is at most 255. The other three are never checked: their bits beyond
  the eighth spill into the neighbouring octets.
\<close>

theorem aton_four_parts:
  "net_aton (dotted4 a b c d) (Some y) =
     (if (of_nat d :: u32) \<le> 255
      then (1, Some (NET_HTONL (push_bit 24 (of_nat a) OR push_bit 16 (of_nat b) OR push_bit 8 (of_nat c)
               OR of_nat d)))
      else (0, Some y))"
  by (simp add: net_aton_def aton_loop_dotted4 peek_def concoct_def linorder_not_less [symmetric] ac_simps)

lemma octets_reassemble:
  "octet x 3 OR (push_bit 24 (octet x 0) OR push_bit 16 (octet x 1) OR push_bit 8 (octet x 2)) = NET_HTONL x"
  unfolding NET_HTONL_def octet_def by (rule u32_eqI) (simp add: bit_simps)

lemma concoct_octets: "concoct (octet x 3) [octet x 0, octet x 1, octet x 2] = (True, NET_HTONL x)"
proof -
  have "octet x 3 \<le> 255" unfolding octet_def by (rule word_and_le1)
  then show ?thesis by (simp add: concoct_def octets_reassemble linorder_not_less del: One_nat_def)
qed

lemma decimal_no_zero: "CHR 0x00 \<notin> set (decimal n)"
proof
  assume "CHR 0x00 \<in> set (decimal n)"
  then obtain d where "d < 10" "digit d = CHR 0x00"
    by (fastforce simp: decimal_def dest: digits10_range)
  then show False using code_digit [of d] by (simp add: code_def)
qed

lemma takeWhile_dotted: "takeWhile (\<lambda>c. c \<noteq> CHR 0x00) (dotted x @ replicate n CHR 0x00) = dotted x"
proof -
  have "\<forall>c\<in>set (dotted x). c \<noteq> CHR 0x00"
    using decimal_no_zero by (auto simp: dotted_def dotted4_def)
  then show ?thesis by (simp add: takeWhile_append2 takeWhile_replicate)
qed

text \<open>C36. Round trip: parsing the printed form of any address gives the address back.\<close>

theorem aton_ntoa_roundtrip:
  "net_aton (takeWhile (\<lambda>c. c \<noteq> CHR 0x00) (snd (the (net_ntoa x)))) (Some y) = (1, Some x)"
proof -
  have "net_aton (dotted x) (Some y) = (1, Some x)"
    by (simp add: net_aton_def dotted_def aton_loop_dotted4 concoct_octets peek_def
        del: One_nat_def)
  then show ?thesis by (simp add: net_ntoa_dotted takeWhile_dotted)
qed

end
