(* ===== verification/Wifi_Class.thy ===== *)
theory Wifi_Class
  imports Net_State
begin

text \<open>
  \<open>core/net_class_extension.c\<close>: the names of the WiFi security modes and the WiFi-class operations
  of an interface. The codes are the macros of \<open>Includes/net_wifi.h\<close>. The extension pointer of a
  driver table is \<open>d_wifi\<close>; an access through a null pointer is \<^term>\<open>None\<close>.
\<close>

section \<open>Security modes\<close>

abbreviation (input) NET_WEP_ENABLED :: u32 where "NET_WEP_ENABLED \<equiv> 0x0001"
abbreviation (input) NET_TKIP_ENABLED :: u32 where "NET_TKIP_ENABLED \<equiv> 0x0002"
abbreviation (input) NET_AES_ENABLED :: u32 where "NET_AES_ENABLED \<equiv> 0x0004"
abbreviation (input) NET_SHARED_ENABLED :: u32 where "NET_SHARED_ENABLED \<equiv> 0x00008000"
abbreviation (input) NET_WPA_SECURITY :: u32 where "NET_WPA_SECURITY \<equiv> 0x00200000"
abbreviation (input) NET_WPA2_SECURITY :: u32 where "NET_WPA2_SECURITY \<equiv> 0x00400000"
abbreviation (input) NET_WPA3_SECURITY :: u32 where "NET_WPA3_SECURITY \<equiv> 0x01000000"
abbreviation (input) NET_ENTERPRISE_ENABLED :: u32 where "NET_ENTERPRISE_ENABLED \<equiv> 0x02000000"
abbreviation (input) NET_WPS_ENABLED :: u32 where "NET_WPS_ENABLED \<equiv> 0x10000000"
abbreviation (input) NET_IBSS_ENABLED :: u32 where "NET_IBSS_ENABLED \<equiv> 0x20000000"
abbreviation (input) NET_FBT_ENABLED :: u32 where "NET_FBT_ENABLED \<equiv> 0x40000000"

definition NET_WIFI_SM_OPEN :: u32 where
  "NET_WIFI_SM_OPEN = 0"
definition NET_WIFI_SM_WEP_PSK :: u32 where
  "NET_WIFI_SM_WEP_PSK = NET_WEP_ENABLED"
definition NET_WIFI_SM_WPA_AES_PSK :: u32 where
  "NET_WIFI_SM_WPA_AES_PSK = NET_WPA_SECURITY OR NET_AES_ENABLED"
definition NET_WIFI_SM_WPA2_WPA_PSK :: u32 where
  "NET_WIFI_SM_WPA2_WPA_PSK = NET_WPA2_SECURITY OR NET_WPA_SECURITY"
definition NET_WIFI_SM_WEP_SHARED :: u32 where
  "NET_WIFI_SM_WEP_SHARED = NET_WEP_ENABLED OR NET_SHARED_ENABLED"
definition NET_WIFI_SM_WPA_TKIP_PSK :: u32 where
  "NET_WIFI_SM_WPA_TKIP_PSK = NET_WPA_SECURITY OR NET_TKIP_ENABLED"
definition NET_WIFI_SM_WPA_MIXED_PSK :: u32 where
  "NET_WIFI_SM_WPA_MIXED_PSK = NET_WPA_SECURITY OR NET_AES_ENABLED OR NET_TKIP_ENABLED"
definition NET_WIFI_SM_WPA2_AES_PSK :: u32 where
  "NET_WIFI_SM_WPA2_AES_PSK = NET_WPA2_SECURITY OR NET_AES_ENABLED"
definition NET_WIFI_SM_WPA2_TKIP_PSK :: u32 where
  "NET_WIFI_SM_WPA2_TKIP_PSK = NET_WPA2_SECURITY OR NET_TKIP_ENABLED"
definition NET_WIFI_SM_WPA2_MIXED_PSK :: u32 where
  "NET_WIFI_SM_WPA2_MIXED_PSK = NET_WPA2_SECURITY OR NET_AES_ENABLED OR NET_TKIP_ENABLED"
definition NET_WIFI_SM_WPA2_FBT_PSK :: u32 where
  "NET_WIFI_SM_WPA2_FBT_PSK = NET_WPA2_SECURITY OR NET_AES_ENABLED OR NET_FBT_ENABLED"
definition NET_WIFI_SM_WPA3_SAE :: u32 where
  "NET_WIFI_SM_WPA3_SAE = NET_WPA3_SECURITY OR NET_AES_ENABLED"
definition NET_WIFI_SM_WPA3_WPA2_PSK :: u32 where
  "NET_WIFI_SM_WPA3_WPA2_PSK = NET_WPA3_SECURITY OR NET_WPA2_SECURITY OR NET_AES_ENABLED"
definition NET_WIFI_SM_WPA_TKIP_ENT :: u32 where
  "NET_WIFI_SM_WPA_TKIP_ENT =
     NET_ENTERPRISE_ENABLED OR NET_WPA_SECURITY OR NET_TKIP_ENABLED"
definition NET_WIFI_SM_WPA_AES_ENT :: u32 where
  "NET_WIFI_SM_WPA_AES_ENT =
     NET_ENTERPRISE_ENABLED OR NET_WPA_SECURITY OR NET_AES_ENABLED"
definition NET_WIFI_SM_WPA2_TKIP_ENT :: u32 where
  "NET_WIFI_SM_WPA2_TKIP_ENT =
     NET_ENTERPRISE_ENABLED OR NET_WPA2_SECURITY OR NET_TKIP_ENABLED"
definition NET_WIFI_SM_WPA2_AES_ENT :: u32 where
  "NET_WIFI_SM_WPA2_AES_ENT =
     NET_ENTERPRISE_ENABLED OR NET_WPA2_SECURITY OR NET_AES_ENABLED"
definition NET_WIFI_SM_WPA2_MIXED_ENT :: u32 where
  "NET_WIFI_SM_WPA2_MIXED_ENT =
     NET_ENTERPRISE_ENABLED OR NET_WPA2_SECURITY OR NET_AES_ENABLED OR NET_TKIP_ENABLED"
definition NET_WIFI_SM_WPA2_FBT_ENT :: u32 where
  "NET_WIFI_SM_WPA2_FBT_ENT =
     NET_ENTERPRISE_ENABLED OR NET_WPA2_SECURITY OR NET_AES_ENABLED OR NET_FBT_ENABLED"
definition NET_WIFI_SM_IBSS_OPEN :: u32 where
  "NET_WIFI_SM_IBSS_OPEN = NET_IBSS_ENABLED"
definition NET_WIFI_SM_WPS_OPEN :: u32 where
  "NET_WIFI_SM_WPS_OPEN = NET_WPS_ENABLED"
definition NET_WIFI_SM_WPS_SECURE :: u32 where
  "NET_WIFI_SM_WPS_SECURE = NET_WPS_ENABLED OR NET_AES_ENABLED"
definition NET_WIFI_SM_UNKNOWN :: u32 where
  "NET_WIFI_SM_UNKNOWN = 0xFFFFFFFF"

lemmas security_codes = NET_WIFI_SM_OPEN_def NET_WIFI_SM_WEP_SHARED_def
  NET_WIFI_SM_WPA_TKIP_PSK_def NET_WIFI_SM_WPA_MIXED_PSK_def NET_WIFI_SM_WPA2_AES_PSK_def
  NET_WIFI_SM_WPA2_TKIP_PSK_def NET_WIFI_SM_WPA2_MIXED_PSK_def NET_WIFI_SM_WPA2_FBT_PSK_def
  NET_WIFI_SM_WPA3_SAE_def NET_WIFI_SM_WPA3_WPA2_PSK_def NET_WIFI_SM_WPA_TKIP_ENT_def
  NET_WIFI_SM_WPA_AES_ENT_def NET_WIFI_SM_WPA2_TKIP_ENT_def NET_WIFI_SM_WPA2_AES_ENT_def
  NET_WIFI_SM_WPA2_MIXED_ENT_def NET_WIFI_SM_WPA2_FBT_ENT_def NET_WIFI_SM_IBSS_OPEN_def
  NET_WIFI_SM_WPS_OPEN_def NET_WIFI_SM_WPS_SECURE_def NET_WIFI_SM_UNKNOWN_def

definition net_wifi_security_to_string :: "u32 \<Rightarrow> string" where
  "net_wifi_security_to_string sec =
     (if sec = NET_WIFI_SM_OPEN then ''Open''
      else if sec = NET_WIFI_SM_WEP_SHARED then ''WEP-shared''
      else if sec = NET_WIFI_SM_WPA_TKIP_PSK then ''WPA-TKIP''
      else if sec = NET_WIFI_SM_WPA_MIXED_PSK then ''WPA-Mixed''
      else if sec = NET_WIFI_SM_WPA2_AES_PSK then ''WPA2-AES''
      else if sec = NET_WIFI_SM_WPA2_TKIP_PSK then ''WPA2-TKIP''
      else if sec = NET_WIFI_SM_WPA2_MIXED_PSK then ''WPA2_Mixed''
      else if sec = NET_WIFI_SM_WPA2_FBT_PSK then ''WPA2-FBT''
      else if sec = NET_WIFI_SM_WPA3_SAE then ''WPA3''
      else if sec = NET_WIFI_SM_WPA3_WPA2_PSK then ''WPA3-WPA2''
      else if sec = NET_WIFI_SM_WPA_TKIP_ENT then ''WPA-TKIP-Ent''
      else if sec = NET_WIFI_SM_WPA_AES_ENT then ''WPA-AES-Ent''
      else if sec = NET_WIFI_SM_WPA2_TKIP_ENT then ''WPA2-TKIP-Ent''
      else if sec = NET_WIFI_SM_WPA2_AES_ENT then ''WPA2-AES-Ent''
      else if sec = NET_WIFI_SM_WPA2_MIXED_ENT then ''WPA2-Mixed-Ent''
      else if sec = NET_WIFI_SM_WPA2_FBT_ENT then ''WPA-FBT-Ent''
      else if sec = NET_WIFI_SM_IBSS_OPEN then ''IBS''
      else if sec = NET_WIFI_SM_WPS_OPEN then ''WPS''
      else if sec = NET_WIFI_SM_WPS_SECURE then ''WPS-AES''
      else ''unknown'')"

definition net_wifi_string_to_security :: "string \<Rightarrow> u32" where
  "net_wifi_string_to_security sec =
     (let ret = NET_WIFI_SM_UNKNOWN;
          ret = (if sec = ''Open'' then NET_WIFI_SM_OPEN else ret);
          ret = (if sec = ''WEP-shared'' then NET_WIFI_SM_WEP_SHARED else ret);
          ret = (if sec = ''WPA-TKIP'' then NET_WIFI_SM_WPA_TKIP_PSK else ret);
          ret = (if sec = ''WPA-Mixed'' then NET_WIFI_SM_WPA_MIXED_PSK else ret);
          ret = (if sec = ''WPA2-AES'' then NET_WIFI_SM_WPA2_AES_PSK else ret);
          ret = (if sec = ''WPA2-TKIP'' then NET_WIFI_SM_WPA2_TKIP_PSK else ret);
          ret = (if sec = ''WPA2-Mixed'' then NET_WIFI_SM_WPA2_MIXED_PSK else ret);
          ret = (if sec = ''WPA2-DBT'' then NET_WIFI_SM_WPA2_FBT_PSK else ret);
          ret = (if sec = ''WPA3'' then NET_WIFI_SM_WPA3_SAE else ret);
          ret = (if sec = ''WPA3-WPA2'' then NET_WIFI_SM_WPA3_WPA2_PSK else ret);
          ret = (if sec = ''WPA-TKIP-Ent'' then NET_WIFI_SM_WPA_TKIP_ENT else ret);
          ret = (if sec = ''WPA-AES-Ent'' then NET_WIFI_SM_WPA_AES_ENT else ret);
          ret = (if sec = ''WPA2-TKIP-Ent'' then NET_WIFI_SM_WPA2_TKIP_ENT else ret);
          ret = (if sec = ''WPA2-AES-Ent'' then NET_WIFI_SM_WPA2_AES_ENT else ret);
          ret = (if sec = ''WPA2-Mixed-Ent'' then NET_WIFI_SM_WPA2_MIXED_ENT else ret);
          ret = (if sec = ''WPA-FBT-Ent'' then NET_WIFI_SM_WPA2_FBT_ENT else ret);
          ret = (if sec = ''IBS'' then NET_WIFI_SM_IBSS_OPEN else ret);
          ret = (if sec = ''WPS'' then NET_WIFI_SM_WPS_OPEN else ret);
          ret = (if sec = ''WPS-AES'' then NET_WIFI_SM_WPS_SECURE else ret)
      in ret)"

text \<open>The modes whose printed name is not the name that is parsed, and the others.\<close>

definition named_modes :: "u32 list" where
  "named_modes = [NET_WIFI_SM_OPEN, NET_WIFI_SM_WEP_SHARED, NET_WIFI_SM_WPA_TKIP_PSK, NET_WIFI_SM_WPA_MIXED_PSK,
     NET_WIFI_SM_WPA2_AES_PSK, NET_WIFI_SM_WPA2_TKIP_PSK, NET_WIFI_SM_WPA3_SAE, NET_WIFI_SM_WPA3_WPA2_PSK,
     NET_WIFI_SM_WPA_TKIP_ENT, NET_WIFI_SM_WPA_AES_ENT, NET_WIFI_SM_WPA2_TKIP_ENT, NET_WIFI_SM_WPA2_AES_ENT,
     NET_WIFI_SM_WPA2_MIXED_ENT, NET_WIFI_SM_WPA2_FBT_ENT, NET_WIFI_SM_IBSS_OPEN, NET_WIFI_SM_WPS_OPEN,
     NET_WIFI_SM_WPS_SECURE]"

text \<open>Each printed name, parsed.\<close>

lemma parse_printed:
  "net_wifi_string_to_security ''Open'' = NET_WIFI_SM_OPEN"
  "net_wifi_string_to_security ''WEP-shared'' = NET_WIFI_SM_WEP_SHARED"
  "net_wifi_string_to_security ''WPA-TKIP'' = NET_WIFI_SM_WPA_TKIP_PSK"
  "net_wifi_string_to_security ''WPA-Mixed'' = NET_WIFI_SM_WPA_MIXED_PSK"
  "net_wifi_string_to_security ''WPA2-AES'' = NET_WIFI_SM_WPA2_AES_PSK"
  "net_wifi_string_to_security ''WPA2-TKIP'' = NET_WIFI_SM_WPA2_TKIP_PSK"
  "net_wifi_string_to_security ''WPA2_Mixed'' = NET_WIFI_SM_UNKNOWN"
  "net_wifi_string_to_security ''WPA2-FBT'' = NET_WIFI_SM_UNKNOWN"
  "net_wifi_string_to_security ''WPA3'' = NET_WIFI_SM_WPA3_SAE"
  "net_wifi_string_to_security ''WPA3-WPA2'' = NET_WIFI_SM_WPA3_WPA2_PSK"
  "net_wifi_string_to_security ''WPA-TKIP-Ent'' = NET_WIFI_SM_WPA_TKIP_ENT"
  "net_wifi_string_to_security ''WPA-AES-Ent'' = NET_WIFI_SM_WPA_AES_ENT"
  "net_wifi_string_to_security ''WPA2-TKIP-Ent'' = NET_WIFI_SM_WPA2_TKIP_ENT"
  "net_wifi_string_to_security ''WPA2-AES-Ent'' = NET_WIFI_SM_WPA2_AES_ENT"
  "net_wifi_string_to_security ''WPA2-Mixed-Ent'' = NET_WIFI_SM_WPA2_MIXED_ENT"
  "net_wifi_string_to_security ''WPA-FBT-Ent'' = NET_WIFI_SM_WPA2_FBT_ENT"
  "net_wifi_string_to_security ''IBS'' = NET_WIFI_SM_IBSS_OPEN"
  "net_wifi_string_to_security ''WPS'' = NET_WIFI_SM_WPS_OPEN"
  "net_wifi_string_to_security ''WPS-AES'' = NET_WIFI_SM_WPS_SECURE"
  "net_wifi_string_to_security ''unknown'' = NET_WIFI_SM_UNKNOWN"
  by (simp_all add: net_wifi_string_to_security_def)

section \<open>WiFi operations of an interface\<close>

definition if_class :: "netref \<Rightarrow> 'w net \<Rightarrow> net_interface_class option" where
  "if_class p s = map_option (\<lambda>d. d_if_class (Drivers s d)) (h_pdrv (Netifs s p))"

definition net_wifi_get_class :: "netref \<Rightarrow> 'w net \<Rightarrow> (net_interface_class, 'w) res" where
  "net_wifi_get_class p s = do { c \<leftarrow> if_class p s; Some (c, s) }"

text \<open>A store through \<open>pnetif->pdrv->extension.wifi\<close>.\<close>

definition upd_wifi :: "netref \<Rightarrow> (wifi_ext \<Rightarrow> wifi_ext) \<Rightarrow> 'w net \<Rightarrow> 'w net option" where
  "upd_wifi p f s = do {
     d \<leftarrow> h_pdrv (Netifs s p);
     x \<leftarrow> d_wifi (Drivers s d);
     Some (s\<lparr>Drivers := (Drivers s)(d := (Drivers s d)\<lparr>d_wifi := Some (f x)\<rparr>)\<rparr>) }"

definition net_wifi_scan ::
  "'w env \<Rightarrow> netref option \<Rightarrow> net_wifi_scan_mode \<Rightarrow> string option \<Rightarrow> 'w net \<Rightarrow> (int, 'w) res" where
  "net_wifi_scan E pnetif mode ssid s = do {
     (p_netif, s) \<leftarrow> netif_check pnetif s;
     (case p_netif of
        None \<Rightarrow> Some (NET_ERROR_PARAMETER, s)
      | Some p \<Rightarrow> do {
          c \<leftarrow> if_class p s;
          (if c \<noteq> NET_INTERFACE_CLASS_WIFI then Some (NET_ERROR_PARAMETER, s)
           else do {
             d \<leftarrow> drv_of E p s;
             scan \<leftarrow> wifi_scan d;
             (r, s) \<leftarrow> scan p mode ssid s;
             Some (if r \<noteq> NET_OK then NET_ERROR_GENERIC else NET_OK, s) }) }) }"

definition net_wifi_get_scan_results ::
  "'w env \<Rightarrow> netref option \<Rightarrow> net_wifi_scan_result list \<Rightarrow> u8 \<Rightarrow> 'w net \<Rightarrow>
     (int \<times> net_wifi_scan_result list, 'w) res" where
  "net_wifi_get_scan_results E pnetif results number s = do {
     (p_netif, s) \<leftarrow> netif_check pnetif s;
     (case p_netif of
        None \<Rightarrow> Some ((NET_ERROR_PARAMETER, results), s)
      | Some p \<Rightarrow> do {
          c \<leftarrow> if_class p s;
          (if c \<noteq> NET_INTERFACE_CLASS_WIFI then Some ((NET_ERROR_PARAMETER, results), s)
           else do {
             d \<leftarrow> drv_of E p s;
             f \<leftarrow> wifi_get_scan_results d;
             f p results number s }) }) }"

definition net_wifi_set_credentials ::
  "netref option \<Rightarrow> net_wifi_credentials option \<Rightarrow> 'w net \<Rightarrow> (int, 'w) res" where
  "net_wifi_set_credentials pnetif credentials s = do {
     p \<leftarrow> pnetif;
     s \<leftarrow> upd_wifi p (\<lambda>x. x\<lparr>x_credentials := credentials\<rparr>) s;
     Some (NET_OK, s) }"

definition net_wifi_set_ie_data :: "netref option \<Rightarrow> nat option \<Rightarrow> 'w net \<Rightarrow> (int, 'w) res" where
  "net_wifi_set_ie_data pnetif ie s = do {
     p \<leftarrow> pnetif;
     s \<leftarrow> upd_wifi p (\<lambda>x. x\<lparr>x_information_element := ie\<rparr>) s;
     Some (NET_OK, s) }"

definition net_wifi_set_access_mode :: "netref option \<Rightarrow> net_wifi_mode \<Rightarrow> 'w net \<Rightarrow> (int, 'w) res" where
  "net_wifi_set_access_mode pnetif mode s = do {
     p \<leftarrow> pnetif;
     s \<leftarrow> upd_wifi p (\<lambda>x. x\<lparr>x_mode := mode\<rparr>) s;
     Some (NET_OK, s) }"

definition net_wifi_set_access_channel :: "netref option \<Rightarrow> u8 \<Rightarrow> 'w net \<Rightarrow> (int, 'w) res" where
  "net_wifi_set_access_channel pnetif channel s = do {
     p \<leftarrow> pnetif;
     s \<leftarrow> upd_wifi p (\<lambda>x. x\<lparr>x_access_channel := channel\<rparr>) s;
     Some (NET_OK, s) }"

definition net_wifi_set_ap_max_connections :: "netref option \<Rightarrow> u8 \<Rightarrow> 'w net \<Rightarrow> (int, 'w) res" where
  "net_wifi_set_ap_max_connections pnetif count s = do {
     p \<leftarrow> pnetif;
     s \<leftarrow> upd_wifi p (\<lambda>x. x\<lparr>x_max_connections := count\<rparr>) s;
     Some (NET_OK, s) }"

definition net_wifi_set_powersave ::
  "netref option \<Rightarrow> powersave_ptr option \<Rightarrow> 'w net \<Rightarrow> (int, 'w) res" where
  "net_wifi_set_powersave pnetif powersave s = do {
     (p_netif, s) \<leftarrow> netif_check pnetif s;
     (case p_netif of
        None \<Rightarrow> Some (NET_ERROR_PARAMETER, s)
      | Some p \<Rightarrow> do {
          c \<leftarrow> if_class p s;
          (if c \<noteq> NET_INTERFACE_CLASS_WIFI then Some (NET_ERROR_PARAMETER, s)
           else do {
             s \<leftarrow> upd_wifi p (\<lambda>x. x\<lparr>x_powersave := powersave\<rparr>) s;
             Some (NET_OK, s) }) }) }"

definition net_wifi_set_param ::
  "'w env \<Rightarrow> netref option \<Rightarrow> net_wifi_param \<Rightarrow> nat \<Rightarrow> 'w net \<Rightarrow> (int, 'w) res" where
  "net_wifi_set_param E pnetif param data s = do {
     p \<leftarrow> pnetif;
     c \<leftarrow> if_class p s;
     (if c \<noteq> NET_INTERFACE_CLASS_WIFI then Some (NET_ERROR_PARAMETER, s)
      else do {
        d \<leftarrow> drv_of E p s;
        f \<leftarrow> wifi_set_param d;
        f param data s }) }"

definition net_wifi_switch_mode ::
  "'w env \<Rightarrow> netref option \<Rightarrow> net_wifi_mode \<Rightarrow> 'w net \<Rightarrow> (int, 'w) res" where
  "net_wifi_switch_mode E pNetif TargetMode s = do {
     (p_netif, s) \<leftarrow> netif_check pNetif s;
     (case p_netif of
        None \<Rightarrow> Some (NET_ERROR_PARAMETER, s)
      | Some p \<Rightarrow> do {
          c \<leftarrow> if_class p s;
          (if c \<noteq> NET_INTERFACE_CLASS_WIFI then Some (NET_ERROR_PARAMETER, s)
           else do {
             d \<leftarrow> drv_of E p s;
             f \<leftarrow> wifi_switch_mode d;
             (r, s) \<leftarrow> f p TargetMode s;
             Some (if r \<noteq> NET_OK then NET_ERROR_GENERIC else NET_OK, s) }) }) }"

section \<open>Properties\<close>

text \<open>
  Printing a security mode and parsing the name gives the mode back for 17 of the 19 modes the
  library names. For every other code the result is \<open>NET_WIFI_SM_UNKNOWN\<close>, and that includes
  \<open>WPA2_MIXED_PSK\<close> (printed "WPA2_Mixed", parsed "WPA2-Mixed") and \<open>WPA2_FBT_PSK\<close> (printed
  "WPA2-FBT", parsed "WPA2-DBT").
\<close>

theorem security_name_roundtrip:
  "net_wifi_string_to_security (net_wifi_security_to_string sec) =
     (if sec \<in> set named_modes then sec else NET_WIFI_SM_UNKNOWN)"
proof -
  have codes: "sec \<in> set named_modes \<longleftrightarrow> net_wifi_security_to_string sec \<notin> {''unknown'', ''WPA2_Mixed'', ''WPA2-FBT''}"
    unfolding net_wifi_security_to_string_def named_modes_def security_codes by auto
  show ?thesis
    unfolding codes unfolding net_wifi_security_to_string_def by (simp add: parse_printed)
qed

text \<open>
  The WiFi calls that check the interface class refuse a null handle when nothing is registered
  and an interface of another class with \<open>NET_ERROR_PARAMETER\<close>; they reach no driver function and
  change nothing but the lock log.
\<close>

theorem wifi_class_guard:
  assumes "netif_check pnetif s = Some (r, s1)"
    and "case r of None \<Rightarrow> True | Some p \<Rightarrow> if_class p s1 = Some c \<and> c \<noteq> NET_INTERFACE_CLASS_WIFI"
  shows "net_wifi_scan E pnetif mode ssid s = Some (NET_ERROR_PARAMETER, s1)
    \<and> net_wifi_get_scan_results E pnetif results number s = Some ((NET_ERROR_PARAMETER, results), s1)
    \<and> net_wifi_set_powersave pnetif powersave s = Some (NET_ERROR_PARAMETER, s1)
    \<and> net_wifi_switch_mode E pnetif target s = Some (NET_ERROR_PARAMETER, s1)"
  using assms
  by (cases r) (simp_all add: net_wifi_scan_def net_wifi_get_scan_results_def net_wifi_set_powersave_def
      net_wifi_switch_mode_def)

theorem wifi_class_guard_witness:
  "net_wifi_scan demo_env (Some 1) NET_WIFI_SCAN_AUTO None
     ((demo_net NET_STATE_READY)\<lparr>Drivers := (\<lambda>_. \<lparr>d_if_class = NET_INTERFACE_CLASS_ETHERNET,
        d_context = None, d_wifi = None, d_wifi_ref = 0\<rparr>)\<rparr>) =
   Some (NET_ERROR_PARAMETER, (demo_net NET_STATE_READY)\<lparr>Drivers := (\<lambda>_. \<lparr>d_if_class = NET_INTERFACE_CLASS_ETHERNET,
        d_context = None, d_wifi = None, d_wifi_ref = 0\<rparr>)\<rparr>)"
  by (rule wifi_class_guard [where r = "Some 1" and c = NET_INTERFACE_CLASS_ETHERNET, THEN conjunct1])
    (simp_all add: if_class_def demo_defs)

end
