(* ===== verification/Net_Mbedtls.thy ===== *)
theory Net_Mbedtls
  imports Net_State
begin

text \<open>
  \<open>services/net_mbedtls.c\<close>: the TLS layer of a socket. A socket is the index of its slot. mbedTLS is
  outside the repository: its calls are the \<open>mb_\<close> functions of the environment; those that move
  data take the pair of transport functions \<open>mbedtls_net_send\<close> / \<open>mbedtls_net_recv\<close> on the socket
  registered with \<open>mbedtls_ssl_set_bio\<close>. The debug output (\<open>MBEDTLS_DEBUG_C\<close>, \<open>PERF\<close>) is compiled out.
\<close>

section \<open>Calls on the TLS objects\<close>

text \<open>Every access goes through \<open>tls_data\<close>: a null or freed pointer is \<^term>\<open>None\<close>.\<close>

definition tls_at :: "tlsref \<Rightarrow> 'w net \<Rightarrow> net_tls_data option" where
  "tls_at t s = TlsHeap s t"

definition upd_tls :: "tlsref \<Rightarrow> (net_tls_data \<Rightarrow> net_tls_data) \<Rightarrow> 'w net \<Rightarrow> 'w net option" where
  "upd_tls t f s = do { d \<leftarrow> TlsHeap s t; Some (s\<lparr>TlsHeap := (TlsHeap s)(t \<mapsto> f d)\<rparr>) }"

definition mbv :: "'w env \<Rightarrow> mb_void_call \<Rightarrow> tlsref \<Rightarrow> 'w net \<Rightarrow> 'w net option" where
  "mbv E c t s = do { _ \<leftarrow> TlsHeap s t; Some (s\<lparr>dev := mb_void E c t (dev s)\<rparr>) }"

definition mbi :: "'w env \<Rightarrow> mb_int_call \<Rightarrow> tlsref \<Rightarrow> 'w net \<Rightarrow> (int, 'w) res" where
  "mbi E c t s = do {
     _ \<leftarrow> TlsHeap s t;
     let (r, w) = mb_int E c t (dev s);
     Some (r, s\<lparr>dev := w\<rparr>) }"

section \<open>Allocation of the TLS data\<close>

definition zero_tls_data :: net_tls_data where
  "zero_tls_data = \<lparr>tls_ca_certs = None, tls_ca_crl = None, tls_dev_cert = None, tls_dev_key = None,
     tls_dev_pwd = None, tls_dev_pwd_len = 0, tls_srv_verification = False, tls_srv_name = None,
     tls_flags = 0, tls_cert_prof = None, tls_bio = None\<rparr>"

definition net_mbedtls_check_tlsdata :: "'w env \<Rightarrow> nat \<Rightarrow> 'w net \<Rightarrow> bool \<times> 'w net" where
  "net_mbedtls_check_tlsdata E i s =
     (case s_tlsData (sock_at i s) of
        Some _ \<Rightarrow> (True, s)
      | None \<Rightarrow>
          (case net_malloc E (env_sizeof E Sizeof_net_tls_data) s of
             (None, s) \<Rightarrow> (False, s)
           | (Some p, s) \<Rightarrow>
               (let s = upd_sock i (\<lambda>k. k\<lparr>s_tlsData := Some p\<rparr>) s;
                    s = s\<lparr>TlsHeap := (TlsHeap s)(p \<mapsto> zero_tls_data)\<rparr>;
                    s = s\<lparr>TlsHeap := (TlsHeap s)(p \<mapsto> zero_tls_data\<lparr>tls_srv_verification := True\<rparr>)\<rparr>
                in (True, s))))"

definition net_mbedtls_set_read_timeout :: "'w env \<Rightarrow> nat \<Rightarrow> 'w net \<Rightarrow> 'w net option" where
  "net_mbedtls_set_read_timeout E i s =
     (case s_tlsData (sock_at i s) of
        None \<Rightarrow> Some s
      | Some t \<Rightarrow> mbv E (Mb_conf_read_timeout (u32_of (s_read_timeout (sock_at i s)))) t s)"

section \<open>Release\<close>

definition mbedtls_free_resource :: "'w env \<Rightarrow> nat \<Rightarrow> 'w net \<Rightarrow> 'w net option" where
  "mbedtls_free_resource E i s = do {
     t \<leftarrow> s_tlsData (sock_at i s);
     s \<leftarrow> mbv E Mb_clicert_free t s;
     s \<leftarrow> mbv E Mb_pk_free t s;
     s \<leftarrow> mbv E Mb_cacert_free t s;
     s \<leftarrow> mbv E Mb_ssl_free t s;
     s \<leftarrow> mbv E Mb_ssl_config_free t s;
     let s = (net_free E t s)\<lparr>TlsHeap := (TlsHeap s)(t := None)\<rparr>;
     Some (upd_sock i (\<lambda>k. k\<lparr>s_tlsData := None\<rparr>) s) }"

section \<open>The transport functions given to mbedTLS\<close>

definition mbedtls_net_recv ::
  "'w env \<Rightarrow> nat \<Rightarrow> bytes \<Rightarrow> u32 \<Rightarrow> u32 \<Rightarrow> 'w net \<Rightarrow> (int \<times> bytes, 'w) res" where
  "mbedtls_net_recv E i buf len timeout s = do {
     (ret, s) \<leftarrow> (if s_read_timeout (sock_at i s) \<noteq> int32_of timeout then do {
         d \<leftarrow> sock_drv E i s;
         setopt \<leftarrow> psetsockopt d;
         (ret, s) \<leftarrow> setopt (s_ulsocket (sock_at i s)) NET_SOL_SOCKET NET_SO_RCVTIMEO
                       (OptI32 (int32_of timeout)) 4 s;
         Some (ret, if ret = NET_OK
                    then upd_sock i (\<lambda>k. k\<lparr>s_read_timeout := int32_of timeout\<rparr>) s else s) }
       else Some (NET_OK, s));
     (if ret = NET_OK then do {
        let flags = (if s_read_timeout (sock_at i s) = 0 then NET_MSG_DONTWAIT else 0);
        let s = UNLOCK_SOCK (s_idx (sock_at i s)) s;
        d \<leftarrow> sock_drv E i s;
        recv \<leftarrow> precv d;
        ((ret, buf), s) \<leftarrow> recv (s_ulsocket (sock_at i s)) buf (int32_of len) flags s;
        let s = LOCK_SOCK (s_idx (sock_at i s)) s;
        let ret = (if ret \<le> 0
                   then if ret = 0 then MBEDTLS_ERR_SSL_WANT_READ
                        else if ret = NET_TIMEOUT then MBEDTLS_ERR_SSL_WANT_READ
                        else MBEDTLS_ERR_SSL_INTERNAL_ERROR
                   else ret);
        Some ((ret, buf), s) }
      else Some ((ret, buf), s)) }"

definition mbedtls_net_send :: "'w env \<Rightarrow> nat \<Rightarrow> bytes \<Rightarrow> u32 \<Rightarrow> 'w net \<Rightarrow> (int, 'w) res" where
  "mbedtls_net_send E i buf len s = do {
     let flags = (if s_write_timeout (sock_at i s) = 0 then NET_MSG_DONTWAIT else 0);
     let s = UNLOCK_SOCK (s_idx (sock_at i s)) s;
     d \<leftarrow> sock_drv E i s;
     send \<leftarrow> psend d;
     (ret, s) \<leftarrow> send (s_ulsocket (sock_at i s)) buf (int32_of len) flags s;
     let s = LOCK_SOCK (s_idx (sock_at i s)) s;
     let ret = (if ret \<ge> 0 then if ret = 0 then MBEDTLS_ERR_SSL_WANT_WRITE else ret
                else MBEDTLS_ERR_SSL_PEER_CLOSE_NOTIFY);
     Some (ret, s) }"

definition sock_bio :: "'w env \<Rightarrow> nat \<Rightarrow> 'w net bio" where
  "sock_bio E i = \<lparr>bio_send = mbedtls_net_send E i, bio_recv = mbedtls_net_recv E i\<rparr>"

text \<open>The transport \<open>ssl\<close> was given, if any.\<close>

definition tls_transport :: "'w env \<Rightarrow> tlsref \<Rightarrow> 'w net \<Rightarrow> 'w net bio option option" where
  "tls_transport E t s = do { d \<leftarrow> TlsHeap s t; Some (map_option (sock_bio E) (tls_bio d)) }"

section \<open>Starting a session\<close>

text \<open>A failed step releases everything and replaces the code.\<close>

definition fail_with :: "'w env \<Rightarrow> nat \<Rightarrow> int \<Rightarrow> int \<times> 'w net \<Rightarrow> (int, 'w) res" where
  "fail_with E i code r = (let (ret, s) = r in
     if ret \<noteq> 0 then do { s \<leftarrow> mbedtls_free_resource E i s; Some (code, s) } else Some (ret, s))"

text \<open>\<open>if (ret == NET_OK) ...\<close>\<close>

definition if_ok :: "int \<times> 'w net \<Rightarrow> ('w net \<Rightarrow> (int, 'w) res) \<Rightarrow> (int, 'w) res" where
  "if_ok r f = (if fst r = NET_OK then f (snd r) else Some r)"

definition tls_init :: "'w env \<Rightarrow> tlsref \<Rightarrow> 'w net \<Rightarrow> 'w net option" where
  "tls_init E t s = do {
     s \<leftarrow> mbv E Mb_set_calloc_free t s;
     s \<leftarrow> mbv E Mb_ssl_init t s;
     s \<leftarrow> mbv E Mb_ssl_config_init t s;
     s \<leftarrow> mbv E Mb_conf_dbg t s;
     s \<leftarrow> mbv E Mb_cacert_init t s;
     d \<leftarrow> tls_at t s;
     s \<leftarrow> (if tls_dev_cert d \<noteq> None then mbv E Mb_clicert_init t s else Some s);
     (if tls_dev_key d \<noteq> None then mbv E Mb_pk_init t s else Some s) }"

definition tls_credentials :: "'w env \<Rightarrow> nat \<Rightarrow> tlsref \<Rightarrow> 'w net \<Rightarrow> (int, 'w) res" where
  "tls_credentials E i t s = do {
     d \<leftarrow> tls_at t s;
     r \<leftarrow> (case tls_ca_certs d of
             Some c \<Rightarrow> do { r \<leftarrow> mbi E (Mb_crt_parse_ca c) t s; fail_with E i NET_ERROR_MBEDTLS_CRT_PARSE r }
           | None \<Rightarrow> Some (NET_OK, s));
     if_ok r (\<lambda>s.
       (case (tls_dev_cert d, tls_dev_key d) of
          (Some c, Some k) \<Rightarrow> do {
            (ret, s) \<leftarrow> mbi E (Mb_crt_parse_cli c) t s;
            (if ret \<noteq> 0 then fail_with E i NET_ERROR_MBEDTLS_CRT_PARSE (ret, s)
             else do {
               r \<leftarrow> mbi E (Mb_pk_parse_key k (tls_dev_pwd d) (tls_dev_pwd_len d)) t s;
               fail_with E i NET_ERROR_MBEDTLS_KEY_PARSE r }) }
        | _ \<Rightarrow> Some (NET_OK, s))) }"

definition tls_configure :: "'w env \<Rightarrow> nat \<Rightarrow> tlsref \<Rightarrow> 'w net \<Rightarrow> (int, 'w) res" where
  "tls_configure E i t s = do {
     r \<leftarrow> mbi E Mb_config_defaults t s;
     r \<leftarrow> fail_with E i NET_ERROR_MBEDTLS_CONFIG r;
     r \<leftarrow> if_ok r (\<lambda>s. do {
       d \<leftarrow> tls_at t s;
       s \<leftarrow> (case tls_cert_prof d of Some c \<Rightarrow> mbv E (Mb_conf_cert_profile c) t s | None \<Rightarrow> Some s);
       s \<leftarrow> (if tls_srv_verification d then mbv E Mb_conf_authmode_required t s
            else mbv E Mb_conf_authmode_optional t s);
       s \<leftarrow> mbv E Mb_conf_rng t s;
       s \<leftarrow> mbv E Mb_conf_ca_chain t s;
       (if tls_dev_cert d \<noteq> None \<and> tls_dev_key d \<noteq> None then do {
          r \<leftarrow> mbi E Mb_conf_own_cert t s;
          fail_with E i NET_ERROR_MBEDTLS_CONFIG r }
        else Some (NET_OK, s)) });
     r \<leftarrow> if_ok r (\<lambda>s. do {
       r \<leftarrow> mbi E Mb_ssl_setup t s;
       fail_with E i NET_ERROR_MBEDTLS_SSL_SETUP r });
     if_ok r (\<lambda>s. do {
       d \<leftarrow> tls_at t s;
       (case tls_srv_name d of
          Some n \<Rightarrow> do {
            r \<leftarrow> mbi E (Mb_set_hostname n) t s;
            fail_with E i NET_ERROR_MBEDTLS_SET_HOSTNAME r }
        | None \<Rightarrow> Some (NET_OK, s)) }) }"

definition NET_TICK :: "'w env \<Rightarrow> 'w net \<Rightarrow> u32 \<times> 'w net" where
  "NET_TICK E s = (let (t, w) = env_tick E (dev s) in (t, s\<lparr>dev := w\<rparr>))"

partial_function (option) handshake_loop ::
  "'w env \<Rightarrow> nat \<Rightarrow> tlsref \<Rightarrow> u32 \<Rightarrow> int \<Rightarrow> 'w net \<Rightarrow> (int \<times> 'w net) option" where
  "handshake_loop E i t start_tick ret s =
     (if ret = 0 then Some (ret, s)
      else case NET_TICK E s of (now, s) \<Rightarrow>
        if now - start_tick > NET_MBEDTLS_CONNECT_TIMEOUT
        then do { s \<leftarrow> mbedtls_free_resource E i s; Some (NET_ERROR_MBEDTLS_CONNECT, s) }
        else if ret \<noteq> MBEDTLS_ERR_SSL_WANT_READ \<and> ret \<noteq> MBEDTLS_ERR_SSL_WANT_WRITE
        then do {
          (flags, s) \<leftarrow> mbi E Mb_get_verify_result t s;
          s \<leftarrow> upd_tls t (\<lambda>d. d\<lparr>tls_flags := u32_of flags\<rparr>) s;
          s \<leftarrow> (if u32_of flags \<noteq> 0 then mbv E (Mb_verify_info (u32_of flags)) t s else Some s);
          s \<leftarrow> mbedtls_free_resource E i s;
          Some (if ret = MBEDTLS_ERR_X509_CERT_VERIFY_FAILED then NET_ERROR_MBEDTLS_REMOTE_AUTH
                else NET_ERROR_MBEDTLS_CONNECT, s) }
        else do {
          (ret, s) \<leftarrow> mb_handshake E (sock_bio E i) t s;
          handshake_loop E i t start_tick ret s })"

definition show_peer_certificate :: "'w env \<Rightarrow> tlsref \<Rightarrow> 'w net \<Rightarrow> 'w net option" where
  "show_peer_certificate E t s = do {
     (_, s) \<leftarrow> mbi E Mb_get_record_expansion t s;
     (cert, s) \<leftarrow> mbi E Mb_get_peer_cert t s;
     (if cert \<noteq> 0
      then (case net_malloc E 2048 s of
              (Some buf, s) \<Rightarrow> do {
                (_, s) \<leftarrow> mbi E Mb_get_peer_cert t s;
                s \<leftarrow> mbv E Mb_crt_info t s;
                Some (net_free E buf s) }
            | (None, s) \<Rightarrow> Some s)
      else Some s) }"

definition tls_connect :: "'w env \<Rightarrow> nat \<Rightarrow> tlsref \<Rightarrow> 'w net \<Rightarrow> (int, 'w) res" where
  "tls_connect E i t s = do {
     s \<leftarrow> mbv E Mb_set_bio t s;
     s \<leftarrow> upd_tls t (\<lambda>d. d\<lparr>tls_bio := Some i\<rparr>) s;
     s \<leftarrow> mbv E (Mb_conf_read_timeout (u32_of (s_read_timeout (sock_at i s)))) t s;
     (ret, s) \<leftarrow> mb_handshake E (sock_bio E i) t s;
     let (start_tick, s) = NET_TICK E s;
     (ret, s) \<leftarrow> handshake_loop E i t start_tick ret s;
     (if ret = NET_OK then do { s \<leftarrow> show_peer_certificate E t s; Some (ret, s) }
      else Some (ret, s)) }"

definition net_mbedtls_start :: "'w env \<Rightarrow> nat \<Rightarrow> 'w net \<Rightarrow> (int, 'w) res" where
  "net_mbedtls_start E i s = do {
     t \<leftarrow> s_tlsData (sock_at i s);
     s \<leftarrow> tls_init E t s;
     r \<leftarrow> tls_credentials E i t s;
     r \<leftarrow> if_ok r (tls_configure E i t);
     if_ok r (tls_connect E i t) }"

section \<open>Data transfer and closing\<close>

definition net_mbedtls_sock_recv :: "'w env \<Rightarrow> nat \<Rightarrow> bytes \<Rightarrow> u32 \<Rightarrow> 'w net \<Rightarrow> (int \<times> bytes, 'w) res" where
  "net_mbedtls_sock_recv E i buf len s = do {
     t \<leftarrow> s_tlsData (sock_at i s);
     bio \<leftarrow> tls_transport E t s;
     ((ret, buf), s) \<leftarrow> mb_ssl_read E bio t buf len s;
     let ret = (if ret \<le> 0
                then if ret = 0 then NET_ERROR_DISCONNECTED
                     else if ret = MBEDTLS_ERR_SSL_TIMEOUT then NET_TIMEOUT
                     else if ret = MBEDTLS_ERR_SSL_WANT_READ then NET_TIMEOUT
                     else NET_ERROR_MBEDTLS
                else ret);
     Some ((ret, buf), s) }"

definition net_mbedtls_sock_send :: "'w env \<Rightarrow> nat \<Rightarrow> bytes \<Rightarrow> u32 \<Rightarrow> 'w net \<Rightarrow> (int, 'w) res" where
  "net_mbedtls_sock_send E i buf len s = do {
     t \<leftarrow> s_tlsData (sock_at i s);
     bio \<leftarrow> tls_transport E t s;
     (ret, s) \<leftarrow> mb_ssl_write E bio t buf len s;
     Some (if ret = 0 then NET_ERROR_DISCONNECTED else if ret < 0 then NET_ERROR_MBEDTLS else ret, s) }"

partial_function (option) close_notify_loop ::
  "'w env \<Rightarrow> tlsref \<Rightarrow> 'w net \<Rightarrow> (int \<times> 'w net) option" where
  "close_notify_loop E t s = do {
     bio \<leftarrow> tls_transport E t s;
     (ret, s) \<leftarrow> mb_close_notify E bio t s;
     (if ret = MBEDTLS_ERR_SSL_WANT_WRITE \<or> ret = MBEDTLS_ERR_SSL_WANT_READ
      then close_notify_loop E t s else Some (ret, s)) }"

definition net_mbedtls_stop :: "'w env \<Rightarrow> nat \<Rightarrow> 'w net \<Rightarrow> (int, 'w) res" where
  "net_mbedtls_stop E i s = do {
     t \<leftarrow> s_tlsData (sock_at i s);
     (_, s) \<leftarrow> close_notify_loop E t s;
     s \<leftarrow> mbedtls_free_resource E i s;
     Some (NET_OK, s) }"

end
