(* ===== verification/Net_Socket.thy ===== *)
theory Net_Socket
  imports Net_Mbedtls
begin

text \<open>
  \<open>core/net_socket.c\<close>: the BSD-like socket interface. A socket number is an index into the table
  \<open>Sockets\<close>; each slot has an RTOS lock that is held while the slot is used and released around
  every call into the interface driver. \<open>net_access_control\<close> is in \<open>core/net_core.c\<close>.
\<close>

section \<open>Access control\<close>

datatype net_access =
    NET_ACCESS_SOCKET | NET_ACCESS_BIND | NET_ACCESS_LISTEN | NET_ACCESS_CONNECT | NET_ACCESS_SEND
  | NET_ACCESS_SENDTO | NET_ACCESS_RECV | NET_ACCESS_RECVFROM | NET_ACCESS_CLOSE
  | NET_ACCESS_SETSOCKOPT

text \<open>The result and the new value of \<open>*code\<close>.\<close>

definition net_access_control :: "netref option \<Rightarrow> net_access \<Rightarrow> int \<Rightarrow> 'w net \<Rightarrow> bool \<times> int" where
  "net_access_control pnetif func code s =
     (let (ret, code) =
        (if pnetif = None \<or> h_state (Netifs s (the pnetif)) = NET_STATE_CONNECTION_LOST
         then (False, 0) else (True, code))
      in case func of
           NET_ACCESS_SOCKET \<Rightarrow> (True, code)
         | NET_ACCESS_BIND \<Rightarrow> (ret, code)
         | NET_ACCESS_LISTEN \<Rightarrow> (ret, code)
         | NET_ACCESS_CONNECT \<Rightarrow> (ret, code)
         | NET_ACCESS_CLOSE \<Rightarrow> (True, code)
         | NET_ACCESS_SEND \<Rightarrow> (ret, 0)
         | NET_ACCESS_SENDTO \<Rightarrow> (ret, 0)
         | NET_ACCESS_RECV \<Rightarrow> (ret, 0)
         | NET_ACCESS_RECVFROM \<Rightarrow> (ret, 0)
         | NET_ACCESS_SETSOCKOPT \<Rightarrow> (True, code))"

section \<open>Slots\<close>

definition is_valid_socket :: "int \<Rightarrow> 'w net \<Rightarrow> bool" where
  "is_valid_socket sock s \<longleftrightarrow>
     0 \<le> sock \<and> sock < int NET_MAX_SOCKETS_NBR \<and> s_status (sock_at (nat sock) s) \<noteq> SOCKET_NOT_ALIVE"

text \<open>\<open>net_socket_get_and_lock\<close>: the pointer it returns is the index itself.\<close>

definition net_socket_get_and_lock :: "int \<Rightarrow> 'w net \<Rightarrow> nat \<times> 'w net" where
  "net_socket_get_and_lock sock s = (nat sock, LOCK_SOCK sock s)"

definition default_protocol :: "nat \<Rightarrow> 'w net \<Rightarrow> 'w net" where
  "default_protocol i s =
     (if 0 = s_protocol (sock_at i s) then
        let s = (if s_type (sock_at i s) = NET_SOCK_STREAM
                 then upd_sock i (\<lambda>k. k\<lparr>s_protocol := NET_IPPROTO_TCP\<rparr>) s else s)
        in (if s_type (sock_at i s) = NET_SOCK_DGRAM
            then upd_sock i (\<lambda>k. k\<lparr>s_protocol := NET_IPPROTO_UDP\<rparr>) s else s)
      else s)"

definition create_low_level_socket :: "'w env \<Rightarrow> int \<Rightarrow> 'w net \<Rightarrow> (int, 'w) res" where
  "create_low_level_socket E sock s = (let i = nat sock in
     (if s_ulsocket (sock_at i s) = -1 then do {
        let (ok, code) = net_access_control (s_pnetif (sock_at i s)) NET_ACCESS_SOCKET
                           (s_ulsocket (sock_at i s)) s;
        let s = upd_sock i (\<lambda>k. k\<lparr>s_ulsocket := code\<rparr>) s;
        (if ok then do {
           let s = default_protocol i s;
           d \<leftarrow> sock_drv E i s;
           (case psocket d of
              None \<Rightarrow> Some (s_ulsocket (sock_at i s), s)
            | Some f \<Rightarrow> do {
                (r, s) \<leftarrow> f (s_domain (sock_at i s)) (s_type (sock_at i s)) (s_protocol (sock_at i s)) s;
                let s = upd_sock i (\<lambda>k. k\<lparr>s_ulsocket := r\<rparr>) s;
                Some (s_ulsocket (sock_at i s), s) }) }
         else Some (s_ulsocket (sock_at i s), s)) }
      else Some (s_ulsocket (sock_at i s), s)))"

definition check_low_level_socket :: "int \<Rightarrow> 'w net \<Rightarrow> int" where
  "check_low_level_socket sock s =
     (if is_valid_socket sock s then s_ulsocket (sock_at (nat sock) s) else -1)"

definition find_free_socket :: "'w net \<Rightarrow> (int, 'w) res" where
  "find_free_socket s = do {
     let s = LOCK_SOCK_ARRAY s;
     (ret, s) \<leftarrow>
       (case List.find (\<lambda>i. s_status (sock_at i s) = SOCKET_NOT_ALIVE) [0..<NET_MAX_SOCKETS_NBR] of
          None \<Rightarrow> Some (NET_ERROR_INVALID_SOCKET, s)
        | Some i \<Rightarrow> do {
            let s = upd_sock i (\<lambda>k. k\<lparr>s_idx := int i, s_status := SOCKET_ALLOCATED, s_domain := 0,
                      s_type := 0, s_protocol := 0, s_is_secure := False, s_tlsData := None,
                      s_read_timeout := NET_SOCK_DEFAULT_RECEIVE_TO,
                      s_write_timeout := NET_SOCK_DEFAULT_SEND_TO, s_blocking := True,
                      s_ulsocket := -1\<rparr>) s;
            (p, s) \<leftarrow> net_if_find None s;
            let s = upd_sock i (\<lambda>k. k\<lparr>s_pnetif := p\<rparr>) s;
            let s = LOCK_SOCK (int i) s;
            Some (int i, s) });
     Some (ret, UNLOCK_SOCK_ARRAY s) }"

definition clone_socket :: "int \<Rightarrow> 'w net \<Rightarrow> (int, 'w) res" where
  "clone_socket sock s = do {
     (newsock, s) \<leftarrow> find_free_socket s;
     Some (newsock, if newsock \<ge> 0 then upd_sock (nat newsock) (\<lambda>_. sock_at (nat sock) s) s else s) }"

section \<open>The operations\<close>

text \<open>\<open>UNLOCK_SOCK(sock); ret = p_socket->pnetif->pdrv-><function>(...); LOCK_SOCK(sock);\<close>\<close>

definition call_unlocked ::
  "'w env \<Rightarrow> int \<Rightarrow> ('w net net_if_drv \<Rightarrow> 'f option) \<Rightarrow> ('f \<Rightarrow> 'w net \<Rightarrow> ('a, 'w) res) \<Rightarrow> 'w net \<Rightarrow> ('a, 'w) res" where
  "call_unlocked E sock sel call s = do {
     let s = UNLOCK_SOCK sock s;
     d \<leftarrow> sock_drv E (nat sock) s;
     f \<leftarrow> sel d;
     (r, s) \<leftarrow> call f s;
     Some (r, LOCK_SOCK sock s) }"

definition net_socket :: "int \<Rightarrow> int \<Rightarrow> int \<Rightarrow> 'w net \<Rightarrow> (int, 'w) res" where
  "net_socket domain type protocol s = do {
     (newsock, s) \<leftarrow> find_free_socket s;
     Some (newsock,
       if newsock \<ge> 0
       then UNLOCK_SOCK newsock (upd_sock (nat newsock)
              (\<lambda>k. k\<lparr>s_domain := domain, s_type := type, s_protocol := protocol\<rparr>) s)
       else s) }"

text \<open>\<open>if (p_socket->pnetif == NULL) p_socket->pnetif = net_if_find(NULL);\<close>\<close>

definition default_interface :: "nat \<Rightarrow> 'w net \<Rightarrow> 'w net option" where
  "default_interface i s =
     (if s_pnetif (sock_at i s) = None
      then do { (p, s) \<leftarrow> net_if_find None s; Some (upd_sock i (\<lambda>k. k\<lparr>s_pnetif := p\<rparr>) s) }
      else Some s)"

definition net_bind :: "'w env \<Rightarrow> int \<Rightarrow> net_sockaddr option \<Rightarrow> u32 \<Rightarrow> 'w net \<Rightarrow> (int, 'w) res" where
  "net_bind E sock addr addrlen s =
     (if \<not> is_valid_socket sock s then Some (NET_ERROR_INVALID_SOCKET, s)
      else do {
        let (i, s) = net_socket_get_and_lock sock s;
        s \<leftarrow> default_interface i s;
        (ul, s) \<leftarrow> create_low_level_socket E sock s;
        (ret, s) \<leftarrow> (if ul < 0 then Some (NET_ERROR_SOCKET_FAILURE, s)
          else let (ok, ret) = net_access_control (s_pnetif (sock_at i s)) NET_ACCESS_BIND
                                 NET_ERROR_FRAMEWORK s in
            if ok
            then call_unlocked E sock pbind (\<lambda>f s. f (s_ulsocket (sock_at i s)) addr addrlen s) s
            else Some (ret, s));
        Some (ret, UNLOCK_SOCK sock s) })"

text \<open>The part of \<open>net_accept\<close> after the driver has returned a new low-level socket.\<close>

definition accept_new :: "int \<Rightarrow> int \<Rightarrow> 'w net \<Rightarrow> (int, 'w) res" where
  "accept_new sock ulnewsock s = do {
     let s = upd_sock (nat sock) (\<lambda>k. k\<lparr>s_status := SOCKET_CONNECTED\<rparr>) s;
     (newsock, s) \<leftarrow> clone_socket sock s;
     Some (newsock,
       if newsock \<ge> 0
       then UNLOCK_SOCK newsock (upd_sock (nat newsock)
              (\<lambda>k. k\<lparr>s_ulsocket := ulnewsock, s_cloneserver := True\<rparr>) s)
       else s) }"

definition net_accept ::
  "'w env \<Rightarrow> int \<Rightarrow> net_sockaddr option \<Rightarrow> u32 \<Rightarrow> 'w net \<Rightarrow> (int \<times> net_sockaddr option \<times> u32, 'w) res" where
  "net_accept E sock addr addrlen s =
     (if \<not> is_valid_socket sock s then Some ((NET_ERROR_INVALID_SOCKET, addr, addrlen), s)
      else if check_low_level_socket sock s < 0 then Some ((NET_ERROR_SOCKET_FAILURE, addr, addrlen), s)
      else do {
        let (i, s) = net_socket_get_and_lock sock s;
        let (ok, ulnewsock) = net_access_control (s_pnetif (sock_at i s)) NET_ACCESS_BIND (-1) s;
        ((ulnewsock, addr, addrlen), s) \<leftarrow>
          (if ok
           then call_unlocked E sock paccept (\<lambda>f s. f (s_ulsocket (sock_at i s)) addr addrlen s) s
           else Some ((ulnewsock, addr, addrlen), s));
        (newsock, s) \<leftarrow> (if ulnewsock < 0 then Some (ulnewsock, s) else accept_new sock ulnewsock s);
        Some ((newsock, addr, addrlen), UNLOCK_SOCK sock s) })"

definition net_listen :: "'w env \<Rightarrow> int \<Rightarrow> int \<Rightarrow> 'w net \<Rightarrow> (int, 'w) res" where
  "net_listen E sock backlog s =
     (if \<not> is_valid_socket sock s then Some (NET_ERROR_INVALID_SOCKET, s)
      else if check_low_level_socket sock s < 0 then Some (NET_ERROR_SOCKET_FAILURE, s)
      else do {
        let (i, s) = net_socket_get_and_lock sock s;
        let (ok, ret) = net_access_control (s_pnetif (sock_at i s)) NET_ACCESS_LISTEN
                          NET_ERROR_FRAMEWORK s;
        (ret, s) \<leftarrow>
          (if ok
           then call_unlocked E sock plisten (\<lambda>f s. f (s_ulsocket (sock_at i s)) backlog s) s
           else Some (ret, s));
        Some (ret, UNLOCK_SOCK sock s) })"

text \<open>The TLS part of \<open>net_shutdown\<close> and \<open>net_closesocket\<close>.\<close>

definition leave_tls :: "'w env \<Rightarrow> nat \<Rightarrow> 'w net \<Rightarrow> 'w net option" where
  "leave_tls E i s =
     (if s_is_secure (sock_at i s) then do {
        s \<leftarrow> (if s_tls_started (sock_at i s) then do {
               (_, s) \<leftarrow> net_mbedtls_stop E i (upd_sock i (\<lambda>k. k\<lparr>s_tls_started := False\<rparr>) s);
               Some s }
             else Some s);
        Some (upd_sock i (\<lambda>k. k\<lparr>s_is_secure := False\<rparr>) s) }
      else Some s)"

definition net_shutdown :: "'w env \<Rightarrow> int \<Rightarrow> int \<Rightarrow> 'w net \<Rightarrow> (int, 'w) res" where
  "net_shutdown E sock mode s =
     (if \<not> is_valid_socket sock s then Some (NET_ERROR_INVALID_SOCKET, s)
      else do {
        let (i, s) = net_socket_get_and_lock sock s;
        s \<leftarrow> leave_tls E i s;
        (ret, s) \<leftarrow>
          (if check_low_level_socket sock s < 0
           then Some (NET_OK, upd_sock i (\<lambda>k. k\<lparr>s_status := SOCKET_NOT_ALIVE\<rparr>) s)
           else let (ok, ret) = net_access_control (s_pnetif (sock_at i s)) NET_ACCESS_CLOSE
                                  NET_ERROR_FRAMEWORK s in
             if ok
             then call_unlocked E sock pshutdown (\<lambda>f s. f (s_ulsocket (sock_at i s)) mode s) s
             else Some (ret, s));
        Some (ret, UNLOCK_SOCK sock s) })"

definition net_closesocket :: "'w env \<Rightarrow> int \<Rightarrow> 'w net \<Rightarrow> (int, 'w) res" where
  "net_closesocket E sock s =
     (if \<not> is_valid_socket sock s then Some (NET_ERROR_INVALID_SOCKET, s)
      else do {
        let (i, s) = net_socket_get_and_lock sock s;
        s \<leftarrow> leave_tls E i s;
        (ret, s) \<leftarrow>
          (if check_low_level_socket sock s < 0
           then Some (NET_OK, upd_sock i (\<lambda>k. k\<lparr>s_status := SOCKET_NOT_ALIVE\<rparr>) s)
           else let (ok, ret) = net_access_control (s_pnetif (sock_at i s)) NET_ACCESS_CLOSE
                                  NET_ERROR_FRAMEWORK s in
             if ok
             then do {
               (ret, s) \<leftarrow> call_unlocked E sock pclose
                 (\<lambda>f s. f (s_ulsocket (sock_at i s)) (s_cloneserver (sock_at i s)) s) s;
               Some (ret, upd_sock i (\<lambda>k. k\<lparr>s_ulsocket := -1, s_status := SOCKET_NOT_ALIVE\<rparr>) s) }
             else Some (ret, s));
        Some (ret, UNLOCK_SOCK sock s) })"

definition net_connect :: "'w env \<Rightarrow> int \<Rightarrow> net_sockaddr option \<Rightarrow> u32 \<Rightarrow> 'w net \<Rightarrow> (int, 'w) res" where
  "net_connect E sock addr addrlen s =
     (if \<not> is_valid_socket sock s then Some (NET_ERROR_INVALID_SOCKET, s)
      else do {
        let (i, s) = net_socket_get_and_lock sock s;
        s \<leftarrow> default_interface i s;
        (ret, s) \<leftarrow>
          (if s_pnetif (sock_at i s) = None then Some (NET_ERROR_INTERFACE_FAILURE, s)
           else do {
             (ul, s) \<leftarrow> create_low_level_socket E sock s;
             (ret, s) \<leftarrow>
               (if ul < 0 then do {
                  (ul, s) \<leftarrow> create_low_level_socket E sock s;
                  Some (if ul < 0 then NET_ERROR_SOCKET_FAILURE else NET_ERROR_FRAMEWORK, s) }
                else let (ok, ret) = net_access_control (s_pnetif (sock_at i s)) NET_ACCESS_CONNECT
                                       NET_ERROR_FRAMEWORK s in
                  if ok then do {
                    (ret, s) \<leftarrow> call_unlocked E sock pconnect
                      (\<lambda>f s. f (s_ulsocket (sock_at i s)) addr addrlen s) s;
                    (if ret \<noteq> NET_OK then do {
                       let s = (if s_is_secure (sock_at i s)
                                then (case s_tlsData (sock_at i s) of
                                        Some t \<Rightarrow> (net_free E t s)\<lparr>TlsHeap := (TlsHeap s)(t := None)\<rparr>
                                      | None \<Rightarrow> s)
                                else s);
                       Some (ret, upd_sock i (\<lambda>k. k\<lparr>s_is_secure := False\<rparr>) s) }
                     else Some (ret, s)) }
                  else Some (ret, s));
             (if ret = NET_OK then do {
                (ret, s) \<leftarrow>
                  (if s_is_secure (sock_at i s) then do {
                     (r, s) \<leftarrow> net_mbedtls_start E i s;
                     (if r \<noteq> NET_OK then do {
                        let s = upd_sock i (\<lambda>k. k\<lparr>s_is_secure := False\<rparr>) s;
                        (_, s) \<leftarrow> net_closesocket E sock (UNLOCK_SOCK sock s);
                        Some (NET_ERROR_SOCKET_FAILURE, LOCK_SOCK sock s) }
                      else Some (ret, upd_sock i (\<lambda>k. k\<lparr>s_tls_started := True\<rparr>) s)) }
                   else Some (ret, s));
                Some (ret, if ret = NET_OK
                           then upd_sock i (\<lambda>k. k\<lparr>s_status := SOCKET_CONNECTED\<rparr>) s else s) }
              else Some (ret, s)) });
        Some (ret, UNLOCK_SOCK sock s) })"

definition net_send :: "'w env \<Rightarrow> int \<Rightarrow> bytes option \<Rightarrow> u32 \<Rightarrow> int \<Rightarrow> 'w net \<Rightarrow> (int, 'w) res" where
  "net_send E sock buf len flags s =
     (if \<not> is_valid_socket sock s then Some (NET_ERROR_INVALID_SOCKET, s)
      else case buf of
        None \<Rightarrow> Some (NET_ERROR_INVALID_SOCKET, s)
      | Some buf \<Rightarrow>
         if check_low_level_socket sock s < 0 then Some (NET_ERROR_SOCKET_FAILURE, s)
         else do {
           let (i, s) = net_socket_get_and_lock sock s;
           (ret, s) \<leftarrow>
             (if s_is_secure (sock_at i s) then net_mbedtls_sock_send E i buf len s
              else let (ok, ret) = net_access_control (s_pnetif (sock_at i s)) NET_ACCESS_SEND
                                     NET_ERROR_FRAMEWORK s in
                if ok
                then call_unlocked E sock psend
                       (\<lambda>f s. f (s_ulsocket (sock_at i s)) buf (int32_of len) flags s) s
                else Some (ret, s));
           Some (ret, UNLOCK_SOCK sock s) })"

definition net_recv ::
  "'w env \<Rightarrow> int \<Rightarrow> bytes option \<Rightarrow> u32 \<Rightarrow> int \<Rightarrow> 'w net \<Rightarrow> (int \<times> bytes option, 'w) res" where
  "net_recv E sock buf len flags_in s =
     (if \<not> is_valid_socket sock s then Some ((NET_ERROR_INVALID_SOCKET, buf), s)
      else case buf of
        None \<Rightarrow> Some ((NET_ERROR_INVALID_SOCKET, None), s)
      | Some buf \<Rightarrow>
         if check_low_level_socket sock s < 0 then Some ((NET_ERROR_SOCKET_FAILURE, Some buf), s)
         else do {
           let (i, s) = net_socket_get_and_lock sock s;
           ((ret, buf), s) \<leftarrow>
             (if s_is_secure (sock_at i s) then net_mbedtls_sock_recv E i buf len s
              else let (ok, ret) = net_access_control (s_pnetif (sock_at i s)) NET_ACCESS_RECV
                                     NET_ERROR_FRAMEWORK s in
                if ok
                then call_unlocked E sock precv
                       (\<lambda>f s. f (s_ulsocket (sock_at i s)) buf (int32_of len)
                          (if s_read_timeout (sock_at i s) = 0 then NET_MSG_DONTWAIT else flags_in) s) s
                else Some ((ret, buf), s));
           Some ((ret, Some buf), UNLOCK_SOCK sock s) })"

definition net_sendto ::
  "'w env \<Rightarrow> int \<Rightarrow> bytes option \<Rightarrow> u32 \<Rightarrow> int \<Rightarrow> net_sockaddr option \<Rightarrow> u32 \<Rightarrow> 'w net \<Rightarrow> (int, 'w) res" where
  "net_sendto E sock buf len flags to tolen s =
     (if \<not> is_valid_socket sock s then Some (NET_ERROR_INVALID_SOCKET, s)
      else case buf of
        None \<Rightarrow> Some (NET_ERROR_INVALID_SOCKET, s)
      | Some buf \<Rightarrow> do {
         (ul, s) \<leftarrow> create_low_level_socket E sock s;
         (if ul < 0 then Some (NET_ERROR_SOCKET_FAILURE, s)
          else do {
            let (i, s) = net_socket_get_and_lock sock s;
            let (ok, ret) = net_access_control (s_pnetif (sock_at i s)) NET_ACCESS_SENDTO
                              NET_ERROR_FRAMEWORK s;
            (ret, s) \<leftarrow>
              (if ok
               then call_unlocked E sock psendto
                      (\<lambda>f s. f (s_ulsocket (sock_at i s)) buf (int32_of len) flags to tolen s) s
               else Some (ret, s));
            Some (ret, UNLOCK_SOCK sock s) }) })"

definition net_recvfrom ::
  "'w env \<Rightarrow> int \<Rightarrow> bytes option \<Rightarrow> u32 \<Rightarrow> int \<Rightarrow> net_sockaddr option \<Rightarrow> u32 \<Rightarrow> 'w net \<Rightarrow>
     (int \<times> bytes option \<times> net_sockaddr option \<times> u32, 'w) res" where
  "net_recvfrom E sock buf len flags_in from fromlen s =
     (if \<not> is_valid_socket sock s then Some ((NET_ERROR_INVALID_SOCKET, buf, from, fromlen), s)
      else case buf of
        None \<Rightarrow> Some ((NET_ERROR_INVALID_SOCKET, None, from, fromlen), s)
      | Some buf \<Rightarrow> do {
         (ul, s) \<leftarrow> create_low_level_socket E sock s;
         (if ul < 0 then Some ((NET_ERROR_SOCKET_FAILURE, Some buf, from, fromlen), s)
          else do {
            let (i, s) = net_socket_get_and_lock sock s;
            let (ok, ret) = net_access_control (s_pnetif (sock_at i s)) NET_ACCESS_RECVFROM
                              NET_ERROR_FRAMEWORK s;
            ((ret, buf, from, fromlen), s) \<leftarrow>
              (if ok
               then call_unlocked E sock precvfrom
                      (\<lambda>f s. f (s_ulsocket (sock_at i s)) buf (int32_of len)
                         (if s_read_timeout (sock_at i s) = 0 then NET_MSG_DONTWAIT else flags_in)
                         from fromlen s) s
               else Some ((ret, buf, from, fromlen), s));
            Some ((ret, Some buf, from, fromlen), UNLOCK_SOCK sock s) }) })"

definition net_getpeername ::
  "'w env \<Rightarrow> int \<Rightarrow> net_sockaddr option \<Rightarrow> u32 \<Rightarrow> 'w net \<Rightarrow> (int \<times> net_sockaddr option \<times> u32, 'w) res" where
  "net_getpeername E sock name namelen s =
     (if \<not> is_valid_socket sock s then Some ((NET_ERROR_INVALID_SOCKET, name, namelen), s)
      else case name of
        None \<Rightarrow> Some ((NET_ERROR_INVALID_SOCKET, None, namelen), s)
      | Some nm \<Rightarrow>
         if check_low_level_socket sock s < 0 then Some ((NET_ERROR_SOCKET_FAILURE, name, namelen), s)
         else do {
           let (i, s) = net_socket_get_and_lock sock s;
           let (ok, ret) = net_access_control (s_pnetif (sock_at i s)) NET_ACCESS_SOCKET
                             NET_ERROR_FRAMEWORK s;
           ((ret, nm, namelen), s) \<leftarrow>
             (if ok
              then call_unlocked E sock pgetpeername (\<lambda>f s. f (s_ulsocket (sock_at i s)) nm namelen s) s
              else Some ((ret, nm, namelen), s));
           Some ((ret, Some nm, namelen), UNLOCK_SOCK sock s) })"

definition net_getsockname ::
  "'w env \<Rightarrow> int \<Rightarrow> net_sockaddr option \<Rightarrow> u32 \<Rightarrow> 'w net \<Rightarrow> (int \<times> net_sockaddr option \<times> u32, 'w) res" where
  "net_getsockname E sock name namelen s =
     (if \<not> is_valid_socket sock s then Some ((NET_ERROR_INVALID_SOCKET, name, namelen), s)
      else case name of
        None \<Rightarrow> Some ((NET_ERROR_INVALID_SOCKET, None, namelen), s)
      | Some nm \<Rightarrow>
         if check_low_level_socket sock s < 0 then Some ((NET_ERROR_SOCKET_FAILURE, name, namelen), s)
         else do {
           let (i, s) = net_socket_get_and_lock sock s;
           let (ok, ret) = net_access_control (s_pnetif (sock_at i s)) NET_ACCESS_SOCKET
                             NET_ERROR_FRAMEWORK s;
           ((ret, nm, namelen), s) \<leftarrow>
             (if ok
              then call_unlocked E sock pgetsockname (\<lambda>f s. f (s_ulsocket (sock_at i s)) nm namelen s) s
              else Some ((ret, nm, namelen), s));
           Some ((ret, Some nm, namelen), UNLOCK_SOCK sock s) })"

section \<open>Socket options\<close>

text \<open>
  An option that goes into the TLS data. \<open>chk\<close> is \<open>OPTCHECKTYPE\<close> or \<open>OPTCHECKSTRING\<close>; it is
  evaluated only if the socket is not connected, and may read through \<open>optvalue\<close>.
\<close>

definition tls_option ::
  "'w env \<Rightarrow> nat \<Rightarrow> bool option \<Rightarrow> (net_tls_data \<Rightarrow> net_tls_data option) \<Rightarrow> 'w net \<Rightarrow> (int, 'w) res" where
  "tls_option E i chk f s =
     (if s_status (sock_at i s) = SOCKET_CONNECTED then Some (NET_ERROR_IS_CONNECTED, s)
      else do {
        ok \<leftarrow> chk;
        (if \<not> ok then Some (NET_ERROR_PARAMETER, s)
         else case net_mbedtls_check_tlsdata E i s of
             (False, s) \<Rightarrow> Some (NET_ERROR_NO_MEMORY, s)
           | (True, s) \<Rightarrow> do {
               t \<leftarrow> s_tlsData (sock_at i s);
               d \<leftarrow> TlsHeap s t;
               d \<leftarrow> f d;
               Some (NET_OK, s\<lparr>TlsHeap := (TlsHeap s)(t \<mapsto> d)\<rparr>) }) })"

fun opt_string :: "optval \<Rightarrow> string option" where
  "opt_string (OptStr x) = Some x"
| "opt_string _ = None"

text \<open>\<open>strlen(opt) != optlen - 1U\<close> on 32-bit \<open>size_t\<close>.\<close>

definition OPTCHECKSTRING :: "optval \<Rightarrow> u32 \<Rightarrow> bool option" where
  "OPTCHECKSTRING v optlen = do { x \<leftarrow> opt_string v; Some (of_nat (length x) = optlen - 1) }"

text \<open>The \<open>switch\<close>: whether to forward, the return code so far and the state.\<close>

definition setsockopt_switch ::
  "'w env \<Rightarrow> nat \<Rightarrow> net_socketoption \<Rightarrow> optval \<Rightarrow> u32 \<Rightarrow> 'w net \<Rightarrow> (bool \<times> int, 'w) res" where
  "setsockopt_switch E i optname optvalue optlen s =
     (let local = map_option (\<lambda>(ret, s). ((False, ret), s)) in
      case optname of
        NET_SO_BINDTODEVICE \<Rightarrow>
          (if optlen \<noteq> 4 then Some ((False, NET_ERROR_PARAMETER), s)
           else (case optvalue of
               OptIf p \<Rightarrow> Some ((True, NET_ERROR_FRAMEWORK), upd_sock i (\<lambda>k. k\<lparr>s_pnetif := Some p\<rparr>) s)
             | OptNull \<Rightarrow> Some ((False, NET_ERROR_FRAMEWORK), upd_sock i (\<lambda>k. k\<lparr>s_pnetif := None\<rparr>) s)
             | _ \<Rightarrow> None))
      | NET_SO_RCVTIMEO \<Rightarrow>
          (if optlen \<noteq> 4 then Some ((False, NET_ERROR_PARAMETER), s)
           else (case optvalue of
               OptI32 v \<Rightarrow> do {
                 let s = upd_sock i (\<lambda>k. k\<lparr>s_read_timeout := v\<rparr>) s;
                 s \<leftarrow> net_mbedtls_set_read_timeout E i s;
                 Some ((True, NET_ERROR_FRAMEWORK), s) }
             | _ \<Rightarrow> None))
      | NET_SO_SNDTIMEO \<Rightarrow>
          (if optlen \<noteq> 4 then Some ((False, NET_ERROR_PARAMETER), s)
           else (case optvalue of
               OptI32 v \<Rightarrow> Some ((True, NET_ERROR_FRAMEWORK), upd_sock i (\<lambda>k. k\<lparr>s_write_timeout := v\<rparr>) s)
             | _ \<Rightarrow> None))
      | NET_SO_SECURE \<Rightarrow>
          (if s_status (sock_at i s) = SOCKET_CONNECTED then Some ((False, NET_ERROR_IS_CONNECTED), s)
           else case net_mbedtls_check_tlsdata E i s of
               (False, s) \<Rightarrow> Some ((False, NET_ERROR_NO_MEMORY), s)
             | (True, s) \<Rightarrow> Some ((False, NET_OK), upd_sock i (\<lambda>k. k\<lparr>s_is_secure := True\<rparr>) s))
      | NET_SO_TLS_DEV_CERT \<Rightarrow> local (tls_option E i (OPTCHECKSTRING optvalue optlen)
            (\<lambda>d. Some (d\<lparr>tls_dev_cert := opt_string optvalue\<rparr>)) s)
      | NET_SO_TLS_DEV_KEY \<Rightarrow> local (tls_option E i (OPTCHECKSTRING optvalue optlen)
            (\<lambda>d. Some (d\<lparr>tls_dev_key := opt_string optvalue\<rparr>)) s)
      | NET_SO_TLS_PASSWORD \<Rightarrow> local (tls_option E i (OPTCHECKSTRING optvalue optlen)
            (\<lambda>d. Some (d\<lparr>tls_dev_pwd := opt_string optvalue\<rparr>)) s)
      | NET_SO_TLS_CA_CERT \<Rightarrow> local (tls_option E i (OPTCHECKSTRING optvalue optlen)
            (\<lambda>d. Some (d\<lparr>tls_ca_certs := opt_string optvalue\<rparr>)) s)
      | NET_SO_TLS_CA_CRL \<Rightarrow> local (tls_option E i (OPTCHECKSTRING optvalue optlen)
            (\<lambda>d. Some (d\<lparr>tls_ca_crl := opt_string optvalue\<rparr>)) s)
      | NET_SO_TLS_SERVER_VERIFICATION \<Rightarrow> local (tls_option E i (Some (optlen = 1))
            (\<lambda>d. case optvalue of OptBool b \<Rightarrow> Some (d\<lparr>tls_srv_verification := b\<rparr>) | _ \<Rightarrow> None) s)
      | NET_SO_TLS_SERVER_NAME \<Rightarrow> local (tls_option E i (OPTCHECKSTRING optvalue optlen)
            (\<lambda>d. Some (d\<lparr>tls_srv_name := opt_string optvalue\<rparr>)) s)
      | NET_SO_TLS_CERT_PROF \<Rightarrow> local (tls_option E i
            (Some (optlen = of_nat (env_sizeof E Sizeof_x509_crt_profile)))
            (\<lambda>d. case optvalue of
                OptProf c \<Rightarrow> Some (d\<lparr>tls_cert_prof := Some c\<rparr>)
              | OptNull \<Rightarrow> Some (d\<lparr>tls_cert_prof := None\<rparr>)
              | _ \<Rightarrow> None) s)
      | _ \<Rightarrow> Some ((True, NET_ERROR_FRAMEWORK), s))"

definition net_setsockopt ::
  "'w env \<Rightarrow> int \<Rightarrow> int \<Rightarrow> net_socketoption \<Rightarrow> optval \<Rightarrow> u32 \<Rightarrow> 'w net \<Rightarrow> (int, 'w) res" where
  "net_setsockopt E sock level optname optvalue optlen s =
     (if \<not> is_valid_socket sock s then Some (NET_ERROR_INVALID_SOCKET, s)
      else do {
        let (i, s) = net_socket_get_and_lock sock s;
        ((forward, ret), s) \<leftarrow> setsockopt_switch E i optname optvalue optlen s;
        (ret, s) \<leftarrow>
          (if forward then do {
             s \<leftarrow> default_interface i s;
             (if s_pnetif (sock_at i s) = None then Some (NET_ERROR_INTERFACE_FAILURE, s)
              else do {
                (ul, s) \<leftarrow> create_low_level_socket E sock s;
                (if ul < 0 then Some (NET_ERROR_SOCKET_FAILURE, s)
                 else let (ok, ret) = net_access_control (s_pnetif (sock_at i s)) NET_ACCESS_SETSOCKOPT ret s in
                   if ok
                   then call_unlocked E sock psetsockopt
                          (\<lambda>f s. f (s_ulsocket (sock_at i s)) level optname optvalue optlen s) s
                   else Some (ret, s)) }) }
           else Some (ret, s));
        Some (ret, UNLOCK_SOCK sock s) })"

end
