(* ===== verification/Socket_Frame.thy ===== *)
theory Socket_Frame
  imports Net_Socket Net_Demo
begin

text \<open>
  What a socket call may touch: the contract of the driver's socket functions (locale
  \<open>socket_driver\<close>), the contract of mbedTLS, and the frame of every operation of \<open>net_socket.c\<close>:
  it works on its own slot, with the lock of that slot held between calls into the driver.
\<close>

section \<open>Partial-correctness rules\<close>

definition ends :: "('a \<Rightarrow> 's \<Rightarrow> bool) \<Rightarrow> ('a \<times> 's) option \<Rightarrow> bool" where
  "ends P m \<longleftrightarrow> (\<forall>r s. m = Some (r, s) \<longrightarrow> P r s)"

lemma ends_Some [simp]: "ends P (Some (r, s)) \<longleftrightarrow> P r s"
  by (simp add: ends_def)

lemma ends_None [simp]: "ends P None"
  by (simp add: ends_def)

lemma ends_bind:
  "ends (\<lambda>r s. ends P (f (r, s))) m \<Longrightarrow> ends P (Option.bind m f)"
  by (auto simp: ends_def bind_Some_iff)

lemma ends_bind_option: "(\<And>x. m = Some x \<Longrightarrow> ends P (f x)) \<Longrightarrow> ends P (Option.bind m f)"
  by (cases m) auto

lemma ends_conseq: "ends Q m \<Longrightarrow> (\<And>r s. Q r s \<Longrightarrow> P r s) \<Longrightarrow> ends P m"
  by (auto simp: ends_def)

lemma endsD: "ends P m \<Longrightarrow> m = Some (r, s) \<Longrightarrow> P r s"
  by (simp add: ends_def)

section \<open>Contracts of the code outside\<close>

text \<open>
  A socket function of a driver leaves the socket table, the TLS data, the interface list, the driver
  links and the library's locks as they are.
\<close>

definition sock_frame :: "'w net \<Rightarrow> 'w net \<Rightarrow> bool" where
  "sock_frame s s' \<longleftrightarrow> Sockets s' = Sockets s \<and> TlsHeap s' = TlsHeap s \<and> held s' = held s
     \<and> NetIfList s' = NetIfList s
     \<and> (\<forall>q. h_pdrv (Netifs s' q) = h_pdrv (Netifs s q) \<and> h_next (Netifs s' q) = h_next (Netifs s q))"

lemma sock_frame_refl [simp]: "sock_frame s s"
  by (simp add: sock_frame_def)

lemma sock_frame_trans [trans]: "sock_frame s t \<Longrightarrow> sock_frame t u \<Longrightarrow> sock_frame s u"
  by (simp add: sock_frame_def)

lemma sock_frame_dev [simp]: "sock_frame s (s\<lparr>dev := w\<rparr>)"
  by (simp add: sock_frame_def)

locale socket_driver =
  fixes E :: "'w env"
  assumes psocket_ok: "psocket (env_drv E d) = Some f1 \<Longrightarrow> f1 a b c s = Some (r, s') \<Longrightarrow> sock_frame s s'"
    and pbind_ok: "pbind (env_drv E d) = Some f2 \<Longrightarrow> f2 k ad len s = Some (r, s') \<Longrightarrow> sock_frame s s'"
    and plisten_ok: "plisten (env_drv E d) = Some f3 \<Longrightarrow> f3 k n s = Some (r, s') \<Longrightarrow> sock_frame s s'"
    and paccept_ok: "paccept (env_drv E d) = Some f4 \<Longrightarrow> f4 k ad len s = Some (ra, s') \<Longrightarrow> sock_frame s s'"
    and pconnect_ok: "pconnect (env_drv E d) = Some f5 \<Longrightarrow> f5 k ad len s = Some (r, s') \<Longrightarrow> sock_frame s s'"
    and psend_ok: "psend (env_drv E d) = Some f6 \<Longrightarrow> f6 k buf n fl s = Some (r, s') \<Longrightarrow> sock_frame s s'"
    and precv_ok: "precv (env_drv E d) = Some f7 \<Longrightarrow> f7 k buf n fl s = Some (rb, s') \<Longrightarrow> sock_frame s s'"
    and psendto_ok: "psendto (env_drv E d) = Some f8 \<Longrightarrow> f8 k buf n fl ad len s = Some (r, s') \<Longrightarrow> sock_frame s s'"
    and precvfrom_ok: "precvfrom (env_drv E d) = Some f9 \<Longrightarrow> f9 k buf n fl ad len s = Some (rc, s') \<Longrightarrow> sock_frame s s'"
    and psetsockopt_ok: "psetsockopt (env_drv E d) = Some f10 \<Longrightarrow> f10 k n oo v len s = Some (r, s') \<Longrightarrow> sock_frame s s'"
    and pgetsockname_ok: "pgetsockname (env_drv E d) = Some f11 \<Longrightarrow> f11 k nm len s = Some (rn, s') \<Longrightarrow> sock_frame s s'"
    and pgetpeername_ok: "pgetpeername (env_drv E d) = Some f12 \<Longrightarrow> f12 k nm len s = Some (rn, s') \<Longrightarrow> sock_frame s s'"
    and pclose_ok: "pclose (env_drv E d) = Some f13 \<Longrightarrow> f13 k cl s = Some (r, s') \<Longrightarrow> sock_frame s s'"
    and pshutdown_ok: "pshutdown (env_drv E d) = Some f14 \<Longrightarrow> f14 k n s = Some (r, s') \<Longrightarrow> sock_frame s s'"

text \<open>
  mbedTLS works on its own objects and reaches the rest of the system only through the transport
  functions it was given: whatever these two (and work outside the library) keep, it keeps.
\<close>

definition bio_within :: "('s \<Rightarrow> 's \<Rightarrow> bool) \<Rightarrow> 's bio \<Rightarrow> bool" where
  "bio_within R b \<longleftrightarrow>
     (\<forall>buf len s. ends (\<lambda>_ s'. R s s') (bio_send b buf len s))
     \<and> (\<forall>buf len to s. ends (\<lambda>_ s'. R s s') (bio_recv b buf len to s))"

definition mbedtls_relation :: "('w net \<Rightarrow> 'w net \<Rightarrow> bool) \<Rightarrow> bool" where
  "mbedtls_relation R \<longleftrightarrow> reflp R \<and> transp R \<and> (\<forall>s w. R s (s\<lparr>dev := w\<rparr>))"

definition mbedtls_contract :: "'w env \<Rightarrow> bool" where
  "mbedtls_contract E \<longleftrightarrow> (\<forall>R. mbedtls_relation R \<longrightarrow>
     (\<forall>b t s. bio_within R b \<longrightarrow> ends (\<lambda>_ s'. R s s') (mb_handshake E b t s))
     \<and> (\<forall>b t buf len s. (\<forall>c. b = Some c \<longrightarrow> bio_within R c) \<longrightarrow> ends (\<lambda>_ s'. R s s') (mb_ssl_read E b t buf len s))
     \<and> (\<forall>b t buf len s. (\<forall>c. b = Some c \<longrightarrow> bio_within R c) \<longrightarrow> ends (\<lambda>_ s'. R s s') (mb_ssl_write E b t buf len s))
     \<and> (\<forall>b t s. (\<forall>c. b = Some c \<longrightarrow> bio_within R c) \<longrightarrow> ends (\<lambda>_ s'. R s s') (mb_close_notify E b t s)))"

lemma demo_mbedtls: "mbedtls_contract demo_env"
  by (auto simp: mbedtls_contract_def mbedtls_relation_def demo_env_def reflp_def)

lemma demo_socket_driver: "socket_driver demo_env"
  by unfold_locales (auto simp: demo_env_def demo_drv_def)

section \<open>The frame of a slot\<close>

definition locked :: "nat \<Rightarrow> 'w net \<Rightarrow> bool" where
  "locked i s \<longleftrightarrow> (\<exists>X. held s = Locks X \<and> i \<in> X \<and> NET_LOCK_SOCKET_ARRAY \<notin> X \<and> NET_LOCK_NETIF_LIST \<notin> X)"

text \<open>\<open>outside i s s'\<close>: nothing but slot \<open>i\<close>, the TLS data, the state of interfaces and the outside changed.\<close>

definition outside :: "nat \<Rightarrow> 'w net \<Rightarrow> 'w net \<Rightarrow> bool" where
  "outside i s s' \<longleftrightarrow> held s' = held s \<and> length (Sockets s') = length (Sockets s)
     \<and> (\<forall>j. j \<noteq> i \<longrightarrow> sock_at j s' = sock_at j s) \<and> NetIfList s' = NetIfList s
     \<and> (\<forall>q. h_pdrv (Netifs s' q) = h_pdrv (Netifs s q) \<and> h_next (Netifs s' q) = h_next (Netifs s q))"

lemma outside_refl [simp]: "outside i s s"
  by (simp add: outside_def)

lemma outside_trans: "outside i s t \<Longrightarrow> outside i t u \<Longrightarrow> outside i s u"
  by (simp add: outside_def)

lemma outside_locked: "outside i s s' \<Longrightarrow> locked j s \<Longrightarrow> locked j s'"
  by (simp add: outside_def locked_def)

lemma outside_upd_sock [simp]: "outside i s (upd_sock i f s)"
  by (simp add: outside_def sock_at_def)

lemma sock_frame_outside: "sock_frame s s' \<Longrightarrow> outside i s s'"
  by (simp add: sock_frame_def outside_def sock_at_def)

lemma sock_frame_sock_at: "sock_frame s s' \<Longrightarrow> sock_at j s' = sock_at j s"
  by (simp add: sock_frame_def sock_at_def)

lemma outside_dev [simp]: "outside i s (s\<lparr>dev := w\<rparr>)" "outside i s (s\<lparr>TlsHeap := h\<rparr>)"
  by (simp_all add: outside_def sock_at_def)

lemma sock_at_upd [simp]:
  "sock_at j (s\<lparr>dev := w\<rparr>) = sock_at j s" "sock_at j (s\<lparr>TlsHeap := h\<rparr>) = sock_at j s"
  "sock_at j (net_os_op e s) = sock_at j s"
  by (simp_all add: sock_at_def)

lemma outside_pass_netif_list:
  assumes "locked i s"
  shows "outside i s (UNLOCK_NETIF_LIST (LOCK_NETIF_LIST s))"
  using assms held_pass_netif_list [of s] by (auto simp: locked_def outside_def sock_at_def)
    (auto simp: lock_op_defs)

text \<open>
  The slot is fit for TLS: it is no TLS socket (and connected, or closed), or its TLS data are bound to
  no other socket and the lock it names is its own.
\<close>

definition bio_ok :: "nat \<Rightarrow> 'w net \<Rightarrow> bool" where
  "bio_ok i s \<longleftrightarrow> (\<forall>t d. s_tlsData (sock_at i s) = Some t \<longrightarrow> TlsHeap s t = Some d \<longrightarrow>
     tls_bio d = None \<or> tls_bio d = Some i)"

definition sound :: "nat \<Rightarrow> 'w net \<Rightarrow> bool" where
  "sound i s \<longleftrightarrow>
     (\<not> s_is_secure (sock_at i s) \<and> s_status (sock_at i s) \<noteq> SOCKET_ALLOCATED)
     \<or> (s_idx (sock_at i s) = int i \<and> bio_ok i s)"

definition good :: "nat \<Rightarrow> 'w net \<Rightarrow> bool" where
  "good i s \<longleftrightarrow> locked i s \<and> i < length (Sockets s) \<and> sound i s"

text \<open>No TLS on the slot, and no TLS session anywhere.\<close>

definition plain :: "nat \<Rightarrow> 'w net \<Rightarrow> bool" where
  "plain i s \<longleftrightarrow> \<not> s_is_secure (sock_at i s) \<and> (\<forall>t d. TlsHeap s t = Some d \<longrightarrow> tls_bio d = None)"

text \<open>With the mode \<open>pl\<close> set, a plain slot also stays plain.\<close>

definition slot_rel :: "bool \<Rightarrow> nat \<Rightarrow> 'w net \<Rightarrow> 'w net \<Rightarrow> bool" where
  "slot_rel pl i s s' \<longleftrightarrow> (good i s \<longrightarrow> good i s' \<and> outside i s s' \<and> (pl \<and> plain i s \<longrightarrow> plain i s'))"

lemma slot_rel_refl [simp]: "slot_rel pl i s s"
  by (simp add: slot_rel_def)

lemma slot_rel_trans [trans]: "slot_rel pl i s t \<Longrightarrow> slot_rel pl i t u \<Longrightarrow> slot_rel pl i s u"
  by (auto simp: slot_rel_def intro: outside_trans)

lemma slot_relI:
  assumes "good i s \<Longrightarrow> outside i s s'" and "good i s \<Longrightarrow> outside i s s' \<Longrightarrow> sound i s'"
    and "good i s \<Longrightarrow> outside i s s' \<Longrightarrow> pl \<Longrightarrow> plain i s \<Longrightarrow> plain i s'"
  shows "slot_rel pl i s s'"
  using assms outside_locked [of i s s'] by (auto simp: slot_rel_def good_def outside_def)

lemma slot_rel_sock_frame: "sock_frame s s' \<Longrightarrow> slot_rel pl i s s'"
  by (rule slot_relI)
    (auto simp: sock_frame_outside good_def sound_def bio_ok_def plain_def sock_at_def sock_frame_def [of s s'])

lemma slot_rel_upd:
  assumes "\<And>k. s_status (f k) = s_status k" "\<And>k. s_is_secure (f k) = s_is_secure k"
    "\<And>k. s_idx (f k) = s_idx k" "\<And>k. s_tlsData (f k) = s_tlsData k"
  shows "slot_rel pl i s (upd_sock i f s)"
  by (rule slot_relI) (auto simp: good_def sound_def bio_ok_def plain_def sock_at_upd_sock assms)

lemma sound_upd:
  assumes "good i s"
  shows "sound i (upd_sock i (\<lambda>k. k\<lparr>s_is_secure := False\<rparr>) s)"
    and "sound i (upd_sock i (\<lambda>k. k\<lparr>s_status := SOCKET_CONNECTED\<rparr>) s)"
    and "\<not> s_is_secure (sock_at i s) \<Longrightarrow> sound i (upd_sock i (\<lambda>k. k\<lparr>s_status := SOCKET_NOT_ALIVE\<rparr>) s)"
    and "\<not> s_is_secure (sock_at i s) \<Longrightarrow>
      sound i (upd_sock i (\<lambda>k. k\<lparr>s_ulsocket := v, s_status := SOCKET_NOT_ALIVE\<rparr>) s)"
  using assms by (auto simp: good_def sound_def bio_ok_def plain_def sock_at_upd_sock)

section \<open>Composition\<close>

text \<open>\<open>keeps R s m\<close>: if \<open>m\<close>, run from \<open>s\<close>, returns, it ends in a state related to \<open>s\<close>.\<close>

definition keeps :: "('s \<Rightarrow> 's \<Rightarrow> bool) \<Rightarrow> 's \<Rightarrow> ('a \<times> 's) option \<Rightarrow> bool" where
  "keeps R s m \<longleftrightarrow> ends (\<lambda>_ s'. R s s') m"

definition keeps_state :: "('s \<Rightarrow> 's \<Rightarrow> bool) \<Rightarrow> 's \<Rightarrow> 's option \<Rightarrow> bool" where
  "keeps_state R s m \<longleftrightarrow> (\<forall>s'. m = Some s' \<longrightarrow> R s s')"

lemma keeps_Some [simp]: "keeps R s (Some (r, s')) \<longleftrightarrow> R s s'"
  "keeps_state R s (Some s') \<longleftrightarrow> R s s'"
  by (simp_all add: keeps_def keeps_state_def)

lemma keeps_None [simp]: "keeps R s None" "keeps_state R s None"
  by (simp_all add: keeps_def keeps_state_def)

lemma keepsI: "(\<And>r s'. m = Some (r, s') \<Longrightarrow> R s s') \<Longrightarrow> keeps R s m"
  by (simp add: keeps_def ends_def)

lemma keeps_stateI: "(\<And>s'. m = Some s' \<Longrightarrow> R s s') \<Longrightarrow> keeps_state R s m"
  by (simp add: keeps_state_def)

lemma keepsD: "keeps R s m \<Longrightarrow> m = Some (r, s') \<Longrightarrow> R s s'"
  "keeps_state R s n \<Longrightarrow> n = Some s' \<Longrightarrow> R s s'"
  by (simp_all add: keeps_def keeps_state_def ends_def)

lemma keeps_weaken: "keeps Q s m \<Longrightarrow> (\<And>s'. Q s s' \<Longrightarrow> R s s') \<Longrightarrow> keeps R s m"
  by (auto simp: keeps_def ends_def)

lemma keeps_after:
  assumes "transp R" and "R s t"
  shows "keeps R t m \<Longrightarrow> keeps R s m" and "keeps_state R t n \<Longrightarrow> keeps_state R s n"
  using assms by (auto simp: keeps_def keeps_state_def ends_def dest: transpD)

lemma keeps_bind:
  assumes "transp R" and "keeps R s m" and "\<And>r t. keeps R t (f (r, t))"
  shows "keeps R s (Option.bind m f)"
  using assms by (fastforce simp: keeps_def ends_def bind_Some_iff dest: transpD)

lemma keeps_state_bind:
  assumes "transp R" and "keeps_state R s m" and "\<And>t. keeps R t (f t)"
  shows "keeps R s (Option.bind m f)"
  using assms by (fastforce simp: keeps_def keeps_state_def ends_def bind_Some_iff dest: transpD)

lemma keeps_state_bind2:
  assumes "transp R" and "keeps_state R s m" and "\<And>t. keeps_state R t (f t)"
  shows "keeps_state R s (Option.bind m f)"
  using assms by (fastforce simp: keeps_state_def bind_Some_iff dest: transpD)

lemma keeps_state_bind3:
  assumes "transp R" and "keeps R s m" and "\<And>r t. keeps_state R t (f (r, t))"
  shows "keeps_state R s (Option.bind m f)"
  using assms by (fastforce simp: keeps_def keeps_state_def ends_def bind_Some_iff dest: transpD)

lemma keeps_read:
  assumes "\<And>x. m = Some x \<Longrightarrow> keeps R s (f x)"
  shows "keeps R s (Option.bind m f)"
  using assms by (cases m) auto

lemma keeps_state_read:
  assumes "\<And>x. m = Some x \<Longrightarrow> keeps_state R s (f x)"
  shows "keeps_state R s (Option.bind m f)"
  using assms by (cases m) auto

lemma slot_rel_transp [simp]: "transp (slot_rel pl i)"
  using slot_rel_trans [of pl i] by (auto simp: transp_def)

section \<open>Calls into the driver\<close>

lemma pass_list:
  "sock_at j (UNLOCK_NETIF_LIST (LOCK_NETIF_LIST s)) = sock_at j s"
  "TlsHeap (UNLOCK_NETIF_LIST (LOCK_NETIF_LIST s)) = TlsHeap s"
  by (simp_all add: lock_op_defs)

lemma keeps_default_interface: "keeps_state (slot_rel pl i) s (default_interface i s)"
proof -
  have "slot_rel pl i s (UNLOCK_NETIF_LIST (LOCK_NETIF_LIST s))"
    by (rule slot_relI) (auto simp: good_def outside_pass_netif_list sound_def bio_ok_def plain_def pass_list)
  then show ?thesis
    by (auto simp: default_interface_def intro: slot_rel_trans [OF _ slot_rel_upd])
qed

lemma locked_unlock_lock:
  assumes "locked i s" and "sock_frame (UNLOCK_SOCK (int i) s) t"
  shows "outside i s (LOCK_SOCK (int i) t)" and "sock_at j (LOCK_SOCK (int i) t) = sock_at j s"
    and "TlsHeap (LOCK_SOCK (int i) t) = TlsHeap s"
proof -
  obtain X where "held s = Locks X" "i \<in> X" using assms(1) by (auto simp: locked_def)
  with assms(2) show "outside i s (LOCK_SOCK (int i) t)"
    by (auto simp: sock_frame_def outside_def sock_at_def lock_op_defs insert_absorb)
qed (use assms(2) in \<open>auto simp: sock_frame_def sock_at_def lock_op_defs\<close>)

lemma call_unlocked_frame:
  assumes frame: "\<And>d f t. sel (env_drv E d) = Some f \<Longrightarrow> ends (\<lambda>_ t'. sock_frame t t') (call f t)"
    and "call_unlocked E (int i) sel call s = Some (r, s')" and "locked i s"
  shows "outside i s s'" and "sock_at j s' = sock_at j s" and "TlsHeap s' = TlsHeap s"
proof -
  from assms(2) obtain d f t where
      "sel (env_drv E d) = Some f" "call f (UNLOCK_SOCK (int i) s) = Some (r, t)"
      and s': "s' = LOCK_SOCK (int i) t"
    by (auto simp: call_unlocked_def sock_drv_def drv_of_def bind_Some_iff Let_def)
  then have "sock_frame (UNLOCK_SOCK (int i) s) t" using frame by (auto dest: endsD)
  from locked_unlock_lock [OF assms(3) this] show "outside i s s'"
    "sock_at j s' = sock_at j s" "TlsHeap s' = TlsHeap s" by (simp_all add: s')
qed

lemma keeps_call_unlocked:
  assumes "\<And>d f t. sel (env_drv E d) = Some f \<Longrightarrow> ends (\<lambda>_ t'. sock_frame t t') (call f t)"
  shows "keeps (slot_rel pl i) s (call_unlocked E (int i) sel call s)"
  unfolding keeps_def ends_def
proof (intro allI impI)
  fix r s' assume "call_unlocked E (int i) sel call s = Some (r, s')"
  note * = call_unlocked_frame [where sel = sel and call = call, OF assms this]
  show "slot_rel pl i s s'"
    by (rule slot_relI) (auto simp: good_def sound_def bio_ok_def plain_def *)
qed

section \<open>The transport\<close>

text \<open>What the transport functions do while slot \<open>i\<close> is locked: only its read timeout may change.\<close>

definition but_timeout :: "net_socket \<Rightarrow> net_socket" where
  "but_timeout k = k\<lparr>s_read_timeout := 0\<rparr>"

lemma but_timeout_fields:
  assumes "but_timeout k = but_timeout l"
  shows "s_idx k = s_idx l" "s_status k = s_status l" "s_is_secure k = s_is_secure l"
    "s_tlsData k = s_tlsData l"
  using assms [THEN arg_cong, of s_idx] assms [THEN arg_cong, of s_status]
    assms [THEN arg_cong, of s_is_secure] assms [THEN arg_cong, of s_tlsData]
  by (simp_all add: but_timeout_def)

definition bio_pre :: "nat \<Rightarrow> 'w net \<Rightarrow> bool" where
  "bio_pre i s \<longleftrightarrow> locked i s \<and> i < length (Sockets s) \<and> s_idx (sock_at i s) = int i"

definition bio_rel :: "nat \<Rightarrow> 'w net \<Rightarrow> 'w net \<Rightarrow> bool" where
  "bio_rel i s s' \<longleftrightarrow> (bio_pre i s \<longrightarrow>
     outside i s s' \<and> TlsHeap s' = TlsHeap s \<and> but_timeout (sock_at i s') = but_timeout (sock_at i s))"

lemma bio_relI:
  "(bio_pre i s \<Longrightarrow> outside i s s' \<and> TlsHeap s' = TlsHeap s
      \<and> but_timeout (sock_at i s') = but_timeout (sock_at i s)) \<Longrightarrow> bio_rel i s s'"
  by (simp add: bio_rel_def)

lemma bio_rel_refl [simp]: "bio_rel i s s"
  by (simp add: bio_rel_def)

lemma bio_rel_pre: "bio_rel i s t \<Longrightarrow> bio_pre i s \<Longrightarrow> bio_pre i t"
  using but_timeout_fields(1) [of "sock_at i t" "sock_at i s"] outside_locked [of i s t i]
  by (simp add: bio_rel_def bio_pre_def outside_def)

lemma bio_rel_trans: "bio_rel i s t \<Longrightarrow> bio_rel i t u \<Longrightarrow> bio_rel i s u"
  using bio_rel_pre [of i s t] outside_trans [of i s t u] by (simp add: bio_rel_def)

lemma bio_rel_mbedtls: "mbedtls_relation (bio_rel i)"
proof -
  have "bio_rel i s (s\<lparr>dev := w\<rparr>)" for s :: "'w net" and w
    by (simp add: bio_rel_def)
  then show ?thesis
    using bio_rel_refl [of i] bio_rel_trans [of i]
    by (auto simp: mbedtls_relation_def reflp_def transp_def)
qed

section \<open>The TLS layer\<close>

definition tls_good :: "nat \<Rightarrow> 'w net \<Rightarrow> bool" where
  "tls_good i s \<longleftrightarrow> bio_pre i s \<and> bio_ok i s"

definition tls_rel :: "nat \<Rightarrow> 'w net \<Rightarrow> 'w net \<Rightarrow> bool" where
  "tls_rel i s s' \<longleftrightarrow> (tls_good i s \<longrightarrow> tls_good i s' \<and> outside i s s'
     \<and> s_status (sock_at i s') = s_status (sock_at i s)
     \<and> s_is_secure (sock_at i s') = s_is_secure (sock_at i s))"

lemma tls_rel_refl [simp]: "tls_rel i s s"
  by (simp add: tls_rel_def)

lemma tls_rel_trans: "tls_rel i s t \<Longrightarrow> tls_rel i t u \<Longrightarrow> tls_rel i s u"
  using outside_trans [of i s t u] by (simp add: tls_rel_def)

lemma tls_rel_transp [simp]: "transp (tls_rel i)"
  using tls_rel_trans [of i] by (auto simp: transp_def)

lemma tls_rel_slot_rel:
  assumes "tls_rel i s s'" and "s_is_secure (sock_at i s)"
  shows "slot_rel pl i s s'"
  by (rule slot_relI)
    (use assms in \<open>auto simp: tls_rel_def tls_good_def bio_pre_def good_def sound_def plain_def\<close>)

lemma bio_rel_tls_rel: "bio_rel i s s' \<Longrightarrow> tls_rel i s s'"
  using bio_rel_pre [of i s s'] but_timeout_fields [of "sock_at i s'" "sock_at i s"]
  by (simp add: tls_rel_def tls_good_def bio_rel_def bio_ok_def)

lemma tls_rel_mbv [simp]: "keeps_state (tls_rel i) s (mbv E c t s)"
  by (rule keeps_stateI)
    (auto simp: mbv_def bind_Some_iff tls_rel_def tls_good_def bio_pre_def bio_ok_def locked_def)

lemma tls_rel_mbi [simp]: "keeps (tls_rel i) s (mbi E c t s)"
  by (rule keepsI) (auto simp: mbi_def bind_Some_iff tls_rel_def tls_good_def bio_pre_def bio_ok_def
      locked_def split: prod.splits)

lemma tls_rel_upd_tls:
  assumes "\<And>d. tls_bio (f d) = tls_bio d \<or> tls_bio (f d) = Some i"
  shows "keeps_state (tls_rel i) s (upd_tls t f s)"
proof (rule keeps_stateI)
  fix s' assume "upd_tls t f s = Some s'"
  then obtain d where "TlsHeap s t = Some d" "s' = s\<lparr>TlsHeap := (TlsHeap s)(t \<mapsto> f d)\<rparr>"
    by (auto simp: upd_tls_def bind_Some_iff)
  then show "tls_rel i s s'"
    using assms [of d] by (auto simp: tls_rel_def tls_good_def bio_pre_def bio_ok_def locked_def)
qed

lemma tls_rel_free_resource [simp]: "keeps_state (tls_rel i) s (mbedtls_free_resource E i s)"
  unfolding mbedtls_free_resource_def
  by (intro keeps_state_read keeps_state_bind2 tls_rel_transp tls_rel_mbv)
    (auto simp: tls_rel_def tls_good_def bio_pre_def bio_ok_def locked_def sock_at_upd_sock net_free_def
      outside_def [of i] Let_def)

lemma tls_rel_tick [simp]: "tls_rel i s (snd (NET_TICK E s))"
  by (auto simp: NET_TICK_def tls_rel_def tls_good_def bio_pre_def bio_ok_def locked_def split: prod.splits)

section \<open>Operations under the driver contract\<close>

lemma io_unlocked:
  assumes "sock_frame (UNLOCK_SOCK (s_idx (sock_at i s)) s) t"
  shows "bio_rel i s (LOCK_SOCK (s_idx (sock_at i t)) t)"
proof (rule bio_relI)
  assume pre: "bio_pre i s"
  have "sock_at i t = sock_at i s" using assms by (simp add: sock_frame_def sock_at_def lock_op_defs)
  with pre assms locked_unlock_lock [of i s t] show "outside i s (LOCK_SOCK (s_idx (sock_at i t)) t)
      \<and> TlsHeap (LOCK_SOCK (s_idx (sock_at i t)) t) = TlsHeap s
      \<and> but_timeout (sock_at i (LOCK_SOCK (s_idx (sock_at i t)) t)) = but_timeout (sock_at i s)"
    by (simp add: bio_pre_def)
qed

lemma sock_frame_bio_rel: "sock_frame s t \<Longrightarrow> bio_rel i s t"
  by (simp add: bio_rel_def sock_frame_outside sock_frame_sock_at) (simp add: sock_frame_def)

lemma bio_rel_transp [simp]: "transp (bio_rel i)"
  using bio_rel_trans [of i] by (auto simp: transp_def)

lemma bio_rel_timeout: "bio_rel i s (upd_sock i (\<lambda>k. k\<lparr>s_read_timeout := v\<rparr>) s)"
  by (simp add: bio_rel_def bio_pre_def sock_at_upd_sock but_timeout_def)

text \<open>Creating the low-level socket touches two fields of the slot, whether it is locked or not.\<close>

definition but_low :: "net_socket \<Rightarrow> net_socket" where
  "but_low k = k\<lparr>s_ulsocket := 0, s_protocol := 0\<rparr>"

lemma but_low_fields:
  assumes "but_low k = but_low l"
  shows "s_idx k = s_idx l" "s_status k = s_status l" "s_is_secure k = s_is_secure l"
    "s_tlsData k = s_tlsData l" "s_pnetif k = s_pnetif l"
  using assms [THEN arg_cong, of s_idx] assms [THEN arg_cong, of s_status]
    assms [THEN arg_cong, of s_is_secure] assms [THEN arg_cong, of s_tlsData]
    assms [THEN arg_cong, of s_pnetif]
  by (simp_all add: but_low_def)

definition low_level :: "nat \<Rightarrow> 'w net \<Rightarrow> 'w net \<Rightarrow> bool" where
  "low_level i s s' \<longleftrightarrow> outside i s s' \<and> TlsHeap s' = TlsHeap s
     \<and> but_low (sock_at i s') = but_low (sock_at i s)"

lemma access_socket:
  "net_access_control p NET_ACCESS_SOCKET c s =
     (True, if p = None \<or> h_state (Netifs s (the p)) = NET_STATE_CONNECTION_LOST then 0 else c)"
  by (simp add: net_access_control_def)

lemma low_level_refl [simp]: "low_level i s s"
  by (simp add: low_level_def)

lemma low_level_trans: "low_level i s t \<Longrightarrow> low_level i t u \<Longrightarrow> low_level i s u"
  using outside_trans [of i s t u] by (simp add: low_level_def)

lemma low_level_transp [simp]: "transp (low_level i)"
  using low_level_trans [of i] by (auto simp: transp_def)

lemma low_level_upd:
  assumes "\<And>k. but_low (f k) = but_low k"
  shows "low_level i s (upd_sock i f s)"
  using assms
  by (cases "i < length (Sockets s)") (simp_all add: low_level_def sock_at_upd_sock,
      simp add: sock_at_def list_update_beyond linorder_not_less)

lemma low_level_sock_frame: "sock_frame s t \<Longrightarrow> low_level i s t"
  by (simp add: low_level_def sock_frame_outside sock_frame_sock_at) (simp add: sock_frame_def)

lemma low_level_slot_rel: "low_level i s t \<Longrightarrow> slot_rel pl i s t"
  using but_low_fields [of "sock_at i t" "sock_at i s"]
  by (intro slot_relI) (auto simp: low_level_def good_def sound_def bio_ok_def plain_def)

context socket_driver
begin

lemma recv_within: "keeps (bio_rel i) s (mbedtls_net_recv E i buf len timeout s)"
  unfolding mbedtls_net_recv_def
proof (rule keeps_bind [OF bio_rel_transp])
  show "keeps (bio_rel i) s (if s_read_timeout (sock_at i s) \<noteq> int32_of timeout then do {
         d \<leftarrow> sock_drv E i s;
         setopt \<leftarrow> psetsockopt d;
         (ret, s) \<leftarrow> setopt (s_ulsocket (sock_at i s)) NET_SOL_SOCKET NET_SO_RCVTIMEO
                       (OptI32 (int32_of timeout)) 4 s;
         Some (ret, if ret = NET_OK
                    then upd_sock i (\<lambda>k. k\<lparr>s_read_timeout := int32_of timeout\<rparr>) s else s) }
       else Some (NET_OK, s))"
  proof (cases "s_read_timeout (sock_at i s) = int32_of timeout")
    case False
    have opt: "bio_rel i s u" if "sock_drv E i s = Some d" "psetsockopt d = Some setopt"
      "setopt k n oo v m s = Some (r, u)" for d setopt k n oo v m r u
      using that psetsockopt_ok
      by (intro sock_frame_bio_rel) (auto simp: sock_drv_def drv_of_def bind_Some_iff)
    show ?thesis
      by (rule keepsI) (auto simp: bind_Some_iff split: if_splits
          elim: opt opt [THEN bio_rel_trans, OF _ _ _ bio_rel_timeout])
  qed simp
next
  fix r t
  have io: "bio_rel i t (LOCK_SOCK (s_idx (sock_at i u)) u)"
    if "sock_drv E i (UNLOCK_SOCK (s_idx (sock_at i t)) t) = Some d" "precv d = Some f"
      "f a b c fl (UNLOCK_SOCK (s_idx (sock_at i t)) t) = Some (q, u)" for d f a b c fl q u
    using that by (intro io_unlocked) (auto simp: sock_drv_def drv_of_def bind_Some_iff intro: precv_ok)
  show "keeps (bio_rel i) t (case (r, t) of (ret, s) \<Rightarrow>
      (if ret = NET_OK then do {
        let flags = (if s_read_timeout (sock_at i s) = 0 then NET_MSG_DONTWAIT else 0);
        let s = UNLOCK_SOCK (s_idx (sock_at i s)) s;
        d \<leftarrow> sock_drv E i s;
        recv \<leftarrow> precv d;
        ((ret, buf), s) \<leftarrow> recv (s_ulsocket (sock_at i s)) buf (int32_of len) flags s;
        let s = LOCK_SOCK (s_idx (sock_at i s)) s;
        let ret = (if ret \<le> 0
                   then if ret = 0 then MBEDTLS_ERR_SSL_WANT_READ
                        else if ret = NET_TIMEOUT then MBEDTLS_ERR_SSL_WANT_READ
                        else MBEDTLS_ERR_SSL_INTERNAL_ERROR
                   else ret);
        Some ((ret, buf), s) }
      else Some ((ret, buf), s)))"
    by (cases "r = NET_OK") (auto intro!: keepsI intro: io simp: bind_Some_iff Let_def simp del: if_split)
qed

lemma send_within: "keeps (bio_rel i) s (mbedtls_net_send E i buf len s)"
  unfolding mbedtls_net_send_def
  by (rule keepsI) (auto simp: bind_Some_iff Let_def sock_drv_def drv_of_def intro!: io_unlocked intro: psend_ok)

lemma sock_bio_within: "bio_within (bio_rel i) (sock_bio E i)"
  using recv_within send_within by (auto simp: bio_within_def sock_bio_def keeps_def)

lemma keeps_tls_of_bio: "keeps (bio_rel i) s m \<Longrightarrow> keeps (tls_rel i) s m"
  by (auto simp: keeps_def ends_def intro: bio_rel_tls_rel)

lemma mbedtls_calls:
  assumes "mbedtls_contract E"
  shows "keeps (tls_rel i) s (mb_handshake E (sock_bio E i) t s)"
    and "\<forall>c. b = Some c \<longrightarrow> c = sock_bio E i \<Longrightarrow> keeps (tls_rel i) s (mb_ssl_read E b t buf len s)"
    and "\<forall>c. b = Some c \<longrightarrow> c = sock_bio E i \<Longrightarrow> keeps (tls_rel i) s (mb_ssl_write E b t buf len s)"
    and "\<forall>c. b = Some c \<longrightarrow> c = sock_bio E i \<Longrightarrow> keeps (tls_rel i) s (mb_close_notify E b t s)"
proof -
  note C = assms [unfolded mbedtls_contract_def, rule_format, OF bio_rel_mbedtls [of i]]
  show "keeps (tls_rel i) s (mb_handshake E (sock_bio E i) t s)"
    by (rule keeps_tls_of_bio) (use C sock_bio_within in \<open>simp add: keeps_def\<close>)
  assume "\<forall>c. b = Some c \<longrightarrow> c = sock_bio E i"
  then have b: "\<forall>c. b = Some c \<longrightarrow> bio_within (bio_rel i) c" using sock_bio_within by auto
  show "keeps (tls_rel i) s (mb_ssl_read E b t buf len s)"
    by (rule keeps_tls_of_bio) (use b C in \<open>simp add: keeps_def\<close>)
  show "keeps (tls_rel i) s (mb_ssl_write E b t buf len s)"
    by (rule keeps_tls_of_bio) (use b C in \<open>simp add: keeps_def\<close>)
  show "keeps (tls_rel i) s (mb_close_notify E b t s)"
    by (rule keeps_tls_of_bio) (use b C in \<open>simp add: keeps_def\<close>)
qed

lemmas tls_binds = keeps_bind [OF tls_rel_transp] keeps_state_bind [OF tls_rel_transp]
  keeps_state_bind2 [OF tls_rel_transp] keeps_state_bind3 [OF tls_rel_transp]

lemma handshake_loop_keeps:
  assumes "mbedtls_contract E"
  shows "keeps (tls_rel i) s (handshake_loop E i t start ret s)"
proof (rule keepsI)
  fix r s' assume "handshake_loop E i t start ret s = Some (r, s')"
  then have "E = E \<longrightarrow> tls_rel i s (snd (r, s'))"
  proof (rule handshake_loop.raw_induct [rotated, where P = "\<lambda>E' i t start ret s rs. E' = E \<longrightarrow> tls_rel i s (snd rs)"])
    fix f E' i t start ret s rs
    assume IH: "\<And>E' i t start ret s rs. f E' i t start ret s = Some rs \<Longrightarrow> E' = E \<longrightarrow> tls_rel i s (snd rs)"
      and eq: "(if ret = 0 then Some (ret, s)
        else case NET_TICK E' s of (now, s) \<Rightarrow>
          if now - start > NET_MBEDTLS_CONNECT_TIMEOUT
          then do { s \<leftarrow> mbedtls_free_resource E' i s; Some (NET_ERROR_MBEDTLS_CONNECT, s) }
          else if ret \<noteq> MBEDTLS_ERR_SSL_WANT_READ \<and> ret \<noteq> MBEDTLS_ERR_SSL_WANT_WRITE
          then do {
            (flags, s) \<leftarrow> mbi E' Mb_get_verify_result t s;
            s \<leftarrow> upd_tls t (\<lambda>d. d\<lparr>tls_flags := u32_of flags\<rparr>) s;
            s \<leftarrow> (if u32_of flags \<noteq> 0 then mbv E' (Mb_verify_info (u32_of flags)) t s else Some s);
            s \<leftarrow> mbedtls_free_resource E' i s;
            Some (if ret = MBEDTLS_ERR_X509_CERT_VERIFY_FAILED then NET_ERROR_MBEDTLS_REMOTE_AUTH
                  else NET_ERROR_MBEDTLS_CONNECT, s) }
          else do {
            (ret, s) \<leftarrow> mb_handshake E' (sock_bio E' i) t s;
            f E' i t start ret s }) = Some rs"
    have rec: "keeps (tls_rel i) u (f E i t start ret u)" for ret u
      using IH by (auto intro!: keepsI)
    show "E' = E \<longrightarrow> tls_rel i s (snd rs)"
    proof
      assume [simp]: "E' = E"
      obtain now u where tick: "NET_TICK E s = (now, u)" by force
      then have "tls_rel i s u" using tls_rel_tick [of i s E] by simp
      note after = keeps_after(1) [OF tls_rel_transp this]
      obtain a b where rs: "rs = (a, b)" by (cases rs)
      have "tls_rel i s b"
        by (rule keepsD(1) [OF _ eq [unfolded rs]])
          (auto simp: tick intro!: after tls_binds mbedtls_calls rec tls_rel_upd_tls assms)
      then show "tls_rel i s (snd rs)" by (simp add: rs)
    qed
  qed
  then show "tls_rel i s s'" by simp
qed

lemma fail_with_keeps: "keeps (tls_rel i) t (fail_with E i c (r, t))"
  by (auto simp: fail_with_def intro!: tls_binds)

lemma keeps_reads:
  "(\<And>d. keeps R s (f d)) \<Longrightarrow> keeps R s (Option.bind (tls_at t u) f)"
  "(\<And>d. keeps_state R s (g d)) \<Longrightarrow> keeps_state R s (Option.bind (tls_at t u) g)"
  "(\<And>t. s_tlsData (sock_at i s) = Some t \<Longrightarrow> keeps R s (h t)) \<Longrightarrow>
     keeps R s (Option.bind (s_tlsData (sock_at i s)) h)"
  by (auto intro: keeps_read keeps_state_read)

lemma keeps_if_ok: "transp R \<Longrightarrow> R s (snd r) \<Longrightarrow> (\<And>t. keeps R t (f t)) \<Longrightarrow> keeps R s (if_ok r f)"
  by (cases r) (auto simp: if_ok_def intro: keeps_after)

lemmas tls_rules = tls_binds keeps_reads fail_with_keeps keeps_if_ok [OF tls_rel_transp]

lemma tls_init_keeps: "keeps_state (tls_rel i) s (tls_init E t s)"
  unfolding tls_init_def by (auto intro!: tls_rules)

lemma tls_credentials_keeps: "keeps (tls_rel i) s (tls_credentials E i t s)"
  unfolding tls_credentials_def by (auto intro!: tls_rules split: option.split)

lemma tls_configure_keeps: "keeps (tls_rel i) s (tls_configure E i t s)"
  unfolding tls_configure_def by (auto intro!: tls_rules split: option.split)

lemma tls_rel_dev: "tls_rel i s (s\<lparr>dev := w\<rparr>)"
  by (auto simp: tls_rel_def tls_good_def bio_pre_def bio_ok_def locked_def)

lemma keeps_malloc:
  assumes "\<And>p u. keeps_state (tls_rel i) u (g p u)"
  shows "keeps_state (tls_rel i) s (case net_malloc E n s of (p, u) \<Rightarrow> g p u)"
  by (simp add: net_malloc_def split: prod.split)
    (intro allI impI, rule keeps_after(2) [OF tls_rel_transp tls_rel_dev], rule assms)

lemma show_peer_certificate_keeps: "keeps_state (tls_rel i) s (show_peer_certificate E t s)"
  unfolding show_peer_certificate_def
  by (auto intro!: tls_rules keeps_malloc simp: net_free_def tls_rel_dev split: option.split)

lemma tick_keeps:
  assumes "\<And>p u. keeps (tls_rel i) u (g p u)"
  shows "keeps (tls_rel i) s (case NET_TICK E s of (p, u) \<Rightarrow> g p u)"
  by (simp add: NET_TICK_def split: prod.split)
    (intro allI impI, rule keeps_after(1) [OF tls_rel_transp tls_rel_dev], rule assms)

lemma tls_connect_keeps:
  assumes "mbedtls_contract E"
  shows "keeps (tls_rel i) s (tls_connect E i t s)"
  unfolding tls_connect_def
  by (intro tls_rules tls_rel_mbv tls_rel_upd_tls mbedtls_calls assms)
    (auto intro!: tls_rules tick_keeps handshake_loop_keeps show_peer_certificate_keeps assms)

lemma net_mbedtls_start_keeps:
  assumes "mbedtls_contract E"
  shows "keeps (tls_rel i) s (net_mbedtls_start E i s)"
  unfolding net_mbedtls_start_def
  by (auto intro!: tls_rules tls_init_keeps tls_credentials_keeps tls_configure_keeps tls_connect_keeps assms)

text \<open>Under \<open>bio_ok\<close>, the transport used is the one of this very slot.\<close>

lemma transport_own:
  assumes "bio_ok i s" and "s_tlsData (sock_at i s) = Some t" and "tls_transport E t s = Some b"
  shows "\<forall>c. b = Some c \<longrightarrow> c = sock_bio E i"
  using assms by (auto simp: tls_transport_def bind_Some_iff bio_ok_def)

lemma keeps_good: "(tls_good i s \<Longrightarrow> keeps (tls_rel i) s m) \<Longrightarrow> keeps (tls_rel i) s m"
  by (auto simp: keeps_def ends_def tls_rel_def)

lemma net_mbedtls_sock_recv_keeps:
  assumes "mbedtls_contract E"
  shows "keeps (tls_rel i) s (net_mbedtls_sock_recv E i buf len s)"
  unfolding net_mbedtls_sock_recv_def
  by (rule keeps_good, intro keeps_reads keeps_read tls_binds mbedtls_calls assms)
    (auto dest: transport_own simp: tls_good_def Let_def)

lemma net_mbedtls_sock_send_keeps:
  assumes "mbedtls_contract E"
  shows "keeps (tls_rel i) s (net_mbedtls_sock_send E i buf len s)"
  unfolding net_mbedtls_sock_send_def
  by (rule keeps_good, intro keeps_reads keeps_read tls_binds mbedtls_calls assms)
    (auto dest: transport_own simp: tls_good_def Let_def)

lemma close_notify_loop_keeps:
  assumes "mbedtls_contract E" and "bio_pre i s" and "\<forall>d. TlsHeap s t = Some d \<longrightarrow> tls_bio d = None \<or> tls_bio d = Some i"
    and "close_notify_loop E t s = Some (r, s')"
  shows "bio_rel i s s'"
proof -
  have "E = E \<longrightarrow> bio_pre i s \<longrightarrow> (\<forall>d. TlsHeap s t = Some d \<longrightarrow> tls_bio d = None \<or> tls_bio d = Some i)
      \<longrightarrow> bio_rel i s (snd (r, s'))"
    using assms(4)
  proof (rule close_notify_loop.raw_induct [rotated, where P = "\<lambda>E' t s rs. E' = E \<longrightarrow> bio_pre i s \<longrightarrow>
      (\<forall>d. TlsHeap s t = Some d \<longrightarrow> tls_bio d = None \<or> tls_bio d = Some i) \<longrightarrow> bio_rel i s (snd rs)"])
    fix f E' t s rs
    assume IH: "\<And>E' t s rs. f E' t s = Some rs \<Longrightarrow> E' = E \<longrightarrow> bio_pre i s \<longrightarrow>
        (\<forall>d. TlsHeap s t = Some d \<longrightarrow> tls_bio d = None \<or> tls_bio d = Some i) \<longrightarrow> bio_rel i s (snd rs)"
      and eq: "do {
        bio \<leftarrow> tls_transport E' t s;
        (ret, s) \<leftarrow> mb_close_notify E' bio t s;
        (if ret = MBEDTLS_ERR_SSL_WANT_WRITE \<or> ret = MBEDTLS_ERR_SSL_WANT_READ
         then f E' t s else Some (ret, s)) } = Some rs"
    show "E' = E \<longrightarrow> bio_pre i s \<longrightarrow>
        (\<forall>d. TlsHeap s t = Some d \<longrightarrow> tls_bio d = None \<or> tls_bio d = Some i) \<longrightarrow> bio_rel i s (snd rs)"
    proof (intro impI)
      assume e: "E' = E" and pre: "bio_pre i s"
        and own: "\<forall>d. TlsHeap s t = Some d \<longrightarrow> tls_bio d = None \<or> tls_bio d = Some i"
      from eq obtain b q u where b: "tls_transport E t s = Some b" and u: "mb_close_notify E b t s = Some (q, u)"
        and k: "(if q = MBEDTLS_ERR_SSL_WANT_WRITE \<or> q = MBEDTLS_ERR_SSL_WANT_READ
          then f E t u else Some (q, u)) = Some rs"
        unfolding e by (auto simp: bind_Some_iff)
      have "\<forall>c. b = Some c \<longrightarrow> bio_within (bio_rel i) c"
        using b own sock_bio_within by (auto simp: tls_transport_def bind_Some_iff)
      then have "ends (\<lambda>_ s'. bio_rel i s s') (mb_close_notify E b t s)"
        using assms(1) [unfolded mbedtls_contract_def, rule_format, OF bio_rel_mbedtls [of i]] by simp
      then have su: "bio_rel i s u" using u by (rule endsD)
      then have "TlsHeap u = TlsHeap s" "bio_pre i u" using pre bio_rel_pre by (auto simp: bio_rel_def)
      then show "bio_rel i s (snd rs)"
        using k IH [of E t u rs] own su by (auto split: if_splits intro: bio_rel_trans)
    qed
  qed
  with assms(2,3) show ?thesis by simp
qed

lemma net_mbedtls_stop_keeps:
  assumes "mbedtls_contract E"
  shows "keeps (tls_rel i) s (net_mbedtls_stop E i s)"
proof (rule keeps_good)
  assume g: "tls_good i s"
  have loop: "keeps (tls_rel i) s (close_notify_loop E t s)" if "s_tlsData (sock_at i s) = Some t" for t
    using g that assms
    by (intro keepsI bio_rel_tls_rel close_notify_loop_keeps) (auto simp: tls_good_def bio_ok_def)
  show ?thesis
    unfolding net_mbedtls_stop_def by (auto intro!: tls_rules loop)
qed

text \<open>The TLS operations work on a secure slot.\<close>

lemma keeps_slot_of_tls:
  "keeps (tls_rel i) s m \<Longrightarrow> s_is_secure (sock_at i s) \<Longrightarrow> keeps (slot_rel pl i) s m"
  by (auto simp: keeps_def ends_def intro: tls_rel_slot_rel)

lemmas slot_binds = keeps_bind [OF slot_rel_transp] keeps_state_bind [OF slot_rel_transp]
  keeps_state_bind2 [OF slot_rel_transp] keeps_state_bind3 [OF slot_rel_transp]

lemma low_level_keeps: "keeps (low_level i) s (create_low_level_socket E (int i) s)"
proof -
  have call: "low_level i t u" if "sock_drv E i t = Some d" "psocket d = Some f" "f a b c t = Some (r, u)"
    for t u d f a b c r
    using that by (intro low_level_sock_frame)
      (auto simp: sock_drv_def drv_of_def bind_Some_iff intro: psocket_ok)
  have upd: "low_level i s (upd_sock i (\<lambda>k. k\<lparr>s_ulsocket := v\<rparr>) s)"
    "low_level i s (upd_sock i (\<lambda>k. k\<lparr>s_protocol := v\<rparr>) s)" for s v
    by (rule low_level_upd; simp add: but_low_def)+
  have proto: "low_level i s (default_protocol i s)" for s
    by (auto simp: default_protocol_def Let_def intro: upd low_level_trans [OF upd(2) upd(2)])
  have body: "keeps (low_level i) t (do {
      d \<leftarrow> sock_drv E i t;
      (case psocket d of
         None \<Rightarrow> Some (s_ulsocket (sock_at i t), t)
       | Some f \<Rightarrow> do {
           (r, s) \<leftarrow> f (s_domain (sock_at i t)) (s_type (sock_at i t)) (s_protocol (sock_at i t)) t;
           let s = upd_sock i (\<lambda>k. k\<lparr>s_ulsocket := r\<rparr>) s;
           Some (s_ulsocket (sock_at i s), s) }) })" for t
    by (auto intro!: keepsI simp: bind_Some_iff Let_def split: option.splits)
      (blast intro: low_level_trans [OF call upd(1)])
  show ?thesis
  proof (cases "s_ulsocket (sock_at i s) = -1")
    case True
    show ?thesis
      unfolding create_low_level_socket_def Let_def access_socket nat_int prod.case if_True if_P [OF True]
      by (rule keeps_after(1) [OF low_level_transp low_level_trans [OF upd(1) proto]],
          rule body [unfolded Let_def])
  qed (simp add: create_low_level_socket_def)
qed

lemma low_level_result:
  assumes "create_low_level_socket E (int i) s = Some (r, s')"
  shows "r = s_ulsocket (sock_at i s')"
  using assms by (auto simp: create_low_level_socket_def bind_Some_iff Let_def
      split: option.splits prod.splits if_splits)

end

section \<open>From lock to unlock\<close>

definition lock_free :: "nat \<Rightarrow> 'w net \<Rightarrow> bool" where
  "lock_free i s \<longleftrightarrow>
     (\<exists>X. held s = Locks X \<and> i \<notin> X \<and> NET_LOCK_SOCKET_ARRAY \<notin> X \<and> NET_LOCK_NETIF_LIST \<notin> X)"

text \<open>A whole call on slot \<open>i\<close>: called without its lock, it returns without it.\<close>

definition api_pre :: "nat \<Rightarrow> 'w net \<Rightarrow> bool" where
  "api_pre i s \<longleftrightarrow> lock_free i s \<and> i < length (Sockets s) \<and> sound i s"

definition api_rel :: "bool \<Rightarrow> nat \<Rightarrow> 'w net \<Rightarrow> 'w net \<Rightarrow> bool" where
  "api_rel pl i s s' \<longleftrightarrow> (api_pre i s \<longrightarrow> outside i s s' \<and> sound i s' \<and> (pl \<and> plain i s \<longrightarrow> plain i s'))"

lemma api_rel_refl [simp]: "api_rel pl i s s"
  by (simp add: api_rel_def api_pre_def)

lemma api_pre_outside: "api_pre i s \<Longrightarrow> outside i s t \<Longrightarrow> sound i t \<Longrightarrow> api_pre i t"
  by (simp add: api_pre_def lock_free_def outside_def)

lemma api_rel_trans: "api_rel pl i s t \<Longrightarrow> api_rel pl i t u \<Longrightarrow> api_rel pl i s u"
  using outside_trans [of i s t u] api_pre_outside [of i s t] by (simp add: api_rel_def)

lemma api_rel_transp [simp]: "transp (api_rel pl i)"
  using api_rel_trans [of pl i] by (auto simp: transp_def)

lemma sound_lock_op [simp]: "sound i (net_os_op e s) = sound i s" "plain i (net_os_op e s) = plain i s"
  by (simp_all add: sound_def bio_ok_def plain_def)

lemma lock_good: "i < NET_MAX_SOCKETS_NBR \<Longrightarrow> api_pre i s \<Longrightarrow> good i (LOCK_SOCK (int i) s)"
  by (auto simp: api_pre_def good_def lock_free_def locked_def LOCK_SOCK_def)

lemma unlock_outside:
  assumes "api_pre i s" and "outside i (LOCK_SOCK (int i) s) u"
  shows "outside i s (UNLOCK_SOCK (int i) u)"
  using assms by (auto simp: api_pre_def lock_free_def outside_def LOCK_SOCK_def UNLOCK_SOCK_def)

definition unlocks :: "bool \<Rightarrow> nat \<Rightarrow> 'w net \<Rightarrow> ('a \<times> 'w net) option \<Rightarrow> bool" where
  "unlocks pl i s m \<longleftrightarrow> ends (\<lambda>_ s'. \<exists>u. slot_rel pl i s u \<and> s' = UNLOCK_SOCK (int i) u) m"

lemma unlocks_Some [simp]: "unlocks pl i s (Some (r, UNLOCK_SOCK (int i) s))"
  by (auto simp: unlocks_def intro: slot_rel_refl)

lemma unlocks_bind:
  assumes "keeps (slot_rel pl i) s m" and "\<And>r t. unlocks pl i t (f (r, t))"
  shows "unlocks pl i s (Option.bind m f)"
  using assms unfolding unlocks_def keeps_def ends_def bind_Some_iff
  by clarsimp (meson slot_rel_trans)

lemma unlocks_state_bind:
  assumes "keeps_state (slot_rel pl i) s m" and "\<And>t. unlocks pl i t (f t)"
  shows "unlocks pl i s (Option.bind m f)"
  using assms unfolding unlocks_def keeps_state_def ends_def bind_Some_iff
  by clarsimp (meson slot_rel_trans)

lemma locked_call:
  assumes "i < NET_MAX_SOCKETS_NBR" and "unlocks pl i (LOCK_SOCK (int i) s) m"
  shows "keeps (api_rel pl i) s m"
proof (rule keepsI)
  fix r s' assume "m = Some (r, s')"
  with assms(2) obtain u where u: "slot_rel pl i (LOCK_SOCK (int i) s) u" "s' = UNLOCK_SOCK (int i) u"
    by (auto simp: unlocks_def ends_def)
  show "api_rel pl i s s'"
    unfolding api_rel_def
  proof
    assume pre: "api_pre i s"
    with u have "good i u" "outside i (LOCK_SOCK (int i) s) u"
        "pl \<and> plain i (LOCK_SOCK (int i) s) \<longrightarrow> plain i u"
      using lock_good [OF assms(1)] by (auto simp: slot_rel_def)
    then show "outside i s s' \<and> sound i s' \<and> (pl \<and> plain i s \<longrightarrow> plain i s')"
      using unlock_outside [OF pre] u by (auto simp: good_def UNLOCK_SOCK_def LOCK_SOCK_def)
  qed
qed

lemma unlocked_call:
  assumes "api_rel pl i (UNLOCK_SOCK (int i) s) t" and "i < NET_MAX_SOCKETS_NBR"
  shows "slot_rel pl i s (LOCK_SOCK (int i) t)"
proof (rule slot_relI)
  assume g: "good i s"
  then obtain X where X: "held s = Locks X" "i \<in> X" by (auto simp: good_def locked_def)
  with g have "api_pre i (UNLOCK_SOCK (int i) s)"
    by (auto simp: api_pre_def good_def locked_def lock_free_def UNLOCK_SOCK_def)
  with assms have *: "outside i (UNLOCK_SOCK (int i) s) t" "sound i t"
      "pl \<and> plain i (UNLOCK_SOCK (int i) s) \<longrightarrow> plain i t"
    by (auto simp: api_rel_def)
  with X show "outside i s (LOCK_SOCK (int i) t)"
    by (auto simp: outside_def LOCK_SOCK_def UNLOCK_SOCK_def insert_absorb)
  show "sound i (LOCK_SOCK (int i) t)" "pl \<Longrightarrow> plain i s \<Longrightarrow> plain i (LOCK_SOCK (int i) t)"
    using * by (simp_all add: LOCK_SOCK_def UNLOCK_SOCK_def)
qed

lemma keeps_if_good: "(good i s \<Longrightarrow> keeps (slot_rel pl i) s m) \<Longrightarrow> keeps (slot_rel pl i) s m"
  "(good i s \<Longrightarrow> keeps_state (slot_rel pl i) s n) \<Longrightarrow> keeps_state (slot_rel pl i) s n"
  by (auto simp: keeps_def keeps_state_def ends_def slot_rel_def)

lemma valid_socket_index: "is_valid_socket sock s \<Longrightarrow> \<exists>i < NET_MAX_SOCKETS_NBR. sock = int i"
  by (rule exI [of _ "nat sock"]) (auto simp: is_valid_socket_def)

end
