(* ===== verification/Socket_Api.thy ===== *)
theory Socket_Api
  imports Socket_Frame
begin

text \<open>
  The socket interface as a whole: every call of \<open>net_socket.c\<close> takes and releases its locks in
  order and works on its own slot only; how slots are allocated, used and freed.
\<close>

section \<open>Every operation on its slot\<close>

lemma nat_sock_cases:
  assumes "\<And>i. sock = int i \<Longrightarrow> i < NET_MAX_SOCKETS_NBR \<Longrightarrow> is_valid_socket sock s \<Longrightarrow> P"
    and "\<not> is_valid_socket sock s \<Longrightarrow> P"
  shows P
  using assms valid_socket_index by metis

text \<open>Rules that follow the shape of a handler: binds of pairs, tests and reads.\<close>

lemma keeps_shape:
  "transp R \<Longrightarrow> keeps R s m \<Longrightarrow> (\<And>r t. keeps R t (f r t)) \<Longrightarrow> keeps R s (Option.bind m (case_prod f))"
  "(\<And>a b. keeps R t (g a b t)) \<Longrightarrow> keeps R t (case_prod g r t)"
  "(b \<Longrightarrow> keeps R s m) \<Longrightarrow> (\<not> b \<Longrightarrow> keeps R s n) \<Longrightarrow> keeps R s (if b then m else n)"
  "(\<And>x y. keeps R s (h x y)) \<Longrightarrow> keeps R s (case_prod h p)"
  by (auto intro: keeps_bind split: prod.split)

lemma unlocks_shape:
  "keeps (slot_rel pl i) s m \<Longrightarrow> (\<And>r t. unlocks pl i t (f r t)) \<Longrightarrow> unlocks pl i s (Option.bind m (case_prod f))"
  "keeps_state (slot_rel pl i) s n \<Longrightarrow> (\<And>t. unlocks pl i t (k t)) \<Longrightarrow> unlocks pl i s (Option.bind n k)"
  "(\<And>a b. unlocks pl i t (g a b t)) \<Longrightarrow> unlocks pl i t (case_prod g r t)"
  "(b \<Longrightarrow> unlocks pl i s m) \<Longrightarrow> (\<not> b \<Longrightarrow> unlocks pl i s m') \<Longrightarrow> unlocks pl i s (if b then m else m')"
  "(\<And>x y. unlocks pl i s (h x y)) \<Longrightarrow> unlocks pl i s (case_prod h p)"
  by (auto intro: unlocks_bind unlocks_state_bind split: prod.split)

lemmas slot_shape = keeps_shape(1) [OF slot_rel_transp] keeps_shape(2,3,4) unlocks_shape unlocks_Some

lemma keeps_same: "keeps (slot_rel pl i) s (Some (r, s))"
  by simp

lemmas open_call = net_socket_get_and_lock_def Let_def nat_int prod.case not_True_eq_False
  not_False_eq_True if_False if_True

lemma low_level_api: "low_level i s t \<Longrightarrow> api_rel pl i s t"
  using but_low_fields [of "sock_at i t" "sock_at i s"]
  by (auto simp: low_level_def api_rel_def api_pre_def sound_def bio_ok_def plain_def)

lemma keeps_api_same: "keeps (api_rel pl i) s (Some (r, s))"
  by simp

text \<open>Leaving TLS makes the socket a plain one.\<close>

lemma leave_tls_plain: "leave_tls E i s = Some t \<Longrightarrow> i < length (Sockets t) \<Longrightarrow> \<not> s_is_secure (sock_at i t)"
  by (auto simp: leave_tls_def bind_Some_iff sock_at_upd_sock split: if_splits)

lemma unlocks_state_eq:
  assumes "keeps_state (slot_rel pl i) s m" and "\<And>t. m = Some t \<Longrightarrow> unlocks pl i t (f t)"
  shows "unlocks pl i s (Option.bind m f)"
  using assms unfolding unlocks_def keeps_state_def ends_def bind_Some_iff
  by clarsimp (blast intro: slot_rel_trans)

lemma plain_upd:
  "good i s \<Longrightarrow> plain i s \<Longrightarrow> \<not> s_is_secure (f (sock_at i s)) \<Longrightarrow> plain i (upd_sock i f s)"
  by (simp add: good_def plain_def sock_at_upd_sock)

lemma slot_plain: "slot_rel pl i t (upd_sock i (\<lambda>k. k\<lparr>s_is_secure := False\<rparr>) t)"
  by (rule slot_relI) (simp_all add: sound_upd plain_upd)

lemma slot_rel_forget: "slot_rel pl i t ((net_free E p t)\<lparr>TlsHeap := (TlsHeap t)(q := None)\<rparr>)"
  by (rule slot_relI) (auto simp: net_free_def outside_def good_def sound_def bio_ok_def plain_def)

lemma slot_dead:
  assumes "good i s \<Longrightarrow> \<not> s_is_secure (sock_at i s)"
  shows "slot_rel pl i s (upd_sock i (\<lambda>k. k\<lparr>s_status := SOCKET_NOT_ALIVE\<rparr>) s)"
    and "slot_rel pl i s (upd_sock i (\<lambda>k. k\<lparr>s_ulsocket := v, s_status := SOCKET_NOT_ALIVE\<rparr>) s)"
  using assms by (auto intro!: slot_relI simp: sound_upd plain_upd)

text \<open>Socket options: allocating the TLS data, and the one that turns a slot into a TLS socket.\<close>

lemma slot_rel_dev: "slot_rel pl i s (s\<lparr>dev := w\<rparr>)"
  by (rule slot_relI) (auto simp: good_def sound_def bio_ok_def plain_def)

lemma slot_secure:
  assumes "s_status (sock_at i s) = SOCKET_ALLOCATED"
  shows "slot_rel False i s (upd_sock i (\<lambda>k. k\<lparr>s_is_secure := True\<rparr>) s)"
  using assms by (intro slot_relI) (auto simp: good_def sound_def bio_ok_def plain_def sock_at_upd_sock)

lemma check_tlsdata_slot:
  assumes "net_mbedtls_check_tlsdata E i s = (b, t)"
  shows "slot_rel pl i s t" and "s_status (sock_at i t) = s_status (sock_at i s)"
proof -
  have "slot_rel pl i s t \<and> s_status (sock_at i t) = s_status (sock_at i s)"
  proof (cases "s_tlsData (sock_at i s)")
    case (Some p)
    then show ?thesis using assms by (simp add: net_mbedtls_check_tlsdata_def)
  next
    case None
    obtain p w where m: "net_malloc E (env_sizeof E Sizeof_net_tls_data) s = (p, s\<lparr>dev := w\<rparr>)"
      by (cases "env_malloc E (env_sizeof E Sizeof_net_tls_data) (dev s)") (simp add: net_malloc_def)
    show ?thesis
    proof (cases p)
      case None
      with \<open>s_tlsData (sock_at i s) = None\<close> assms m show ?thesis
        by (auto simp: net_mbedtls_check_tlsdata_def slot_rel_dev)
    next
      case (Some q)
      with None assms m have t: "t = (upd_sock i (\<lambda>k. k\<lparr>s_tlsData := Some q\<rparr>) (s\<lparr>dev := w\<rparr>))
          \<lparr>TlsHeap := (TlsHeap s)(q \<mapsto> zero_tls_data\<lparr>tls_srv_verification := True\<rparr>)\<rparr>"
        by (auto simp: net_mbedtls_check_tlsdata_def Let_def)
      have "slot_rel pl i s t"
        unfolding t
        by (rule slot_relI)
          (auto simp: good_def sound_def bio_ok_def plain_def sock_at_upd_sock zero_tls_data_def outside_def sock_at_def)
      moreover have "s_status (sock_at i t) = s_status (sock_at i s)"
        unfolding t
        by (cases "i < length (Sockets s)") (simp_all add: sock_at_upd_sock sock_at_def list_update_beyond)
      ultimately show ?thesis by simp
    qed
  qed
  then show "slot_rel pl i s t" and "s_status (sock_at i t) = s_status (sock_at i s)" by simp_all
qed

lemma tls_option_keeps:
  assumes "\<And>d d'. f d = Some d' \<Longrightarrow> tls_bio d' = tls_bio d"
  shows "keeps (slot_rel pl i) s (tls_option E i chk f s)"
proof (rule keepsI)
  fix r u assume eq: "tls_option E i chk f s = Some (r, u)"
  have store: "slot_rel pl i t (t\<lparr>TlsHeap := (TlsHeap t)(p \<mapsto> d')\<rparr>)"
    if "TlsHeap t p = Some d" "f d = Some d'" for t :: "'a net" and p d d'
    using that assms [OF that(2)] by (intro slot_relI) (auto simp: good_def sound_def bio_ok_def plain_def)
  show "slot_rel pl i s u"
    using eq by (auto simp: tls_option_def bind_Some_iff split: if_splits prod.splits bool.splits
        dest!: check_tlsdata_slot(1) intro: slot_rel_trans [OF _ store])
qed

context socket_driver
begin

lemmas low_level_slot = keeps_weaken [OF low_level_keeps low_level_slot_rel]

lemmas slot_rules = slot_shape keeps_default_interface low_level_slot keeps_same

lemma net_bind_keeps: "keeps (api_rel pl (nat sock)) s (net_bind E sock addr len s)"
proof (cases rule: nat_sock_cases [of sock s])
  case (1 i)
  have call: "keeps (slot_rel pl i) t (call_unlocked E (int i) pbind
      (\<lambda>f s. f (s_ulsocket (sock_at i s)) addr len s) t)" for t
    by (rule keeps_call_unlocked) (auto simp: ends_def intro: pbind_ok)
  show ?thesis
    unfolding 1(1) nat_int
    by (rule locked_call [OF 1(2)], simp only: net_bind_def 1(3) [unfolded 1(1)] open_call)
      (intro slot_rules call)
qed (simp add: net_bind_def)

lemma net_listen_keeps: "keeps (api_rel pl (nat sock)) s (net_listen E sock backlog s)"
proof (cases rule: nat_sock_cases [of sock s])
  case (1 i)
  have call: "keeps (slot_rel pl i) t (call_unlocked E (int i) plisten
      (\<lambda>f s. f (s_ulsocket (sock_at i s)) backlog s) t)" for t
    by (rule keeps_call_unlocked) (auto simp: ends_def intro: plisten_ok)
  have body: "keeps (api_rel pl i) s (net_listen E (int i) backlog s)" if "\<not> check_low_level_socket sock s < 0"
    by (rule locked_call [OF 1(2)], simp only: net_listen_def 1(3) [unfolded 1(1)] that [unfolded 1(1)] open_call)
      (intro slot_rules call)
  show ?thesis
    by (cases "check_low_level_socket sock s < 0")
      (use body in \<open>simp_all add: net_listen_def 1 nat_int\<close>)
qed (simp add: net_listen_def)

lemma net_getpeername_keeps: "keeps (api_rel pl (nat sock)) s (net_getpeername E sock name namelen s)"
proof (cases rule: nat_sock_cases [of sock s])
  case (1 i)
  have call: "keeps (slot_rel pl i) t (call_unlocked E (int i) pgetpeername
      (\<lambda>f s. f (s_ulsocket (sock_at i s)) x namelen s) t)" for t x
    by (rule keeps_call_unlocked) (auto simp: ends_def intro: pgetpeername_ok)
  have body: "keeps (api_rel pl i) s (net_getpeername E (int i) name namelen s)"
    if "\<not> check_low_level_socket sock s < 0" "name = Some x" for x
    by (rule locked_call [OF 1(2)], simp only: net_getpeername_def 1(3) [unfolded 1(1)] that [unfolded 1(1)]
        option.case open_call)
      (intro slot_rules call)
  show ?thesis
    by (cases "check_low_level_socket sock s < 0"; cases name)
      (use body in \<open>simp_all add: net_getpeername_def 1 nat_int\<close>)
qed (simp add: net_getpeername_def)

lemma net_getsockname_keeps: "keeps (api_rel pl (nat sock)) s (net_getsockname E sock name namelen s)"
proof (cases rule: nat_sock_cases [of sock s])
  case (1 i)
  have call: "keeps (slot_rel pl i) t (call_unlocked E (int i) pgetsockname
      (\<lambda>f s. f (s_ulsocket (sock_at i s)) x namelen s) t)" for t x
    by (rule keeps_call_unlocked) (auto simp: ends_def intro: pgetsockname_ok)
  have body: "keeps (api_rel pl i) s (net_getsockname E (int i) name namelen s)"
    if "\<not> check_low_level_socket sock s < 0" "name = Some x" for x
    by (rule locked_call [OF 1(2)], simp only: net_getsockname_def 1(3) [unfolded 1(1)] that [unfolded 1(1)]
        option.case open_call)
      (intro slot_rules call)
  show ?thesis
    by (cases "check_low_level_socket sock s < 0"; cases name)
      (use body in \<open>simp_all add: net_getsockname_def 1 nat_int\<close>)
qed (simp add: net_getsockname_def)

lemma net_send_keeps:
  assumes mbedtls: "mbedtls_contract E"
  shows "keeps (api_rel pl (nat sock)) s (net_send E sock buf len flags s)"
proof (cases rule: nat_sock_cases [of sock s])
  case (1 i)
  have call: "keeps (slot_rel pl i) t (call_unlocked E (int i) psend
      (\<lambda>f s. f (s_ulsocket (sock_at i s)) x (int32_of len) flags s) t)" for t x
    by (rule keeps_call_unlocked) (auto simp: ends_def intro: psend_ok)
  have tls: "keeps (slot_rel pl i) t (net_mbedtls_sock_send E i x len t)" if "s_is_secure (sock_at i t)" for t x
    using that by (intro keeps_slot_of_tls net_mbedtls_sock_send_keeps mbedtls) simp
  have body: "keeps (api_rel pl i) s (net_send E (int i) buf len flags s)"
    if "\<not> check_low_level_socket sock s < 0" "buf = Some x" for x
    by (rule locked_call [OF 1(2)], simp only: net_send_def 1(3) [unfolded 1(1)] that [unfolded 1(1)]
        option.case open_call)
      (intro slot_rules call tls; assumption)
  show ?thesis
    by (cases "check_low_level_socket sock s < 0"; cases buf)
      (use body in \<open>simp_all add: net_send_def 1 nat_int\<close>)
qed (simp add: net_send_def)

lemma net_recv_keeps:
  assumes mbedtls: "mbedtls_contract E"
  shows "keeps (api_rel pl (nat sock)) s (net_recv E sock buf len flags s)"
proof (cases rule: nat_sock_cases [of sock s])
  case (1 i)
  have call: "keeps (slot_rel pl i) t (call_unlocked E (int i) precv
      (\<lambda>f s. f (s_ulsocket (sock_at i s)) x (int32_of len)
        (if s_read_timeout (sock_at i s) = 0 then NET_MSG_DONTWAIT else flags) s) t)" for t x
    by (rule keeps_call_unlocked) (auto simp: ends_def intro: precv_ok)
  have tls: "keeps (slot_rel pl i) t (net_mbedtls_sock_recv E i x len t)" if "s_is_secure (sock_at i t)" for t x
    using that by (intro keeps_slot_of_tls net_mbedtls_sock_recv_keeps mbedtls) simp
  have body: "keeps (api_rel pl i) s (net_recv E (int i) buf len flags s)"
    if "\<not> check_low_level_socket sock s < 0" "buf = Some x" for x
    by (rule locked_call [OF 1(2)], simp only: net_recv_def 1(3) [unfolded 1(1)] that [unfolded 1(1)]
        option.case open_call)
      (intro slot_rules call tls; assumption)
  show ?thesis
    by (cases "check_low_level_socket sock s < 0"; cases buf)
      (use body in \<open>simp_all add: net_recv_def 1 nat_int\<close>)
qed (simp add: net_recv_def)

lemma net_sendto_keeps: "keeps (api_rel pl (nat sock)) s (net_sendto E sock buf len flags ad n s)"
proof (cases rule: nat_sock_cases [of sock s])
  case (1 i)
  have call: "keeps (slot_rel pl i) t (call_unlocked E (int i) psendto
      (\<lambda>f s. f (s_ulsocket (sock_at i s)) x (int32_of len) flags ad n s) t)" for t x
    by (rule keeps_call_unlocked) (auto simp: ends_def intro: psendto_ok)
  have "keeps (api_rel pl i) s (net_sendto E (int i) buf len flags ad n s)" if "buf = Some x" for x
    by (simp only: net_sendto_def 1(3) [unfolded 1(1)] that option.case open_call)
      (intro keeps_shape(1) [OF api_rel_transp] keeps_shape(3) keeps_api_same locked_call [OF 1(2)]
        keeps_weaken [OF low_level_keeps low_level_api] slot_rules call)
  then show ?thesis by (cases buf) (simp_all add: net_sendto_def 1 nat_int)
qed (simp add: net_sendto_def)

lemma net_recvfrom_keeps: "keeps (api_rel pl (nat sock)) s (net_recvfrom E sock buf len flags ad n s)"
proof (cases rule: nat_sock_cases [of sock s])
  case (1 i)
  have call: "keeps (slot_rel pl i) t (call_unlocked E (int i) precvfrom
      (\<lambda>f s. f (s_ulsocket (sock_at i s)) x (int32_of len)
        (if s_read_timeout (sock_at i s) = 0 then NET_MSG_DONTWAIT else flags) ad n s) t)" for t x
    by (rule keeps_call_unlocked) (auto simp: ends_def intro: precvfrom_ok)
  have "keeps (api_rel pl i) s (net_recvfrom E (int i) buf len flags ad n s)" if "buf = Some x" for x
    by (simp only: net_recvfrom_def 1(3) [unfolded 1(1)] that option.case open_call)
      (intro keeps_shape(1) [OF api_rel_transp] keeps_shape(3) keeps_api_same locked_call [OF 1(2)]
        keeps_weaken [OF low_level_keeps low_level_api] slot_rules call)
  then show ?thesis by (cases buf) (simp_all add: net_recvfrom_def 1 nat_int)
qed (simp add: net_recvfrom_def)

lemma leave_tls_keeps:
  assumes "mbedtls_contract E"
  shows "keeps_state (slot_rel pl i) s (leave_tls E i s)"
proof (rule keeps_if_good)
  assume g: "good i s"
  have stop: "keeps (slot_rel pl i) (upd_sock i (\<lambda>k. k\<lparr>s_tls_started := False\<rparr>) s)
      (net_mbedtls_stop E i (upd_sock i (\<lambda>k. k\<lparr>s_tls_started := False\<rparr>) s))" if "s_is_secure (sock_at i s)"
    by (rule keeps_slot_of_tls [OF net_mbedtls_stop_keeps])
      (use assms that g in \<open>simp_all add: sock_at_upd_sock good_def\<close>)
  have upd: "slot_rel pl i s (upd_sock i (\<lambda>k. k\<lparr>s_tls_started := False\<rparr>) s)"
    by (rule slot_rel_upd) simp_all
  show ?thesis
    by (rule keeps_stateI) (auto simp: leave_tls_def bind_Some_iff slot_plain split: if_splits
        intro: slot_rel_trans [OF slot_rel_trans [OF upd keepsD(1) [OF stop]] slot_plain])
qed

lemma net_shutdown_keeps:
  assumes "mbedtls_contract E"
  shows "keeps (api_rel pl (nat sock)) s (net_shutdown E sock mode s)"
proof (cases rule: nat_sock_cases [of sock s])
  case (1 i)
  have call: "keeps (slot_rel pl i) t (call_unlocked E (int i) pshutdown
      (\<lambda>f s. f (s_ulsocket (sock_at i s)) mode s) t)" for t
    by (rule keeps_call_unlocked) (auto simp: ends_def intro: pshutdown_ok)
  have dead: "keeps (slot_rel pl i) t (Some (r, upd_sock i (\<lambda>k. k\<lparr>s_status := SOCKET_NOT_ALIVE\<rparr>) t))"
    if "leave_tls E i u = Some t" for t u r
    using leave_tls_plain [OF that] by (auto intro!: slot_dead simp: good_def)
  show ?thesis
    unfolding 1(1) nat_int
    by (rule locked_call [OF 1(2)], simp only: net_shutdown_def 1(3) [unfolded 1(1)] open_call,
        rule unlocks_state_eq [OF leave_tls_keeps [OF assms]])
      (intro slot_rules call dead; assumption)
qed (simp add: net_shutdown_def)

lemma net_closesocket_keeps:
  assumes "mbedtls_contract E"
  shows "keeps (api_rel pl (nat sock)) s (net_closesocket E sock s)"
proof (cases rule: nat_sock_cases [of sock s])
  case (1 i)
  define m where "m = call_unlocked E (int i) pclose
      (\<lambda>f s. f (s_ulsocket (sock_at i s)) (s_cloneserver (sock_at i s)) s)"
  have ends: "ends (\<lambda>_ u'. sock_frame u u') (f (s_ulsocket (sock_at i u)) (s_cloneserver (sock_at i u)) u)"
    if "pclose (env_drv E d) = Some f" for d f u
    using that by (auto simp: ends_def intro: pclose_ok)
  have call: "keeps (slot_rel pl i) t (do { (ret, s) \<leftarrow> m t;
      Some (ret, upd_sock i (\<lambda>k. k\<lparr>s_ulsocket := -1, s_status := SOCKET_NOT_ALIVE\<rparr>) s) })"
    if "leave_tls E i v = Some t" for t v
  proof (rule keeps_if_good(1), rule keepsI)
    fix r t' assume g: "good i t" and eq: "do { (ret, s) \<leftarrow> m t;
      Some (ret, upd_sock i (\<lambda>k. k\<lparr>s_ulsocket := -1, s_status := SOCKET_NOT_ALIVE\<rparr>) s) } = Some (r, t')"
    then obtain u where u: "m t = Some (r, u)"
        "t' = upd_sock i (\<lambda>k. k\<lparr>s_ulsocket := -1, s_status := SOCKET_NOT_ALIVE\<rparr>) u"
      by (auto simp: bind_Some_iff)
    have "slot_rel pl i t u"
      by (rule keepsD(1) [OF _ u(1)], unfold m_def, rule keeps_call_unlocked, rule ends)
    moreover have "sock_at i u = sock_at i t"
      by (rule call_unlocked_frame(2) [OF _ u(1) [unfolded m_def]], rule ends)
        (use g in \<open>simp_all add: good_def\<close>)
    moreover have "\<not> s_is_secure (sock_at i t)"
      using leave_tls_plain [OF that] g by (simp add: good_def)
    ultimately show "slot_rel pl i t t'"
      unfolding u(2) by (auto intro!: slot_rel_trans [OF _ slot_dead(2)])
  qed
  have dead: "keeps (slot_rel pl i) t (Some (r, upd_sock i (\<lambda>k. k\<lparr>s_status := SOCKET_NOT_ALIVE\<rparr>) t))"
    if "leave_tls E i u = Some t" for t u r
    using leave_tls_plain [OF that] by (auto intro!: slot_dead simp: good_def)
  show ?thesis
    unfolding 1(1) nat_int
    by (rule locked_call [OF 1(2)], simp only: net_closesocket_def 1(3) [unfolded 1(1)] open_call,
        rule unlocks_state_eq [OF leave_tls_keeps [OF assms]])
      (intro slot_rules call [unfolded m_def] dead; assumption)
qed (simp add: net_closesocket_def)

lemma net_connect_keeps:
  assumes "mbedtls_contract E"
  shows "keeps (api_rel pl (nat sock)) s (net_connect E sock addr len s)"
proof (cases rule: nat_sock_cases [of sock s])
  case (1 i)
  have call: "keeps (slot_rel pl i) t (call_unlocked E (int i) pconnect
      (\<lambda>f s. f (s_ulsocket (sock_at i s)) addr len s) t)" for t
    by (rule keeps_call_unlocked) (auto simp: ends_def intro: pconnect_ok)
  have forget: "keeps (slot_rel pl i) t (Some (r, upd_sock i (\<lambda>k. k\<lparr>s_is_secure := False\<rparr>)
      (if s_is_secure (sock_at i t) then (case s_tlsData (sock_at i t) of
           Some p \<Rightarrow> (net_free E p t)\<lparr>TlsHeap := (TlsHeap t)(p := None)\<rparr> | None \<Rightarrow> t) else t)))" for t r
    by (auto intro!: slot_rel_trans [OF _ slot_plain] slot_rel_forget split: option.split)
  have start: "keeps (slot_rel pl i) t (net_mbedtls_start E i t)" if "s_is_secure (sock_at i t)" for t
    using that by (intro keeps_slot_of_tls net_mbedtls_start_keeps assms) simp
  have failed: "keeps (slot_rel pl i) t (do { (_, s) \<leftarrow> net_closesocket E (int i)
        (UNLOCK_SOCK (int i) (upd_sock i (\<lambda>k. k\<lparr>s_is_secure := False\<rparr>) t));
      Some (r, LOCK_SOCK (int i) s) })" for t r
  proof (rule keepsI)
    fix q u assume "do { (_, s) \<leftarrow> net_closesocket E (int i)
        (UNLOCK_SOCK (int i) (upd_sock i (\<lambda>k. k\<lparr>s_is_secure := False\<rparr>) t));
      Some (r, LOCK_SOCK (int i) s) } = Some (q, u)"
    then obtain c v where "net_closesocket E (int i)
        (UNLOCK_SOCK (int i) (upd_sock i (\<lambda>k. k\<lparr>s_is_secure := False\<rparr>) t)) = Some (c, v)"
        "u = LOCK_SOCK (int i) v"
      by (auto simp: bind_Some_iff)
    then have "slot_rel pl i (upd_sock i (\<lambda>k. k\<lparr>s_is_secure := False\<rparr>) t) u"
      using unlocked_call [OF _ 1(2)] keepsD(1) [OF net_closesocket_keeps [OF assms, where sock = "int i"]]
      unfolding nat_int by blast
    then show "slot_rel pl i t u" by (rule slot_rel_trans [OF slot_plain])
  qed
  have started: "keeps (slot_rel pl i) t (Some (r, upd_sock i (\<lambda>k. k\<lparr>s_tls_started := True\<rparr>) t))" for t r
    using slot_rel_upd [of "\<lambda>k. k\<lparr>s_tls_started := True\<rparr>"] by simp
  have connected: "keeps (slot_rel pl i) t (Some (r, if c then upd_sock i (\<lambda>k. k\<lparr>s_status := SOCKET_CONNECTED\<rparr>) t else t))"
    for t r c
    by (auto intro!: slot_relI simp: sound_upd plain_upd plain_def [of i t])
  show ?thesis
    unfolding 1(1) nat_int
    by (rule locked_call [OF 1(2)], simp only: net_connect_def 1(3) [unfolded 1(1)] open_call)
      (intro slot_rules call forget start failed started connected; assumption)
qed (simp add: net_connect_def)

text \<open>The \<open>switch\<close> of \<open>net_setsockopt\<close>: only an open, unconnected slot becomes a TLS socket.\<close>

lemma setsockopt_switch_keeps:
  assumes "s_status (sock_at i s) \<noteq> SOCKET_NOT_ALIVE" and "pl \<Longrightarrow> optname \<noteq> NET_SO_SECURE"
  shows "keeps (slot_rel pl i) s (setsockopt_switch E i optname v n s)"
proof -
  have upd: "slot_rel pl i s (upd_sock i (\<lambda>k. k\<lparr>s_pnetif := p\<rparr>) s)"
      "slot_rel pl i s (upd_sock i (\<lambda>k. k\<lparr>s_read_timeout := x\<rparr>) s)"
      "slot_rel pl i s (upd_sock i (\<lambda>k. k\<lparr>s_write_timeout := x\<rparr>) s)" for p x
    by (rule slot_rel_upd; simp)+
  have timeout: "slot_rel pl i s u" if "net_mbedtls_set_read_timeout E i (upd_sock i (\<lambda>k. k\<lparr>s_read_timeout := x\<rparr>) s) = Some u"
    for x u
    using slot_rel_trans [OF upd(2) [of x] slot_rel_dev] that
    by (auto simp: net_mbedtls_set_read_timeout_def mbv_def bind_Some_iff upd split: option.splits)
  have secure: "slot_rel pl i s (upd_sock i (\<lambda>k. k\<lparr>s_is_secure := True\<rparr>) u)"
    if "optname = NET_SO_SECURE" "net_mbedtls_check_tlsdata E i s = (True, u)" "s_status (sock_at i s) \<noteq> SOCKET_CONNECTED" for u
    using slot_rel_trans [OF check_tlsdata_slot(1) [OF that(2)] slot_secure]
      check_tlsdata_slot(2) [OF that(2)] assms that(1,3)
    by (cases pl; cases "s_status (sock_at i s)") auto
  have opt: "keeps (slot_rel pl i) s (map_option (\<lambda>(ret, s). ((False, ret), s)) (tls_option E i chk f s))"
    if "\<And>d d'. f d = Some d' \<Longrightarrow> tls_bio d' = tls_bio d" for chk f
    using keepsD(1) [OF tls_option_keeps [OF that]] by (auto intro!: keepsI)
  show ?thesis
    using assms(2)
    unfolding setsockopt_switch_def Let_def
    by (cases optname)
      (auto simp: bind_Some_iff upd secure check_tlsdata_slot(1) split: optval.split prod.split bool.split
        intro!: opt keepsI[of "Option.bind _ _"] dest: timeout split: optval.splits)
qed

lemma net_setsockopt_keeps:
  assumes "pl \<Longrightarrow> optname \<noteq> NET_SO_SECURE"
  shows "keeps (api_rel pl (nat sock)) s (net_setsockopt E sock level optname v n s)"
proof (cases rule: nat_sock_cases [of sock s])
  case (1 i)
  have call: "keeps (slot_rel pl i) t (call_unlocked E (int i) psetsockopt
      (\<lambda>f s. f (s_ulsocket (sock_at i s)) level optname v n s) t)" for t
    by (rule keeps_call_unlocked) (auto simp: ends_def intro: psetsockopt_ok)
  have switch: "keeps (slot_rel pl i) (LOCK_SOCK (int i) s) (setsockopt_switch E i optname v n (LOCK_SOCK (int i) s))"
    using 1 assms by (intro setsockopt_switch_keeps) (simp_all add: is_valid_socket_def LOCK_SOCK_def)
  show ?thesis
    unfolding 1(1) nat_int
    by (rule locked_call [OF 1(2)], simp only: net_setsockopt_def 1(3) [unfolded 1(1)] open_call)
      (intro slot_rules keeps_state_bind [OF slot_rel_transp] call switch)
qed (simp add: net_setsockopt_def)

end

section \<open>Allocation\<close>

definition free_slot :: "'w net \<Rightarrow> nat option" where
  "free_slot s = List.find (\<lambda>i. s_status (sock_at i s) = SOCKET_NOT_ALIVE) [0..<NET_MAX_SOCKETS_NBR]"

lemma free_slot_Some:
  "free_slot s = Some i \<Longrightarrow> i < NET_MAX_SOCKETS_NBR \<and> s_status (sock_at i s) = SOCKET_NOT_ALIVE"
  unfolding free_slot_def find_index_upt_Some by simp

text \<open>What allocation writes into the slot: every field but \<open>cloneserver\<close>, \<open>connected\<close>, \<open>tls_started\<close>.\<close>

definition opened :: "nat \<Rightarrow> netref option \<Rightarrow> net_socket \<Rightarrow> net_socket" where
  "opened i p k = k\<lparr>s_idx := int i, s_status := SOCKET_ALLOCATED, s_domain := 0, s_type := 0,
     s_protocol := 0, s_is_secure := False, s_tlsData := None,
     s_read_timeout := NET_SOCK_DEFAULT_RECEIVE_TO, s_write_timeout := NET_SOCK_DEFAULT_SEND_TO,
     s_blocking := True, s_ulsocket := -1, s_pnetif := p\<rparr>"

text \<open>Only the lock log and the listed slots of the table may differ.\<close>

definition table_only :: "'w net \<Rightarrow> net_socket list \<Rightarrow> 'w net \<Rightarrow> bool" where
  "table_only s K s' \<longleftrightarrow> Sockets s' = K \<and> Netifs s' = Netifs s \<and> NetIfList s' = NetIfList s
     \<and> TlsHeap s' = TlsHeap s \<and> Drivers s' = Drivers s \<and> dev s' = dev s
     \<and> NetInitialized s' = NetInitialized s"

lemma free_slot_lock [simp]: "free_slot (net_os_op e s) = free_slot s"
  by (simp add: free_slot_def)

lemma find_free_socket_full:
  assumes "free_slot s = None" and "held s = Locks X" and "NET_LOCK_SOCKET_ARRAY \<notin> X"
  shows "\<exists>s'. find_free_socket s = Some (NET_ERROR_INVALID_SOCKET, s') \<and> held s' = held s
    \<and> table_only s (Sockets s) s'"
  using assms by (simp add: find_free_socket_def free_slot_def [symmetric] Let_def table_only_def LOCK_SOCK_ARRAY_def
      UNLOCK_SOCK_ARRAY_def)

lemma find_free_socket_least:
  assumes "free_slot s = Some i" and "length (Sockets s) = NET_MAX_SOCKETS_NBR"
    and "held s = Locks X" and "i \<notin> X" "NET_LOCK_SOCKET_ARRAY \<notin> X" "NET_LOCK_NETIF_LIST \<notin> X"
  shows "\<exists>s'. find_free_socket s = Some (int i, s') \<and> held s' = Locks (insert i X)
    \<and> table_only s ((Sockets s)[i := opened i (NetIfList s) (Sockets s ! i)]) s'"
proof -
  have i: "i < 5" using free_slot_Some [OF assms(1)] by simp
  have swap: "insert i (insert 5 X) - {5} = insert i X" using assms i by auto
  show ?thesis
    using assms i swap
    by (simp add: find_free_socket_def free_slot_def [symmetric] Let_def table_only_def lock_op_defs opened_def
        insert_commute [of i])
qed

lemma net_socket_full:
  assumes "free_slot s = None" and "held s = Locks X" and "NET_LOCK_SOCKET_ARRAY \<notin> X"
  shows "\<exists>s'. net_socket d t p s = Some (NET_ERROR_INVALID_SOCKET, s') \<and> held s' = held s
    \<and> table_only s (Sockets s) s'"
  using find_free_socket_full [OF assms] by (auto simp: net_socket_def)

lemma net_socket_least:
  assumes "free_slot s = Some i" and "length (Sockets s) = NET_MAX_SOCKETS_NBR"
    and "held s = Locks X" and "i \<notin> X" "NET_LOCK_SOCKET_ARRAY \<notin> X" "NET_LOCK_NETIF_LIST \<notin> X"
  shows "\<exists>s'. net_socket d t p s = Some (int i, s') \<and> held s' = held s
    \<and> table_only s ((Sockets s)[i := (opened i (NetIfList s) (Sockets s ! i))
         \<lparr>s_domain := d, s_type := t, s_protocol := p\<rparr>]) s'"
proof -
  have i: "i < 5" using free_slot_Some [OF assms(1)] by simp
  obtain u where u: "find_free_socket s = Some (int i, u)" "held u = Locks (insert i X)"
      "table_only s ((Sockets s)[i := opened i (NetIfList s) (Sockets s ! i)]) u"
    using find_free_socket_least [OF assms] by blast
  then show ?thesis
    using assms i by (simp add: net_socket_def table_only_def UNLOCK_SOCK_def)
qed

definition accepted :: "net_socket \<Rightarrow> net_socket" where
  "accepted k = k\<lparr>s_status := SOCKET_CONNECTED\<rparr>"

lemma clone_socket_cases:
  assumes "clone_socket (int i) s = Some (r, u)" and "length (Sockets s) = NET_MAX_SOCKETS_NBR"
    and "held s = Locks {i}" and "i < NET_MAX_SOCKETS_NBR" and "s_status (sock_at i s) = SOCKET_CONNECTED"
  shows "(r = NET_ERROR_INVALID_SOCKET \<and> held u = Locks {i} \<and> table_only s (Sockets s) u)
    \<or> (\<exists>j. free_slot s = Some j \<and> j \<noteq> i \<and> r = int j \<and> held u = Locks {i, j}
         \<and> table_only s ((Sockets s)[j := Sockets s ! i]) u)"
proof (cases "free_slot s")
  case None
  then show ?thesis
    using find_free_socket_full [OF None assms(3)] assms by (auto simp: clone_socket_def)
next
  case (Some j)
  then have j: "j < 5" "j \<noteq> i" using free_slot_Some [OF Some] assms(5) by auto
  obtain v where v: "find_free_socket s = Some (int j, v)" "held v = Locks {j, i}"
      "table_only s ((Sockets s)[j := opened j (NetIfList s) (Sockets s ! j)]) v"
    using find_free_socket_least [OF Some assms(2,3)] j assms(4) by auto
  then have "r = int j" "u = upd_sock j (\<lambda>_. sock_at i v) v" using assms(1) by (auto simp: clone_socket_def)
  then show ?thesis
    using v j Some assms(2,4) by (auto simp: table_only_def sock_at_def insert_commute)
qed

lemma held_unlock_pair:
  "held u = Locks {i, j} \<Longrightarrow> i \<noteq> j \<Longrightarrow> held (UNLOCK_SOCK (int j) u) = Locks {i}"
  "held u = Locks {i} \<Longrightarrow> held (UNLOCK_SOCK (int i) u) = Locks {}"
  "held u = Locks {} \<Longrightarrow> held (LOCK_SOCK (int i) u) = Locks {i}"
  by (auto simp: UNLOCK_SOCK_def LOCK_SOCK_def)

text \<open>What \<open>net_accept\<close> does to the table: nothing, the server marked connected, or also a new slot.\<close>

definition accept_table :: "nat \<Rightarrow> net_socket list \<Rightarrow> int \<Rightarrow> net_socket list \<Rightarrow> bool" where
  "accept_table i K r K' \<longleftrightarrow>
     K' = K \<and> r < 0
     \<or> K' = K[i := accepted (K ! i)] \<and> r = NET_ERROR_INVALID_SOCKET
     \<or> (\<exists>j ul. j \<noteq> i \<and> j < NET_MAX_SOCKETS_NBR \<and> s_status (K ! j) = SOCKET_NOT_ALIVE \<and> r = int j \<and> 0 \<le> ul
          \<and> K' = K[i := accepted (K ! i), j := (accepted (K ! i))\<lparr>s_ulsocket := ul, s_cloneserver := True\<rparr>])"

lemma accept_new_cases:
  assumes "accept_new (int i) ul s = Some (r, u)" and "length (Sockets s) = NET_MAX_SOCKETS_NBR"
    and "held s = Locks {i}" and "i < NET_MAX_SOCKETS_NBR" and "0 \<le> ul"
  shows "held u = Locks {i} \<and> TlsHeap u = TlsHeap s \<and> NetIfList u = NetIfList s
    \<and> accept_table i (Sockets s) r (Sockets u)"
proof -
  define t where "t = upd_sock i (\<lambda>k. k\<lparr>s_status := SOCKET_CONNECTED\<rparr>) s"
  have t: "Sockets t = (Sockets s)[i := accepted (Sockets s ! i)]" "TlsHeap t = TlsHeap s"
      "NetIfList t = NetIfList s" "held t = Locks {i}"
    using assms by (simp_all add: t_def accepted_def)
  have ti: "Sockets t ! i = accepted (Sockets s ! i)" using t assms by simp
  from assms(1) obtain v where v: "clone_socket (int i) t = Some (r, v)"
      "u = (if r \<ge> 0 then UNLOCK_SOCK r (upd_sock (nat r)
              (\<lambda>k. k\<lparr>s_ulsocket := ul, s_cloneserver := True\<rparr>) v) else v)"
    by (auto simp: accept_new_def t_def bind_Some_iff)
  consider "r = NET_ERROR_INVALID_SOCKET" "held v = Locks {i}" "table_only t (Sockets t) v"
    | j where "free_slot t = Some j" "j \<noteq> i" "r = int j" "held v = Locks {i, j}"
        "table_only t ((Sockets t)[j := Sockets t ! i]) v"
    using clone_socket_cases [OF v(1)] t assms(2,4) ti by (auto simp: sock_at_def accepted_def)
  then show ?thesis
  proof cases
    case 1
    then show ?thesis using v t by (simp add: accept_table_def table_only_def)
  next
    case (2 j)
    then have j: "j < 5" "s_status (Sockets s ! j) = SOCKET_NOT_ALIVE"
      using free_slot_Some [OF 2(1)] by (auto simp: t sock_at_def)
    have "Sockets u = (Sockets s)[i := accepted (Sockets s ! i),
        j := (accepted (Sockets s ! i))\<lparr>s_ulsocket := ul, s_cloneserver := True\<rparr>]"
      using 2 v(2) t ti j assms(2) by (simp add: table_only_def UNLOCK_SOCK_def)
    moreover have "held u = Locks {i}" using 2 v(2) held_unlock_pair(1) [of "upd_sock j _ v" i j] by simp
    ultimately show ?thesis
      using 2 v(2) t j assms(5) by (auto simp: accept_table_def table_only_def UNLOCK_SOCK_def)
  qed
qed

context socket_driver
begin

lemma net_accept_cases:
  assumes "net_accept E (int i) a l s = Some ((r, a', l'), s')" and "length (Sockets s) = NET_MAX_SOCKETS_NBR"
    and "held s = Locks {}" and "is_valid_socket (int i) s"
  shows "held s' = Locks {} \<and> TlsHeap s' = TlsHeap s \<and> NetIfList s' = NetIfList s
    \<and> accept_table i (Sockets s) r (Sockets s')"
proof (cases "check_low_level_socket (int i) s < 0")
  case True
  then show ?thesis using assms by (auto simp: net_accept_def accept_table_def)
next
  case False
  define s1 where "s1 = LOCK_SOCK (int i) s"
  obtain ok c where acc: "net_access_control (s_pnetif (sock_at i s1)) NET_ACCESS_BIND (-1) s1 = (ok, c)"
    by force
  from False assms(1,4) obtain ul x y s2 t where
      s2: "(if ok then call_unlocked E (int i) paccept (\<lambda>f s. f (s_ulsocket (sock_at i s)) a l s) s1
            else Some ((c, a, l), s1)) = Some ((ul, x, y), s2)"
    and rest: "(if ul < 0 then Some (ul, s2) else accept_new (int i) ul s2) = Some (r, t)"
      "s' = UNLOCK_SOCK (int i) t"
    by (auto simp: net_accept_def net_socket_get_and_lock_def s1_def [symmetric] acc
        bind_Some_iff [of "if ok then _ else _"] bind_Some_iff [of "if _ < (0::int) then _ else _"]
        simp del: if_split)
  have i: "i < 5" using assms(4) by (simp add: is_valid_socket_def)
  have s1: "held s1 = Locks {i}" "Sockets s1 = Sockets s" "TlsHeap s1 = TlsHeap s" "NetIfList s1 = NetIfList s"
    using assms(3) by (simp_all add: s1_def LOCK_SOCK_def)
  then have locked: "locked i s1" using i by (simp add: locked_def)
  have ends: "ends (\<lambda>_ u. sock_frame t u) (f (s_ulsocket (sock_at i t)) a l t)"
    if "paccept (env_drv E d) = Some f" for d f t
    using that by (auto simp: ends_def intro: paccept_ok)
  have "outside i s1 s2 \<and> (\<forall>j. sock_at j s2 = sock_at j s1) \<and> TlsHeap s2 = TlsHeap s1"
  proof (cases ok)
    case True
    then have eq: "call_unlocked E (int i) paccept (\<lambda>f s. f (s_ulsocket (sock_at i s)) a l s) s1 = Some ((ul, x, y), s2)"
      using s2 by simp
    show ?thesis
      by (intro conjI allI; rule call_unlocked_frame [OF _ eq locked]; rule ends)
  qed (use s2 in auto)
  then have s2': "held s2 = Locks {i}" "Sockets s2 = Sockets s" "TlsHeap s2 = TlsHeap s" "NetIfList s2 = NetIfList s"
    using s1 by (auto simp: outside_def sock_at_def intro: nth_equalityI)
  show ?thesis
  proof (cases "ul < 0")
    case True
    then show ?thesis using rest s2' by (auto simp: accept_table_def UNLOCK_SOCK_def)
  next
    case False
    then show ?thesis
      using rest s2' accept_new_cases [of i ul s2 r t] assms(2) i held_unlock_pair(2) [of t i]
      by (simp add: UNLOCK_SOCK_def)
  qed
qed

end

end
