(* ===== verification/Socket_Props.thy ===== *)
theory Socket_Props
  imports Socket_Api
begin

text \<open>
  The properties of the socket interface: lock discipline and isolation of slots for every call and
  for sequences of calls, allocation, closing, and what happens on the error paths.
\<close>

section \<open>Calls\<close>

datatype api_call =
    Api_socket int int int
  | Api_bind int "net_sockaddr option" u32
  | Api_accept int "net_sockaddr option" u32
  | Api_listen int int
  | Api_connect int "net_sockaddr option" u32
  | Api_send int "bytes option" u32 int
  | Api_recv int "bytes option" u32 int
  | Api_sendto int "bytes option" u32 int "net_sockaddr option" u32
  | Api_recvfrom int "bytes option" u32 int "net_sockaddr option" u32
  | Api_shutdown int int
  | Api_close int
  | Api_getpeername int "net_sockaddr option" u32
  | Api_getsockname int "net_sockaddr option" u32
  | Api_setsockopt int int net_socketoption optval u32

text \<open>Only the return code of a call is kept, its out-parameters are dropped.\<close>

definition code_of :: "((int \<times> 'b) \<times> 's) option \<Rightarrow> (int \<times> 's) option" where
  "code_of = map_option (\<lambda>((r, _), s). (r, s))"

fun run_api :: "'w env \<Rightarrow> api_call \<Rightarrow> 'w net \<Rightarrow> (int, 'w) res" where
  "run_api E (Api_socket d t p) s = net_socket d t p s"
| "run_api E (Api_bind k a l) s = net_bind E k a l s"
| "run_api E (Api_accept k a l) s = code_of (net_accept E k a l s)"
| "run_api E (Api_listen k n) s = net_listen E k n s"
| "run_api E (Api_connect k a l) s = net_connect E k a l s"
| "run_api E (Api_send k b l f) s = net_send E k b l f s"
| "run_api E (Api_recv k b l f) s = code_of (net_recv E k b l f s)"
| "run_api E (Api_sendto k b l f a n) s = net_sendto E k b l f a n s"
| "run_api E (Api_recvfrom k b l f a n) s = code_of (net_recvfrom E k b l f a n s)"
| "run_api E (Api_shutdown k m) s = net_shutdown E k m s"
| "run_api E (Api_close k) s = net_closesocket E k s"
| "run_api E (Api_getpeername k a l) s = code_of (net_getpeername E k a l s)"
| "run_api E (Api_getsockname k a l) s = code_of (net_getsockname E k a l s)"
| "run_api E (Api_setsockopt k v oo x l) s = net_setsockopt E k v oo x l s"

fun addressed :: "api_call \<Rightarrow> int option" where
  "addressed (Api_socket d t p) = None"
| "addressed (Api_bind k a l) = Some k"
| "addressed (Api_accept k a l) = Some k"
| "addressed (Api_listen k n) = Some k"
| "addressed (Api_connect k a l) = Some k"
| "addressed (Api_send k b l f) = Some k"
| "addressed (Api_recv k b l f) = Some k"
| "addressed (Api_sendto k b l f a n) = Some k"
| "addressed (Api_recvfrom k b l f a n) = Some k"
| "addressed (Api_shutdown k m) = Some k"
| "addressed (Api_close k) = Some k"
| "addressed (Api_getpeername k a l) = Some k"
| "addressed (Api_getsockname k a l) = Some k"
| "addressed (Api_setsockopt k v oo x l) = Some k"

text \<open>The slots a call may write: the one it addresses and the one it opens.\<close>

fun opens :: "api_call \<Rightarrow> bool" where
  "opens (Api_socket d t p) = True"
| "opens (Api_accept k a l) = True"
| "opens _ = False"

definition touched :: "api_call \<Rightarrow> int \<Rightarrow> int set" where
  "touched c r = set_option (addressed c) \<union> (if opens c then {r} else {})"

lemma invalid_socket_call:
  assumes "addressed c = Some k" and "\<not> is_valid_socket k s"
  shows "run_api E c s = Some (NET_ERROR_INVALID_SOCKET, s)"
  using assms by (cases c) (auto simp: net_bind_def net_accept_def net_listen_def net_connect_def net_send_def
      net_recv_def net_sendto_def net_recvfrom_def net_shutdown_def net_closesocket_def net_getpeername_def
      net_getsockname_def net_setsockopt_def code_of_def)

fun makes_secure :: "api_call \<Rightarrow> bool" where
  "makes_secure (Api_setsockopt k v oo x l) = (oo = NET_SO_SECURE)"
| "makes_secure _ = False"

lemma code_of_keeps: "keeps R s m \<Longrightarrow> keeps R s (code_of m)"
  by (auto simp: keeps_def ends_def code_of_def)

context socket_driver
begin

lemma run_api_keeps:
  assumes "mbedtls_contract E" and "addressed c = Some k" and "\<not> opens c" and "pl \<Longrightarrow> \<not> makes_secure c"
  shows "keeps (api_rel pl (nat k)) s (run_api E c s)"
  using assms
  by (cases c) (simp_all add: net_bind_keeps net_listen_keeps net_connect_keeps net_send_keeps net_recv_keeps
      net_sendto_keeps net_recvfrom_keeps net_shutdown_keeps net_closesocket_keeps net_getpeername_keeps
      net_getsockname_keeps net_setsockopt_keeps code_of_keeps)

end

section \<open>Lock discipline and isolation\<close>

lemma api_pre_call:
  assumes "held s = Locks {}" and "length (Sockets s) = NET_MAX_SOCKETS_NBR" and "sound i s"
    and "i < NET_MAX_SOCKETS_NBR"
  shows "api_pre i s"
  using assms by (simp add: api_pre_def lock_free_def)

lemma socket_outcome:
  assumes "net_socket d t p s = Some (r, s')" and "held s = Locks {}"
    and "length (Sockets s) = NET_MAX_SOCKETS_NBR"
  shows "held s' = Locks {} \<and> TlsHeap s' = TlsHeap s \<and> length (Sockets s') = NET_MAX_SOCKETS_NBR
    \<and> (free_slot s = None \<and> r = NET_ERROR_INVALID_SOCKET \<and> Sockets s' = Sockets s
       \<or> (\<exists>i. free_slot s = Some i \<and> i < NET_MAX_SOCKETS_NBR \<and> r = int i \<and> Sockets s' = (Sockets s)[i :=
            (opened i (NetIfList s) (Sockets s ! i))\<lparr>s_domain := d, s_type := t, s_protocol := p\<rparr>]))"
  using assms net_socket_full [of s "{}" d t p] net_socket_least [of s _ "{}" d t p]
  by (cases "free_slot s") (auto simp: table_only_def dest!: free_slot_Some)

lemma accept_table_others:
  "accept_table i K r K' \<Longrightarrow> j \<noteq> i \<Longrightarrow> int j \<noteq> r \<Longrightarrow> K' ! j = K ! j"
  "accept_table i K r K' \<Longrightarrow> length K' = length K"
  by (auto simp: accept_table_def nth_list_update)

text \<open>
  C2. Whatever a driver and a TLS library answer that keep to their objects, a socket call that returns has released every
  lock it took, and has changed no slot but the one it was called for and the one it opens, provided no lock is held
  before it and the slot it is called for is sound: the slot stores its own index and its TLS data are registered for no
  other socket, or it is a socket without TLS that is connected or not in use. (The clone of a TLS socket \<open>net_accept\<close>
  makes is not: it stores the index of the listening socket, whose lock its calls release.)
\<close>

theorem api_call_isolated:
  assumes "socket_driver E" and "mbedtls_contract E"
    and "length (Sockets s) = NET_MAX_SOCKETS_NBR" and "held s = Locks {}"
    and "\<forall>i. addressed c = Some (int i) \<longrightarrow> sound i s"
    and "run_api E c s = Some (r, s')"
  shows "held s' = Locks {} \<and> length (Sockets s') = NET_MAX_SOCKETS_NBR
    \<and> (\<forall>j. int j \<notin> touched c r \<longrightarrow> sock_at j s' = sock_at j s)"
proof (cases "addressed c")
  case None
  then obtain d t p where "c = Api_socket d t p" by (cases c) auto
  then show ?thesis
    using socket_outcome [of d t p s r s'] assms by (auto simp: touched_def sock_at_def)
next
  case (Some k)
  show ?thesis
  proof (cases "is_valid_socket k s")
    case False
    then show ?thesis using invalid_socket_call [OF Some False, of E] assms by simp
  next
    case True
    then obtain i where k: "k = int i" "i < 5" using valid_socket_index by fastforce
    show ?thesis
    proof (cases "opens c")
      case True
      then obtain a l where c: "c = Api_accept (int i) a l" using Some k by (cases c) auto
      then obtain x where "net_accept E (int i) a l s = Some ((r, x), s')"
        using assms(6) by (auto simp: code_of_def)
      then show ?thesis
        using socket_driver.net_accept_cases [OF assms(1)] assms(3,4) \<open>is_valid_socket k s\<close> k
          accept_table_others [of i "Sockets s" r "Sockets s'"]
        by (cases x) (auto simp: c touched_def sock_at_def)
    next
      case False
      have "api_rel False i s s'"
        using keepsD(1) [OF socket_driver.run_api_keeps [OF assms(1,2) Some False, of False] assms(6)] k by simp
      moreover have "api_pre i s" using assms(3,4,5) Some k by (intro api_pre_call) auto
      ultimately show ?thesis
        using assms(3,4) Some k False by (auto simp: api_rel_def outside_def touched_def)
    qed
  qed
qed

lemma demo_fresh: "free_slot (demo_net st) = Some 0" "length (Sockets (demo_net st)) = NET_MAX_SOCKETS_NBR"
  by (simp_all add: free_slot_def demo_net_def sock_at_def zero_socket_def upt_rec)

text \<open>A TLS socket with a running session in the first slot of the demonstration system.\<close>

definition demo_tls :: net_tls_data where
  "demo_tls = \<lparr>tls_ca_certs = None, tls_ca_crl = None, tls_dev_cert = None, tls_dev_key = None, tls_dev_pwd = None,
     tls_dev_pwd_len = 0, tls_srv_verification = False, tls_srv_name = None, tls_flags = 0, tls_cert_prof = None,
     tls_bio = Some 0\<rparr>"

definition demo_secure :: "nat net" where
  "demo_secure = (demo_net NET_STATE_CONNECTED)\<lparr>TlsHeap := [3 \<mapsto> demo_tls],
     Sockets := zero_socket\<lparr>s_status := SOCKET_CONNECTED, s_ulsocket := 4, s_pnetif := Some 1, s_is_secure := True,
       s_tls_started := True, s_tlsData := Some 3\<rparr> # replicate 4 zero_socket\<rparr>"

lemma demo_secure_sound:
  "sound 0 demo_secure" "held demo_secure = Locks {}" "length (Sockets demo_secure) = NET_MAX_SOCKETS_NBR"
  "is_valid_socket (int 0) demo_secure"
  by (simp_all add: demo_secure_def demo_tls_def sound_def bio_ok_def is_valid_socket_def sock_at_def demo_defs held_after_def)

lemma demo_close_notify: "TlsHeap u 3 = Some demo_tls \<Longrightarrow> close_notify_loop demo_env 3 u = Some (0, u)"
  using close_notify_loop.simps [of demo_env 3 u] by (simp add: tls_transport_def demo_env_def demo_tls_def)

lemma demo_secure_close: "\<exists>r s'. net_closesocket demo_env (int 0) demo_secure = Some (r, s')"
proof -
  have "is_valid_socket 0 demo_secure" using demo_secure_sound(4) by simp
  moreover define u where "u = LOCK_SOCK 0 demo_secure"
  have u: "sock_at 0 u = zero_socket\<lparr>s_status := SOCKET_CONNECTED, s_ulsocket := 4, s_pnetif := Some 1, s_is_secure := True,
       s_tls_started := True, s_tlsData := Some 3\<rparr>" "TlsHeap u = [3 \<mapsto> demo_tls]" "length (Sockets u) = 5"
      "h_pdrv (Netifs u 1) = Some 0" "h_state (Netifs u 1) = NET_STATE_CONNECTED"
    by (simp_all add: u_def LOCK_SOCK_def demo_secure_def sock_at_def demo_net_def demo_netif_def)
  obtain v where v: "leave_tls demo_env 0 u = Some v" "s_ulsocket (sock_at 0 v) = 4" "s_pnetif (sock_at 0 v) = Some 1"
      "Netifs v = Netifs u"
    by (simp add: leave_tls_def u net_mbedtls_stop_def demo_close_notify sock_at_upd_sock mbedtls_free_resource_def mbv_def
        tls_at_def net_free_def)
  have "drv_of demo_env 1 (UNLOCK_SOCK 0 v) = Some demo_drv"
    using u(4) v(4) by (simp add: drv_of_def UNLOCK_SOCK_def demo_env_def)
  then obtain r t where "call_unlocked demo_env 0 pclose
      (\<lambda>f s. f (s_ulsocket (sock_at 0 s)) (s_cloneserver (sock_at 0 s)) s) v = Some (r, t)"
    using v(3) by (simp add: call_unlocked_def sock_drv_def UNLOCK_SOCK_def demo_drv_def)
  ultimately show ?thesis
    using v u(5) by (auto simp: net_closesocket_def net_socket_get_and_lock_def u_def [symmetric] check_low_level_socket_def
        net_access_control_def)
qed

theorem api_call_isolated_witness:
  "\<exists>r s'. run_api demo_env (Api_close 0) demo_secure = Some (r, s')
    \<and> held s' = Locks {} \<and> sock_at 1 s' = zero_socket"
proof -
  obtain r s' where s': "run_api demo_env (Api_close (int 0)) demo_secure = Some (r, s')"
    using demo_secure_close by auto
  have "\<forall>i. addressed (Api_close (int 0)) = Some (int i) \<longrightarrow> sound i demo_secure"
    using demo_secure_sound(1) by simp
  from api_call_isolated [OF demo_socket_driver demo_mbedtls demo_secure_sound(3,2) this s']
  have "held s' = Locks {}" "sock_at 1 s' = sock_at 1 demo_secure" by (simp_all add: touched_def)
  moreover have "sock_at 1 demo_secure = zero_socket" by (simp add: demo_secure_def sock_at_def)
  ultimately show ?thesis using s' by auto
qed

section \<open>Sequences of calls\<close>

text \<open>A program that makes the calls one after the other, stopping at the first that does not return.\<close>

fun run_calls :: "'w env \<Rightarrow> api_call list \<Rightarrow> 'w net \<Rightarrow> (int list, 'w) res" where
  "run_calls E [] s = Some ([], s)"
| "run_calls E (c # cs) s = do {
     (r, s) \<leftarrow> run_api E c s;
     (rs, s) \<leftarrow> run_calls E cs s;
     Some (r # rs, s) }"

text \<open>
  No TLS in use, no lock held, and the index a slot stores is its own unless it was cloned by
  \<open>net_accept\<close> (and is then connected).
\<close>

definition table_plain :: "'w net \<Rightarrow> bool" where
  "table_plain s \<longleftrightarrow> length (Sockets s) = NET_MAX_SOCKETS_NBR \<and> held s = Locks {}
     \<and> (\<forall>t d. TlsHeap s t = Some d \<longrightarrow> tls_bio d = None)
     \<and> (\<forall>j<NET_MAX_SOCKETS_NBR. \<not> s_is_secure (sock_at j s)
          \<and> (s_status (sock_at j s) = SOCKET_ALLOCATED \<longrightarrow> s_idx (sock_at j s) = int j))"

lemma table_plain_sound: "table_plain s \<Longrightarrow> j < NET_MAX_SOCKETS_NBR \<Longrightarrow> sound j s \<and> plain j s"
  by (auto simp: table_plain_def sound_def plain_def bio_ok_def)

lemma table_plain_socket:
  assumes "table_plain s" and "net_socket d t p s = Some (r, s')"
  shows "table_plain s'"
  using socket_outcome [OF assms(2)] assms(1)
  by (auto simp: table_plain_def sock_at_def nth_list_update opened_def split: if_splits)

lemma table_plain_accept:
  assumes "table_plain s" and "accept_table i (Sockets s) r (Sockets s')" and "i < NET_MAX_SOCKETS_NBR"
    and "held s' = Locks {}" and "TlsHeap s' = TlsHeap s"
  shows "table_plain s'"
  using assms by (auto simp: table_plain_def sock_at_def accept_table_def nth_list_update accepted_def split: if_splits)

lemma table_plain_slot:
  assumes "table_plain s" and "api_rel True i s s'" and "i < NET_MAX_SOCKETS_NBR"
  shows "table_plain s'"
proof -
  have "api_pre i s" and "plain i s"
    using assms table_plain_sound [OF assms(1,3)] by (auto simp: table_plain_def intro: api_pre_call)
  then have "outside i s s'" "sound i s'" "plain i s'" using assms(2) by (auto simp: api_rel_def)
  then show ?thesis
    using assms(1) by (auto simp: table_plain_def outside_def plain_def sound_def)
qed

lemma table_plain_call:
  assumes "socket_driver E" and "mbedtls_contract E" and "table_plain s" and "\<not> makes_secure c"
    and "run_api E c s = Some (r, s')"
  shows "table_plain s'"
proof (cases "addressed c")
  case None
  then obtain d t p where "c = Api_socket d t p" by (cases c) auto
  then show ?thesis using assms table_plain_socket by simp
next
  case (Some k)
  show ?thesis
  proof (cases "is_valid_socket k s")
    case False
    then show ?thesis using invalid_socket_call [OF Some False, of E] assms by simp
  next
    case True
    then obtain i where k: "k = int i" "i < NET_MAX_SOCKETS_NBR" using valid_socket_index by fastforce
    show ?thesis
    proof (cases "opens c")
      case True
      then obtain a l where c: "c = Api_accept (int i) a l" using Some k by (cases c) auto
      then obtain x where x: "net_accept E (int i) a l s = Some ((r, x), s')"
        using assms(5) by (auto simp: code_of_def)
      then show ?thesis
        using socket_driver.net_accept_cases [OF assms(1), of i a l s r "fst x" "snd x" s']
          table_plain_accept [OF assms(3)] assms(3) \<open>is_valid_socket k s\<close> k
        by (auto simp: table_plain_def)
    next
      case False
      have "api_rel True i s s'"
        using keepsD(1) [OF socket_driver.run_api_keeps [OF assms(1,2) Some False, of True] assms(5)] k assms(4)
        by simp
      then show ?thesis using table_plain_slot [OF assms(3)] k by simp
    qed
  qed
qed

lemma run_calls_keep_table:
  assumes "socket_driver E" and "mbedtls_contract E" and "table_plain s"
    and "\<forall>c\<in>set cs. \<not> makes_secure c" and "run_calls E cs s = Some (rs, s')"
  shows "table_plain s'"
  using assms(3-5)
proof (induction cs arbitrary: s rs)
  case Nil
  then show ?case by simp
next
  case (Cons c cs)
  then show ?case
    by (auto simp: bind_Some_iff dest: table_plain_call [OF assms(1,2)])
qed

text \<open>
  Any sequence of socket calls without TLS, from a state with no lock held, ends with no lock held
  and keeps the table invariant: no call in it waits for a lock the same task holds, and none releases
  a lock it does not hold.
\<close>

theorem plain_calls_keep_table:
  assumes "socket_driver E" and "mbedtls_contract E" and "table_plain s"
    and "\<forall>c\<in>set cs. \<not> makes_secure c" and "run_calls E cs s = Some (rs, s')"
  shows "table_plain s'"
  using assms by (rule run_calls_keep_table)

lemma demo_table_plain: "table_plain (demo_net st)"
  by (auto simp: table_plain_def demo_net_def sock_at_def zero_socket_def held_def held_after_def nth_Cons'
      less_Suc_eq numeral_eq_Suc)

theorem plain_calls_keep_table_witness:
  "\<exists>rs s'. run_calls demo_env [Api_socket NET_AF_INET NET_SOCK_STREAM NET_IPPROTO_TCP, Api_close 7] (demo_net NET_STATE_CONNECTED)
     = Some (rs, s') \<and> table_plain s'"
proof -
  obtain s' where s': "net_socket NET_AF_INET NET_SOCK_STREAM NET_IPPROTO_TCP (demo_net NET_STATE_CONNECTED) = Some (0, s')"
    using net_socket_least [OF demo_fresh [of NET_STATE_CONNECTED] demo_held, where d = NET_AF_INET and t = NET_SOCK_STREAM and p = NET_IPPROTO_TCP]
    by auto
  then have run: "run_calls demo_env [Api_socket NET_AF_INET NET_SOCK_STREAM NET_IPPROTO_TCP, Api_close 7]
      (demo_net NET_STATE_CONNECTED) = Some ([0, NET_ERROR_INVALID_SOCKET], s')"
    by (simp add: net_closesocket_def is_valid_socket_def)
  then have "table_plain s'"
    by (rule plain_calls_keep_table [OF demo_socket_driver demo_mbedtls demo_table_plain, rotated]) simp
  with run show ?thesis by blast
qed

end
