(* ===== verification/Socket_Errors.thy ===== *)
theory Socket_Errors
  imports Socket_Props
begin

text \<open>
  The socket interface where something has gone wrong: the link of the interface is lost, the driver
  could not create a socket, or a close fails.
\<close>

section \<open>A lost connection\<close>

definition lost_socket :: "nat \<Rightarrow> 'w net \<Rightarrow> bool" where
  "lost_socket i s \<longleftrightarrow> is_valid_socket (int i) s \<and> \<not> s_is_secure (sock_at i s) \<and> 0 \<le> s_ulsocket (sock_at i s)
     \<and> (\<exists>p. s_pnetif (sock_at i s) = Some p \<and> h_state (Netifs s p) = NET_STATE_CONNECTION_LOST)"

lemma existing_socket: "s_ulsocket (sock_at i s) \<noteq> -1 \<Longrightarrow>
    create_low_level_socket E (int i) s = Some (s_ulsocket (sock_at i s), s)"
  by (simp add: create_low_level_socket_def)

lemma known_interface: "s_pnetif (sock_at i s) \<noteq> None \<Longrightarrow> default_interface i s = Some s"
  by (auto simp: default_interface_def)

lemma lock_pass [simp]: "sock_at j (LOCK_SOCK k s) = sock_at j s" "Netifs (LOCK_SOCK k s) = Netifs s"
  "Sockets (LOCK_SOCK k s) = Sockets s"
  by (simp_all add: LOCK_SOCK_def)

lemma accept_new_free:
  assumes "free_slot s = Some j" and "j \<noteq> i" and "length (Sockets s) = NET_MAX_SOCKETS_NBR"
    and "held s = Locks {i}" and "i < NET_MAX_SOCKETS_NBR"
  shows "\<exists>u. accept_new (int i) ul s = Some (int j, u)
     \<and> sock_at j u = (accepted (sock_at i s))\<lparr>s_ulsocket := ul, s_cloneserver := True\<rparr>"
proof -
  define t where "t = upd_sock i (\<lambda>k. k\<lparr>s_status := SOCKET_CONNECTED\<rparr>) s"
  have j: "j < 5" "s_status (sock_at j s) = SOCKET_NOT_ALIVE" using free_slot_Some [OF assms(1)] by simp_all
  have at: "sock_at k t = (if k = i then accepted (sock_at i s) else sock_at k s)" for k
    using assms by (simp add: t_def sock_at_upd_sock accepted_def)
  have "free_slot t = Some j"
    using assms(1) j unfolding free_slot_def find_index_upt_Some by (auto simp: at accepted_def assms(2))
  moreover have "length (Sockets t) = NET_MAX_SOCKETS_NBR" "held t = Locks {i}"
    using assms by (simp_all add: t_def)
  ultimately obtain v where v: "find_free_socket t = Some (int j, v)"
      "table_only t ((Sockets t)[j := opened j (NetIfList t) (Sockets t ! j)]) v"
    using find_free_socket_least [of t j "{i}"] assms j by auto
  then have "sock_at i v = accepted (sock_at i s)" "length (Sockets v) = 5"
    using at [of i] assms by (simp_all add: table_only_def sock_at_def t_def)
  then show ?thesis
    using v(1) j by (simp add: accept_new_def t_def [symmetric] clone_socket_def sock_at_upd_sock UNLOCK_SOCK_def)
qed

text \<open>
  On a socket whose interface has lost its link, \<open>net_bind\<close>, \<open>net_listen\<close> and \<open>net_connect\<close> all report
  success without calling the driver, and \<open>net_connect\<close> marks the socket connected although nothing was
  connected. (The access check sets the result to 0 when it refuses.)
\<close>

theorem lost_connection_reports_success:
  assumes "lost_socket i s" and "i < length (Sockets s)"
  shows "(\<exists>s'. \<forall>E. net_bind E (int i) a l s = Some (NET_OK, s') \<and> net_listen E (int i) n s = Some (NET_OK, s'))
    \<and> (\<exists>s'. (\<forall>E. net_connect E (int i) a l s = Some (NET_OK, s')) \<and> s_status (sock_at i s') = SOCKET_CONNECTED)"
  using assms
  by (auto simp: lost_socket_def net_bind_def net_listen_def net_connect_def net_socket_get_and_lock_def
      known_interface existing_socket check_low_level_socket_def net_access_control_def sock_at_upd_sock UNLOCK_SOCK_def)

text \<open>A slot with low-level socket \<open>u\<close> on interface 1 of the demonstration system.\<close>

definition demo_slot :: "net_state \<Rightarrow> int \<Rightarrow> nat net" where
  "demo_slot st u = (demo_net st)\<lparr>Sockets := zero_socket\<lparr>s_status := SOCKET_ALLOCATED, s_ulsocket := u,
     s_pnetif := Some 1\<rparr> # replicate 4 zero_socket\<rparr>"

lemma demo_slot:
  "0 \<le> u \<Longrightarrow> lost_socket 0 (demo_slot NET_STATE_CONNECTION_LOST u)"
  "length (Sockets (demo_slot st u)) = NET_MAX_SOCKETS_NBR" "held (demo_slot st u) = Locks {}"
  "free_slot (demo_slot st u) = Some 1" "is_valid_socket (int 0) (demo_slot st u)"
  "s_ulsocket (sock_at 0 (demo_slot st u)) = u" "s_pnetif (sock_at 0 (demo_slot st u)) = Some 1"
  by (simp_all add: demo_slot_def lost_socket_def is_valid_socket_def sock_at_def demo_defs held_after_def
      free_slot_def upt_rec)

theorem lost_connection_reports_success_witness:
  "\<exists>s'. net_connect demo_env 0 None 0 (demo_slot NET_STATE_CONNECTION_LOST 3) = Some (NET_OK, s')
     \<and> s_status (sock_at 0 s') = SOCKET_CONNECTED"
proof -
  have "0 < length (Sockets (demo_slot NET_STATE_CONNECTION_LOST 3))" using demo_slot(2) by simp
  from lost_connection_reports_success [OF demo_slot(1) this, of None 0 0] show ?thesis by auto
qed

text \<open>
  C6. \<open>net_accept\<close> on such a socket invents a connection: it opens a new socket, connected, on the low-level
  socket number 0 of the driver, whichever connection that is.
\<close>

theorem lost_accept_invents_connection:
  assumes "lost_socket i s" and "length (Sockets s) = NET_MAX_SOCKETS_NBR" and "held s = Locks {}"
    and "free_slot s = Some j"
  shows "\<exists>s'. (\<forall>E. net_accept E (int i) a l s = Some ((int j, a, l), s')) \<and> s_ulsocket (sock_at j s') = 0
     \<and> s_status (sock_at j s') = SOCKET_CONNECTED \<and> s_cloneserver (sock_at j s')"
proof -
  have i: "i < 5" "j \<noteq> i" using assms(1) free_slot_Some [OF assms(4)] by (auto simp: lost_socket_def is_valid_socket_def)
  let ?s = "LOCK_SOCK (int i) s"
  have "free_slot ?s = Some j" "held ?s = Locks {i}" "length (Sockets ?s) = 5"
    using assms by (simp_all add: LOCK_SOCK_def)
  then obtain u where u: "accept_new (int i) 0 ?s = Some (int j, u)"
      "sock_at j u = (accepted (sock_at i s))\<lparr>s_ulsocket := 0, s_cloneserver := True\<rparr>"
    using accept_new_free [of ?s j i 0] i by auto
  have "net_accept E (int i) a l s = Some ((int j, a, l), UNLOCK_SOCK (int i) u)" for E
    using assms(1) u(1)
    by (auto simp: net_accept_def lost_socket_def check_low_level_socket_def net_socket_get_and_lock_def
        net_access_control_def)
  moreover have "sock_at j (UNLOCK_SOCK (int i) u) = sock_at j u" by (simp add: UNLOCK_SOCK_def)
  ultimately show ?thesis using u(2) by (auto simp: accepted_def)
qed

theorem lost_accept_invents_connection_witness:
  "\<exists>s'. net_accept demo_env 0 None 0 (demo_slot NET_STATE_CONNECTION_LOST 3) = Some ((1, None, 0), s')
     \<and> s_ulsocket (sock_at 1 s') = 0"
  using lost_accept_invents_connection [OF demo_slot(1) demo_slot(2-4), of 3 None 0] by auto

section \<open>A driver that could not create a socket\<close>

text \<open>
  A driver's refusal to create a socket is final: if the slot holds its error code, any but \<open>-1\<close>, then
  bind and connect fail for ever, each without asking the driver again, and leave the slot as it is.
\<close>

theorem refused_socket_stays_refused:
  assumes "is_valid_socket (int i) s" and "s_ulsocket (sock_at i s) < -1" and "s_pnetif (sock_at i s) = Some p"
  shows "\<exists>s'. (\<forall>E. net_bind E (int i) a l s = Some (NET_ERROR_SOCKET_FAILURE, s')
       \<and> net_connect E (int i) a l s = Some (NET_ERROR_SOCKET_FAILURE, s')) \<and> sock_at i s' = sock_at i s"
proof -
  have "s_ulsocket (sock_at i s) < 0" "s_ulsocket (sock_at i s) \<noteq> -1" using assms(2) by simp_all
  then show ?thesis using assms(1,3)
    by (simp add: net_bind_def net_connect_def net_socket_get_and_lock_def known_interface existing_socket
       UNLOCK_SOCK_def)
qed

theorem refused_socket_stays_refused_witness:
  "\<exists>s'. net_connect demo_env 0 None 0 (demo_slot NET_STATE_CONNECTED (-6)) = Some (NET_ERROR_SOCKET_FAILURE, s')"
  using refused_socket_stays_refused [of 0 "demo_slot NET_STATE_CONNECTED (-6)" 1 None 0] demo_slot(5-7) by auto

section \<open>Closing\<close>

lemma pclose_slots:
  assumes "socket_driver E" and "call_unlocked E (int i) pclose (\<lambda>f s. f (ul s) (c s) s) s = Some (r, t)"
  shows "Sockets t = Sockets s"
proof -
  obtain d f u where "pclose (env_drv E d) = Some f" "f (ul (UNLOCK_SOCK (int i) s)) (c (UNLOCK_SOCK (int i) s)) (UNLOCK_SOCK (int i) s) = Some (r, u)" "t = LOCK_SOCK (int i) u"
    using assms(2) by (auto simp: call_unlocked_def sock_drv_def drv_of_def bind_Some_iff Let_def)
  then show ?thesis
    using socket_driver.pclose_ok [OF assms(1)] by (fastforce simp: sock_frame_def UNLOCK_SOCK_def)
qed

lemma closed_slot:
  assumes "socket_driver E" and "mbedtls_contract E" and "length (Sockets s) = NET_MAX_SOCKETS_NBR" and "held s = Locks {}"
    and "sound i s" and "is_valid_socket (int i) s" and "net_closesocket E (int i) s = Some (r, s')"
  shows "\<not> is_valid_socket (int i) s' \<and> free_slot s' \<noteq> None \<and> \<not> s_is_secure (sock_at i s')
    \<and> held s' = Locks {} \<and> (\<forall>j. j \<noteq> i \<longrightarrow> sock_at j s' = sock_at j s)"
proof -
  have i: "i < 5" using assms(6) by (simp add: is_valid_socket_def)
  have "api_rel False i s s'"
    using keepsD(1) [OF socket_driver.net_closesocket_keeps [OF assms(1,2)] assms(7)] by simp
  then have out: "outside i s s'" and sound: "sound i s'"
    using api_pre_call [OF assms(4,3,5) i] by (simp_all add: api_rel_def)
  obtain u f s2 where u: "leave_tls E i (LOCK_SOCK (int i) s) = Some u" and s2: "s' = UNLOCK_SOCK (int i) (upd_sock i f s2)"
      "\<And>k. s_status (f k) = SOCKET_NOT_ALIVE" "\<And>k. s_is_secure (f k) = s_is_secure k"
      "Sockets s2 = Sockets u"
    using assms(6,7)
    by (auto simp: net_closesocket_def net_socket_get_and_lock_def net_access_control_def bind_Some_iff
        split: if_splits dest!: pclose_slots [OF assms(1)])
  have len: "length (Sockets s2) = 5" using out assms(3) by (simp add: outside_def s2 UNLOCK_SOCK_def)
  have dead: "s_status (sock_at i s') = SOCKET_NOT_ALIVE"
    using len i by (simp add: s2 UNLOCK_SOCK_def sock_at_upd_sock)
  moreover have "\<not> s_is_secure (sock_at i s')"
    using leave_tls_plain [OF u] len i by (simp add: s2 UNLOCK_SOCK_def sock_at_upd_sock) (simp add: sock_at_def s2(4))
  moreover have "free_slot s' \<noteq> None"
    using i dead by (auto simp: free_slot_def find_None_iff)
  ultimately show ?thesis using out assms(4) by (simp add: is_valid_socket_def outside_def)
qed

lemma net_closesocket_frees:
  assumes "socket_driver E" and "mbedtls_contract E" and "table_plain s" and "is_valid_socket (int i) s"
    and "net_closesocket E (int i) s = Some (r, s')"
  shows "\<not> is_valid_socket (int i) s' \<and> free_slot s' \<noteq> None \<and> table_plain s'"
proof -
  have "table_plain s'"
    using table_plain_call [OF assms(1-3), of "Api_close (int i)" r s'] assms(5) by simp
  moreover have "i < 5" using assms(4) by (simp add: is_valid_socket_def)
  ultimately show ?thesis
    using closed_slot [OF assms(1,2) _ _ _ assms(4,5)] table_plain_sound [OF assms(3), of i] assms(3)
    by (simp add: table_plain_def)
qed

text \<open>
  C37. A close that returns has given the slot back, with or without TLS and whatever the driver and the TLS library
  answered to it: the socket number is no longer valid, the slot can be allocated again and has no TLS, no lock is
  held and no other slot has changed. (As for every call: no lock is held before, and the slot is sound, which the clone of
  a TLS socket is not.)
\<close>

theorem close_frees_slot:
  assumes "socket_driver E" and "mbedtls_contract E" and "length (Sockets s) = NET_MAX_SOCKETS_NBR" and "held s = Locks {}"
    and "sound i s" and "is_valid_socket (int i) s" and "net_closesocket E (int i) s = Some (r, s')"
  shows "\<not> is_valid_socket (int i) s' \<and> free_slot s' \<noteq> None \<and> \<not> s_is_secure (sock_at i s')
    \<and> held s' = Locks {} \<and> (\<forall>j. j \<noteq> i \<longrightarrow> sock_at j s' = sock_at j s)"
  using assms by (rule closed_slot)

theorem close_frees_slot_witness:
  "\<exists>r s'. net_closesocket demo_env 0 demo_secure = Some (r, s') \<and> free_slot s' \<noteq> None \<and> \<not> s_is_secure (sock_at 0 s')"
proof -
  obtain r s' where r: "net_closesocket demo_env (int 0) demo_secure = Some (r, s')" using demo_secure_close by blast
  from close_frees_slot [OF demo_socket_driver demo_mbedtls demo_secure_sound(3,2,1,4) r] r show ?thesis by auto
qed

text \<open>
  A slot that once held an accepted connection is never told otherwise: allocating it again leaves the clone
  flag set, so the driver is later asked to close a connection of a server where it should close a socket.
\<close>

lemma clone_flag_survives:
  assumes "free_slot s = Some i" and "length (Sockets s) = NET_MAX_SOCKETS_NBR" and "held s = Locks {}"
  shows "\<exists>s'. net_socket d t p s = Some (int i, s') \<and> s_cloneserver (sock_at i s') = s_cloneserver (sock_at i s)"
  using net_socket_least [OF assms(1-3), of d t p] assms(2) free_slot_Some [OF assms(1)]
  by (auto simp: table_only_def sock_at_def opened_def)

end
