(* ===== verification/Net_Bytes.thy ===== *)
theory Net_Bytes
  imports Net_Prelude
begin

text \<open>
  Byte buffers shared by the services: bounded reads, little-endian loads and stores of 16- and
  32-bit integers (the target is little-endian), and the C string functions the code uses on
  buffers. A read outside the buffer is \<^term>\<open>None\<close>.
\<close>

definition rd8 :: "bytes \<Rightarrow> nat \<Rightarrow> u8 option" where
  "rd8 b i = (if i < length b then Some (b ! i) else None)"

definition rd :: "bytes \<Rightarrow> nat \<Rightarrow> nat \<Rightarrow> bytes option" where
  "rd b off n = (if off + n \<le> length b then Some (take n (drop off b)) else None)"

lemma rd8_Some_iff [simp]: "rd8 b i = Some x \<longleftrightarrow> i < length b \<and> b ! i = x"
  by (auto simp: rd8_def)

lemma rd_Some_iff: "rd b off n = Some x \<longleftrightarrow> off + n \<le> length b \<and> x = take n (drop off b)"
  by (auto simp: rd_def)

lemma rd_length: "rd b off n = Some x \<Longrightarrow> length x = n"
  by (auto simp: rd_Some_iff)

lemma rd8_append [simp]: "i < length b \<Longrightarrow> rd8 (b @ c) i = rd8 b i"
  by (simp add: rd8_def nth_append)

lemma rd8_append_right [simp]: "rd8 (b @ x # c) (length b) = Some x"
  by (simp add: rd8_def)

lemma rd_in_the_middle [simp]: "rd (a @ x @ c) (length a) (length x) = Some x"
  by (simp add: rd_def)

section \<open>Little-endian integers\<close>

definition le16 :: "bytes \<Rightarrow> nat \<Rightarrow> u16" where
  "le16 b i = ucast (b ! i) OR push_bit 8 (ucast (b ! (i + 1)))"

definition le32 :: "bytes \<Rightarrow> nat \<Rightarrow> u32" where
  "le32 b i = ucast (b ! i) OR push_bit 8 (ucast (b ! (i + 1))) OR push_bit 16 (ucast (b ! (i + 2)))
     OR push_bit 24 (ucast (b ! (i + 3)))"

definition bytes16 :: "u16 \<Rightarrow> bytes" where
  "bytes16 w = [ucast w, ucast (drop_bit 8 w)]"

definition bytes32 :: "u32 \<Rightarrow> bytes" where
  "bytes32 w = [ucast w, ucast (drop_bit 8 w), ucast (drop_bit 16 w), ucast (drop_bit 24 w)]"

text \<open>The store \<open>*(uint32_t *)&b[i] = w\<close>.\<close>

definition put32 :: "bytes \<Rightarrow> nat \<Rightarrow> u32 \<Rightarrow> bytes" where
  "put32 b i w = take i b @ bytes32 w @ drop (i + 4) b"

lemma length_bytes16 [simp]: "length (bytes16 w) = 2"
  by (simp add: bytes16_def)

lemma length_bytes32 [simp]: "length (bytes32 w) = 4"
  by (simp add: bytes32_def)

lemma length_put32 [simp]: "i + 4 \<le> length b \<Longrightarrow> length (put32 b i w) = length b"
  by (simp add: put32_def)

lemma nth_middle: "j < length x \<Longrightarrow> (a @ x @ c) ! (length a + j) = x ! j"
  by (simp add: nth_append)

lemma le16_stored [simp]: "i = length a \<Longrightarrow> le16 (a @ bytes16 w @ c) i = w"
  using nth_middle [of 0 "bytes16 w" a c] nth_middle [of 1 "bytes16 w" a c]
  unfolding le16_def by (intro u16_eqI) (simp add: bytes16_def bit_simps)

lemma le32_stored [simp]: "i = length a \<Longrightarrow> le32 (a @ bytes32 w @ c) i = w"
  using nth_middle [of 0 "bytes32 w" a c] nth_middle [of 1 "bytes32 w" a c]
    nth_middle [of 2 "bytes32 w" a c] nth_middle [of 3 "bytes32 w" a c]
  unfolding le32_def by (intro u32_eqI) (simp add: bytes32_def bit_simps)

lemma put32_append [simp]: "length x = 4 \<Longrightarrow> i = length a \<Longrightarrow> put32 (a @ x @ c) i w = a @ bytes32 w @ c"
  by (simp add: put32_def)

section \<open>C strings in buffers\<close>

definition bytes_of :: "string \<Rightarrow> bytes" where
  "bytes_of = List.map of_char"

text \<open>What \<open>strncpy(dst, src + off, n)\<close> stores in the first \<open>n\<close> bytes of \<open>dst\<close>.\<close>

fun strncpy_from :: "bytes \<Rightarrow> nat \<Rightarrow> nat \<Rightarrow> bytes option" where
  "strncpy_from b off 0 = Some []"
| "strncpy_from b off (Suc n) = do {
     c \<leftarrow> rd8 b off;
     (if c = 0 then Some (replicate (Suc n) 0)
      else do { rest \<leftarrow> strncpy_from b (Suc off) n; Some (c # rest) }) }"

text \<open>\<open>strncmp(a, b, n) == 0\<close> for two zero-terminated strings.\<close>

fun strncmp_eq :: "bytes \<Rightarrow> bytes \<Rightarrow> nat \<Rightarrow> bool" where
  "strncmp_eq (x # a) (y # b) (Suc n) = (if x \<noteq> y then False else if x = 0 then True else strncmp_eq a b n)"
| "strncmp_eq _ _ _ = True"

lemma length_strncpy_from: "strncpy_from b off n = Some x \<Longrightarrow> length x = n"
  by (induction b off n arbitrary: x rule: strncpy_from.induct) (auto simp: bind_Some_iff split: if_splits)

lemma strncmp_eq_prefix:
  assumes "0 \<notin> set p" and "length p \<le> length t"
  shows "strncmp_eq t p (length p) \<longleftrightarrow> take (length p) t = p"
  using assms
proof (induction p arbitrary: t)
  case (Cons y p)
  then show ?case by (cases t) auto
qed (cases t; simp)

end
