(* ===== verification/Sdhcp.thy ===== *)
theory Sdhcp
  imports Net_Bytes Net_Address Net_Socket
begin

text \<open>
  \<open>services/net_sdhcp.c\<close>: the DHCP server of an access point. It is a task that opens a socket
  through the socket interface of the library, reads datagrams and answers DISCOVER and REQUEST.

  A pointer into the receive buffer is the offset in it. The structures of the packet are packed:
  \<open>net_dhcp_msg_t\<close> has 236 bytes before the options, \<open>net_dhcp_option_t\<close> has 32. The compiler places
  \<open>tAddressInfo\<close> directly before \<open>szAddressInfo\<close>; a write outside the array is \<^term>\<open>None\<close>, like a
  failing \<open>SDHCP_ASSERT\<close>, which stops the task in an endless loop (\<open>NET_ASSERT\<close>).
  The memory of \<open>pClientID\<close> belongs to one entry: an entry holds the pointer and the bytes.
\<close>

section \<open>Constants and data\<close>

abbreviation (input) MIN_IP :: u32 where "MIN_IP \<equiv> 15"
abbreviation (input) MAX_IP :: u32 where "MAX_IP \<equiv> 17"
abbreviation (input) MAX_ADDRESS_INFO :: nat where "MAX_ADDRESS_INFO \<equiv> 2"
abbreviation (input) SDHCP_TIMEOUT :: int where "SDHCP_TIMEOUT \<equiv> 300"
abbreviation (input) MAX_UDP_MESSAGE_SIZE :: nat where "MAX_UDP_MESSAGE_SIZE \<equiv> 1000"
abbreviation (input) DHCP_SERVER_PORT :: u16 where "DHCP_SERVER_PORT \<equiv> 67"
abbreviation (input) DHCP_CLIENT_PORT :: u16 where "DHCP_CLIENT_PORT \<equiv> 68"
abbreviation (input) BROADCAST_FLAG :: u16 where "BROADCAST_FLAG \<equiv> 0x80"
abbreviation (input) MAX_HOSTNAME_LENGTH :: nat where "MAX_HOSTNAME_LENGTH \<equiv> 256"
abbreviation (input) NET_INADDR_BROADCAST :: u32 where "NET_INADDR_BROADCAST \<equiv> 0xffffffff"
abbreviation (input) NET_INADDR_LOOPBACK :: u32 where "NET_INADDR_LOOPBACK \<equiv> 0x7f000001"

abbreviation (input) BOOTREQUEST :: u8 where "BOOTREQUEST \<equiv> 1"
abbreviation (input) BOOTREPLY :: u8 where "BOOTREPLY \<equiv> 2"

abbreviation (input) PAD :: u8 where "PAD \<equiv> 0"
abbreviation (input) SUBNETMASK :: u8 where "SUBNETMASK \<equiv> 1"
abbreviation (input) ROUTER :: u8 where "ROUTER \<equiv> 3"
abbreviation (input) HOSTNAME :: u8 where "HOSTNAME \<equiv> 12"
abbreviation (input) REQUESTEDIPADDRESS :: u8 where "REQUESTEDIPADDRESS \<equiv> 50"
abbreviation (input) IPADDRESSLEASETIME :: u8 where "IPADDRESSLEASETIME \<equiv> 51"
abbreviation (input) DHCPMESSAGETYPE :: u8 where "DHCPMESSAGETYPE \<equiv> 53"
abbreviation (input) SERVERIDENTIFIER :: u8 where "SERVERIDENTIFIER \<equiv> 54"
abbreviation (input) CLIENTIDENTIFIER :: u8 where "CLIENTIDENTIFIER \<equiv> 61"
abbreviation (input) END :: u8 where "END \<equiv> 255"

definition tCookie :: bytes where
  "tCookie = [99, 130, 83, 99]"

datatype dhcp_msg_types = DHCP_TYPE_DISCOVER | DHCP_TYPE_OFFER | DNCP_TYPE_REQUEST | DHCP_TYPE_DECLINE
  | DHCP_TYPE_ACK | DHCP_TYPE_NAK | DHCP_TYPE_RELEASE | DHCP_TYPE_INFORM

fun msg_type_code :: "dhcp_msg_types \<Rightarrow> u8" where
  "msg_type_code DHCP_TYPE_DISCOVER = 1"
| "msg_type_code DHCP_TYPE_OFFER = 2"
| "msg_type_code DNCP_TYPE_REQUEST = 3"
| "msg_type_code DHCP_TYPE_DECLINE = 4"
| "msg_type_code DHCP_TYPE_ACK = 5"
| "msg_type_code DHCP_TYPE_NAK = 6"
| "msg_type_code DHCP_TYPE_RELEASE = 7"
| "msg_type_code DHCP_TYPE_INFORM = 8"

record dhcp_addr =
  addrV4 :: u32
  pClientID :: nat
  ClientID :: bytes
  szClientID :: u32

record sdhcp_handle =
  hSocket :: int
  lastOfferAddr :: u32
  nethost :: net_sockaddr
  netmsk :: net_sockaddr
  netmin :: net_sockaddr
  netmax :: net_sockaddr
  pHostName :: "string option"
  tAddressInfo :: "dhcp_addr list"
  szAddressInfo :: u32

record net_dhcp_msg =
  p_op :: u8
  p_htype :: u8
  p_hlen :: u8
  p_hops :: u8
  p_xid :: u32
  p_secs :: u16
  p_flags :: u16
  p_ciaddr :: u32
  p_yiaddr :: u32
  p_siaddr :: u32
  p_giaddr :: u32
  p_chaddr :: bytes
  p_sname :: bytes
  p_file :: bytes

record net_dhcp_option =
  tMagic :: bytes
  tMessageType :: bytes
  tLeaseTime :: bytes
  tSubnetMask :: bytes
  tServerID :: bytes
  tRouter :: bytes
  bEND :: u8

text \<open>
  The source reads and writes the packed structures through casts of the buffer. The layout such a cast stands for, on the
  little-endian target, written out: the structure found in a buffer, and the bytes of a structure.
\<close>

definition read_msg :: "bytes \<Rightarrow> net_dhcp_msg" where
  "read_msg b = \<lparr>p_op = b ! 0, p_htype = b ! 1, p_hlen = b ! 2, p_hops = b ! 3, p_xid = le32 b 4,
     p_secs = le16 b 8, p_flags = le16 b 10, p_ciaddr = le32 b 12, p_yiaddr = le32 b 16, p_siaddr = le32 b 20,
     p_giaddr = le32 b 24, p_chaddr = take 16 (drop 28 b), p_sname = take 64 (drop 44 b),
     p_file = take 128 (drop 108 b)\<rparr>"

definition msg_bytes :: "net_dhcp_msg \<Rightarrow> bytes" where
  "msg_bytes m = [p_op m, p_htype m, p_hlen m, p_hops m] @ bytes32 (p_xid m) @ bytes16 (p_secs m) @ bytes16 (p_flags m)
     @ bytes32 (p_ciaddr m) @ bytes32 (p_yiaddr m) @ bytes32 (p_siaddr m) @ bytes32 (p_giaddr m)
     @ p_chaddr m @ p_sname m @ p_file m"

definition option_bytes :: "net_dhcp_option \<Rightarrow> bytes" where
  "option_bytes p = tMagic p @ tMessageType p @ tLeaseTime p @ tSubnetMask p @ tServerID p @ tRouter p
     @ [bEND p]"

definition SDHCP_ASSERT :: "bool \<Rightarrow> unit option" where
  "SDHCP_ASSERT test = (if test then Some () else None)"

lemma SDHCP_ASSERT_Some [simp]: "SDHCP_ASSERT test = Some u \<longleftrightarrow> test"
  by (simp add: SDHCP_ASSERT_def)

section \<open>The address table\<close>

fun swap_loop :: "nat \<Rightarrow> u32 \<Rightarrow> u32 \<Rightarrow> u32" where
  "swap_loop 0 dw swapped = swapped"
| "swap_loop (Suc aa) dw swapped = swap_loop aa (drop_bit 8 dw) (push_bit 8 swapped OR (dw AND 0xff))"

definition sdhcp_swap_ip :: "u32 \<Rightarrow> u32" where
  "sdhcp_swap_ip Addr = swap_loop 4 Addr 0"

fun find_from :: "(dhcp_addr \<Rightarrow> bool option) \<Rightarrow> dhcp_addr list \<Rightarrow> nat \<Rightarrow> nat \<Rightarrow> int option" where
  "find_from pFilter info i 0 = Some (-1)"
| "find_from pFilter info i (Suc n) =
     (if i < length info then do {
        b \<leftarrow> pFilter (info ! i);
        (if b then Some (int i) else find_from pFilter info (Suc i) n) }
      else None)"

definition sdhcp_find_index :: "sdhcp_handle \<Rightarrow> (dhcp_addr \<Rightarrow> bool option) \<Rightarrow> int option" where
  "sdhcp_find_index h pFilter = find_from pFilter (tAddressInfo h) 0 (nat (int32_of (szAddressInfo h)))"

definition sdhcp_addInfo :: "sdhcp_handle \<Rightarrow> dhcp_addr \<Rightarrow> (bool \<times> sdhcp_handle) option" where
  "sdhcp_addInfo h info =
     (if szAddressInfo h \<le> of_nat MAX_ADDRESS_INFO
      then if unat (szAddressInfo h) < length (tAddressInfo h)
           then Some (True, h\<lparr>tAddressInfo := (tAddressInfo h)[unat (szAddressInfo h) := info],
                             szAddressInfo := szAddressInfo h + 1\<rparr>)
           else None
      else Some (False, h))"

text \<open>The two filters; a client identifier is an offset into the buffer and a size.\<close>

definition sdhcp_add_addr_filter :: "u32 \<Rightarrow> dhcp_addr \<Rightarrow> bool option" where
  "sdhcp_add_addr_filter a info = Some (a = addrV4 info)"

definition sdhcp_check_address_in_use :: "bytes \<Rightarrow> nat \<times> u32 \<Rightarrow> dhcp_addr \<Rightarrow> bool option" where
  "sdhcp_check_address_in_use buf cid info =
     (if szClientID info \<noteq> 0 \<and> snd cid = szClientID info
      then do { b \<leftarrow> rd buf (fst cid) (unat (snd cid)); Some (b = ClientID info) }
      else Some False)"

section \<open>Options of a request\<close>

text \<open>\<open>base\<close> is the offset of \<open>pOptions\<close>, \<open>pCur\<close> is relative to it.\<close>

function find_option_loop :: "u8 \<Rightarrow> bytes \<Rightarrow> nat \<Rightarrow> int \<Rightarrow> nat \<Rightarrow> (nat \<times> u8) option option" where
  "find_option_loop opt buf base len pCur =
     (if int pCur < len then do {
        bCur \<leftarrow> rd8 buf (base + pCur);
        (if bCur = PAD then find_option_loop opt buf base len (pCur + 1)
         else if bCur = END then Some None
         else if int (pCur + 1) < len then do {
           bOptionLen \<leftarrow> rd8 buf (base + pCur + 1);
           (if opt = bCur then Some (Some (base + pCur + 2, bOptionLen))
            else find_option_loop opt buf base len (pCur + 2 + unat bOptionLen)) }
         else find_option_loop opt buf base len (pCur + 1)) }
      else Some None)"
  by pat_completeness auto
termination by (relation "measure (\<lambda>(opt, buf, base, len, pCur). nat len - pCur)") auto

declare find_option_loop.simps [simp del]

definition sdhcp_find_option :: "u8 \<Rightarrow> bytes \<Rightarrow> nat \<Rightarrow> int \<Rightarrow> (nat \<times> u8) option option" where
  "sdhcp_find_option opt buf pOptions len = do {
     SDHCP_ASSERT (opt \<noteq> PAD \<and> opt \<noteq> END);
     find_option_loop opt buf pOptions len 0 }"

fun msg_type_of :: "u8 \<Rightarrow> dhcp_msg_types" where
  "msg_type_of b = (if b = 1 then DHCP_TYPE_DISCOVER else if b = 2 then DHCP_TYPE_OFFER
     else if b = 3 then DNCP_TYPE_REQUEST else if b = 4 then DHCP_TYPE_DECLINE
     else if b = 5 then DHCP_TYPE_ACK else if b = 6 then DHCP_TYPE_NAK
     else if b = 7 then DHCP_TYPE_RELEASE else DHCP_TYPE_INFORM)"

definition sdhcp_get_message_type :: "bytes \<Rightarrow> nat \<Rightarrow> int \<Rightarrow> dhcp_msg_types option option" where
  "sdhcp_get_message_type buf pOptions len = do {
     r \<leftarrow> sdhcp_find_option DHCPMESSAGETYPE buf pOptions len;
     (case r of
        None \<Rightarrow> Some None
      | Some (off, n) \<Rightarrow>
          if n = 1 then do {
            b \<leftarrow> rd8 buf off;
            Some (if 1 \<le> b \<and> b \<le> 8 then Some (msg_type_of b) else None) }
          else Some None) }"

text \<open>The buffer \<open>tHostName\<close> after the host name option was copied into it.\<close>

definition client_host_name :: "bytes \<Rightarrow> nat \<Rightarrow> int \<Rightarrow> bytes option" where
  "client_host_name buf pOptions len = do {
     let tHostName = replicate MAX_HOSTNAME_LENGTH 0;
     r \<leftarrow> sdhcp_find_option HOSTNAME buf pOptions len;
     (case r of
        None \<Rightarrow> Some tHostName
      | Some (off, n) \<Rightarrow> do {
          c \<leftarrow> strncpy_from buf off (unat n);
          Some ((c @ drop (unat n) tHostName)[unat n := 0]) }) }"

text \<open>The client identifier option, or else the hardware address (\<open>chaddr\<close>, at offset 28).\<close>

definition client_identifier :: "bytes \<Rightarrow> nat \<Rightarrow> int \<Rightarrow> (nat \<times> u32) option" where
  "client_identifier buf pOptions len = do {
     r \<leftarrow> sdhcp_find_option CLIENTIDENTIFIER buf pOptions len;
     Some (case r of Some (off, n) \<Rightarrow> (off, ucast n) | None \<Rightarrow> (28, 16)) }"

section \<open>The reply\<close>

type_synonym dhcp_reply = "net_dhcp_msg \<times> net_dhcp_option"

definition reply_init :: "sdhcp_handle \<Rightarrow> net_dhcp_msg \<Rightarrow> dhcp_reply" where
  "reply_init h req =
     (\<lparr>p_op = BOOTREPLY, p_htype = p_htype req, p_hlen = p_hlen req, p_hops = 0, p_xid = p_xid req, p_secs = 0,
       p_flags = p_flags req, p_ciaddr = 0, p_yiaddr = 0, p_siaddr = 0, p_giaddr = p_giaddr req,
       p_chaddr = p_chaddr req,
       p_sname = (let n = bytes_of (the (pHostName h)) in take 64 n @ replicate (64 - length n) 0),
       p_file = replicate 128 0\<rparr>,
      \<lparr>tMagic = tCookie, tMessageType = [DHCPMESSAGETYPE, 1, 0],
       tLeaseTime = put32 [IPADDRESSLEASETIME, 4, 0, 0, 0, 0] 2 (NET_HTONL (1 * 60 * 60)),
       tSubnetMask = put32 [SUBNETMASK, 4, 0, 0, 0, 0] 2 (sin_addr (netmsk h)),
       tServerID = put32 [SERVERIDENTIFIER, 4, 0, 0, 0, 0] 2 (sin_addr (nethost h)),
       tRouter = put32 [ROUTER, 4, 0, 0, 0, 0] 2 (sin_addr (nethost h)),
       bEND = END\<rparr>)"

definition set_type :: "dhcp_msg_types \<Rightarrow> net_dhcp_option \<Rightarrow> net_dhcp_option" where
  "set_type t p = p\<lparr>tMessageType := (tMessageType p)[2 := msg_type_code t]\<rparr>"

section \<open>DISCOVER\<close>

text \<open>The search for a free address, from the one after the last offer, around the range once.\<close>

partial_function (option) offer_loop ::
  "sdhcp_handle \<Rightarrow> u32 \<Rightarrow> u32 \<Rightarrow> u32 \<Rightarrow> bool \<Rightarrow> u32 \<Rightarrow> (bool \<times> u32) option" where
  "offer_loop h minAddr maxAddr dwInitial offeredInitial dw =
     (if offeredInitial \<and> dwInitial = dw then Some (False, dw)
      else if maxAddr < dw \<and> maxAddr + 1 \<noteq> dw then None
      else let dw = (if maxAddr < dw then minAddr else dw) in do {
        i \<leftarrow> sdhcp_find_index h (sdhcp_add_addr_filter dw);
        (if i = -1 then Some (True, dw)
         else offer_loop h minAddr maxAddr dwInitial True (dw + 1)) })"

definition choose_address :: "sdhcp_handle \<Rightarrow> bool \<Rightarrow> u32 \<Rightarrow> (bool \<times> u32) option" where
  "choose_address h bSeenBefore OfferAddr =
     (if bSeenBefore then Some (True, sdhcp_swap_ip OfferAddr)
      else let dw = lastOfferAddr h + 1 in
        offer_loop h (sdhcp_swap_ip (sin_addr (netmin h))) (sdhcp_swap_ip (sin_addr (netmax h))) dw False dw)"

text \<open>The result is the handle, the reply and whether it is sent.\<close>

definition handle_discover ::
  "'w env \<Rightarrow> sdhcp_handle \<Rightarrow> bytes \<Rightarrow> nat \<times> u32 \<Rightarrow> bool \<Rightarrow> u32 \<Rightarrow> dhcp_reply \<Rightarrow> 'w net \<Rightarrow>
     (sdhcp_handle \<times> dhcp_reply \<times> bool, 'w) res" where
  "handle_discover E h buf cid bSeenBefore OfferAddr reply s = do {
     let h = h\<lparr>lastOfferAddr := sdhcp_swap_ip (sin_addr (netmax h))\<rparr>;
     (valid, dw) \<leftarrow> choose_address h bSeenBefore OfferAddr;
     (if valid then do {
        let h = h\<lparr>lastOfferAddr := dw\<rparr>;
        let dwOfferAddr = sdhcp_swap_ip dw;
        SDHCP_ASSERT (snd cid \<noteq> 0);
        (case net_malloc E (unat (snd cid)) s of
           (None, s) \<Rightarrow> Some ((h, reply, False), s)
         | (Some p, s) \<Rightarrow> do {
             bid \<leftarrow> rd buf (fst cid) (unat (snd cid));
             let info = \<lparr>addrV4 = dw, pClientID = p, ClientID = bid, szClientID = snd cid\<rparr>;
             (added, h) \<leftarrow> (if bSeenBefore then Some (True, h) else sdhcp_addInfo h info);
             let (reply, send, s) =
               (if added then (case reply of (m, opts) \<Rightarrow>
                   ((m\<lparr>p_yiaddr := dwOfferAddr\<rparr>, set_type DHCP_TYPE_OFFER opts), True, s))
                else (reply, False, net_free E p s));
             let s = (if bSeenBefore then net_free E p s else s);
             Some ((h, reply, send), s) }) }
      else Some ((h, reply, False), s)) }"

section \<open>REQUEST\<close>

text \<open>The value of an option that holds an address, and nothing if it has another length.\<close>

definition option_address :: "u8 \<Rightarrow> bytes \<Rightarrow> nat \<Rightarrow> int \<Rightarrow> u32 option option" where
  "option_address opt buf pOptions len = do {
     r \<leftarrow> sdhcp_find_option opt buf pOptions len;
     (case r of
        Some (off, n) \<Rightarrow>
          if n = 4 then do { b \<leftarrow> rd buf off 4; Some (Some (le32 b 0)) } else Some None
      | None \<Rightarrow> Some None) }"

definition request_verdict ::
  "sdhcp_handle \<Rightarrow> bytes \<Rightarrow> nat \<Rightarrow> int \<Rightarrow> net_dhcp_msg \<Rightarrow> bool \<Rightarrow> u32 \<Rightarrow> dhcp_msg_types option option" where
  "request_verdict h buf pOptions len req bSeenBefore OfferAddr = do {
     a \<leftarrow> option_address REQUESTEDIPADDRESS buf pOptions len;
     let reqIP = (case a of Some a \<Rightarrow> a | None \<Rightarrow> NET_INADDR_BROADCAST);
     sid \<leftarrow> option_address SERVERIDENTIFIER buf pOptions len;
     (if sid = Some (sin_addr (nethost h))
      then do {
        SDHCP_ASSERT (p_ciaddr req = 0);
        Some (Some (if bSeenBefore then DHCP_TYPE_ACK else DHCP_TYPE_NAK)) }
      else if reqIP \<noteq> NET_INADDR_BROADCAST \<or> reqIP = NET_INADDR_BROADCAST \<and> p_ciaddr req \<noteq> 0
      then Some (Some (if bSeenBefore \<and> (OfferAddr = reqIP \<or> OfferAddr = p_ciaddr req)
                       then DHCP_TYPE_ACK else DHCP_TYPE_NAK))
      else Some None) }"

definition handle_request ::
  "sdhcp_handle \<Rightarrow> bytes \<Rightarrow> nat \<Rightarrow> int \<Rightarrow> net_dhcp_msg \<Rightarrow> bool \<Rightarrow> u32 \<Rightarrow> dhcp_reply \<Rightarrow>
     (dhcp_reply \<times> bool) option" where
  "handle_request h buf pOptions len req bSeenBefore OfferAddr reply = do {
     v \<leftarrow> request_verdict h buf pOptions len req bSeenBefore OfferAddr;
     let (m, p) = reply;
     (case v of
        Some DHCP_TYPE_ACK \<Rightarrow> do {
          SDHCP_ASSERT (NET_INADDR_BROADCAST \<noteq> OfferAddr);
          Some ((m\<lparr>p_ciaddr := OfferAddr, p_yiaddr := OfferAddr\<rparr>, set_type DHCP_TYPE_ACK p), True) }
      | Some DHCP_TYPE_NAK \<Rightarrow>
          Some ((m, (set_type DHCP_TYPE_NAK p)\<lparr>tLeaseTime := replicate 6 0, tSubnetMask := replicate 6 0\<rparr>), True)
      | _ \<Rightarrow> Some (reply, False)) }"

section \<open>Sending\<close>

definition reply_address :: "net_dhcp_msg \<Rightarrow> u8 \<Rightarrow> u32" where
  "reply_address req t =
     (if p_giaddr req = 0 then
        if t = msg_type_code DHCP_TYPE_OFFER \<or> t = msg_type_code DHCP_TYPE_ACK then
          if p_ciaddr req = 0 then
            if BROADCAST_FLAG AND p_flags req \<noteq> 0 then NET_INADDR_BROADCAST
            else if p_yiaddr req = 0 then NET_INADDR_BROADCAST else p_yiaddr req
          else p_ciaddr req
        else if t = msg_type_code DHCP_TYPE_NAK then NET_INADDR_BROADCAST
        else NET_INADDR_LOOPBACK
      else p_giaddr req)"

definition send_reply ::
  "'w env \<Rightarrow> sdhcp_handle \<Rightarrow> net_dhcp_msg \<Rightarrow> dhcp_reply \<Rightarrow> 'w net \<Rightarrow> (unit, 'w) res" where
  "send_reply E h req reply s = do {
     let (m, p) = reply;
     let t = tMessageType p ! 2;
     SDHCP_ASSERT (t \<noteq> 0);
     let ulAddr = reply_address req t;
     let m = (if p_giaddr req = 0 then m else m\<lparr>p_flags := p_flags m OR BROADCAST_FLAG\<rparr>);
     SDHCP_ASSERT (NET_INADDR_LOOPBACK \<noteq> ulAddr \<and> ulAddr \<noteq> 0);
     let sAddr = \<lparr>sa_len = 16, sa_family = 2, sin_port = NET_HTONS DHCP_CLIENT_PORT, sin_addr = ulAddr\<rparr>;
     (ret, s) \<leftarrow> net_sendto E (hSocket h) (Some (msg_bytes m @ option_bytes p)) 268 0 (Some sAddr) 16 s;
     SDHCP_ASSERT (ret \<noteq> -1);
     Some ((), s) }"

section \<open>One datagram\<close>

text \<open>The part that runs once the message type is known; \<open>req\<close> is the packet seen as a structure.\<close>

definition answer_request ::
  "'w env \<Rightarrow> sdhcp_handle \<Rightarrow> bytes \<Rightarrow> nat \<Rightarrow> int \<Rightarrow> dhcp_msg_types \<Rightarrow> 'w net \<Rightarrow> (sdhcp_handle, 'w) res" where
  "answer_request E h buf pOptions szOptions dhcp_msg_type s = do {
     let req = read_msg buf;
     cid \<leftarrow> client_identifier buf pOptions szOptions;
     iIndex \<leftarrow> sdhcp_find_index h (sdhcp_check_address_in_use buf cid);
     let (OfferAddr, bSeenBefore) =
       (if iIndex \<noteq> -1 then (sdhcp_swap_ip (addrV4 (tAddressInfo h ! nat iIndex)), True)
        else (NET_INADDR_BROADCAST, False));
     let reply = reply_init h req;
     ((h, reply, send), s) \<leftarrow>
       (case dhcp_msg_type of
          DHCP_TYPE_DISCOVER \<Rightarrow> handle_discover E h buf cid bSeenBefore OfferAddr reply s
        | DNCP_TYPE_REQUEST \<Rightarrow> do {
            (reply, send) \<leftarrow> handle_request h buf pOptions szOptions req bSeenBefore OfferAddr reply;
            Some ((h, reply, send), s) }
        | _ \<Rightarrow> Some ((h, reply, False), s));
     (if send then do { (_, s) \<leftarrow> send_reply E h req reply s; Some (h, s) }
      else Some (h, s)) }"

text \<open>The checks on the fixed part: long enough, a BOOTREQUEST, with the DHCP cookie.\<close>

definition valid_request :: "bytes \<Rightarrow> u32 \<Rightarrow> bool option" where
  "valid_request buf DataLen =
     (if 236 + 4 \<le> DataLen then do {
        c \<leftarrow> rd8 buf 0;
        (if c = BOOTREQUEST then do { k \<leftarrow> rd buf 236 4; Some (k = tCookie) } else Some False) }
      else Some False)"

definition sdhcp_process_request ::
  "'w env \<Rightarrow> sdhcp_handle \<Rightarrow> bytes \<Rightarrow> u32 \<Rightarrow> 'w net \<Rightarrow> (sdhcp_handle, 'w) res" where
  "sdhcp_process_request E h buf DataLen s = do {
     ok \<leftarrow> valid_request buf DataLen;
     (if ok then do {
        let pOptions = 236 + 4;
        let szOptions = int32_of (DataLen - 236 - 4);
        t \<leftarrow> sdhcp_get_message_type buf pOptions szOptions;
        (case t of
           None \<Rightarrow> Some (h, s)
         | Some dhcp_msg_type \<Rightarrow> do {
             tHostName \<leftarrow> client_host_name buf pOptions szOptions;
             (case pHostName h of
                Some name \<Rightarrow>
                  if \<not> strncmp_eq tHostName (bytes_of name) (length name)
                  then answer_request E h buf pOptions szOptions dhcp_msg_type s
                  else Some (h, s)
              | None \<Rightarrow> Some (h, s)) }) }
      else Some (h, s)) }"

section \<open>The task\<close>

definition service_sdhcp_init ::
  "'w env \<Rightarrow> netref \<Rightarrow> sdhcp_handle \<Rightarrow> 'w net \<Rightarrow> (bool \<times> sdhcp_handle, 'w) res" where
  "service_sdhcp_init E pNetifObject h s = do {
     (sock, s) \<leftarrow> net_socket NET_AF_INET NET_SOCK_DGRAM NET_IPPROTO_IP s;
     let h = h\<lparr>hSocket := sock\<rparr>;
     (if sock \<ge> 0 then do {
        let s_addr_in = \<lparr>sa_len = 16, sa_family = 2, sin_port = NET_HTONS DHCP_SERVER_PORT,
                         sin_addr = sin_addr (nethost h)\<rparr>;
        (_, s) \<leftarrow> net_setsockopt E sock NET_SOL_SOCKET NET_SO_BINDTODEVICE (OptIf pNetifObject) 4 s;
        (ret, s) \<leftarrow> net_bind E sock (Some s_addr_in) 16 s;
        (done, s) \<leftarrow>
          (if ret \<noteq> -1 then do {
             (ret, s) \<leftarrow> net_setsockopt E sock NET_SOL_SOCKET NET_SO_BROADCAST (OptI32 1) 4 s;
             (_, s) \<leftarrow> net_setsockopt E sock NET_SOL_SOCKET NET_SO_RCVTIMEO (OptI32 SDHCP_TIMEOUT) 4 s;
             Some (ret = 0, s) }
           else Some (False, s));
        s \<leftarrow> (if \<not> done then do { (_, s) \<leftarrow> net_closesocket E sock s; Some s } else Some s);
        Some ((done, h), s) }
      else Some ((False, h), s)) }"

text \<open>\<open>((uint8_t *)&addr)[3] = b\<close>.\<close>

definition set_last_octet :: "u32 \<Rightarrow> u32 \<Rightarrow> u32" where
  "set_last_octet addr b = (addr AND 0x00ffffff) OR push_bit 24 b"

definition sockaddr_of :: "u32 \<Rightarrow> net_sockaddr" where
  "sockaddr_of a = \<lparr>sa_len = 0, sa_family = 0, sin_port = 0, sin_addr = a\<rparr>"

definition zero_dhcp_addr :: dhcp_addr where
  "zero_dhcp_addr = \<lparr>addrV4 = 0, pClientID = 0, ClientID = [], szClientID = 0\<rparr>"

text \<open>The handle the task prepares from the address and mask of the lwIP interface.\<close>

definition task_handle :: "u32 \<Rightarrow> u32 \<Rightarrow> sdhcp_handle" where
  "task_handle ip nmask = \<lparr>hSocket = 0, lastOfferAddr = 0, nethost = sockaddr_of ip, netmsk = sockaddr_of nmask,
     netmin = sockaddr_of (set_last_octet ip MIN_IP), netmax = sockaddr_of (set_last_octet ip MAX_IP),
     pHostName = Some ''ST-HotSpot'', tAddressInfo = replicate MAX_ADDRESS_INFO zero_dhcp_addr,
     szAddressInfo = 0\<rparr>"

text \<open>
  The statics of the file and the locals of the task. \<open>t_pc\<close> is where the task is: not created, before
  its loop, in it, and after \<open>osThreadTerminate\<close>.
\<close>

datatype task_pc = Task_none | Task_created | Task_serving | Task_terminated

record 'w sdhcp_task =
  t_pc :: task_pc
  t_RunTask :: int
  t_handle :: sdhcp_handle
  t_ref :: nat
  t_udp_ref :: nat
  t_udp_buffer :: bytes
  t_addr :: net_sockaddr
  t_addr_len :: u32
  t_net :: "'w net"

text \<open>From the start of the task to its loop, or to its end when a step fails.\<close>

definition task_finish :: "'w env \<Rightarrow> 'w sdhcp_task \<Rightarrow> 'w sdhcp_task option" where
  "task_finish E t = do {
     s \<leftarrow> (if hSocket (t_handle t) \<ge> 0
          then do { (_, s) \<leftarrow> net_closesocket E (hSocket (t_handle t)) (t_net t); Some s } else Some (t_net t));
     Some (t\<lparr>t_net := net_free E (t_ref t) s, t_pc := Task_terminated\<rparr>) }"

definition task_start ::
  "'w env \<Rightarrow> nat \<Rightarrow> u32 \<Rightarrow> u32 \<Rightarrow> netref option \<Rightarrow> 'w sdhcp_task \<Rightarrow> 'w sdhcp_task option" where
  "task_start E handle_size ip nmask netif_state t =
     (case net_malloc E handle_size (t_net t) of
        (None, s) \<Rightarrow> None
      | (Some ref, s) \<Rightarrow> do {
          pNetifObject \<leftarrow> netif_state;
          let h = task_handle ip nmask;
          let t = t\<lparr>t_ref := ref, t_handle := h, t_addr := sockaddr_of 0, t_addr_len := 16, t_net := s\<rparr>;
          (if ip = 0 \<and> nmask = 0 then Some (t\<lparr>t_pc := Task_terminated\<rparr>)
           else do {
             ((done, h), s) \<leftarrow> service_sdhcp_init E pNetifObject h s;
             let t = t\<lparr>t_handle := h, t_net := s\<rparr>;
             (if \<not> done then task_finish E t
              else case net_malloc E MAX_UDP_MESSAGE_SIZE s of
                (None, s) \<Rightarrow> task_finish E (t\<lparr>t_net := s\<rparr>)
              | (Some b, s) \<Rightarrow>
                  Some (t\<lparr>t_udp_ref := b, t_net := s, t_pc := Task_serving\<rparr>)) }) })"

definition task_serve :: "'w env \<Rightarrow> 'w sdhcp_task \<Rightarrow> 'w sdhcp_task option" where
  "task_serve E t = do {
     ((szRet, b, a, n), s) \<leftarrow> net_recvfrom E (hSocket (t_handle t)) (Some (t_udp_buffer t))
        (of_nat MAX_UDP_MESSAGE_SIZE) 0 (Some (t_addr t)) (t_addr_len t) (t_net t);
     b \<leftarrow> b;
     a \<leftarrow> a;
     let t = t\<lparr>t_udp_buffer := b, t_addr := a, t_addr_len := n, t_net := s\<rparr>;
     (if szRet > 0 then do {
        (h, s) \<leftarrow> sdhcp_process_request E (t_handle t) b (u32_of szRet) s;
        Some (t\<lparr>t_handle := h, t_net := s\<rparr>) }
      else Some t) }"

definition service_sdhcp_delete :: "'w sdhcp_task \<Rightarrow> int \<times> 'w sdhcp_task" where
  "service_sdhcp_delete t = (NET_OK, t\<lparr>t_RunTask := 0\<rparr>)"

text \<open>
  \<open>osThreadNew\<close> is outside the repository: whether it gave a thread is the argument \<open>created\<close>. From then
  on the new task can run, also before \<open>service_sdhcp_create\<close> goes on to set \<open>RunTask\<close>.
\<close>

definition create_thread :: "bool \<Rightarrow> 'w sdhcp_task \<Rightarrow> 'w sdhcp_task" where
  "create_thread created t = (if created then t\<lparr>t_pc := Task_created\<rparr> else t)"

definition service_sdhcp_create :: "bool \<Rightarrow> 'w sdhcp_task \<Rightarrow> int \<times> 'w sdhcp_task" where
  "service_sdhcp_create created t =
     (let t = create_thread created t; t = t\<lparr>t_RunTask := 1\<rparr>
      in (if \<not> created then NET_ERROR_UNSUPPORTED else NET_OK, t))"

text \<open>
  The steps of one task: the two halves of \<open>service_sdhcp_create\<close>, the task starting, serving a
  datagram or leaving its loop, and another task calling \<open>service_sdhcp_delete\<close>.
\<close>

inductive sdhcp_step ::
  "'w env \<Rightarrow> nat \<Rightarrow> u32 \<Rightarrow> u32 \<Rightarrow> netref option \<Rightarrow> 'w sdhcp_task \<Rightarrow> 'w sdhcp_task \<Rightarrow> bool"
  for E handle_size ip nmask netif_state where
  Create: "t_pc t = Task_none \<Longrightarrow> sdhcp_step E handle_size ip nmask netif_state t (create_thread True t)"
| Run: "sdhcp_step E handle_size ip nmask netif_state t (t\<lparr>t_RunTask := 1\<rparr>)"
| Start: "t_pc t = Task_created \<Longrightarrow> task_start E handle_size ip nmask netif_state t = Some t' \<Longrightarrow>
    sdhcp_step E handle_size ip nmask netif_state t t'"
| Serve: "t_pc t = Task_serving \<Longrightarrow> t_RunTask t \<noteq> 0 \<Longrightarrow> task_serve E t = Some t' \<Longrightarrow>
    sdhcp_step E handle_size ip nmask netif_state t t'"
| Leave: "t_pc t = Task_serving \<Longrightarrow> t_RunTask t = 0 \<Longrightarrow>
    task_finish E (t\<lparr>t_net := net_free E (t_udp_ref t) (t_net t)\<rparr>) = Some t' \<Longrightarrow>
    sdhcp_step E handle_size ip nmask netif_state t t'"
| Delete: "service_sdhcp_delete t = (r, t') \<Longrightarrow> sdhcp_step E handle_size ip nmask netif_state t t'"

inductive_cases sdhcp_stepE: "sdhcp_step E handle_size ip nmask netif_state t t'"

text \<open>
  The service: the static variables \<open>RunTask\<close> and \<open>SdhcpTask\<close> and the tasks created so far, each with its own locals. The
  members \<open>t_RunTask\<close> and \<open>t_net\<close> of a task are refreshed from the shared ones when it runs. A service may be created again at
  any time, also while a task that was told to stop still waits for a datagram. A task that is done terminates the task
  \<open>SdhcpTask\<close> names, which is the one created last, and then leaves its function.
\<close>

record 'w sdhcp_service =
  sv_RunTask :: int
  sv_SdhcpTask :: "nat option"
  sv_net :: "'w net"
  sv_tasks :: "'w sdhcp_task list"

definition task_at :: "nat \<Rightarrow> 'w sdhcp_service \<Rightarrow> 'w sdhcp_task" where
  "task_at i v = (sv_tasks v ! i)\<lparr>t_RunTask := sv_RunTask v, t_net := sv_net v\<rparr>"

fun terminate_task :: "nat option \<Rightarrow> 'w sdhcp_task list \<Rightarrow> 'w sdhcp_task list" where
  "terminate_task None ts = ts"
| "terminate_task (Some j) ts = ts[j := (ts ! j)\<lparr>t_pc := Task_terminated\<rparr>]"

definition put_task :: "nat \<Rightarrow> 'w sdhcp_task \<Rightarrow> 'w sdhcp_service \<Rightarrow> 'w sdhcp_service" where
  "put_task i t v =
     (let ts = (sv_tasks v)[i := t] in
      v\<lparr>sv_RunTask := t_RunTask t, sv_net := t_net t,
        sv_tasks := (if t_pc t = Task_terminated then terminate_task (sv_SdhcpTask v) ts else ts)\<rparr>)"

inductive service_step ::
  "'w env \<Rightarrow> nat \<Rightarrow> u32 \<Rightarrow> u32 \<Rightarrow> netref option \<Rightarrow> 'w sdhcp_service \<Rightarrow> 'w sdhcp_service \<Rightarrow> bool"
  for E handle_size ip nmask netif_state where
  New_task: "service_step E handle_size ip nmask netif_state v
    (v\<lparr>sv_tasks := sv_tasks v @ [create_thread True t], sv_SdhcpTask := Some (length (sv_tasks v))\<rparr>)"
| No_task: "service_step E handle_size ip nmask netif_state v (v\<lparr>sv_SdhcpTask := None\<rparr>)"
| Run_flag: "service_step E handle_size ip nmask netif_state v (v\<lparr>sv_RunTask := 1\<rparr>)"
| Stop_flag: "service_step E handle_size ip nmask netif_state v (v\<lparr>sv_RunTask := 0\<rparr>)"
| Own_step: "i < length (sv_tasks v) \<Longrightarrow> t_pc (sv_tasks v ! i) \<noteq> Task_terminated \<Longrightarrow>
    sdhcp_step E handle_size ip nmask netif_state (task_at i v) t \<Longrightarrow>
    service_step E handle_size ip nmask netif_state v (put_task i t v)"
| Other_tasks: "service_step E handle_size ip nmask netif_state v (v\<lparr>sv_net := s\<rparr>)"

end
