(* ===== verification/Sdhcp_Props.thy ===== *)
theory Sdhcp_Props
  imports Sdhcp Net_Demo
begin

text \<open>
  What the DHCP server guarantees: the options of a packet, the lease table and the
  search for a free address, the answers to DISCOVER and REQUEST, and the requests that stop the server
  or write outside its table.
\<close>

section \<open>Packets\<close>

lemma swap_loop_4:
  "swap_loop 4 a w = push_bit 8 (push_bit 8 (push_bit 8 (push_bit 8 w OR (a AND 0xff)) OR (drop_bit 8 a AND 0xff))
     OR (drop_bit 8 (drop_bit 8 a) AND 0xff)) OR (drop_bit 8 (drop_bit 8 (drop_bit 8 a)) AND 0xff)"
proof -
  have four: "(4 :: nat) = Suc (Suc (Suc (Suc 0)))" by simp
  show ?thesis unfolding four by (simp only: swap_loop.simps)
qed

lemma sdhcp_swap_ip_is_HTONL: "sdhcp_swap_ip a = NET_HTONL a"
  unfolding sdhcp_swap_ip_def swap_loop_4 NET_HTONL_def by (rule u32_eqI) (simp add: bit_simps)

lemma sdhcp_swap_ip_involution [simp]: "sdhcp_swap_ip (sdhcp_swap_ip a) = a"
  by (simp add: sdhcp_swap_ip_is_HTONL)

lemma sdhcp_swap_ip_eq_iff [simp]: "sdhcp_swap_ip a = sdhcp_swap_ip b \<longleftrightarrow> a = b"
  by (metis sdhcp_swap_ip_involution)

definition msg_ok :: "net_dhcp_msg \<Rightarrow> bool" where
  "msg_ok m \<longleftrightarrow> length (p_chaddr m) = 16 \<and> length (p_sname m) = 64 \<and> length (p_file m) = 128"

lemma length_msg_bytes [simp]: "msg_ok m \<Longrightarrow> length (msg_bytes m) = 236"
  by (simp add: msg_ok_def msg_bytes_def)

definition demo_msg :: net_dhcp_msg where
  "demo_msg = \<lparr>p_op = 1, p_htype = 1, p_hlen = 6, p_hops = 0, p_xid = 0x12345678, p_secs = 0, p_flags = 0,
     p_ciaddr = 0, p_yiaddr = 0, p_siaddr = 0, p_giaddr = 0, p_chaddr = replicate 16 7,
     p_sname = replicate 64 0, p_file = replicate 128 0\<rparr>"

lemma demo_msg_ok [simp]: "msg_ok demo_msg"
  by (simp add: msg_ok_def demo_msg_def)

section \<open>Options\<close>

text \<open>The options area as RFC 2132 writes it: pad bytes, and options of a tag, a length byte and data.\<close>

datatype dhcp_item = Pad_item | Opt_item u8 bytes

fun item_ok :: "dhcp_item \<Rightarrow> bool" where
  "item_ok Pad_item = True"
| "item_ok (Opt_item t d) = (t \<noteq> PAD \<and> t \<noteq> END \<and> length d < 256)"

fun item_bytes :: "dhcp_item \<Rightarrow> bytes" where
  "item_bytes Pad_item = [PAD]"
| "item_bytes (Opt_item t d) = t # of_nat (length d) # d"

fun first_option :: "u8 \<Rightarrow> dhcp_item list \<Rightarrow> bytes option" where
  "first_option opt [] = None"
| "first_option opt (Pad_item # items) = first_option opt items"
| "first_option opt (Opt_item t d # items) = (if t = opt then Some d else first_option opt items)"

abbreviation items_bytes :: "dhcp_item list \<Rightarrow> bytes" where
  "items_bytes items \<equiv> concat (List.map item_bytes items)"

text \<open>Where the search stops after the items: at the end of the area, or at an END option.\<close>

definition area_ends :: "bytes \<Rightarrow> nat \<Rightarrow> int \<Rightarrow> bool" where
  "area_ends rest n len \<longleftrightarrow> len = int n \<or> int n < len \<and> (\<exists>r. rest = END # r)"

lemma find_option_loop_items:
  assumes "\<forall>i\<in>set items. item_ok i" and "opt \<noteq> PAD" and "opt \<noteq> END"
    and "buf = pre @ items_bytes items @ rest" and "length pre = base + pCur"
    and "area_ends rest (pCur + length (items_bytes items)) len"
  shows "case first_option opt items of
      None \<Rightarrow> find_option_loop opt buf base len pCur = Some None
    | Some d \<Rightarrow> \<exists>off. find_option_loop opt buf base len pCur = Some (Some (off, of_nat (length d)))
        \<and> rd buf off (length d) = Some d"
  using assms
proof (induction items arbitrary: pre pCur)
  case Nil
  then show ?case
    unfolding find_option_loop.simps [of opt buf base len pCur]
    by (auto simp: area_ends_def rd8_def nth_append)
next
  case (Cons i items)
  have len: "int (pCur + length (item_bytes i)) \<le> len"
    using Cons.prems(6) by (auto simp: area_ends_def)
  show ?case
  proof (cases i)
    case Pad_item
    then have "rd8 buf (base + pCur) = Some PAD"
      using Cons.prems(4,5) by (simp add: rd8_def nth_append)
    then have step: "find_option_loop opt buf base len pCur = find_option_loop opt buf base len (pCur + 1)"
      using len Pad_item
      by (simp add: find_option_loop.simps [of opt buf base len pCur] del: rd8_Some_iff)
    show ?thesis
      using Cons.IH [of "pre @ [PAD]" "pCur + 1"] Cons.prems Pad_item unfolding step by simp
  next
    case (Opt_item t d)
    have tag: "rd8 buf (base + pCur) = Some t"
      using Cons.prems(4,5) Opt_item by (simp add: rd8_def nth_append)
    have size: "rd8 buf (Suc (base + pCur)) = Some (of_nat (length d))"
      using Cons.prems(4,5) Opt_item by (simp add: rd8_def nth_append)
    have d: "unat (of_nat (length d) :: u8) = length d"
      using Cons.prems(1) Opt_item by (simp add: unat_of_nat take_bit_nat_eq_self)
    have step: "find_option_loop opt buf base len pCur =
        (if opt = t then Some (Some (base + pCur + 2, of_nat (length d)))
         else find_option_loop opt buf base len (pCur + 2 + length d))"
      using Cons.prems(1) Opt_item len d
      by (simp add: find_option_loop.simps [of opt buf base len pCur] tag size del: rd8_Some_iff)
    show ?thesis
    proof (cases "t = opt")
      case True
      have "rd buf (base + pCur + 2) (length d) = Some d"
        using rd_in_the_middle [of "pre @ [t, of_nat (length d)]" d "items_bytes items @ rest"]
          Cons.prems(4,5) Opt_item by simp
      then show ?thesis using step True Opt_item by simp
    next
      case False
      then have skip: "find_option_loop opt buf base len pCur = find_option_loop opt buf base len (pCur + 2 + length d)"
        using step by simp
      show ?thesis
        using Cons.IH [of "pre @ t # of_nat (length d) # d" "pCur + 2 + length d"] Cons.prems Opt_item False
        unfolding skip by (simp add: add.assoc [symmetric])
    qed
  qed
qed

text \<open>
  C28. On a well-formed options area \<open>sdhcp_find_option\<close> finds exactly the first option with the tag:
  the offset and the length it returns hold the data of that option, and it reports none when there is
  none, whatever follows the area in the buffer.
\<close>

theorem find_option_first:
  assumes "\<forall>i\<in>set items. item_ok i" and "opt \<noteq> PAD" and "opt \<noteq> END"
    and "area_ends rest (length (items_bytes items)) len"
  shows "case first_option opt items of
      None \<Rightarrow> sdhcp_find_option opt (pre @ items_bytes items @ rest) (length pre) len = Some None
    | Some d \<Rightarrow> \<exists>off. sdhcp_find_option opt (pre @ items_bytes items @ rest) (length pre) len
          = Some (Some (off, of_nat (length d)))
        \<and> rd (pre @ items_bytes items @ rest) off (length d) = Some d"
  using find_option_loop_items [OF assms(1-3) refl, of pre "length pre" 0 rest len] assms(2-4)
  by (auto simp: sdhcp_find_option_def SDHCP_ASSERT_def split: option.splits)

theorem find_option_first_witness:
  "\<exists>off. sdhcp_find_option DHCPMESSAGETYPE [9, 53, 1, 3, 255, 7] 1 5 = Some (Some (off, 1))
     \<and> rd [9, 53, 1, 3, 255, 7] off 1 = Some [3]"
  using find_option_first [of "[Opt_item 53 [3]]" 53 "[255, 7]" 5 "[9]"] by (simp add: area_ends_def)

section \<open>The lease table\<close>

definition leases :: "sdhcp_handle \<Rightarrow> dhcp_addr list" where
  "leases h = take (unat (szAddressInfo h)) (tAddressInfo h)"

definition low_addr :: "sdhcp_handle \<Rightarrow> u32" where
  "low_addr h = sdhcp_swap_ip (sin_addr (netmin h))"

definition high_addr :: "sdhcp_handle \<Rightarrow> u32" where
  "high_addr h = sdhcp_swap_ip (sin_addr (netmax h))"

text \<open>
  The invariant: at most two leases, of different addresses in the range, held by different clients, each
  with the size of its identifier.
\<close>

definition sdhcp_inv :: "sdhcp_handle \<Rightarrow> bool" where
  "sdhcp_inv h \<longleftrightarrow> length (tAddressInfo h) = MAX_ADDRESS_INFO \<and> unat (szAddressInfo h) \<le> MAX_ADDRESS_INFO
     \<and> low_addr h \<le> high_addr h \<and> high_addr h < 0xffffffff
     \<and> distinct (List.map addrV4 (leases h)) \<and> distinct (List.map ClientID (leases h))
     \<and> (\<forall>a\<in>set (leases h). low_addr h \<le> addrV4 a \<and> addrV4 a \<le> high_addr h
          \<and> szClientID a \<noteq> 0 \<and> length (ClientID a) = unat (szClientID a))"

lemma sdhcp_inv_count: "sdhcp_inv h \<Longrightarrow> length (leases h) = unat (szAddressInfo h)"
  by (simp add: sdhcp_inv_def leases_def)

lemma lease_nth: "j < unat (szAddressInfo h) \<Longrightarrow> leases h ! j = tAddressInfo h ! j"
  by (simp add: leases_def)

subsection \<open>Searching it\<close>

lemma take_Suc_drop: "i < length xs \<Longrightarrow> take (Suc n) (drop i xs) = xs ! i # take n (drop (Suc i) xs)"
  by (simp add: Cons_nth_drop_Suc [symmetric])

lemma find_from_SomeD:
  assumes "find_from f info i n = Some k"
  shows "(k = -1 \<and> (\<forall>a\<in>set (take n (drop i info)). f a = Some False))
    \<or> (\<exists>j. k = int j \<and> i \<le> j \<and> j < i + n \<and> j < length info \<and> f (info ! j) = Some True)"
  using assms
proof (induction f info i n rule: find_from.induct)
  case (2 f info i n)
  then obtain b where b: "i < length info" "f (info ! i) = Some b"
      "(if b then Some (int i) else find_from f info (Suc i) n) = Some k"
    by (auto simp: bind_Some_iff split: if_splits)
  show ?case
  proof (cases b)
    case False
    have "find_from f info (Suc i) n = Some k" using b(3) False by simp
    then consider "k = -1" "\<forall>a\<in>set (take n (drop (Suc i) info)). f a = Some False"
      | j where "k = int j" "Suc i \<le> j" "j < Suc i + n" "j < length info" "f (info ! j) = Some True"
      using 2(1) [OF b(1) b(2)] False by blast
    then show ?thesis
    proof cases
      case 1
      then show ?thesis using b False by (simp add: take_Suc_drop)
    next
      case 2
      then show ?thesis by (intro disjI2 exI [of _ j]) simp
    qed
  qed (use b in auto)
qed auto

lemma find_from_total:
  assumes "\<forall>a\<in>set (take n (drop i info)). \<exists>b. f a = Some b" and "i + n \<le> length info"
  shows "\<exists>k. find_from f info i n = Some k"
  using assms
proof (induction n arbitrary: i)
  case (Suc n)
  then obtain b where "f (info ! i) = Some b" by (auto simp: take_Suc_drop)
  then show ?case using Suc by (auto simp: take_Suc_drop)
qed simp

lemma int32_of_small: "unat w \<le> 2 \<Longrightarrow> nat (int32_of w) = unat w"
proof -
  assume "unat w \<le> 2"
  then have "unat w = 0 \<or> unat w = 1 \<or> unat w = 2" by linarith
  then have "w = 0 \<or> w = 1 \<or> w = 2"
    by (simp add: word_unat_eq_iff)
  then show ?thesis by (auto simp: int32_of_def)
qed

lemma find_index_SomeD:
  assumes "sdhcp_inv h" and "sdhcp_find_index h f = Some k"
  shows "(k = -1 \<and> (\<forall>a\<in>set (leases h). f a = Some False))
    \<or> (\<exists>j. k = int j \<and> j < length (leases h) \<and> f (leases h ! j) = Some True)"
proof -
  have n: "nat (int32_of (szAddressInfo h)) = length (leases h)"
    using assms(1) int32_of_small sdhcp_inv_count by (simp add: sdhcp_inv_def)
  show ?thesis
    using find_from_SomeD [OF assms(2) [unfolded sdhcp_find_index_def n]] assms(1)
    by (auto simp: leases_def sdhcp_inv_def)
qed

lemma find_index_total:
  assumes "sdhcp_inv h" and "\<forall>a\<in>set (leases h). \<exists>b. f a = Some b"
  shows "\<exists>k. sdhcp_find_index h f = Some k"
proof -
  have n: "nat (int32_of (szAddressInfo h)) = length (leases h)"
    using assms(1) int32_of_small sdhcp_inv_count by (simp add: sdhcp_inv_def)
  show ?thesis
    unfolding sdhcp_find_index_def n
    by (rule find_from_total) (use assms in \<open>auto simp: leases_def sdhcp_inv_def\<close>)
qed

lemma find_address:
  assumes "sdhcp_inv h"
  obtains k where "sdhcp_find_index h (sdhcp_add_addr_filter a) = Some k"
    and "k = -1 \<longleftrightarrow> a \<notin> addrV4 ` set (leases h)"
proof -
  obtain k where k: "sdhcp_find_index h (sdhcp_add_addr_filter a) = Some k"
    using find_index_total [OF assms, of "sdhcp_add_addr_filter a"] by (auto simp: sdhcp_add_addr_filter_def)
  then show thesis
    using find_index_SomeD [OF assms k] that [OF k] by (auto simp: sdhcp_add_addr_filter_def)
qed

text \<open>The client found is the one with the identifier looked for.\<close>

lemma find_client_SomeD:
  assumes "sdhcp_inv h" and "sdhcp_find_index h (sdhcp_check_address_in_use buf cid) = Some k"
    and "rd buf (fst cid) (unat (snd cid)) = Some c" and "snd cid \<noteq> 0"
  shows "(k = -1 \<and> c \<notin> ClientID ` set (leases h))
    \<or> (\<exists>j. k = int j \<and> j < length (leases h) \<and> ClientID (leases h ! j) = c)"
proof -
  have len: "length c = unat (snd cid)" using assms(3) by (rule rd_length)
  have same: "snd cid = szClientID a" if "a \<in> set (leases h)" "ClientID a = c" for a
    using that assms(1) len by (auto simp: sdhcp_inv_def word_unat_eq_iff)
  have eq: "sdhcp_check_address_in_use buf cid a = Some (ClientID a = c)" if "a \<in> set (leases h)" for a
    using that assms(1,3) same [OF that] by (auto simp: sdhcp_check_address_in_use_def sdhcp_inv_def)
  show ?thesis
    using find_index_SomeD [OF assms(1,2)] eq by force
qed

lemma find_client_total:
  assumes "sdhcp_inv h" and "rd buf (fst cid) (unat (snd cid)) = Some c"
  shows "\<exists>k. sdhcp_find_index h (sdhcp_check_address_in_use buf cid) = Some k"
  unfolding sdhcp_check_address_in_use_def assms(2)
  by (rule find_index_total [OF assms(1)]) auto

subsection \<open>The search for a free address\<close>

lemma offer_loop_from:
  assumes "sdhcp_inv h" and "lo \<le> hi" and "hi < 0xffffffff" and "lo < dw" and "dw \<le> hi + 1"
    and "\<forall>a. lo \<le> a \<longrightarrow> a < dw \<longrightarrow> a \<in> addrV4 ` set (leases h)"
  shows "\<exists>b a. offer_loop h lo hi (hi + 1) True dw = Some (b, a)
    \<and> (if b then lo \<le> a \<and> a \<le> hi \<and> a \<notin> addrV4 ` set (leases h)
           \<and> (\<forall>x. lo \<le> x \<longrightarrow> x < a \<longrightarrow> x \<in> addrV4 ` set (leases h))
       else \<forall>x. lo \<le> x \<longrightarrow> x \<le> hi \<longrightarrow> x \<in> addrV4 ` set (leases h))"
  using assms(4-6)
proof (induction "unat (hi + 1 - dw)" arbitrary: dw rule: less_induct)
  case less
  have hi1: "x < hi + 1 \<longleftrightarrow> x \<le> hi" for x
    using assms(3) by (simp add: word_less_nat_alt word_le_nat_alt unat_word_ariths less_Suc_eq_le)
  show ?case
  proof (cases "dw = hi + 1")
    case True
    then have "offer_loop h lo hi (hi + 1) True dw = Some (False, dw)" by (subst offer_loop.simps) simp
    then show ?thesis using less.prems hi1 True by (intro exI [of _ False] exI [of _ dw]) simp
  next
    case False
    then have dw: "dw \<le> hi" using less.prems hi1 by fastforce
    obtain k where k: "sdhcp_find_index h (sdhcp_add_addr_filter dw) = Some k"
        "k = -1 \<longleftrightarrow> dw \<notin> addrV4 ` set (leases h)"
      using find_address [OF assms(1)] by blast
    have step: "offer_loop h lo hi (hi + 1) True dw =
        (if k = -1 then Some (True, dw) else offer_loop h lo hi (hi + 1) True (dw + 1))"
      using False leD [OF dw] by (subst offer_loop.simps) (simp add: k(1))
    show ?thesis
    proof (cases "k = -1")
      case True
      then show ?thesis using step k(2) less.prems dw by (intro exI [of _ True] exI [of _ dw]) simp
    next
      case neq: False
      have dw1: "x < dw + 1 \<longleftrightarrow> x \<le> dw" for x
        using assms(3) dw by (simp add: word_less_nat_alt word_le_nat_alt unat_word_ariths less_Suc_eq_le)
      have "unat (hi + 1 - (dw + 1)) < unat (hi + 1 - dw)"
        using assms(3) dw False hi1 [of dw]
        by (simp add: word_less_nat_alt word_le_nat_alt unat_sub unat_word_ariths)
      moreover have "lo < dw + 1" "dw + 1 \<le> hi + 1"
        using less.prems(1) dw dw1 hi1 assms(3)
        by (simp_all add: word_less_nat_alt word_le_nat_alt unat_word_ariths)
      moreover have "\<forall>a. lo \<le> a \<longrightarrow> a < dw + 1 \<longrightarrow> a \<in> addrV4 ` set (leases h)"
        using less.prems(3) dw1 neq k(2) by (auto simp: order.order_iff_strict)
      ultimately show ?thesis
        using less.hyps [of "dw + 1"] step neq by simp
    qed
  qed
qed

lemma offer_loop_result:
  assumes "sdhcp_inv h" and "lo \<le> hi" and "hi < 0xffffffff"
  shows "\<exists>b a. offer_loop h lo hi (hi + 1) False (hi + 1) = Some (b, a)
    \<and> (if b then lo \<le> a \<and> a \<le> hi \<and> a \<notin> addrV4 ` set (leases h)
           \<and> (\<forall>x. lo \<le> x \<longrightarrow> x < a \<longrightarrow> x \<in> addrV4 ` set (leases h))
       else \<forall>x. lo \<le> x \<longrightarrow> x \<le> hi \<longrightarrow> x \<in> addrV4 ` set (leases h))"
proof -
  obtain k where k: "sdhcp_find_index h (sdhcp_add_addr_filter lo) = Some k"
      "k = -1 \<longleftrightarrow> lo \<notin> addrV4 ` set (leases h)"
    using find_address [OF assms(1)] by blast
  have hi1: "hi < hi + 1"
    using assms(3) by (simp add: word_less_nat_alt unat_word_ariths)
  have step: "offer_loop h lo hi (hi + 1) False (hi + 1) =
      (if k = -1 then Some (True, lo) else offer_loop h lo hi (hi + 1) True (lo + 1))"
    using hi1 by (subst offer_loop.simps) (simp add: k(1))
  show ?thesis
  proof (cases "k = -1")
    case True
    then show ?thesis using step k(2) assms(2) by (intro exI [of _ True] exI [of _ lo]) simp
  next
    case False
    have lo1: "x < lo + 1 \<longleftrightarrow> x \<le> lo" for x
      using assms(2,3) by (simp add: word_less_nat_alt word_le_nat_alt unat_word_ariths less_Suc_eq_le)
    have "lo < lo + 1" "lo + 1 \<le> hi + 1"
      using assms(2,3) by (simp_all add: word_less_nat_alt word_le_nat_alt unat_word_ariths)
    then show ?thesis
      using offer_loop_from [OF assms, of "lo + 1"] step False k(2) lo1 by (simp add: order.antisym)
  qed
qed

section \<open>One request\<close>

lemma sdhcp_inv_lastOffer [simp]:
  "leases (h\<lparr>lastOfferAddr := a\<rparr>) = leases h" "low_addr (h\<lparr>lastOfferAddr := a\<rparr>) = low_addr h"
  "high_addr (h\<lparr>lastOfferAddr := a\<rparr>) = high_addr h" "sdhcp_inv (h\<lparr>lastOfferAddr := a\<rparr>) = sdhcp_inv h"
  by (simp_all add: leases_def low_addr_def high_addr_def sdhcp_inv_def)

definition same_config :: "sdhcp_handle \<Rightarrow> sdhcp_handle \<Rightarrow> bool" where
  "same_config h h' \<longleftrightarrow> hSocket h' = hSocket h \<and> nethost h' = nethost h \<and> netmsk h' = netmsk h
     \<and> netmin h' = netmin h \<and> netmax h' = netmax h \<and> pHostName h' = pHostName h"

text \<open>A free address of the range, the least one.\<close>

definition least_free :: "sdhcp_handle \<Rightarrow> u32 \<Rightarrow> bool" where
  "least_free h a \<longleftrightarrow> low_addr h \<le> a \<and> a \<le> high_addr h \<and> a \<notin> addrV4 ` set (leases h)
     \<and> (\<forall>x. low_addr h \<le> x \<longrightarrow> x < a \<longrightarrow> x \<in> addrV4 ` set (leases h))"

lemma least_free_lastOffer [simp]: "least_free (h\<lparr>lastOfferAddr := x\<rparr>) a = least_free h a"
  by (simp add: least_free_def)

lemma choose_address_new:
  assumes "sdhcp_inv h"
  shows "\<exists>b a. choose_address (h\<lparr>lastOfferAddr := high_addr h\<rparr>) False x = Some (b, a)
    \<and> (if b then least_free h a
       else \<forall>y. low_addr h \<le> y \<longrightarrow> y \<le> high_addr h \<longrightarrow> y \<in> addrV4 ` set (leases h))"
proof -
  let ?h = "h\<lparr>lastOfferAddr := high_addr h\<rparr>"
  have eq: "choose_address ?h False x = offer_loop ?h (low_addr h) (high_addr h) (high_addr h + 1) False (high_addr h + 1)"
    by (simp add: choose_address_def low_addr_def high_addr_def Let_def)
  have "low_addr h \<le> high_addr h" "high_addr h < 0xffffffff"
    using assms by (simp_all add: sdhcp_inv_def)
  then show ?thesis
    using offer_loop_result [of ?h "low_addr h" "high_addr h"] assms
    unfolding eq least_free_def sdhcp_inv_lastOffer by blast
qed

lemma addInfo_full: "sdhcp_inv h \<Longrightarrow> unat (szAddressInfo h) = 2 \<Longrightarrow> sdhcp_addInfo h info = None"
  by (simp add: sdhcp_addInfo_def sdhcp_inv_def word_le_nat_alt)

lemma addInfo_room:
  assumes "sdhcp_inv h" and "unat (szAddressInfo h) < 2"
  shows "\<exists>h'. sdhcp_addInfo h info = Some (True, h') \<and> same_config h h' \<and> leases h' = leases h @ [info]
    \<and> length (tAddressInfo h') = length (tAddressInfo h) \<and> unat (szAddressInfo h') = Suc (unat (szAddressInfo h))"
proof -
  have "unat (szAddressInfo h + 1) = Suc (unat (szAddressInfo h))"
    using assms(2) by (simp add: unat_word_ariths)
  then show ?thesis
    using assms by (simp add: sdhcp_addInfo_def sdhcp_inv_def word_le_nat_alt same_config_def leases_def
        take_Suc_conv_app_nth)
qed

lemma sdhcp_inv_extend:
  assumes "sdhcp_inv h" and "same_config h h'" and "leases h' = leases h @ [a]"
    and "length (tAddressInfo h') = 2" and "unat (szAddressInfo h') \<le> 2" and "least_free h (addrV4 a)"
    and "ClientID a \<notin> ClientID ` set (leases h)" and "szClientID a \<noteq> 0" and "length (ClientID a) = unat (szClientID a)"
  shows "sdhcp_inv h'"
  using assms
  by (auto simp: sdhcp_inv_def same_config_def least_free_def low_addr_def high_addr_def)

text \<open>What a request that returns does to the handle.\<close>

definition lease_step :: "sdhcp_handle \<Rightarrow> bytes \<Rightarrow> nat \<times> u32 \<Rightarrow> sdhcp_handle \<Rightarrow> bool" where
  "lease_step h buf cid h' \<longleftrightarrow> same_config h h' \<and> sdhcp_inv h'
     \<and> (leases h' = leases h
        \<or> (\<exists>a p. least_free h a \<and> rd buf (fst cid) (unat (snd cid)) = Some (ClientID p)
             \<and> addrV4 p = a \<and> leases h' = leases h @ [p]))"

lemma lease_step_refl: "sdhcp_inv h \<Longrightarrow> lease_step h buf cid h"
  by (simp add: lease_step_def same_config_def)

lemma handle_discover_lease_step:
  assumes "sdhcp_inv h" and "handle_discover E h buf cid seen off reply s = Some ((h', reply', send), s')"
    and "\<not> seen \<Longrightarrow> \<forall>c. rd buf (fst cid) (unat (snd cid)) = Some c \<longrightarrow> snd cid \<noteq> 0 \<longrightarrow> c \<notin> ClientID ` set (leases h)"
  shows "lease_step h buf cid h'"
proof -
  let ?h = "h\<lparr>lastOfferAddr := high_addr h\<rparr>"
  have refl: "lease_step h buf cid (h\<lparr>lastOfferAddr := a\<rparr>)" for a
    using assms(1) by (simp add: lease_step_def same_config_def)
  obtain valid dw where c: "choose_address ?h seen off = Some (valid, dw)"
    using assms(2) unfolding handle_discover_def Let_def high_addr_def by (rule bind_pair_SomeE)
  show ?thesis
  proof (cases "valid \<and> \<not> seen")
    case False
    then show ?thesis
      using assms(2) c refl
      by (auto simp: handle_discover_def high_addr_def bind_Some_iff Let_def split: if_splits option.splits prod.splits)
  next
    case True
    define hh where "hh = h\<lparr>lastOfferAddr := dw\<rparr>"
    have hh: "sdhcp_inv hh" "leases hh = leases h" using assms(1) by (simp_all add: hh_def)
    have free: "least_free h dw" using choose_address_new [OF assms(1), of off] c True by auto
    show ?thesis
    proof (cases "net_malloc E (unat (snd cid)) s")
      case (Pair mp s1)
      show ?thesis
      proof (cases mp)
        case None
        then show ?thesis
          using assms(2) c refl True Pair
          by (auto simp: handle_discover_def high_addr_def bind_Some_iff Let_def split: if_splits)
      next
        case (Some p)
        obtain bid added h2 where b: "snd cid \<noteq> 0" "rd buf (fst cid) (unat (snd cid)) = Some bid"
            "sdhcp_addInfo hh \<lparr>addrV4 = dw, pClientID = p, ClientID = bid, szClientID = snd cid\<rparr> = Some (added, h2)"
            "h' = h2"
          using assms(2) c True Pair Some
          by (auto simp: handle_discover_def high_addr_def bind_Some_iff Let_def hh_def split: if_splits prod.splits)
        have room: "unat (szAddressInfo hh) < 2"
          using addInfo_full [OF hh(1)] b(3) hh(1) by (fastforce simp: sdhcp_inv_def)
        obtain h3 where h3: "h2 = h3" "same_config hh h3"
            "leases h3 = leases hh @ [\<lparr>addrV4 = dw, pClientID = p, ClientID = bid, szClientID = snd cid\<rparr>]"
            "length (tAddressInfo h3) = 2" "unat (szAddressInfo h3) \<le> 2"
          using addInfo_room [OF hh(1) room, of "\<lparr>addrV4 = dw, pClientID = p, ClientID = bid, szClientID = snd cid\<rparr>"]
            b(3) hh(1) room by (auto simp: sdhcp_inv_def)
        have "sdhcp_inv h3"
          by (rule sdhcp_inv_extend [OF hh(1) h3(2-5)])
            (use b free assms(3) True hh(2) rd_length [OF b(2)] in \<open>simp_all add: hh_def\<close>)
        then show ?thesis
          using h3 b free hh(2) by (auto simp: lease_step_def same_config_def hh_def)
      qed
    qed
  qed
qed

lemma answer_request_lease_step:
  assumes "sdhcp_inv h" and "answer_request E h buf pOptions len t s = Some (h', s')"
  shows "\<exists>cid. client_identifier buf pOptions len = Some cid \<and> lease_step h buf cid h'"
proof -
  obtain cid k where cid: "client_identifier buf pOptions len = Some cid"
      and k: "sdhcp_find_index h (sdhcp_check_address_in_use buf cid) = Some k"
    using assms(2) unfolding answer_request_def Let_def by (elim bind_SomeE)
  have new: "k = -1 \<Longrightarrow> \<forall>c. rd buf (fst cid) (unat (snd cid)) = Some c \<longrightarrow> snd cid \<noteq> 0 \<longrightarrow> c \<notin> ClientID ` set (leases h)"
    using find_client_SomeD [OF assms(1) k] by force
  show ?thesis
  proof (cases "t = DHCP_TYPE_DISCOVER")
    case True
    obtain x y where "handle_discover E h buf cid (k \<noteq> -1) (if k \<noteq> -1 then sdhcp_swap_ip (addrV4 (tAddressInfo h ! nat k))
        else NET_INADDR_BROADCAST) (reply_init h (read_msg buf)) s = Some ((h', x), y)"
      using assms(2) cid k True
      by (auto simp: answer_request_def Let_def elim!: bind_pair_SomeE split: if_splits)
    then have "lease_step h buf cid h'"
      by (cases x) (auto intro!: handle_discover_lease_step [OF assms(1)] dest: new)
    then show ?thesis using cid by blast
  next
    case False
    then have "h' = h"
      using assms(2) cid k
      by (auto simp: answer_request_def Let_def bind_Some_iff split: if_splits dhcp_msg_types.splits)
    then show ?thesis using cid lease_step_refl [OF assms(1)] by blast
  qed
qed

lemma process_request_lease_step:
  assumes "sdhcp_inv h" and "sdhcp_process_request E h buf n s = Some (h', s')"
  shows "h' = h \<or> (\<exists>cid. lease_step h buf cid h')"
proof -
  obtain ok where ok: "valid_request buf n = Some ok"
    using assms(2) by (auto simp: sdhcp_process_request_def bind_Some_iff)
  show ?thesis
    using assms(2) ok answer_request_lease_step [OF assms(1)]
    by (auto simp: sdhcp_process_request_def Let_def bind_Some_iff split: if_splits option.splits) blast+
qed

text \<open>
  Every request that is handled to its end keeps the lease table well formed: at most two leases, of
  different addresses in the range of the server, held by different clients. A lease is never changed
  or taken back, and a request adds one at most.
\<close>

theorem process_request_keeps_leases:
  assumes "sdhcp_inv h" and "sdhcp_process_request E h buf n s = Some (h', s')"
  shows "sdhcp_inv h' \<and> same_config h h' \<and> (\<exists>new. leases h' = leases h @ new \<and> length new \<le> 1)"
  using process_request_lease_step [OF assms] assms(1)
  by (auto simp: lease_step_def same_config_def)

lemma low_high_task:
  "low_addr (task_handle ip nmask) = (sdhcp_swap_ip ip AND 0xffffff00) + 15"
  "high_addr (task_handle ip nmask) = (sdhcp_swap_ip ip AND 0xffffff00) + 17"
proof -
  have "sdhcp_swap_ip (set_last_octet ip 15) = (sdhcp_swap_ip ip AND 0xffffff00) OR 15"
    unfolding sdhcp_swap_ip_is_HTONL NET_HTONL_def set_last_octet_def
    by (rule u32_eqI) (simp add: bit_simps)
  moreover have "sdhcp_swap_ip (set_last_octet ip 17) = (sdhcp_swap_ip ip AND 0xffffff00) OR 17"
    unfolding sdhcp_swap_ip_is_HTONL NET_HTONL_def set_last_octet_def
    by (rule u32_eqI) (simp add: bit_simps)
  ultimately show "low_addr (task_handle ip nmask) = (sdhcp_swap_ip ip AND 0xffffff00) + 15"
    "high_addr (task_handle ip nmask) = (sdhcp_swap_ip ip AND 0xffffff00) + 17"
    by (simp_all add: low_addr_def high_addr_def task_handle_def sockaddr_of_def disjunctive_add_eq_or
        ac_simps bit.conj_disj_distrib)
qed

lemma sdhcp_inv_task_handle: "sdhcp_inv (task_handle ip nmask)"
proof -
  have "unat (sdhcp_swap_ip ip AND 0xffffff00) \<le> 0xffffff00"
    using word_and_le1 [of "sdhcp_swap_ip ip" "0xffffff00"] by (simp add: word_le_nat_alt)
  then have "low_addr (task_handle ip nmask) \<le> high_addr (task_handle ip nmask)"
    "high_addr (task_handle ip nmask) < 0xffffffff"
    unfolding low_high_task by (simp_all add: word_le_nat_alt word_less_nat_alt unat_word_ariths)
  then show ?thesis
    by (simp add: sdhcp_inv_def) (simp add: leases_def task_handle_def)
qed

section \<open>The service over time\<close>

lemma service_init_handle:
  assumes "service_sdhcp_init E p h s = Some ((done, h'), s')"
  shows "\<exists>k. h' = h\<lparr>hSocket := k\<rparr>"
proof -
  obtain k s1 where "net_socket NET_AF_INET NET_SOCK_DGRAM NET_IPPROTO_IP s = Some (k, s1)"
    using assms unfolding service_sdhcp_init_def by (rule bind_pair_SomeE)
  then have "h' = h\<lparr>hSocket := k\<rparr>"
    using assms by (auto simp: service_sdhcp_init_def Let_def bind_Some_iff split: if_splits)
  then show ?thesis by blast
qed

lemma sdhcp_inv_hSocket [simp]: "sdhcp_inv (h\<lparr>hSocket := k\<rparr>) = sdhcp_inv h"
  by (simp add: sdhcp_inv_def leases_def low_addr_def high_addr_def)

lemma task_finish_sel:
  "task_finish E t = Some t' \<Longrightarrow> t_handle t' = t_handle t \<and> t_pc t' = Task_terminated \<and> t_RunTask t' = t_RunTask t"
  by (auto simp: task_finish_def bind_Some_iff)

lemma task_start_inv:
  assumes "task_start E n ip nmask st t = Some t'"
  shows "sdhcp_inv (t_handle t') \<and> t_RunTask t' = t_RunTask t"
proof -
  obtain ref s where m: "net_malloc E n (t_net t) = (Some ref, s)"
    using assms by (auto simp: task_start_def split: prod.splits option.splits)
  show ?thesis
  proof (cases "ip = 0 \<and> nmask = 0")
    case True
    then show ?thesis
      using assms m sdhcp_inv_task_handle [of ip nmask] by (auto simp: task_start_def Let_def bind_Some_iff)
  next
    case False
    then obtain p d h s1 where i: "st = Some p" "service_sdhcp_init E p (task_handle ip nmask) s = Some ((d, h), s1)"
      using assms m by (auto simp: task_start_def Let_def bind_Some_iff)
    then have "sdhcp_inv h" using service_init_handle [OF i(2)] sdhcp_inv_task_handle by auto
    moreover have "t_handle t' = h \<and> t_RunTask t' = t_RunTask t"
      using assms m i False task_finish_sel
      by (auto simp: task_start_def Let_def bind_Some_iff split: if_splits prod.splits option.splits dest!: task_finish_sel)
    ultimately show ?thesis by simp
  qed
qed

lemma task_serve_inv:
  assumes "task_serve E t = Some t'" and "sdhcp_inv (t_handle t)"
  shows "sdhcp_inv (t_handle t') \<and> t_pc t' = t_pc t"
proof -
  obtain r b a n s where r: "net_recvfrom E (hSocket (t_handle t)) (Some (t_udp_buffer t))
      (of_nat MAX_UDP_MESSAGE_SIZE) 0 (Some (t_addr t)) (t_addr_len t) (t_net t) = Some ((r, Some b, Some a, n), s)"
    using assms(1) by (auto simp: task_serve_def bind_Some_iff)
  show ?thesis
    using assms r process_request_lease_step [OF assms(2), of E b "u32_of r" s]
    by (auto simp: task_serve_def Let_def bind_Some_iff lease_step_def split: if_splits)
qed

definition task_inv :: "'w sdhcp_task \<Rightarrow> bool" where
  "task_inv t \<longleftrightarrow> (t_pc t = Task_serving \<longrightarrow> sdhcp_inv (t_handle t))"

lemma sdhcp_step_inv: "sdhcp_step E n ip nmask st t t' \<Longrightarrow> task_inv t \<Longrightarrow> task_inv t'"
proof (induction rule: sdhcp_step.induct)
  case (Start t t')
  then show ?case by (auto simp: task_inv_def dest: task_start_inv)
next
  case (Serve t t')
  then show ?case using task_serve_inv by (fastforce simp: task_inv_def)
next
  case (Leave t t')
  then show ?case by (auto simp: task_inv_def dest!: task_finish_sel)
qed (auto simp: task_inv_def create_thread_def service_sdhcp_delete_def)

lemma terminate_task_inv:
  assumes "t \<in> set (terminate_task q ts)" and "\<forall>t\<in>set ts. task_inv t"
  shows "task_inv t"
proof (cases q)
  case (Some j)
  then show ?thesis using assms by (auto simp: task_inv_def dest!: set_update_subset_insert [THEN subsetD])
qed (use assms in simp)

lemma service_step_inv:
  assumes "service_step E n ip nmask st v v'" and "\<forall>t\<in>set (sv_tasks v). task_inv t"
  shows "\<forall>t\<in>set (sv_tasks v'). task_inv t"
  using assms
proof (induction rule: service_step.induct)
  case (New_task v t)
  then show ?case by (auto simp: create_thread_def task_inv_def)
next
  case (Own_step i v t)
  have "task_inv (task_at i v)"
    using Own_step(1,4) by (simp add: task_at_def task_inv_def)
  then have "task_inv t" by (rule sdhcp_step_inv [OF Own_step(3)])
  then have "\<forall>u\<in>set ((sv_tasks v)[i := t]). task_inv u"
    using Own_step(4) by (auto dest!: set_update_subset_insert [THEN subsetD])
  then show ?case
    using terminate_task_inv by (auto simp: put_task_def Let_def)
qed simp_all

text \<open>
  C24. Whatever datagrams arrive, however often and in whatever order the service is created, run and stopped (also while
  an earlier task of it still lives), and whatever the network answers: in every state the service reaches, the lease
  table of every serving task is well formed, with at most two leases, of different addresses between \<open>x.y.z.15\<close> and
  \<open>x.y.z.17\<close>.
\<close>

theorem served_leases_well_formed:
  assumes "(service_step E n ip nmask st)\<^sup>*\<^sup>* v v'" and "sv_tasks v = []"
    and "t \<in> set (sv_tasks v')" and "t_pc t = Task_serving"
  shows "sdhcp_inv (t_handle t)"
proof -
  have "\<forall>t\<in>set (sv_tasks v'). task_inv t"
    using assms(1)
  proof (rule rtranclp_induct)
    show "\<forall>t\<in>set (sv_tasks v). task_inv t" using assms(2) by simp
  qed (rule service_step_inv)
  then show ?thesis using assms(3,4) by (simp add: task_inv_def)
qed

text \<open>A service that was not created yet, on the example network.\<close>

definition demo_task :: "nat sdhcp_task" where
  "demo_task = \<lparr>t_pc = Task_none, t_RunTask = 0, t_handle = task_handle 0 0, t_ref = 0, t_udp_ref = 0,
     t_udp_buffer = replicate 1000 0, t_addr = sockaddr_of 0, t_addr_len = 0, t_net = demo_net NET_STATE_CONNECTED\<rparr>"

lemma demo_task_starts:
  "case task_start demo_env 100 0x0104A8C0 0x00FFFFFF (Some 1) (create_thread True demo_task) of
     Some t \<Rightarrow> t_pc t = Task_serving | None \<Rightarrow> False"
  by code_simp

lemma demo_task_run:
  "\<exists>t. (sdhcp_step demo_env 100 0x0104A8C0 0x00FFFFFF (Some 1))\<^sup>*\<^sup>* demo_task t \<and> t_pc t = Task_serving"
proof -
  obtain t where t: "task_start demo_env 100 0x0104A8C0 0x00FFFFFF (Some 1) (create_thread True demo_task) = Some t"
      "t_pc t = Task_serving"
    using demo_task_starts by (auto split: option.splits)
  have "sdhcp_step demo_env 100 0x0104A8C0 0x00FFFFFF (Some 1) demo_task (create_thread True demo_task)"
    by (rule Create) (simp add: demo_task_def)
  moreover have "sdhcp_step demo_env 100 0x0104A8C0 0x00FFFFFF (Some 1) (create_thread True demo_task) t"
    by (rule Start [OF _ t(1)]) (simp add: create_thread_def)
  ultimately show ?thesis using t(2) by (meson converse_rtranclp_into_rtranclp r_into_rtranclp)
qed

text \<open>The service created, started, stopped and created again while the first task waits.\<close>

theorem served_leases_well_formed_witness:
  "\<exists>v. (service_step demo_env 100 0x0104A8C0 0x00FFFFFF (Some 1))\<^sup>*\<^sup>*
      \<lparr>sv_RunTask = 0, sv_SdhcpTask = None, sv_net = demo_net NET_STATE_CONNECTED, sv_tasks = []\<rparr> v
     \<and> length (sv_tasks v) = 2 \<and> sv_RunTask v = 0 \<and> sdhcp_inv (t_handle (sv_tasks v ! 0))"
proof -
  let ?step = "service_step demo_env 100 0x0104A8C0 0x00FFFFFF (Some 1)"
  let ?v0 = "\<lparr>sv_RunTask = 0, sv_SdhcpTask = None, sv_net = demo_net NET_STATE_CONNECTED, sv_tasks = []\<rparr>"
  let ?v1 = "?v0\<lparr>sv_tasks := sv_tasks ?v0 @ [create_thread True demo_task], sv_SdhcpTask := Some (length (sv_tasks ?v0))\<rparr>"
  obtain t where t: "task_start demo_env 100 0x0104A8C0 0x00FFFFFF (Some 1) (create_thread True demo_task) = Some t"
      "t_pc t = Task_serving"
    using demo_task_starts by (auto split: option.splits)
  let ?v2 = "put_task 0 t ?v1" and ?v3 = "(put_task 0 t ?v1)\<lparr>sv_RunTask := 0\<rparr>"
  let ?v4 = "?v3\<lparr>sv_tasks := sv_tasks ?v3 @ [create_thread True demo_task], sv_SdhcpTask := Some (length (sv_tasks ?v3))\<rparr>"
  have view: "task_at 0 ?v1 = create_thread True demo_task"
    by (simp add: task_at_def demo_task_def create_thread_def)
  have "?step ?v0 ?v1" by (rule New_task)
  moreover have "sdhcp_step demo_env 100 0x0104A8C0 0x00FFFFFF (Some 1) (task_at 0 ?v1) t"
    unfolding view by (rule Start [OF _ t(1)]) (simp add: create_thread_def)
  then have "?step ?v1 ?v2"
    by (intro Own_step) (simp_all add: create_thread_def)
  moreover have "?step ?v2 ?v3" by (rule Stop_flag)
  moreover have "?step ?v3 ?v4" by (rule New_task)
  ultimately have run: "?step\<^sup>*\<^sup>* ?v0 ?v4"
    by (meson converse_rtranclp_into_rtranclp r_into_rtranclp)
  have tasks: "sv_tasks ?v4 = [t, create_thread True demo_task]" using t(2) by (simp add: put_task_def)
  have "sdhcp_inv (t_handle t)"
  proof (rule served_leases_well_formed [OF run])
    show "t \<in> set (sv_tasks ?v4)" unfolding tasks by simp
  qed (use t(2) in simp_all)
  then show ?thesis using run tasks by (intro exI [of _ ?v4]) simp
qed

text \<open>
  \<open>service_sdhcp_create\<close> creates the task before it sets \<open>RunTask\<close>. If the task gets as far as its
  loop in between, it leaves at once and terminates, although the creator goes on to set \<open>RunTask\<close> and
  reports success.
\<close>

theorem task_before_run_flag_is_lost:
  assumes "t_pc t = Task_none" and "t_RunTask t = 0"
    and "task_start E n ip nmask st (create_thread True t) = Some t1" and "t_pc t1 = Task_serving"
    and "task_finish E (t1\<lparr>t_net := net_free E (t_udp_ref t1) (t_net t1)\<rparr>) = Some t2"
  shows "\<exists>t'. (sdhcp_step E n ip nmask st)\<^sup>*\<^sup>* t t' \<and> t_pc t' = Task_terminated \<and> t_RunTask t' = 1
    \<and> t_RunTask (snd (service_sdhcp_create True t)) = 1 \<and> fst (service_sdhcp_create True t) = NET_OK"
proof -
  have run: "t_RunTask t1 = 0"
    using task_start_inv [OF assms(3)] assms(2) by (simp add: create_thread_def)
  have "sdhcp_step E n ip nmask st t (create_thread True t)" by (rule Create [OF assms(1)])
  moreover have "sdhcp_step E n ip nmask st (create_thread True t) t1"
    by (rule Start [OF _ assms(3)]) (simp add: create_thread_def)
  moreover have "sdhcp_step E n ip nmask st t1 t2" by (rule Leave [OF assms(4) run assms(5)])
  moreover have "sdhcp_step E n ip nmask st t2 (t2\<lparr>t_RunTask := 1\<rparr>)" by (rule Run)
  ultimately have "(sdhcp_step E n ip nmask st)\<^sup>*\<^sup>* t (t2\<lparr>t_RunTask := 1\<rparr>)"
    by (meson converse_rtranclp_into_rtranclp r_into_rtranclp)
  then show ?thesis
    using task_finish_sel [OF assms(5)]
    by (intro exI [of _ "t2\<lparr>t_RunTask := 1\<rparr>"]) (simp add: service_sdhcp_create_def create_thread_def Let_def)
qed

lemma demo_task_finishes:
  "case task_start demo_env 100 0x0104A8C0 0x00FFFFFF (Some 1) (create_thread True demo_task) of
     Some t \<Rightarrow> task_finish demo_env (t\<lparr>t_net := net_free demo_env (t_udp_ref t) (t_net t)\<rparr>) \<noteq> None | None \<Rightarrow> False"
  by code_simp

theorem task_before_run_flag_is_lost_witness:
  "\<exists>t'. (sdhcp_step demo_env 100 0x0104A8C0 0x00FFFFFF (Some 1))\<^sup>*\<^sup>* demo_task t' \<and> t_pc t' = Task_terminated
     \<and> t_RunTask t' = 1"
proof -
  obtain t1 where t1: "task_start demo_env 100 0x0104A8C0 0x00FFFFFF (Some 1) (create_thread True demo_task) = Some t1"
      "t_pc t1 = Task_serving"
    using demo_task_starts by (auto split: option.splits)
  moreover obtain t2 where "task_finish demo_env (t1\<lparr>t_net := net_free demo_env (t_udp_ref t1) (t_net t1)\<rparr>) = Some t2"
    using demo_task_finishes t1 by auto
  ultimately show ?thesis
    using task_before_run_flag_is_lost [of demo_task demo_env 100 "0x0104A8C0" "0x00FFFFFF" "Some 1" t1 t2]
    by (auto simp: demo_task_def)
qed

section \<open>Answers\<close>

text \<open>
  The datagram is a request of type \<open>t\<close> the server answers, from the client \<open>c\<close>: it passes the first
  checks and does not name the server's own host.
\<close>

definition options_len :: "u32 \<Rightarrow> int" where
  "options_len n = int32_of (n - 236 - 4)"

definition dhcp_request :: "bytes \<Rightarrow> u32 \<Rightarrow> sdhcp_handle \<Rightarrow> dhcp_msg_types \<Rightarrow> bytes \<Rightarrow> bool" where
  "dhcp_request buf n h t c \<longleftrightarrow> valid_request buf n = Some True
     \<and> sdhcp_get_message_type buf 240 (options_len n) = Some (Some t)
     \<and> (\<exists>name hn. pHostName h = Some name \<and> client_host_name buf 240 (options_len n) = Some hn
          \<and> \<not> strncmp_eq hn (bytes_of name) (length name))
     \<and> (\<exists>cid. client_identifier buf 240 (options_len n) = Some cid \<and> rd buf (fst cid) (unat (snd cid)) = Some c)"

lemma process_dhcp_request:
  "dhcp_request buf n h t c \<Longrightarrow> sdhcp_process_request E h buf n s = answer_request E h buf 240 (options_len n) t s"
  by (auto simp: sdhcp_process_request_def dhcp_request_def options_len_def Let_def)

definition known :: "sdhcp_handle \<Rightarrow> bytes \<Rightarrow> dhcp_addr \<Rightarrow> bool" where
  "known h c a \<longleftrightarrow> a \<in> set (leases h) \<and> ClientID a = c"

text \<open>The index found for the client \<open>c\<close>, in the three cases.\<close>

lemma find_client:
  assumes "sdhcp_inv h" and "rd buf (fst cid) (unat (snd cid)) = Some c"
  obtains k where "sdhcp_find_index h (sdhcp_check_address_in_use buf cid) = Some k"
    and "c \<notin> ClientID ` set (leases h) \<or> c = [] \<Longrightarrow> k = -1"
    and "\<And>a. known h c a \<Longrightarrow> k \<noteq> -1 \<and> tAddressInfo h ! nat k = a"
proof -
  obtain k where k: "sdhcp_find_index h (sdhcp_check_address_in_use buf cid) = Some k"
    using find_client_total [OF assms] by blast
  have len: "length c = unat (snd cid)" using assms(2) by (rule rd_length)
  show thesis
  proof (cases "snd cid = 0")
    case True
    then have "k = -1"
      using find_index_SomeD [OF assms(1) k] by (auto simp: sdhcp_check_address_in_use_def split: if_splits)
    moreover have "\<not> known h c a" for a
      using True len assms(1) by (auto simp: known_def sdhcp_inv_def unat_eq_zero)
    ultimately show thesis using that [OF k] by blast
  next
    case False
    then have cases: "(k = -1 \<and> c \<notin> ClientID ` set (leases h))
        \<or> (\<exists>j. k = int j \<and> j < length (leases h) \<and> ClientID (leases h ! j) = c)"
      using find_client_SomeD [OF assms(1) k assms(2)] by simp
    have ne: "c \<noteq> []" using False len by (auto simp: unat_eq_zero)
    have "k \<noteq> -1 \<and> tAddressInfo h ! nat k = a" if a: "known h c a" for a
    proof -
      obtain j where j: "k = int j" "j < length (leases h)" "ClientID (leases h ! j) = c"
        using cases a by (auto simp: known_def)
      have "leases h ! j = a"
        using a j assms(1) by (auto simp: known_def sdhcp_inv_def in_set_conv_nth distinct_conv_nth)
      then show ?thesis using j lease_nth [of j h] sdhcp_inv_count [OF assms(1)] by simp
    qed
    then show thesis using that [OF k] cases ne by fastforce
  qed
qed

definition offer_reply :: "sdhcp_handle \<Rightarrow> u32 \<Rightarrow> net_dhcp_msg \<Rightarrow> dhcp_reply" where
  "offer_reply h a req = (case reply_init h req of (m, p) \<Rightarrow>
     (m\<lparr>p_yiaddr := sdhcp_swap_ip a\<rparr>, set_type DHCP_TYPE_OFFER p))"

definition ack_reply :: "sdhcp_handle \<Rightarrow> u32 \<Rightarrow> net_dhcp_msg \<Rightarrow> dhcp_reply" where
  "ack_reply h a req = (case reply_init h req of (m, p) \<Rightarrow>
     (m\<lparr>p_ciaddr := sdhcp_swap_ip a, p_yiaddr := sdhcp_swap_ip a\<rparr>, set_type DHCP_TYPE_ACK p))"

definition nak_reply :: "sdhcp_handle \<Rightarrow> net_dhcp_msg \<Rightarrow> dhcp_reply" where
  "nak_reply h req = (case reply_init h req of (m, p) \<Rightarrow>
     (m, (set_type DHCP_TYPE_NAK p)\<lparr>tLeaseTime := replicate 6 0, tSubnetMask := replicate 6 0\<rparr>))"

lemma free_address_exists:
  assumes "sdhcp_inv h" and "high_addr h = low_addr h + 2"
  shows "\<exists>y. low_addr h \<le> y \<and> y \<le> high_addr h \<and> y \<notin> addrV4 ` set (leases h)"
proof (rule ccontr)
  assume "\<not> ?thesis"
  moreover have up: "low_addr h \<le> low_addr h + 1" "low_addr h + 1 \<le> low_addr h + 2" "low_addr h \<le> low_addr h + 2"
  proof -
    have le: "unat (low_addr h) \<le> (unat (low_addr h) + 2) mod 4294967296"
      using assms by (simp add: sdhcp_inv_def word_le_nat_alt unat_word_ariths)
    have "unat (low_addr h) + 2 < 4294967296"
    proof (rule ccontr)
      assume wrap: "\<not> unat (low_addr h) + 2 < 4294967296"
      then have "(unat (low_addr h) + 2) mod 4294967296 = unat (low_addr h) + 2 - 4294967296"
        by (simp add: le_mod_geq less_imp_diff_less)
      then show False using wrap le unat_u32 [of "low_addr h"] by linarith
    qed
    then show "low_addr h \<le> low_addr h + 1" "low_addr h + 1 \<le> low_addr h + 2" "low_addr h \<le> low_addr h + 2"
      by (simp_all add: word_le_nat_alt unat_word_ariths)
  qed
  ultimately have "{low_addr h, low_addr h + 1, low_addr h + 2} \<subseteq> addrV4 ` set (leases h)"
    using assms(2) by auto
  moreover have "card {low_addr h, low_addr h + 1, low_addr h + 2} = 3" by simp
  ultimately have "3 \<le> card (addrV4 ` set (leases h))" by (metis card_mono finite_imageI finite_set)
  also have "\<dots> \<le> length (leases h)" by (meson card_image_le card_length finite_set le_trans)
  also have "\<dots> \<le> 2" using sdhcp_inv_count [OF assms(1)] assms(1) by (simp add: sdhcp_inv_def)
  finally show False by simp
qed

lemma choose_new:
  assumes "sdhcp_inv h" and "high_addr h = low_addr h + 2"
  obtains a where "choose_address (h\<lparr>lastOfferAddr := high_addr h\<rparr>) False x = Some (True, a)" and "least_free h a"
  using choose_address_new [OF assms(1), of x] free_address_exists [OF assms] by (auto split: if_splits)

lemma least_free_unique: "least_free h a \<Longrightarrow> least_free h b \<Longrightarrow> a = b"
  unfolding least_free_def by (metis linorder_neqE)

text \<open>Sending a reply and going on with the handle \<open>h'\<close>.\<close>

definition reply_and_keep ::
  "'w env \<Rightarrow> sdhcp_handle \<Rightarrow> net_dhcp_msg \<Rightarrow> dhcp_reply \<Rightarrow> 'w net \<Rightarrow> (sdhcp_handle, 'w) res" where
  "reply_and_keep E h' req reply s = do { (_, s) \<leftarrow> send_reply E h' req reply s; Some (h', s) }"

lemma dhcp_request_client:
  assumes "dhcp_request buf n h t c"
  obtains off k where "client_identifier buf 240 (options_len n) = Some (off, k)" and "rd buf off (unat k) = Some c"
    and "k = of_nat (length c)" and "unat k = length c"
proof -
  obtain off k where c: "client_identifier buf 240 (options_len n) = Some (off, k)" "rd buf off (unat k) = Some c"
    using assms by (auto simp: dhcp_request_def)
  moreover have "unat k = length c" using rd_length [OF c(2)] by simp
  moreover then have "k = of_nat (length c)" by (metis of_nat_unat ucast_id)
  ultimately show thesis using that by blast
qed

lemma discover_known:
  assumes "sdhcp_inv h" and "dhcp_request buf n h DHCP_TYPE_DISCOVER c" and "known h c a"
    and "net_malloc E (length c) s = (Some p, s1)"
  shows "sdhcp_process_request E h buf n s =
    reply_and_keep E (h\<lparr>lastOfferAddr := addrV4 a\<rparr>) (read_msg buf) (offer_reply h (addrV4 a) (read_msg buf)) (net_free E p s1)"
proof -
  obtain off k where c: "client_identifier buf 240 (options_len n) = Some (off, k)" "rd buf off (unat k) = Some c"
      "k = of_nat (length c)" "unat k = length c"
    using dhcp_request_client [OF assms(2)] by blast
  obtain i where i: "sdhcp_find_index h (sdhcp_check_address_in_use buf (off, k)) = Some i"
      "i \<noteq> -1" "tAddressInfo h ! nat i = a"
    using find_client [OF assms(1), of buf "(off, k)" c] c(2) assms(3) by (metis fst_conv snd_conv)
  have "length c \<noteq> 0"
    using assms(1,3) by (auto simp: known_def sdhcp_inv_def unat_eq_zero)
  then have ne: "k \<noteq> 0" using c(4) by auto
  show ?thesis
    unfolding process_dhcp_request [OF assms(2)] answer_request_def handle_discover_def
    using i c(1,2) ne assms(4)
    by (simp add: c(4) choose_address_def Let_def SDHCP_ASSERT_def offer_reply_def reply_and_keep_def split: prod.split)
qed

lemma discover_new:
  assumes "sdhcp_inv h" and "high_addr h = low_addr h + 2" and "dhcp_request buf n h DHCP_TYPE_DISCOVER c"
    and "c \<notin> ClientID ` set (leases h)"
  shows "\<exists>a. least_free h a \<and> sdhcp_process_request E h buf n s =
    (if c = [] then None
     else case net_malloc E (length c) s of
       (None, s) \<Rightarrow> Some (h\<lparr>lastOfferAddr := a\<rparr>, s)
     | (Some p, s) \<Rightarrow> do {
         (added, h') \<leftarrow> sdhcp_addInfo (h\<lparr>lastOfferAddr := a\<rparr>)
            \<lparr>addrV4 = a, pClientID = p, ClientID = c, szClientID = of_nat (length c)\<rparr>;
         if added then reply_and_keep E h' (read_msg buf) (offer_reply h a (read_msg buf)) s
         else Some (h', net_free E p s) })"
proof -
  obtain off k where c: "client_identifier buf 240 (options_len n) = Some (off, k)" "rd buf off (unat k) = Some c"
      "k = of_nat (length c)" "unat k = length c"
    using dhcp_request_client [OF assms(3)] by blast
  have i: "sdhcp_find_index h (sdhcp_check_address_in_use buf (off, k)) = Some (-1)"
    using find_client [OF assms(1), of buf "(off, k)" c] c(2) assms(4) by (metis fst_conv snd_conv)
  obtain a where a: "choose_address (h\<lparr>lastOfferAddr := high_addr h\<rparr>) False NET_INADDR_BROADCAST = Some (True, a)"
      "least_free h a"
    using choose_new [OF assms(1,2)] by blast
  have ne: "k = 0 \<longleftrightarrow> c = []" using c(3,4) by auto
  show ?thesis
    unfolding process_dhcp_request [OF assms(3)] answer_request_def handle_discover_def high_addr_def [symmetric]
    using i c(1,2) a ne
    by (intro exI [of _ a])
      (auto simp: c(4) c(3) [symmetric] Let_def SDHCP_ASSERT_def offer_reply_def reply_and_keep_def split: prod.split option.split
        intro!: Option.bind_cong)
qed

lemma discover_new_allocated:
  assumes "sdhcp_inv h" and "high_addr h = low_addr h + 2" and "dhcp_request buf n h DHCP_TYPE_DISCOVER c"
    and "c \<notin> ClientID ` set (leases h)" and "net_malloc E (length c) s = (Some p, s1)"
  obtains a where "least_free h a" and "sdhcp_process_request E h buf n s = (if c = [] then None else do {
         (added, h') \<leftarrow> sdhcp_addInfo (h\<lparr>lastOfferAddr := a\<rparr>)
            \<lparr>addrV4 = a, pClientID = p, ClientID = c, szClientID = of_nat (length c)\<rparr>;
         if added then reply_and_keep E h' (read_msg buf) (offer_reply h a (read_msg buf)) s1
         else Some (h', net_free E p s1) })"
proof -
  obtain a where a: "least_free h a" and eq: "sdhcp_process_request E h buf n s =
    (if c = [] then None
     else case net_malloc E (length c) s of
       (None, s) \<Rightarrow> Some (h\<lparr>lastOfferAddr := a\<rparr>, s)
     | (Some p, s) \<Rightarrow> do {
         (added, h') \<leftarrow> sdhcp_addInfo (h\<lparr>lastOfferAddr := a\<rparr>)
            \<lparr>addrV4 = a, pClientID = p, ClientID = c, szClientID = of_nat (length c)\<rparr>;
         if added then reply_and_keep E h' (read_msg buf) (offer_reply h a (read_msg buf)) s
         else Some (h', net_free E p s) })"
    using discover_new [OF assms(1-4), of E s] by blast
  show thesis by (rule that [OF a]) (simp add: eq assms(5))
qed

text \<open>
  C26. A DISCOVER that finds memory is answered with an offer: the address leased to the client if it has
  a lease, and otherwise the least free address of the range, which is then leased to it. The state the
  reply is sent from is the one the allocator left (with the block released again for a known client).
\<close>

theorem discover_is_offered:
  assumes "sdhcp_inv h" and "high_addr h = low_addr h + 2" and "dhcp_request buf n h DHCP_TYPE_DISCOVER c"
    and "c \<noteq> []" and "length (leases h) < 2" and "net_malloc E (length c) s = (Some p, s1)"
  shows "\<exists>a h' s2. sdhcp_process_request E h buf n s =
      reply_and_keep E h' (read_msg buf) (offer_reply h a (read_msg buf)) s2
    \<and> (if c \<in> ClientID ` set (leases h)
       then leases h' = leases h \<and> (\<exists>l. known h c l \<and> addrV4 l = a) \<and> s2 = net_free E p s1
       else least_free h a \<and> s2 = s1
         \<and> leases h' = leases h @ [\<lparr>addrV4 = a, pClientID = p, ClientID = c, szClientID = of_nat (length c)\<rparr>])"
proof (cases "c \<in> ClientID ` set (leases h)")
  case True
  then obtain l where l: "known h c l" by (auto simp: known_def)
  show ?thesis
    using discover_known [OF assms(1,3) l assms(6)] True l
    by (intro exI [of _ "addrV4 l"] exI [of _ "h\<lparr>lastOfferAddr := addrV4 l\<rparr>"] exI [of _ "net_free E p s1"]) auto
next
  case False
  obtain a where a: "least_free h a" "sdhcp_process_request E h buf n s = (do {
         (added, h') \<leftarrow> sdhcp_addInfo (h\<lparr>lastOfferAddr := a\<rparr>)
            \<lparr>addrV4 = a, pClientID = p, ClientID = c, szClientID = of_nat (length c)\<rparr>;
         if added then reply_and_keep E h' (read_msg buf) (offer_reply h a (read_msg buf)) s1
         else Some (h', net_free E p s1) })"
    by (rule discover_new_allocated [OF assms(1-3) False assms(6)], rule that, assumption) (simp add: assms(4))
  obtain h' where "sdhcp_addInfo (h\<lparr>lastOfferAddr := a\<rparr>)
      \<lparr>addrV4 = a, pClientID = p, ClientID = c, szClientID = of_nat (length c)\<rparr> = Some (True, h')"
      "leases h' = leases h @ [\<lparr>addrV4 = a, pClientID = p, ClientID = c, szClientID = of_nat (length c)\<rparr>]"
    using addInfo_room [of "h\<lparr>lastOfferAddr := a\<rparr>" "\<lparr>addrV4 = a, pClientID = p, ClientID = c, szClientID = of_nat (length c)\<rparr>"]
      assms(1,5) sdhcp_inv_count [OF assms(1)] by auto
  then show ?thesis using a False by auto
qed

text \<open>
  C25. The server announces three addresses but has room for two leases: the DISCOVER of a third client
  passes the check of \<open>sdhcp_addInfo\<close> and is written behind the table.
\<close>

theorem third_client_overruns_table:
  assumes "sdhcp_inv h" and "high_addr h = low_addr h + 2" and "dhcp_request buf n h DHCP_TYPE_DISCOVER c"
    and "c \<notin> ClientID ` set (leases h)" and "length (leases h) = 2" and "net_malloc E (length c) s = (Some p, s1)"
  shows "sdhcp_process_request E h buf n s = None \<and> (\<exists>a. least_free h a)"
proof -
  have full: "sdhcp_addInfo (h\<lparr>lastOfferAddr := a\<rparr>) info = None" for a info
    using addInfo_full [of "h\<lparr>lastOfferAddr := a\<rparr>" info] assms(1,5) sdhcp_inv_count [OF assms(1)] by simp
  show ?thesis
    by (rule discover_new_allocated [OF assms(1-4,6)]) (auto simp: full)
qed

text \<open>
  C29. Two datagrams stop the server for good (a failing assertion is an endless loop): a DISCOVER of a new
  client with an empty client identifier, and one whose relay address is \<open>0x7f000001\<close>.
\<close>

theorem hostile_discover_stops_server:
  assumes "sdhcp_inv h" and "high_addr h = low_addr h + 2" and "dhcp_request buf n h DHCP_TYPE_DISCOVER c"
    and "c \<notin> ClientID ` set (leases h)" and "net_malloc E (length c) s = (Some p, s1)"
    and "c = [] \<or> p_giaddr (read_msg buf) = NET_INADDR_LOOPBACK"
  shows "sdhcp_process_request E h buf n s = None"
proof -
  have sent: "p_giaddr (read_msg buf) = NET_INADDR_LOOPBACK \<Longrightarrow> reply_and_keep E h' (read_msg buf) r s' = None" for h' r s'
    by (simp add: reply_and_keep_def send_reply_def reply_address_def Let_def SDHCP_ASSERT_def split: prod.split)
  have added: "sdhcp_addInfo h' i = Some (b, h'') \<Longrightarrow> sdhcp_inv h' \<Longrightarrow> b" for h' i b h''
    by (auto simp: sdhcp_addInfo_def sdhcp_inv_def word_le_nat_alt split: if_splits)
  obtain a where a: "sdhcp_process_request E h buf n s = (if c = [] then None else do {
         (added, h') \<leftarrow> sdhcp_addInfo (h\<lparr>lastOfferAddr := a\<rparr>)
            \<lparr>addrV4 = a, pClientID = p, ClientID = c, szClientID = of_nat (length c)\<rparr>;
         if added then reply_and_keep E h' (read_msg buf) (offer_reply h a (read_msg buf)) s1
         else Some (h', net_free E p s1) })"
    by (rule discover_new_allocated [OF assms(1-5)])
  show ?thesis
  proof (cases "c = []")
    case False
    then have "p_giaddr (read_msg buf) = NET_INADDR_LOOPBACK" using assms(6) by simp
    note none = sent [OF this, of _ "offer_reply h a (read_msg buf)"]
    show ?thesis
    proof (cases "sdhcp_addInfo (h\<lparr>lastOfferAddr := a\<rparr>) \<lparr>addrV4 = a, pClientID = p, ClientID = c, szClientID = of_nat (length c)\<rparr>")
      case (Some x)
      then have "fst x" using added [of "h\<lparr>lastOfferAddr := a\<rparr>" _ "fst x" "snd x"] assms(1) by simp
      then show ?thesis by (cases x) (simp add: a Some none)
    qed (simp add: a)
  qed (simp add: a)
qed

definition confirms :: "sdhcp_handle \<Rightarrow> u32 option \<Rightarrow> u32 option \<Rightarrow> u32 \<Rightarrow> dhcp_addr \<Rightarrow> bool" where
  "confirms h sid requested ci a \<longleftrightarrow> sid = Some (sin_addr (nethost h))
     \<or> sdhcp_swap_ip (addrV4 a) = (case requested of Some r \<Rightarrow> r | None \<Rightarrow> NET_INADDR_BROADCAST)
     \<or> sdhcp_swap_ip (addrV4 a) = ci"

definition decided :: "sdhcp_handle \<Rightarrow> u32 option \<Rightarrow> u32 option \<Rightarrow> u32 \<Rightarrow> bool" where
  "decided h sid requested ci \<longleftrightarrow> sid = Some (sin_addr (nethost h))
     \<or> requested \<noteq> None \<and> requested \<noteq> Some NET_INADDR_BROADCAST \<or> ci \<noteq> 0"

lemma swap_not_broadcast: "a < 0xffffffff \<Longrightarrow> sdhcp_swap_ip a \<noteq> NET_INADDR_BROADCAST"
proof
  assume "a < 0xffffffff" and "sdhcp_swap_ip a = NET_INADDR_BROADCAST"
  then have "a = sdhcp_swap_ip NET_INADDR_BROADCAST" by (metis sdhcp_swap_ip_involution)
  also have "\<dots> = 0xffffffff" by code_simp
  finally show False using \<open>a < 0xffffffff\<close> by simp
qed

lemma handle_request_cases:
  assumes "option_address REQUESTEDIPADDRESS buf pOptions len = Some requested"
    and "option_address SERVERIDENTIFIER buf pOptions len = Some sid"
    and "sid = Some (sin_addr (nethost h)) \<longrightarrow> p_ciaddr req = 0"
  shows "handle_request h buf pOptions len req seen off reply =
    (if \<not> decided h sid requested (p_ciaddr req) then Some (reply, False)
     else if seen \<and> (sid = Some (sin_addr (nethost h)) \<or> off = (case requested of Some r \<Rightarrow> r | None \<Rightarrow> NET_INADDR_BROADCAST)
                     \<or> off = p_ciaddr req)
     then if off = NET_INADDR_BROADCAST then None
          else Some (((fst reply)\<lparr>p_ciaddr := off, p_yiaddr := off\<rparr>, set_type DHCP_TYPE_ACK (snd reply)), True)
     else Some ((fst reply, (set_type DHCP_TYPE_NAK (snd reply))\<lparr>tLeaseTime := replicate 6 0, tSubnetMask := replicate 6 0\<rparr>), True))"
  using assms
  by (cases reply) (auto simp: handle_request_def request_verdict_def decided_def SDHCP_ASSERT_def Let_def split: option.splits)

text \<open>
  C27. A REQUEST is acknowledged exactly when the client has a lease and the request confirms it: it answers
  an offer of this server, or it names the leased address as requested or as its own. Otherwise it is
  denied if it names this server or any address, and ignored if it names none. The table stays as it is.
\<close>

theorem request_is_answered:
  assumes "sdhcp_inv h" and "dhcp_request buf n h DNCP_TYPE_REQUEST c"
    and "option_address REQUESTEDIPADDRESS buf 240 (options_len n) = Some requested"
    and "option_address SERVERIDENTIFIER buf 240 (options_len n) = Some sid"
    and "sid = Some (sin_addr (nethost h)) \<longrightarrow> p_ciaddr (read_msg buf) = 0"
  shows "(\<forall>a. known h c a \<longrightarrow> decided h sid requested (p_ciaddr (read_msg buf))
            \<longrightarrow> confirms h sid requested (p_ciaddr (read_msg buf)) a
            \<longrightarrow> sdhcp_process_request E h buf n s = reply_and_keep E h (read_msg buf) (ack_reply h (addrV4 a) (read_msg buf)) s)
    \<and> ((\<forall>a. known h c a \<longrightarrow> \<not> confirms h sid requested (p_ciaddr (read_msg buf)) a)
        \<longrightarrow> decided h sid requested (p_ciaddr (read_msg buf))
        \<longrightarrow> sdhcp_process_request E h buf n s = reply_and_keep E h (read_msg buf) (nak_reply h (read_msg buf)) s)
    \<and> (\<not> decided h sid requested (p_ciaddr (read_msg buf)) \<longrightarrow> sdhcp_process_request E h buf n s = Some (h, s))"
proof -
  let ?ci = "p_ciaddr (read_msg buf)"
  obtain off k where c: "client_identifier buf 240 (options_len n) = Some (off, k)" "rd buf off (unat k) = Some c"
    using dhcp_request_client [OF assms(2)] by blast
  obtain i where i: "sdhcp_find_index h (sdhcp_check_address_in_use buf (off, k)) = Some i"
      and unknown: "c \<notin> ClientID ` set (leases h) \<or> c = [] \<Longrightarrow> i = -1"
      and lease: "\<And>a. known h c a \<Longrightarrow> i \<noteq> -1 \<and> tAddressInfo h ! nat i = a"
    using find_client [OF assms(1), of buf "(off, k)" c] c(2) by (metis fst_conv snd_conv)
  define known_addr where "known_addr = (if i \<noteq> -1 then sdhcp_swap_ip (addrV4 (tAddressInfo h ! nat i)) else NET_INADDR_BROADCAST)"
  have run: "sdhcp_process_request E h buf n s = (do {
      (reply, send) \<leftarrow> handle_request h buf 240 (options_len n) (read_msg buf) (i \<noteq> -1) known_addr (reply_init h (read_msg buf));
      if send then reply_and_keep E h (read_msg buf) reply s else Some (h, s) })"
    unfolding process_dhcp_request [OF assms(2)] answer_request_def using c(1) i
    by (auto simp: Let_def known_addr_def reply_and_keep_def bind_eq_None_conv intro!: Option.bind_cong split: prod.split)
  note answer = handle_request_cases [OF assms(3-5), of "i \<noteq> -1" known_addr "reply_init h (read_msg buf)"]
  have known_facts: "i \<noteq> -1 \<and> known_addr = sdhcp_swap_ip (addrV4 a) \<and> known_addr \<noteq> NET_INADDR_BROADCAST"
    if a: "known h c a" for a
  proof -
    have "addrV4 a < 0xffffffff"
      using a assms(1) by (auto simp: known_def sdhcp_inv_def intro: order.strict_trans1)
    then show ?thesis using lease [OF a] swap_not_broadcast by (auto simp: known_addr_def)
  qed
  have known_ex: "\<exists>a. known h c a" if "i \<noteq> -1"
    using unknown that by (auto simp: known_def)
  have 1: "sdhcp_process_request E h buf n s = reply_and_keep E h (read_msg buf) (ack_reply h (addrV4 a) (read_msg buf)) s"
    if "known h c a" "decided h sid requested ?ci" "confirms h sid requested ?ci a" for a
    unfolding run answer using known_facts [OF that(1)] that(2,3)
    by (auto simp: confirms_def ack_reply_def split: prod.split)
  have 2: "sdhcp_process_request E h buf n s = reply_and_keep E h (read_msg buf) (nak_reply h (read_msg buf)) s"
    if "\<forall>a. known h c a \<longrightarrow> \<not> confirms h sid requested ?ci a" "decided h sid requested ?ci"
  proof -
    have "\<not> (i \<noteq> -1 \<and> (sid = Some (sin_addr (nethost h)) \<or> known_addr = (case requested of Some r \<Rightarrow> r | None \<Rightarrow> NET_INADDR_BROADCAST)
        \<or> known_addr = ?ci))"
      using that(1) known_ex known_facts by (metis confirms_def)
    then show ?thesis unfolding run answer using that(2) by (auto simp: nak_reply_def split: prod.split)
  qed
  have 3: "sdhcp_process_request E h buf n s = Some (h, s)" if "\<not> decided h sid requested ?ci"
    unfolding run answer using that by simp
  show ?thesis using 1 2 3 by blast
qed

section \<open>Concrete requests\<close>

definition demo_handle :: sdhcp_handle where
  "demo_handle = task_handle 0x0104A8C0 0x00FFFFFF"

definition demo_lease :: "u32 \<Rightarrow> u8 \<Rightarrow> dhcp_addr" where
  "demo_lease a x = \<lparr>addrV4 = a, pClientID = 5, ClientID = [x], szClientID = 1\<rparr>"

text \<open>The table with both places taken, by other clients than the one of \<open>demo_msg\<close>.\<close>

definition full_handle :: sdhcp_handle where
  "full_handle = demo_handle\<lparr>tAddressInfo := [demo_lease 0xC0A8040F 1, demo_lease 0xC0A80410 2], szAddressInfo := 2\<rparr>"

text \<open>A datagram: the fixed part, the cookie, the message type, further options and the end.\<close>

definition demo_packet :: "net_dhcp_msg \<Rightarrow> u8 \<Rightarrow> bytes \<Rightarrow> bytes" where
  "demo_packet m t rest = msg_bytes m @ tCookie @ [DHCPMESSAGETYPE, 1, t] @ rest @ [END]"

lemma demo_range:
  "sdhcp_inv demo_handle" "high_addr demo_handle = low_addr demo_handle + 2" "leases demo_handle = []"
  using sdhcp_inv_task_handle by (simp_all add: demo_handle_def low_high_task) (simp add: leases_def task_handle_def)

lemma full_range:
  "high_addr full_handle = low_addr full_handle + 2"
  "leases full_handle = [demo_lease 0xC0A8040F 1, demo_lease 0xC0A80410 2]"
  "low_addr full_handle = 0xC0A8040F" "high_addr full_handle = 0xC0A80411"
  by (code_simp, code_simp, code_simp, code_simp)

lemma full_inv: "sdhcp_inv full_handle"
  unfolding sdhcp_inv_def full_range
  by (simp add: full_handle_def demo_lease_def)

lemma dhcp_requestI:
  assumes "valid_request buf n = Some True" and "sdhcp_get_message_type buf 240 (options_len n) = Some (Some t)"
    and "client_host_name buf 240 (options_len n) = Some (replicate 256 0)"
    and "client_identifier buf 240 (options_len n) = Some (off, k)" and "rd buf off (unat k) = Some c"
    and "pHostName h = Some ''ST-HotSpot''"
  shows "dhcp_request buf n h t c"
proof -
  have "\<not> strncmp_eq (replicate 256 0) (bytes_of ''ST-HotSpot'') (length ''ST-HotSpot'')" by code_simp
  then show ?thesis using assms unfolding dhcp_request_def by (auto simp del: strncmp_eq.simps)
qed

lemma demo_names: "pHostName demo_handle = Some ''ST-HotSpot''" "pHostName full_handle = Some ''ST-HotSpot''"
  by (simp_all add: demo_handle_def full_handle_def task_handle_def)

lemma demo_discover:
  assumes "pHostName h = Some ''ST-HotSpot''"
  shows "dhcp_request (demo_packet demo_msg 1 []) 244 h DHCP_TYPE_DISCOVER (replicate 16 7)"
    and "dhcp_request (demo_packet demo_msg 1 [CLIENTIDENTIFIER, 0]) 246 h DHCP_TYPE_DISCOVER []"
  by (rule dhcp_requestI [where off = 28 and k = 16]; (rule assms | code_simp))
    (rule dhcp_requestI [where off = 245 and k = 0]; (rule assms | code_simp))

lemma demo_request:
  assumes "pHostName h = Some ''ST-HotSpot''"
  shows "dhcp_request (demo_packet demo_msg 3 [REQUESTEDIPADDRESS, 4, 192, 168, 4, 15]) 250 h DNCP_TYPE_REQUEST (replicate 16 7)"
  by (rule dhcp_requestI [where off = 28 and k = 16]; (rule assms | code_simp))

lemma demo_malloc: "net_malloc demo_env m (demo_net st) = (Some 100, (demo_net st)\<lparr>dev := 101\<rparr>)"
  by (simp add: net_malloc_def demo_env_def demo_net_def)

theorem process_request_keeps_leases_witness:
  "\<exists>h'. sdhcp_process_request demo_env demo_handle [] 0 (demo_net NET_STATE_CONNECTED) = Some (h', demo_net NET_STATE_CONNECTED)
     \<and> sdhcp_inv h'"
proof -
  have "sdhcp_process_request demo_env demo_handle [] 0 (demo_net NET_STATE_CONNECTED)
      = Some (demo_handle, demo_net NET_STATE_CONNECTED)"
    by (simp add: sdhcp_process_request_def valid_request_def)
  then show ?thesis using process_request_keeps_leases [OF demo_range(1)] by blast
qed

theorem discover_is_offered_witness:
  "\<exists>a h' s2. sdhcp_process_request demo_env demo_handle (demo_packet demo_msg 1 []) 244 (demo_net NET_STATE_CONNECTED) =
      reply_and_keep demo_env h' (read_msg (demo_packet demo_msg 1 [])) (offer_reply demo_handle a (read_msg (demo_packet demo_msg 1 []))) s2
    \<and> least_free demo_handle a \<and> length (leases h') = 1"
  using discover_is_offered [OF demo_range(1,2) demo_discover(1) [OF demo_names(1)] _ _ demo_malloc [where st = NET_STATE_CONNECTED]]
  by (fastforce simp: demo_range(3))

theorem third_client_overruns_table_witness:
  "sdhcp_process_request demo_env full_handle (demo_packet demo_msg 1 []) 244 (demo_net NET_STATE_CONNECTED) = None"
  using third_client_overruns_table [OF full_inv full_range(1) demo_discover(1) [OF demo_names(2)] _ _ demo_malloc [where st = NET_STATE_CONNECTED]]
  by (simp add: full_range(2) demo_lease_def numeral_eq_Suc)

theorem hostile_discover_stops_server_witness:
  "sdhcp_process_request demo_env demo_handle (demo_packet demo_msg 1 [CLIENTIDENTIFIER, 0]) 246 (demo_net NET_STATE_CONNECTED) = None"
  using hostile_discover_stops_server [OF demo_range(1,2) demo_discover(2) [OF demo_names(1)] _ demo_malloc [where st = NET_STATE_CONNECTED]]
  by (simp add: demo_range(3))

theorem request_is_answered_witness:
  "sdhcp_process_request demo_env demo_handle (demo_packet demo_msg 3 [REQUESTEDIPADDRESS, 4, 192, 168, 4, 15]) 250 (demo_net NET_STATE_CONNECTED)
    = reply_and_keep demo_env demo_handle (read_msg (demo_packet demo_msg 3 [REQUESTEDIPADDRESS, 4, 192, 168, 4, 15]))
        (nak_reply demo_handle (read_msg (demo_packet demo_msg 3 [REQUESTEDIPADDRESS, 4, 192, 168, 4, 15]))) (demo_net NET_STATE_CONNECTED)"
proof -
  have r: "option_address REQUESTEDIPADDRESS (demo_packet demo_msg 3 [REQUESTEDIPADDRESS, 4, 192, 168, 4, 15]) 240 (options_len 250)
      = Some (Some 0x0F04A8C0)" by code_simp
  have i: "option_address SERVERIDENTIFIER (demo_packet demo_msg 3 [REQUESTEDIPADDRESS, 4, 192, 168, 4, 15]) 240 (options_len 250)
      = Some None" by code_simp
  show ?thesis
    using request_is_answered [OF demo_range(1) demo_request [OF demo_names(1)] r i] demo_range(3)
    by (auto simp: known_def decided_def)
qed

section \<open>The size of a reply\<close>

lemma length_option_bytes:
  "length (option_bytes (snd (reply_init h req))) = 32"
  "length (option_bytes (set_type t p)) = length (option_bytes p)"
  by (simp_all add: option_bytes_def reply_init_def tCookie_def set_type_def)

text \<open>
  Every reply the server builds has exactly the 268 bytes of \<open>tMsgBuffer\<close> that it hands to \<open>net_sendto\<close>,
  for any request as long as the fixed part.
\<close>

theorem replies_fill_buffer:
  assumes "236 \<le> length buf" and "r \<in> {offer_reply h a (read_msg buf), ack_reply h a (read_msg buf), nak_reply h (read_msg buf)}"
  shows "length (msg_bytes (fst r) @ option_bytes (snd r)) = 268"
  using assms
  by (auto simp: offer_reply_def ack_reply_def nak_reply_def reply_init_def set_type_def read_msg_def msg_bytes_def
      option_bytes_def tCookie_def Let_def)

theorem replies_fill_buffer_witness:
  "length (msg_bytes (fst (nak_reply demo_handle (read_msg (replicate 236 0))))
     @ option_bytes (snd (nak_reply demo_handle (read_msg (replicate 236 0))))) = 268"
  by (rule replies_fill_buffer) auto

end
