(* ===== verification/Driver_Frame.thy ===== *)
theory Driver_Frame
  imports Net_Core Net_Address Wifi_Class Socket_Props
begin

text \<open>
  What the drivers under \<open>netif/\<close> share: the events they send, the conversions of addresses, the frame of a
  function that works on the module only, and the contract of a whole driver (\<open>net_driver\<close>) with the
  histories of the library over it.
\<close>

section \<open>Helpers of the drivers\<close>

text \<open>\<open>(void) net_state_manage_event(pnetif, e)\<close>.\<close>

definition driver_sends :: "'w env \<Rightarrow> netref \<Rightarrow> net_state_event \<Rightarrow> 'w net \<Rightarrow> 'w net option" where
  "driver_sends E p e s = do { (_, s) \<leftarrow> net_state_manage_event E (Some p) e s; Some s }"

text \<open>The macros \<open>NET_NTOAR\<close> and \<open>NET_ARTON\<close>.\<close>

definition NET_NTOAR :: "u32 \<Rightarrow> u8 list" where
  "NET_NTOAR N = [ucast (drop_bit 0 (N AND 0x000000ff)), ucast (drop_bit 8 (N AND 0x0000ff00)),
     ucast (drop_bit 16 (N AND 0x00ff0000)), ucast (drop_bit 24 (N AND 0xff000000))]"

definition NET_ARTON :: "u8 list \<Rightarrow> u32" where
  "NET_ARTON A = push_bit 24 (ucast (A ! 3)) OR push_bit 16 (ucast (A ! 2)) OR push_bit 8 (ucast (A ! 1))
     OR push_bit 0 (ucast (A ! 0))"

text \<open>The product strings of a module are bounded arrays: \<open>strncpy\<close> keeps a prefix.\<close>

abbreviation (input) NET_DEVICE_NAME_LEN :: nat where "NET_DEVICE_NAME_LEN \<equiv> 64"
abbreviation (input) NET_DEVICE_ID_LEN :: nat where "NET_DEVICE_ID_LEN \<equiv> 64"
abbreviation (input) NET_DEVICE_VER_LEN :: nat where "NET_DEVICE_VER_LEN \<equiv> 64"

definition upd_drv :: "drvref \<Rightarrow> (drv_data \<Rightarrow> drv_data) \<Rightarrow> 'w net \<Rightarrow> 'w net" where
  "upd_drv d f s = s\<lparr>Drivers := (Drivers s)(d := f (Drivers s d))\<rparr>"

definition zero_wifi_ext :: wifi_ext where
  "zero_wifi_ext = \<lparr>x_credentials = None, x_mode = NET_WIFI_MODE_STA, x_access_channel = 0,
     x_max_connections = 0, x_AP_hidden = False, x_powersave = None, x_information_element = None\<rparr>"

text \<open>The extension of the interface's driver; \<^term>\<open>None\<close> when a pointer on the way is null.\<close>

definition wifi_of :: "netref \<Rightarrow> 'w net \<Rightarrow> wifi_ext option" where
  "wifi_of p s = do { d \<leftarrow> h_pdrv (Netifs s p); d_wifi (Drivers s d) }"

section \<open>Functions that work on the module only\<close>

definition only_dev :: "'w net \<Rightarrow> 'w net \<Rightarrow> bool" where
  "only_dev s s' \<longleftrightarrow> s\<lparr>dev := dev s'\<rparr> = s'"

lemma only_dev_upd [simp]: "only_dev s (s\<lparr>dev := w\<rparr>)" "only_dev s s"
  by (simp_all add: only_dev_def)

lemma only_dev_trans: "only_dev s t \<Longrightarrow> only_dev t u \<Longrightarrow> only_dev s u"
  unfolding only_dev_def by (cases s; cases t; cases u) simp

lemma only_dev_transp [simp]: "transp (only_dev :: 'w net \<Rightarrow> _)"
  by (rule transpI) (rule only_dev_trans)

lemma only_dev_sel:
  assumes "only_dev s t"
  shows "Netifs t = Netifs s" "Drivers t = Drivers s" "Sockets t = Sockets s" "held t = held s"
  using assms unfolding only_dev_def by (cases s; cases t; simp add: held_def)+

lemma only_dev_sock_frame: "only_dev s s' \<Longrightarrow> sock_frame s s'"
  unfolding only_dev_def by (metis sock_frame_dev)

lemma only_dev_notify [simp]: "only_dev s t \<Longrightarrow> only_dev s (net_if_notify E p c e t)"
  using only_dev_trans [of s t] by (simp add: net_if_notify_def split: option.split)

lemma keeps_only_devD: "keeps only_dev t m \<Longrightarrow> m = Some x \<Longrightarrow> only_dev s t \<Longrightarrow> only_dev s (snd x)"
  using only_dev_trans by (cases x) (auto simp: keeps_def ends_def)

section \<open>The contract of the interface functions\<close>

text \<open>A step of the driver that leaves the list, the handlers, the sockets and the locks alone.\<close>

lemma driver_ok_local:
  assumes "only_netif p s t" and "h_state (Netifs t p) = h_state (Netifs s p)"
  shows "driver_ok p s t"
  using assms by (simp add: driver_ok_def)

lemma driver_ok_only_dev: "only_dev s t \<Longrightarrow> driver_ok p s t"
  unfolding only_dev_def by (cases s; cases t) (auto intro!: driver_ok_local simp: only_netif_def held_def)

lemma driver_ok_sends:
  "driver_sends B p e t = Some u \<Longrightarrow> driver_event e \<Longrightarrow> driver_ok p s t \<Longrightarrow> driver_ok p s u"
  unfolding driver_sends_def by (auto elim!: bind_pair_SomeE intro: driver_ok_trans driver_ok_event)

lemma driver_ok_upd_netif:
  assumes "driver_ok p s t" and "\<And>h. h_next (f h) = h_next h" and "\<And>h. h_state (f h) = h_state h"
    and "\<And>h. h_event_handler (f h) = h_event_handler h"
  shows "driver_ok p s (upd_netif p f t)"
  by (rule driver_ok_trans [OF assms(1)], rule driver_ok_local) (simp_all add: only_netif_def assms)

lemma driver_ok_upd_drv: "driver_ok p s t \<Longrightarrow> driver_ok p s (upd_drv d f t)"
  by (erule driver_ok_trans, rule driver_ok_local) (simp_all add: only_netif_def upd_drv_def held_def)

lemma driver_ok_mem: "driver_ok p s t \<Longrightarrow> driver_ok p s (net_free E x t)"
  "driver_ok p s t \<Longrightarrow> driver_ok p s (snd (net_malloc E n t))"
  by (erule driver_ok_trans, rule driver_ok_only_dev, simp add: net_free_def net_malloc_def Let_def split_def)+

lemma driver_sends_returns:
  assumes "driver_event e"
  shows "\<exists>u. driver_sends B p e t = Some u"
proof (cases "h_state (Netifs t p) = NET_STATE_DEINITIALIZED")
  case True
  then show ?thesis by (simp add: driver_sends_def manage_event_deinitialized)
next
  case False
  then show ?thesis using manage_event_from_driver [OF assms False] by (simp add: driver_sends_def)
qed

lemma sends_ignored:
  assumes "driver_sends B p e s = Some t" and "next_state (h_state (Netifs s p)) e = None"
    and "h_state (Netifs s p) \<noteq> NET_STATE_DEINITIALIZED"
  shows "t = s"
  using assms manage_event_ignored [of s p e B] by (auto simp: driver_sends_def)

lemma driver_ok_dev: "driver_ok p s t \<Longrightarrow> driver_ok p s (t\<lparr>dev := w\<rparr>)"
  by (erule driver_ok_trans, rule driver_ok_only_dev) simp

section \<open>The library over a driver\<close>

text \<open>
  A history of the library: commands and events of interfaces, and socket calls, in any order. The command
  \<open>net_if_deinit\<close> does more than its event: it marks and unlinks the interface and destroys the locks.
\<close>

datatype library_step = Step_event netref net_state_event | Step_call api_call

fun run_step :: "'w env \<Rightarrow> library_step \<Rightarrow> 'w net \<Rightarrow> (int, 'w) res" where
  "run_step E (Step_event p e) s =
     (if e = NET_EVENT_CMD_DEINIT then net_if_deinit E (Some p) s else net_state_manage_event E (Some p) e s)"
| "run_step E (Step_call c) s = run_api E c s"

fun run_history :: "'w env \<Rightarrow> library_step list \<Rightarrow> 'w net \<Rightarrow> (int list, 'w) res" where
  "run_history E [] s = Some ([], s)"
| "run_history E (x # xs) s = do {
     (r, s) \<leftarrow> run_step E x s;
     (rs, s) \<leftarrow> run_history E xs s;
     Some (r # rs, s) }"

text \<open>Steps that need no TLS and keep the locks alive.\<close>

fun plain_step :: "library_step \<Rightarrow> bool" where
  "plain_step (Step_event p e) = (e \<noteq> NET_EVENT_CMD_DEINIT)"
| "plain_step (Step_call c) = (\<not> makes_secure c)"

text \<open>
  A driver may also act by itself: its module or its protocol stack calls one of its functions when something
  happens. \<open>callback p\<close> relates the states before and after such a call for the interface \<open>p\<close>. A history
  interleaves these calls with steps of the application; \<open>allowed\<close> says which steps it takes.
\<close>

inductive lib_history ::
  "'w env \<Rightarrow> (netref \<Rightarrow> 'w net \<Rightarrow> 'w net \<Rightarrow> bool) \<Rightarrow> (library_step \<Rightarrow> bool) \<Rightarrow> 'w net \<Rightarrow> 'w net \<Rightarrow> bool"
  for E callback allowed s where
    history_start: "lib_history E callback allowed s s"
  | history_step: "lib_history E callback allowed s t \<Longrightarrow> allowed x \<Longrightarrow> run_step E x t = Some (r, u) \<Longrightarrow>
      lib_history E callback allowed s u"
  | history_callback: "lib_history E callback allowed s t \<Longrightarrow> callback p t u \<Longrightarrow> lib_history E callback allowed s u"

section \<open>What every driver leaves alone\<close>

definition lib_frame :: "'w net \<Rightarrow> 'w net \<Rightarrow> bool" where
  "lib_frame s t \<longleftrightarrow> Sockets t = Sockets s \<and> TlsHeap t = TlsHeap s \<and> held t = held s"

lemma lib_frame_refl [simp]: "lib_frame s s"
  by (simp add: lib_frame_def)

lemma lib_frame_trans [trans]: "lib_frame s t \<Longrightarrow> lib_frame t u \<Longrightarrow> lib_frame s u"
  by (simp add: lib_frame_def)

lemma lib_frame_table: "lib_frame s t \<Longrightarrow> table_plain s \<Longrightarrow> table_plain t"
  by (simp add: lib_frame_def table_plain_def sock_at_def)

lemma driver_ok_lib_frame: "driver_ok p s t \<Longrightarrow> lib_frame s t"
  by (simp add: driver_ok_def only_netif_def lib_frame_def)

lemma lib_frame_set_state: "lib_frame s t \<Longrightarrow> lib_frame s (set_state E p st t)"
  using lib_frame_trans only_netif_set_state [of p t E st] by (fastforce simp: only_netif_def lib_frame_def)

text \<open>
  A relation that holds for a change of state and for the functions of the driver holds for every event; \<open>if_deinit\<close> is
  called for its own command only.
\<close>

lemma manage_event_relation:
  assumes "net_state_manage_event E (Some p) e s = Some (r, t)"
    and refl: "\<And>s. R s s" and trans: "\<And>s t u. R s t \<Longrightarrow> R t u \<Longrightarrow> R s u" and state: "\<And>b s. R s (set_state E p b s)"
    and calls: "\<And>f s r t. f \<in> {if_stop, if_connect, if_disconnect} \<or> f = if_start \<and> e = NET_EVENT_CMD_START
        \<or> f = if_deinit \<and> e = NET_EVENT_CMD_DEINIT \<Longrightarrow>
      call_if f E p s = Some (r, t) \<Longrightarrow> R s t"
  shows "R s t"
proof -
  have after: "R s u" if "R s t" "u = set_state E p b t" for s t u b
    using trans [OF that(1) state] that(2) by simp
  have call: "R s u" if "call_if f E p t = Some (q, u)" "R s t"
    "f \<in> {if_stop, if_connect, if_disconnect} \<or> f = if_start \<and> e = NET_EVENT_CMD_START
        \<or> f = if_deinit \<and> e = NET_EVENT_CMD_DEINIT" for f s t q u
    using trans [OF that(2) calls [OF that(3,1)]] .
  show ?thesis
    using assms(1)
    by (cases "h_state (Netifs s p)"; cases e)
      (auto simp: manage_event_Some handler_defs bind_Some_iff refl elim!: call intro: after [OF refl, OF HOL.refl] trans [OF _ state])
qed

text \<open>
  A driver, with the calls its module or protocol stack makes into the library at any time, that leaves the socket
  table, the TLS objects and the locks alone.
\<close>

locale framed_driver = socket_driver E for E :: "'w env" +
  fixes callback :: "netref \<Rightarrow> 'w net \<Rightarrow> 'w net \<Rightarrow> bool"
  assumes if_frame: "f \<in> {if_deinit, if_start, if_stop, if_connect, if_disconnect} \<Longrightarrow>
      call_if f E p s = Some (r, s') \<Longrightarrow> lib_frame s s'"
    and callback_frame: "callback p s s' \<Longrightarrow> lib_frame s s'"
begin

lemma manage_event_frame: "net_state_manage_event E (Some p) e s = Some (r, s') \<Longrightarrow> lib_frame s s'"
  by (erule manage_event_relation [where R = lib_frame])
    (auto intro: lib_frame_trans lib_frame_set_state elim!: if_frame [rotated])

lemma step_keeps_table:
  assumes "mbedtls_contract E" and "table_plain s" and "plain_step x" and "run_step E x s = Some (r, s')"
  shows "table_plain s'"
proof (cases x)
  case (Step_event p e)
  then have "lib_frame s s'" using assms(3,4) manage_event_frame by simp
  then show ?thesis using assms(2) lib_frame_table by blast
next
  case (Step_call c)
  then show ?thesis
    using table_plain_call [OF socket_driver_axioms assms(1,2), of c r s'] assms(3,4) by simp
qed

lemma history_keeps_table:
  assumes "mbedtls_contract E" and "lib_history E callback plain_step s t" and "table_plain s"
  shows "table_plain t"
  using assms(2,3)
proof (induction rule: lib_history.induct)
  case (history_callback t p u)
  then show ?case using callback_frame lib_frame_table by blast
qed (auto dest: step_keeps_table [OF assms(1)])

end

section \<open>Drivers that keep to their own interface\<close>

text \<open>A driver is both: the interface functions and the socket functions keep their contracts.\<close>

locale net_driver = netif_driver E + socket_driver E for E :: "'w env"
begin

lemma if_calls_frame:
  assumes "f \<in> {if_deinit, if_start, if_stop, if_connect, if_disconnect}" and "call_if f E p s = Some (r, s')"
  shows "lib_frame s s'"
  using assms(1) calls_ok [where p = p and s = s, THEN driver_ok_lib_frame]
    deinit_ok [where p = p and s = s, THEN driver_ok_lib_frame] assms(2) by auto

end

sublocale net_driver \<subseteq> silent: framed_driver E "\<lambda>_ _ _. False"
  by unfold_locales (rule if_calls_frame, assumption+, rule FalseE)

context net_driver
begin

lemma run_history_keeps_table:
  assumes "mbedtls_contract E" and "table_plain s" and "list_all plain_step xs"
    and "run_history E xs s = Some (rs, s')"
  shows "table_plain s'"
  using assms(2-4)
proof (induction xs arbitrary: s rs)
  case Nil
  then show ?case by simp
next
  case (Cons x xs)
  then show ?case by (auto simp: bind_Some_iff dest: silent.step_keeps_table [OF assms(1)])
qed

end

text \<open>The commands on an interface that stays in the list: \<open>net_if_start\<close>, \<open>_stop\<close>, \<open>_connect\<close>, \<open>_disconnect\<close>.\<close>

fun command_step :: "library_step \<Rightarrow> bool" where
  "command_step (Step_event p e) = (\<not> driver_event e \<and> e \<noteq> NET_EVENT_CMD_DEINIT)"
| "command_step (Step_call c) = False"

locale calling_driver = net_driver E for E :: "'w env" +
  fixes callback :: "netref \<Rightarrow> 'w net \<Rightarrow> 'w net \<Rightarrow> bool"
  assumes callback_ok: "callback p s s' \<Longrightarrow> driver_ok p s s'"

sublocale calling_driver \<subseteq> framed: framed_driver E callback
  by unfold_locales (rule if_calls_frame, assumption+, rule driver_ok_lib_frame, rule callback_ok)

context calling_driver
begin

lemmas history_keeps_table = framed.history_keeps_table

text \<open>
  An interface in a state that no command leaves, and that the driver's own calls do not leave, stays in it,
  as far as the commands and the callbacks go.
\<close>

lemma history_stuck:
  assumes "lib_history E callback command_step s t" and "h_state (Netifs s p) = st"
    and "\<And>e. \<not> driver_event e \<Longrightarrow> next_state st e = None" and "st \<noteq> NET_STATE_DEINITIALIZED"
    and "\<And>t u. callback p t u \<Longrightarrow> h_state (Netifs t p) = st \<Longrightarrow> h_state (Netifs u p) = st"
  shows "h_state (Netifs t p) = st"
  using assms(1,2)
proof (induction rule: lib_history.induct)
  case history_start
  then show ?case .
next
  case (history_step t x r u)
  then obtain q e where x: "x = Step_event q e" "\<not> driver_event e" "e \<noteq> NET_EVENT_CMD_DEINIT"
    by (cases x) auto
  show ?case
  proof (cases "q = p")
    case True
    then show ?thesis using history_step x assms(3,4) manage_event_ignored [of t p e E] by auto
  next
    case False
    then have "only_netif q t u" using history_step x manage_event_only_netif [of q e t r u] by simp
    then show ?thesis using history_step False by (simp add: only_netif_def)
  qed
next
  case (history_callback t q u)
  show ?case
  proof (cases "q = p")
    case True
    then show ?thesis using history_callback assms(5) by simp
  next
    case False
    then show ?thesis using history_callback callback_ok [of q t u] by (simp add: driver_ok_def only_netif_def)
  qed
qed

end

section \<open>Around a demonstration module\<close>

text \<open>
  What the closed instances about drivers share: an environment with an allocator that never fails and a TLS library
  that accepts everything, and one registered WiFi interface (number 1) over the module state \<open>w\<close>.
\<close>

definition demo_base :: "'w env" where
  "demo_base = \<lparr>env_drv = (\<lambda>_. null_drv), env_notify = (\<lambda>_ _ _ w. w), env_tick = (\<lambda>w. (0, w)), env_wait = (\<lambda>_ s. s),
     env_sizeof = (\<lambda>_. 64), env_malloc = (\<lambda>_ w. (Some 60, w)), env_free = (\<lambda>_ w. w), mb_void = (\<lambda>_ _ w. w),
     mb_int = (\<lambda>_ _ w. (0, w)), mb_handshake = (\<lambda>_ _ s. Some (0, s)),
     mb_ssl_read = (\<lambda>_ _ b n s. Some ((int (unat n), b), s)), mb_ssl_write = (\<lambda>_ _ _ n s. Some (int (unat n), s)),
     mb_close_notify = (\<lambda>_ _ s. Some (0, s))\<rparr>"

definition demo_over :: "'w \<Rightarrow> net_state \<Rightarrow> 'w net" where
  "demo_over w st = \<lparr>Netifs = (\<lambda>_. demo_netif st), NetIfList = Some 1, NetInitialized = True,
     Sockets = replicate 5 zero_socket,
     Drivers = (\<lambda>_. \<lparr>d_if_class = NET_INTERFACE_CLASS_WIFI, d_context = Some 7,
       d_wifi = Some (demo_wifi\<lparr>x_credentials := Some \<lparr>cr_ssid = ''home'', cr_psk = ''secret'', cr_security_mode = 0\<rparr>\<rparr>),
       d_wifi_ref = 50\<rparr>),
     TlsHeap = Map.empty, oslog = [Tls_init, Init_locks], dev = w\<rparr>"

lemma demo_over_plain: "table_plain (demo_over w st)"
  by (auto simp: table_plain_def demo_over_def sock_at_def zero_socket_def held_def held_after_def nth_Cons'
      less_Suc_eq numeral_eq_Suc)

lemma demo_base_mbedtls: "mbedtls_contract (demo_base\<lparr>env_drv := d\<rparr>)"
  by (auto simp: mbedtls_contract_def mbedtls_relation_def demo_base_def reflp_def)

end
