(* ===== verification/Es_Wifi.thy ===== *)
theory Es_Wifi
  imports Driver_Frame
begin

text \<open>
  \<open>netif/wifi_if/es_wifi/net_es_wifi.c\<close>: the driver of the Inventek ES-WiFi module, a provider of the
  driver table of \<open>struct net_if_drv_s\<close>. The component library of the module (\<open>es_wifi.h\<close>) is outside
  the repository: its functions are the record \<open>es_lib\<close>, over a module state of their own. The static
  table \<open>WifiChannel\<close> and the module state are what \<open>dev\<close> is for this driver.

  A status of the library is an integer, compared with \<open>ES_WIFI_STATUS_OK\<close> of the library. The field
  \<open>module_tls\<close> says whether the driver is built with \<open>NET_MBEDTLS_WIFI_MODULE_SUPPORT\<close>.
\<close>

section \<open>The component library of the module\<close>

datatype es_security = ES_WIFI_SEC_OPEN | ES_WIFI_SEC_WEP | ES_WIFI_SEC_WPA | ES_WIFI_SEC_WPA2
  | ES_WIFI_SEC_WPA_WPA2 | ES_WIFI_SEC_WPA2_TKIP | ES_WIFI_SEC_UNKNOWN

datatype es_conn_type = ES_WIFI_TCP_CONNECTION | ES_WIFI_UDP_CONNECTION | ES_WIFI_TCP_SSL_CONNECTION

datatype es_tls_check = ES_WIFI_TLS_CHECK_NOTHING | ES_WIFI_TLS_CHECK_ROOTCA | ES_WIFI_TLS_CHECK_DEVICE_CERTS

text \<open>A member of a local \<open>ES_WIFI_Conn_t\<close> that was not assigned is \<^term>\<open>None\<close>.\<close>

record es_conn =
  e_Number :: u8
  e_LocalPort :: "u16 option"
  e_RemotePort :: "u16 option"
  e_RemoteIP :: "u8 list option"
  e_Type :: "es_conn_type option"
  e_Backlog :: "u8 option"
  e_TLScheckMode :: "es_tls_check option"

record es_ap_config =
  ap_SSID :: string
  ap_Pass :: string
  ap_Security :: es_security
  ap_Channel :: u8
  ap_MaxConnections :: u8
  ap_Hidden :: u8

record es_ap =
  a_SSID :: bytes
  a_MAC :: bytes
  a_Security :: es_security
  a_RSSI :: "8 word"
  a_Channel :: u8

type_synonym es_ctx = "nat option"   \<comment> \<open>the \<open>ES_WIFIObject_t *\<close> kept in \<open>context\<close>\<close>

record 'm es_lib =
  ES_WIFI_STATUS_OK :: int
  ES_WIFI_STATUS_ERROR :: int
  ES_WIFI_PAYLOAD_SIZE :: int
  ES_WIFI_MAX_SO_TIMEOUT :: int
  module_tls :: bool
  sizeof_Product_Name :: nat
  sizeof_Product_ID :: nat
  sizeof_FW_Rev :: nat
  sizeof_AP_SSID :: nat
  wifi_probe :: "'m \<Rightarrow> (int \<times> es_ctx) \<times> 'm"
  ES_WIFI_Init :: "es_ctx \<Rightarrow> 'm \<Rightarrow> int \<times> 'm"
  ES_WIFI_DeInit :: "es_ctx \<Rightarrow> 'm \<Rightarrow> int \<times> 'm"
  Product_Name :: "es_ctx \<Rightarrow> 'm \<Rightarrow> string"
  Product_ID :: "es_ctx \<Rightarrow> 'm \<Rightarrow> string"
  FW_Rev :: "es_ctx \<Rightarrow> 'm \<Rightarrow> string"
  ES_WIFI_GetMACAddress :: "es_ctx \<Rightarrow> bytes \<Rightarrow> 'm \<Rightarrow> (int \<times> bytes) \<times> 'm"
  ES_WIFI_AtCommand :: "es_ctx \<Rightarrow> string \<Rightarrow> string \<Rightarrow> 'm \<Rightarrow> (int \<times> string) \<times> 'm"
  ES_WIFI_Connect :: "es_ctx \<Rightarrow> string \<Rightarrow> string \<Rightarrow> es_security \<Rightarrow> 'm \<Rightarrow> int \<times> 'm"
  ES_WIFI_GetNetworkSettings :: "es_ctx \<Rightarrow> 'm \<Rightarrow> int \<times> 'm"
  NetSettings_IsConnected :: "es_ctx \<Rightarrow> 'm \<Rightarrow> u8"
  NetSettings_IP_Addr :: "es_ctx \<Rightarrow> 'm \<Rightarrow> u8 list"
  ES_WIFI_ActivateAP :: "es_ctx \<Rightarrow> es_ap_config \<Rightarrow> 'm \<Rightarrow> int \<times> 'm"
  ES_WIFI_Disconnect :: "es_ctx \<Rightarrow> 'm \<Rightarrow> int \<times> 'm"
  ES_WIFI_IsConnected :: "es_ctx \<Rightarrow> 'm \<Rightarrow> u8 \<times> 'm"
  ES_WIFI_StartServerSingleConn :: "es_ctx \<Rightarrow> es_conn \<Rightarrow> 'm \<Rightarrow> int \<times> 'm"
  ES_WIFI_WaitServerConnection :: "es_ctx \<Rightarrow> u32 \<Rightarrow> es_conn \<Rightarrow> 'm \<Rightarrow> (int \<times> u16 \<times> u8 list) \<times> 'm"
  ES_WIFI_CloseServerConnection :: "es_ctx \<Rightarrow> int \<Rightarrow> 'm \<Rightarrow> int \<times> 'm"
  ES_WIFI_StopServerSingleConn :: "es_ctx \<Rightarrow> int \<Rightarrow> 'm \<Rightarrow> int \<times> 'm"
  ES_WIFI_StoreCreds :: "es_ctx \<Rightarrow> string option \<Rightarrow> nat \<Rightarrow> string option \<Rightarrow> nat \<Rightarrow> string option \<Rightarrow> nat \<Rightarrow> 'm \<Rightarrow> int \<times> 'm"
  ES_WIFI_StartClientConnection :: "es_ctx \<Rightarrow> es_conn \<Rightarrow> 'm \<Rightarrow> int \<times> 'm"
  ES_WIFI_StopClientConnection :: "es_ctx \<Rightarrow> es_conn \<Rightarrow> 'm \<Rightarrow> int \<times> 'm"
  ES_WIFI_SendData :: "es_ctx \<Rightarrow> u8 \<Rightarrow> bytes \<Rightarrow> u16 \<Rightarrow> u32 \<Rightarrow> 'm \<Rightarrow> (int \<times> u16) \<times> 'm"
  ES_WIFI_ReceiveData :: "es_ctx \<Rightarrow> u8 \<Rightarrow> bytes \<Rightarrow> u16 \<Rightarrow> u32 \<Rightarrow> 'm \<Rightarrow> (int \<times> bytes \<times> u16) \<times> 'm"
  ES_WIFI_SendDataTo :: "es_ctx \<Rightarrow> u8 \<Rightarrow> bytes \<Rightarrow> u16 \<Rightarrow> u32 \<Rightarrow> u32 \<Rightarrow> u16 \<Rightarrow> 'm \<Rightarrow> (int \<times> u16) \<times> 'm"
  ES_WIFI_ReceiveDataFrom :: "es_ctx \<Rightarrow> u8 \<Rightarrow> bytes \<Rightarrow> u16 \<Rightarrow> u32 \<Rightarrow> 'm \<Rightarrow> (int \<times> bytes \<times> u16 \<times> u32 \<times> u16) \<times> 'm"
  ES_WIFI_SockInfo :: "es_ctx \<Rightarrow> u8 \<Rightarrow> 'm \<Rightarrow> (int \<times> u32 \<times> u16) \<times> 'm"
  ES_WIFI_PeerInfo :: "es_ctx \<Rightarrow> u8 \<Rightarrow> 'm \<Rightarrow> (int \<times> u32 \<times> u16) \<times> 'm"
  ES_WIFI_DNS_LookUp :: "es_ctx \<Rightarrow> string \<Rightarrow> 'm \<Rightarrow> (int \<times> u8 list) \<times> 'm"
  ES_WIFI_Ping :: "es_ctx \<Rightarrow> u32 \<Rightarrow> u16 \<Rightarrow> u16 \<Rightarrow> int list \<Rightarrow> 'm \<Rightarrow> (int \<times> int list) \<times> 'm"
  ES_WIFI_ListAccessPoints :: "es_ctx \<Rightarrow> 'm \<Rightarrow> (int \<times> u8 \<times> es_ap list) \<times> 'm"

section \<open>Channels\<close>

abbreviation (input) ESWIFI_MAX_CHANNEL_NBR :: nat where "ESWIFI_MAX_CHANNEL_NBR \<equiv> 4"
abbreviation (input) WIFI_FREE_SOCKET :: u8 where "WIFI_FREE_SOCKET \<equiv> 0"
abbreviation (input) WIFI_ALLOCATED_SOCKET :: u8 where "WIFI_ALLOCATED_SOCKET \<equiv> 1"
abbreviation (input) WIFI_BIND_SOCKET :: u8 where "WIFI_BIND_SOCKET \<equiv> 2"
abbreviation (input) WIFI_SEND_OK :: u8 where "WIFI_SEND_OK \<equiv> 4"
abbreviation (input) WIFI_RECV_OK :: u8 where "WIFI_RECV_OK \<equiv> 8"
abbreviation (input) WIFI_CONNECTED_SOCKET :: u8 where "WIFI_CONNECTED_SOCKET \<equiv> 16"
abbreviation (input) WIFI_STARTED_CLIENT_SOCKET :: u8 where "WIFI_STARTED_CLIENT_SOCKET \<equiv> 32"
abbreviation (input) WIFI_STARTED_SERVER_SOCKET :: u8 where "WIFI_STARTED_SERVER_SOCKET \<equiv> 64"
abbreviation (input) WIFI_CONNECTED_SOCKET_RW :: u8
  where "WIFI_CONNECTED_SOCKET_RW \<equiv> WIFI_CONNECTED_SOCKET OR WIFI_SEND_OK OR WIFI_RECV_OK"

record eswifi_tls_data =
  es_ca_certs :: "string option"
  es_ca_crl :: "string option"
  es_dev_cert :: "string option"
  es_dev_key :: "string option"
  es_dev_pwd :: "string option"
  es_srv_verification :: bool
  es_srv_name :: "string option"

record WIFI_Channel =
  c_Number :: u8
  c_status :: u8
  c_protocol :: u8
  c_type :: u8
  c_localport :: u16
  c_localaddress :: u32
  c_maxpconnections :: u32
  c_blocking :: int
  c_sendtimeout :: int
  c_recvtimeout :: int
  c_pnetif :: "netref option"
  c_tlsData :: eswifi_tls_data

record 'm es_world =
  WifiChannel :: "WIFI_Channel list"
  module :: 'm

type_synonym 'm es_net = "'m es_world net"

definition chan :: "nat \<Rightarrow> 'm es_net \<Rightarrow> WIFI_Channel" where
  "chan i s = WifiChannel (dev s) ! i"

definition upd_chan :: "nat \<Rightarrow> (WIFI_Channel \<Rightarrow> WIFI_Channel) \<Rightarrow> 'm es_net \<Rightarrow> 'm es_net" where
  "upd_chan i f s = s\<lparr>dev := (dev s)\<lparr>WifiChannel := (WifiChannel (dev s))[i := f (WifiChannel (dev s) ! i)]\<rparr>\<rparr>"

abbreviation (input) or_status :: "nat \<Rightarrow> u8 \<Rightarrow> 'm es_net \<Rightarrow> 'm es_net" where
  "or_status i b s \<equiv> upd_chan i (\<lambda>c. c\<lparr>c_status := c_status c OR b\<rparr>) s"

definition es_call :: "('m \<Rightarrow> 'a \<times> 'm) \<Rightarrow> 'm es_net \<Rightarrow> 'a \<times> 'm es_net" where
  "es_call f s = (let (r, m) = f (module (dev s)) in (r, s\<lparr>dev := (dev s)\<lparr>module := m\<rparr>\<rparr>))"

text \<open>\<open>pnetif->pdrv->context\<close>, and the same through \<open>WifiChannel[sock].pnetif\<close>.\<close>

definition es_context :: "netref \<Rightarrow> 'm es_net \<Rightarrow> es_ctx option" where
  "es_context p s = map_option (\<lambda>d. d_context (Drivers s d)) (h_pdrv (Netifs s p))"

definition chan_context :: "nat \<Rightarrow> 'm es_net \<Rightarrow> es_ctx option" where
  "chan_context i s = do { p \<leftarrow> c_pnetif (chan i s); es_context p s }"

definition es_channel :: "int \<Rightarrow> bool" where
  "es_channel sock \<longleftrightarrow> 0 \<le> sock \<and> sock < int ESWIFI_MAX_CHANNEL_NBR"

definition new_conn :: "int \<Rightarrow> es_conn" where
  "new_conn sock = \<lparr>e_Number = word_of_int sock, e_LocalPort = None, e_RemotePort = None,
     e_RemoteIP = None, e_Type = None, e_Backlog = None, e_TLScheckMode = None\<rparr>"

definition sent_ok :: "'m es_lib \<Rightarrow> int \<Rightarrow> int \<Rightarrow> int" where
  "sent_ok L status n = (if ES_WIFI_STATUS_OK L = status then n else NET_ERROR_SOCKET_FAILURE)"

section \<open>Security modes\<close>

definition MATCH :: "u32 \<Rightarrow> u32 \<Rightarrow> bool" where
  "MATCH A B \<longleftrightarrow> A AND B = B"

definition GetESWifiSecurityType :: "int \<Rightarrow> es_security" where
  "GetESWifiSecurityType security_in =
     (let security = u32_of security_in;
          ret = ES_WIFI_SEC_UNKNOWN;
          ret = (if security = NET_WIFI_SM_OPEN then ES_WIFI_SEC_OPEN else ret);
          ret = (if MATCH security NET_WEP_ENABLED then ES_WIFI_SEC_WEP else ret);
          ret = (if MATCH security NET_WIFI_SM_WPA_MIXED_PSK then ES_WIFI_SEC_WPA else ret);
          ret = (if MATCH security NET_WIFI_SM_WPA_TKIP_PSK then ES_WIFI_SEC_WPA else ret);
          ret = (if MATCH security NET_WIFI_SM_WPA_AES_PSK then ES_WIFI_SEC_WPA else ret);
          ret = (if MATCH security NET_WIFI_SM_WPA2_WPA_PSK then ES_WIFI_SEC_WPA_WPA2 else ret);
          ret = (if MATCH security NET_WIFI_SM_WPA2_TKIP_PSK then ES_WIFI_SEC_WPA_WPA2 else ret);
          ret = (if MATCH security NET_WIFI_SM_WPA2_AES_PSK then ES_WIFI_SEC_WPA_WPA2 else ret);
          ret = (if MATCH security NET_WIFI_SM_WPA2_MIXED_PSK then ES_WIFI_SEC_WPA_WPA2 else ret)
      in ret)"

fun conv_to_net_security :: "es_security \<Rightarrow> u32" where
  "conv_to_net_security ES_WIFI_SEC_OPEN = NET_WIFI_SM_OPEN"
| "conv_to_net_security ES_WIFI_SEC_WEP = NET_WIFI_SM_WEP_PSK"
| "conv_to_net_security ES_WIFI_SEC_WPA = NET_WIFI_SM_WPA_MIXED_PSK"
| "conv_to_net_security ES_WIFI_SEC_WPA2 = NET_WIFI_SM_WPA2_MIXED_PSK"
| "conv_to_net_security ES_WIFI_SEC_WPA_WPA2 = NET_WIFI_SM_WPA2_MIXED_PSK"
| "conv_to_net_security ES_WIFI_SEC_WPA2_TKIP = NET_WIFI_SM_WPA2_TKIP_PSK"
| "conv_to_net_security ES_WIFI_SEC_UNKNOWN = NET_WIFI_SM_UNKNOWN"

section \<open>Interface functions\<close>

definition no_tls_data :: eswifi_tls_data where
  "no_tls_data = \<lparr>es_ca_certs = None, es_ca_crl = None, es_dev_cert = None, es_dev_key = None,
     es_dev_pwd = None, es_srv_verification = False, es_srv_name = None\<rparr>"

definition init_channel :: "'m es_lib \<Rightarrow> netref \<Rightarrow> nat \<Rightarrow> WIFI_Channel \<Rightarrow> WIFI_Channel" where
  "init_channel L p i c = c\<lparr>c_status := WIFI_FREE_SOCKET, c_Number := of_nat i,
     c_recvtimeout := min NET_SOCK_DEFAULT_RECEIVE_TO (ES_WIFI_MAX_SO_TIMEOUT L),
     c_sendtimeout := min NET_SOCK_DEFAULT_SEND_TO (ES_WIFI_MAX_SO_TIMEOUT L),
     c_blocking := 1, c_pnetif := Some p\<rparr>"

fun init_channels :: "'m es_lib \<Rightarrow> netref \<Rightarrow> nat list \<Rightarrow> 'm es_net \<Rightarrow> 'm es_net" where
  "init_channels L p [] s = s"
| "init_channels L p (i # is) s = init_channels L p is (upd_chan i (init_channel L p i) s)"

definition es_wifi_if_probe :: "'m es_lib \<Rightarrow> netref \<Rightarrow> 'm es_net \<Rightarrow> (int, 'm es_world) res" where
  "es_wifi_if_probe L p s = do {
     d \<leftarrow> h_pdrv (Netifs s p);
     let ((ret, ctx), s) = es_call (wifi_probe L) s;
     let s = upd_drv d (\<lambda>x. x\<lparr>d_context := ctx\<rparr>) s;
     (if ret = NET_OK then
        (case es_call (ES_WIFI_Init L ctx) s of (status, s) \<Rightarrow>
           if ES_WIFI_STATUS_OK L \<noteq> status then Some (NET_ERROR_INTERFACE_FAILURE, s)
           else
             (let m = module (dev s);
                  s = upd_netif p (\<lambda>h. h\<lparr>h_DeviceName := take (min NET_DEVICE_NAME_LEN (sizeof_Product_Name L)) (Product_Name L ctx m)\<rparr>) s;
                  s = upd_netif p (\<lambda>h. h\<lparr>h_DeviceID := take (min NET_DEVICE_ID_LEN (sizeof_Product_ID L)) (Product_ID L ctx m)\<rparr>) s;
                  s = upd_netif p (\<lambda>h. h\<lparr>h_DeviceVer := take (min NET_DEVICE_VER_LEN (sizeof_FW_Rev L)) (FW_Rev L ctx m)\<rparr>) s;
                  ((_, mac), s) = es_call (ES_WIFI_GetMACAddress L ctx (h_macaddr (Netifs s p))) s;
                  s = upd_netif p (\<lambda>h. h\<lparr>h_macaddr := mac\<rparr>) s;
                  s = init_channels L p [0..<ESWIFI_MAX_CHANNEL_NBR] s
              in Some (NET_OK, s)))
      else Some (NET_ERROR_DEVICE_ERROR, s)) }"

text \<open>
  The driver table is allocated and its function pointers assigned; those it does not assign, like
  its other members, keep what the allocator left. The functions themselves are \<open>es_wifi_drv\<close> below.
\<close>

definition es_wifi_if_init :: "'m es_lib \<Rightarrow> 'm es_world env \<Rightarrow> netref \<Rightarrow> 'm es_net \<Rightarrow> (int, 'm es_world) res" where
  "es_wifi_if_init L E p s =
     (case net_malloc E (env_sizeof E Sizeof_net_if_drv) s of
        (None, s) \<Rightarrow> Some (NET_ERROR_NO_MEMORY, s)
      | (Some d, s) \<Rightarrow>
          (let s = upd_drv d (\<lambda>x. x\<lparr>d_if_class := NET_INTERFACE_CLASS_WIFI\<rparr>) s in
           case net_malloc E (env_sizeof E Sizeof_wifi_extension) s of
             (None, s) \<Rightarrow> Some (NET_ERROR_NO_MEMORY, net_free E d s)
           | (Some x, s) \<Rightarrow> do {
               let s = upd_netif p (\<lambda>h. h\<lparr>h_pdrv := Some d\<rparr>) s;
               let s = upd_drv d (\<lambda>y. y\<lparr>d_wifi := Some zero_wifi_ext, d_wifi_ref := x\<rparr>) s;
               (ret, s) \<leftarrow> es_wifi_if_probe L p s;
               (if NET_OK = ret
                then do { s \<leftarrow> driver_sends E p NET_EVENT_INTERFACE_INITIALIZED s; Some (ret, s) }
                else Some (ret, s)) }))"

definition es_wifi_driver :: "'m es_lib \<Rightarrow> 'm es_world env \<Rightarrow> netref \<Rightarrow> 'm es_net \<Rightarrow> (int, 'm es_world) res" where
  "es_wifi_driver L E pnetif s = es_wifi_if_init L E pnetif s"

definition es_wifi_if_deinit :: "'m es_lib \<Rightarrow> 'm es_world env \<Rightarrow> netref \<Rightarrow> 'm es_net \<Rightarrow> (int, 'm es_world) res" where
  "es_wifi_if_deinit L E p s = do {
     d \<leftarrow> h_pdrv (Netifs s p);
     let (_, s) = es_call (ES_WIFI_DeInit L (d_context (Drivers s d))) s;
     let s = net_free E (d_wifi_ref (Drivers s d)) s;
     let s = upd_drv d (\<lambda>x. x\<lparr>d_wifi := None\<rparr>) s;
     let s = net_free E d s;
     let s = upd_netif p (\<lambda>h. h\<lparr>h_pdrv := None\<rparr>) s;
     Some (NET_OK, s) }"

definition es_wifi_cmd :: "'m es_lib \<Rightarrow> netref \<Rightarrow> string \<Rightarrow> string \<Rightarrow> 'm es_net \<Rightarrow> (int \<times> string, 'm es_world) res" where
  "es_wifi_cmd L p cmd resp s = do {
     ctx \<leftarrow> es_context p s;
     let ((status, resp), s) = es_call (ES_WIFI_AtCommand L ctx cmd resp) s;
     Some ((if ES_WIFI_STATUS_OK L \<noteq> status then NET_ERROR_INTERFACE_FAILURE else NET_OK, resp), s) }"

definition es_wifi_if_start :: "'w env \<Rightarrow> netref \<Rightarrow> 'w net \<Rightarrow> (int, 'w) res" where
  "es_wifi_if_start E p s = do { s \<leftarrow> driver_sends E p NET_EVENT_INTERFACE_READY s; Some (NET_OK, s) }"

definition es_wifi_if_stop :: "'w env \<Rightarrow> netref \<Rightarrow> 'w net \<Rightarrow> (int, 'w) res" where
  "es_wifi_if_stop E p s = do { s \<leftarrow> driver_sends E p NET_EVENT_INTERFACE_INITIALIZED s; Some (NET_OK, s) }"

definition es_wifi_if_connect_sta :: "'m es_lib \<Rightarrow> 'm es_world env \<Rightarrow> netref \<Rightarrow> 'm es_net \<Rightarrow> (int, 'm es_world) res" where
  "es_wifi_if_connect_sta L E p s = do {
     ctx \<leftarrow> es_context p s;
     d \<leftarrow> h_pdrv (Netifs s p);
     x \<leftarrow> d_wifi (Drivers s d);
     cr \<leftarrow> x_credentials x;
     let (ret, s) = es_call (ES_WIFI_Connect L ctx (cr_ssid cr) (cr_psk cr)
                       (GetESWifiSecurityType (cr_security_mode cr))) s;
     let (ret, s) = (if ret = ES_WIFI_STATUS_OK L then es_call (ES_WIFI_GetNetworkSettings L ctx) s else (ret, s));
     (if ES_WIFI_STATUS_OK L = ret then
        (if NetSettings_IsConnected L ctx (module (dev s)) \<noteq> 0 then do {
           let s = upd_netif p (\<lambda>h. h\<lparr>h_ipaddr := NET_ARTON (NetSettings_IP_Addr L ctx (module (dev s)))\<rparr>) s;
           s \<leftarrow> driver_sends E p NET_EVENT_IPADDR s;
           Some (ES_WIFI_STATUS_OK L, s) }
         else Some (ES_WIFI_STATUS_ERROR L, s))
      else Some (ret, s)) }"

text \<open>Both strings are copied with \<open>sizeof(ApConfig.SSID)\<close>, the size of the library's SSID array.\<close>

definition es_wifi_if_connect_ap ::
  "'m es_lib \<Rightarrow> 'm es_world env \<Rightarrow> netref \<Rightarrow> 'm es_net \<Rightarrow> (int, 'm es_world) res" where
  "es_wifi_if_connect_ap L E p s = do {
     d \<leftarrow> h_pdrv (Netifs s p);
     x \<leftarrow> d_wifi (Drivers s d);
     cr \<leftarrow> x_credentials x;
     let ApConfig = \<lparr>ap_SSID = take (sizeof_AP_SSID L) (cr_ssid cr), ap_Pass = take (sizeof_AP_SSID L) (cr_psk cr),
                     ap_Security = GetESWifiSecurityType (cr_security_mode cr),
                     ap_Channel = x_access_channel x, ap_MaxConnections = x_max_connections x,
                     ap_Hidden = (if x_AP_hidden x then 1 else 0)\<rparr>;
     let (ret, s) = es_call (ES_WIFI_ActivateAP L (d_context (Drivers s d)) ApConfig) s;
     (if ret = ES_WIFI_STATUS_OK L then do {
        let (_, a) = net_aton ''192.168.10.1'' (Some (h_ipaddr (Netifs s p)));
        a \<leftarrow> a;
        let s = upd_netif p (\<lambda>h. h\<lparr>h_ipaddr := a\<rparr>) s;
        s \<leftarrow> driver_sends E p NET_EVENT_IPADDR s;
        Some (ES_WIFI_STATUS_OK L, s) }
      else Some (ret, s)) }"

definition es_wifi_if_connect :: "'m es_lib \<Rightarrow> 'm es_world env \<Rightarrow> netref \<Rightarrow> 'm es_net \<Rightarrow> (int, 'm es_world) res" where
  "es_wifi_if_connect L E p s = do {
     d \<leftarrow> h_pdrv (Netifs s p);
     x \<leftarrow> d_wifi (Drivers s d);
     (if x_mode x = NET_WIFI_MODE_STA then es_wifi_if_connect_sta L E p s
      else es_wifi_if_connect_ap L E p s) }"

definition es_wifi_if_disconnect :: "'m es_lib \<Rightarrow> 'm es_world env \<Rightarrow> netref \<Rightarrow> 'm es_net \<Rightarrow> (int, 'm es_world) res" where
  "es_wifi_if_disconnect L E p s = do {
     ctx \<leftarrow> es_context p s;
     let (_, s) = es_call (ES_WIFI_Disconnect L ctx) s;
     s \<leftarrow> driver_sends E p NET_EVENT_INTERFACE_READY s;
     Some (NET_OK, s) }"

section \<open>Socket functions\<close>

definition es_protocol :: "int \<Rightarrow> int \<Rightarrow> int" where
  "es_protocol Type protocol =
     (if protocol \<noteq> NET_IPPROTO_TCP \<and> protocol \<noteq> NET_IPPROTO_UDP
      then if Type = NET_SOCK_STREAM then NET_IPPROTO_TCP else NET_IPPROTO_UDP
      else protocol)"

definition es_wifi_socket :: "int \<Rightarrow> int \<Rightarrow> int \<Rightarrow> 'm es_net \<Rightarrow> (int, 'm es_world) res" where
  "es_wifi_socket sdomain Type Protocol s =
     (if sdomain \<noteq> NET_AF_INET then Some (NET_ERROR_UNSUPPORTED, s)
      else if Type \<noteq> NET_SOCK_STREAM \<and> Type \<noteq> NET_SOCK_DGRAM then Some (NET_ERROR_UNSUPPORTED, s)
      else case List.find (\<lambda>i. c_status (chan i s) = WIFI_FREE_SOCKET) [0..<ESWIFI_MAX_CHANNEL_NBR] of
        None \<Rightarrow> Some (NET_ERROR_INVALID_SOCKET, s)
      | Some i \<Rightarrow>
          (let s = upd_chan i (\<lambda>c. c\<lparr>c_status := WIFI_ALLOCATED_SOCKET\<rparr>) s;
               s = (if Type = NET_SOCK_DGRAM then or_status i (WIFI_SEND_OK OR WIFI_RECV_OK) s else s);
               s = upd_chan i (\<lambda>c. c\<lparr>c_protocol := word_of_int (es_protocol Type Protocol)\<rparr>) s;
               s = upd_chan i (\<lambda>c. c\<lparr>c_type := word_of_int Type\<rparr>) s
           in Some (int i, s)))"

definition es_wifi_bind :: "int \<Rightarrow> net_sockaddr option \<Rightarrow> u32 \<Rightarrow> 'm es_net \<Rightarrow> (int, 'm es_world) res" where
  "es_wifi_bind sock addr addrlen s =
     (if es_channel sock then
        let i = nat sock; st = c_status (chan i s) in
        if st = WIFI_ALLOCATED_SOCKET
           \<or> st AND WIFI_ALLOCATED_SOCKET \<noteq> 0 \<and> c_type (chan i s) = word_of_int NET_SOCK_DGRAM
        then if addrlen = 16 then do {
               source \<leftarrow> addr;
               let s = upd_chan i (\<lambda>c. c\<lparr>c_localport := NET_NTOHS (sin_port source)\<rparr>) s;
               let s = upd_chan i (\<lambda>c. c\<lparr>c_localaddress := sin_addr source\<rparr>) s;
               let s = or_status i WIFI_BIND_SOCKET s;
               Some (NET_OK, s) }
             else Some (NET_ERROR_PARAMETER, s)
        else Some (NET_ERROR_INVALID_SOCKET, s)
      else Some (NET_ERROR_INVALID_SOCKET, s))"

definition es_wifi_listen :: "'m es_lib \<Rightarrow> int \<Rightarrow> int \<Rightarrow> 'm es_net \<Rightarrow> (int, 'm es_world) res" where
  "es_wifi_listen L sock backlog s =
     (if es_channel sock then do {
        let i = nat sock;
        let conn = (new_conn sock)\<lparr>e_LocalPort := Some (c_localport (chan i s)),
               e_Type := Some (if c_protocol (chan i s) = word_of_int NET_IPPROTO_TCP
                               then ES_WIFI_TCP_CONNECTION else ES_WIFI_UDP_CONNECTION),
               e_Backlog := Some (word_of_int backlog)\<rparr>;
        ctx \<leftarrow> chan_context i s;
        let (ret, s) = es_call (ES_WIFI_StartServerSingleConn L ctx conn) s;
        Some (ret, if ES_WIFI_STATUS_OK L = ret then or_status i WIFI_STARTED_SERVER_SOCKET s else s) }
      else Some (NET_ERROR_INVALID_SOCKET, s))"

definition es_wifi_accept ::
  "'m es_lib \<Rightarrow> int \<Rightarrow> net_sockaddr option \<Rightarrow> u32 \<Rightarrow> 'm es_net \<Rightarrow> (int \<times> net_sockaddr option \<times> u32, 'm es_world) res" where
  "es_wifi_accept L sock addr addrlen s =
     (if es_channel sock then do {
        let i = nat sock;
        ctx \<leftarrow> chan_context i s;
        let ((status, RemotePort, RemoteIP), s) = es_call (ES_WIFI_WaitServerConnection L ctx 0 (new_conn sock)) s;
        (if ES_WIFI_STATUS_OK L = status then do {
           a \<leftarrow> addr;
           let a = a\<lparr>sin_port := NET_NTOHS RemotePort, sin_addr := NET_ARTON RemoteIP\<rparr>;
           let s = or_status i (WIFI_CONNECTED_SOCKET_RW OR WIFI_STARTED_SERVER_SOCKET) s;
           Some ((sock, Some a, addrlen), s) }
         else Some ((NET_ERROR_SOCKET_FAILURE, addr, addrlen), s)) }
      else Some ((NET_ERROR_INVALID_SOCKET, addr, addrlen), s))"

text \<open>The size of a string option with its terminating zero, 0 for a null pointer.\<close>

definition cred_size :: "string option \<Rightarrow> nat" where
  "cred_size x = (case x of None \<Rightarrow> 0 | Some t \<Rightarrow> length t + 1)"

definition store_creds :: "'m es_lib \<Rightarrow> nat \<Rightarrow> es_conn \<Rightarrow> 'm es_net \<Rightarrow> (int \<times> es_conn, 'm es_world) res" where
  "store_creds L i conn s = do {
     let t = c_tlsData (chan i s);
     let casize = cred_size (es_ca_certs t);
     let keysize = cred_size (es_dev_key t);
     let devsize = cred_size (es_dev_cert t);
     let conn = conn\<lparr>e_Type := Some ES_WIFI_TCP_SSL_CONNECTION,
            e_TLScheckMode := Some (if keysize \<noteq> 0 then ES_WIFI_TLS_CHECK_DEVICE_CERTS
                                    else if casize \<noteq> 0 then ES_WIFI_TLS_CHECK_ROOTCA
                                    else ES_WIFI_TLS_CHECK_NOTHING)\<rparr>;
     ctx \<leftarrow> chan_context i s;
     let (ret, s) = es_call (ES_WIFI_StoreCreds L ctx (es_ca_certs t) casize (es_dev_cert t) devsize (es_dev_key t) keysize) s;
     Some ((ret, conn), s) }"

definition es_wifi_connect ::
  "'m es_lib \<Rightarrow> int \<Rightarrow> net_sockaddr option \<Rightarrow> u32 \<Rightarrow> 'm es_net \<Rightarrow> (int, 'm es_world) res" where
  "es_wifi_connect L sock addr addrlen s =
     (if es_channel sock then
        if addrlen = 16 then do {
          let i = nat sock;
          dest \<leftarrow> addr;
          let conn = (new_conn sock)\<lparr>e_LocalPort := Some (c_localport (chan i s)),
                 e_RemotePort := Some (NET_NTOHS (sin_port dest)), e_RemoteIP := Some (NET_NTOAR (sin_addr dest))\<rparr>;
          let proto = uint (c_protocol (chan i s));
          ((ret, conn), s) \<leftarrow>
            (if proto = NET_IPPROTO_TCP then Some ((NET_OK, conn\<lparr>e_Type := Some ES_WIFI_TCP_CONNECTION\<rparr>), s)
             else if proto = NET_IPPROTO_UDP then Some ((NET_ERROR_UNSUPPORTED, conn), s)
             else if proto = NET_IPPROTO_TCP_TLS
             then if module_tls L then store_creds L i conn s else Some ((NET_ERROR_UNSUPPORTED, conn), s)
             else Some ((NET_ERROR_PARAMETER, conn), s));
          (if ret = NET_OK then do {
             ctx \<leftarrow> chan_context i s;
             let (status, s) = es_call (ES_WIFI_StartClientConnection L ctx conn) s;
             (if ES_WIFI_STATUS_OK L = status then Some (ret, or_status i WIFI_CONNECTED_SOCKET_RW s)
              else Some (NET_ERROR_SOCKET_FAILURE, s)) }
           else Some (ret, s)) }
        else Some (NET_ERROR_PARAMETER, s)
      else Some (NET_ERROR_INVALID_SOCKET, s))"

definition es_wifi_shutdown :: "int \<Rightarrow> int \<Rightarrow> 'm es_net \<Rightarrow> (int, 'm es_world) res" where
  "es_wifi_shutdown sock mode s =
     (if es_channel sock then
        let i = nat sock;
            clear = (\<lambda>b s. upd_chan i (\<lambda>c. c\<lparr>c_status := c_status c AND NOT b\<rparr>) s);
            s = (if c_status (chan i s) AND WIFI_CONNECTED_SOCKET \<noteq> 0 then
                   let s = (if mode = NET_SHUTDOWN_R then clear WIFI_RECV_OK s else s);
                       s = (if mode = NET_SHUTDOWN_W then clear WIFI_SEND_OK s else s)
                   in if mode = NET_SHUTDOWN_RW then clear (WIFI_SEND_OK OR WIFI_RECV_OK) s else s
                 else s)
        in Some (NET_OK, s)
      else Some (NET_ERROR_INVALID_SOCKET, s))"

definition es_wifi_close :: "'m es_lib \<Rightarrow> int \<Rightarrow> bool \<Rightarrow> 'm es_net \<Rightarrow> (int, 'm es_world) res" where
  "es_wifi_close L sock isaclone s =
     (if es_channel sock then do {
        let i = nat sock;
        ctx \<leftarrow> chan_context i s;
        let set_status = (\<lambda>b. upd_chan i (\<lambda>c. c\<lparr>c_status := b\<rparr>));
        (if c_status (chan i s) AND WIFI_STARTED_SERVER_SOCKET \<noteq> 0 then
           if isaclone then
             (case es_call (ES_WIFI_CloseServerConnection L ctx sock) s of (status, s) \<Rightarrow>
                let s = set_status WIFI_STARTED_SERVER_SOCKET s in
                Some (if status \<noteq> ES_WIFI_STATUS_OK L then NET_ERROR_SOCKET_FAILURE else NET_OK, s))
           else
             (case es_call (ES_WIFI_StopServerSingleConn L ctx sock) s of (status, s) \<Rightarrow>
                let s = set_status WIFI_FREE_SOCKET s in
                Some (if status \<noteq> ES_WIFI_STATUS_OK L then NET_ERROR_SOCKET_FAILURE else NET_OK, s))
         else
           (case es_call (ES_WIFI_StopClientConnection L ctx (new_conn sock)) s of (status, s) \<Rightarrow>
              let s = set_status WIFI_FREE_SOCKET s in
              Some (if status \<noteq> ES_WIFI_STATUS_OK L then NET_ERROR_SOCKET_FAILURE else NET_OK, s))) }
      else Some (NET_ERROR_INVALID_SOCKET, s))"

section \<open>Data transfer\<close>

definition check_connection_lost :: "'m es_lib \<Rightarrow> 'm es_world env \<Rightarrow> netref \<Rightarrow> int \<Rightarrow> 'm es_net \<Rightarrow> 'm es_net option" where
  "check_connection_lost L E p why s =
     (if why \<le> 0 then
        if NET_STATE_CONNECTED = h_state (Netifs s p) then do {
          ctx \<leftarrow> es_context p s;
          let (r, s) = es_call (ES_WIFI_IsConnected L ctx) s;
          Some (if r = 0 then net_if_notify E p NET_EVENT_STATE_CHANGE (state_code NET_STATE_CONNECTION_LOST) s else s) }
        else Some s
      else if NET_STATE_CONNECTION_LOST = h_state (Netifs s p)
      then Some (net_if_notify E p NET_EVENT_STATE_CHANGE (state_code NET_STATE_CONNECTED) s)
      else Some s)"

definition check_chan :: "'m es_lib \<Rightarrow> 'm es_world env \<Rightarrow> nat \<Rightarrow> int \<Rightarrow> 'm es_net \<Rightarrow> 'm es_net option" where
  "check_chan L E i why s = do { p \<leftarrow> c_pnetif (chan i s); check_connection_lost L E p why s }"

text \<open>The length the module is asked for: capped, then cut to 16 bits by the cast.\<close>

definition payload :: "'m es_lib \<Rightarrow> int \<Rightarrow> u16" where
  "payload L len = word_of_int (if len > ES_WIFI_PAYLOAD_SIZE L then ES_WIFI_PAYLOAD_SIZE L else len)"

definition es_wifi_send ::
  "'m es_lib \<Rightarrow> 'm es_world env \<Rightarrow> int \<Rightarrow> bytes \<Rightarrow> int \<Rightarrow> int \<Rightarrow> 'm es_net \<Rightarrow> (int, 'm es_world) res" where
  "es_wifi_send L E sock buf len flags s =
     (if flags \<noteq> 0 then Some (NET_ERROR_UNSUPPORTED, s)
      else if \<not> es_channel sock then Some (NET_ERROR_INVALID_SOCKET, s)
      else if c_status (chan (nat sock) s) AND WIFI_SEND_OK = 0 then Some (NET_ERROR_SOCKET_FAILURE, s)
      else do {
        let i = nat sock;
        ctx \<leftarrow> chan_context i s;
        let ((status, sent_len), s) =
          es_call (ES_WIFI_SendData L ctx (word_of_int sock) buf (payload L len) (u32_of (c_sendtimeout (chan i s)))) s;
        let ret = sent_ok L status (uint sent_len);
        s \<leftarrow> check_chan L E i ret s;
        Some (ret, s) })"

definition es_wifi_recv ::
  "'m es_lib \<Rightarrow> 'm es_world env \<Rightarrow> int \<Rightarrow> bytes \<Rightarrow> int \<Rightarrow> int \<Rightarrow> 'm es_net \<Rightarrow> (int \<times> bytes, 'm es_world) res" where
  "es_wifi_recv L E sock buf len flags s =
     (if \<not> es_channel sock then Some ((NET_ERROR_INVALID_SOCKET, buf), s)
      else if c_status (chan (nat sock) s) AND WIFI_RECV_OK = 0 then Some ((NET_ERROR_SOCKET_FAILURE, buf), s)
      else do {
        let i = nat sock;
        let timeout = (if flags = NET_MSG_DONTWAIT then (0 :: u32)
                       else ucast (word_of_int (c_recvtimeout (chan i s)) :: u16));
        ctx \<leftarrow> chan_context i s;
        let ((status, buf, received_len), s) =
          es_call (ES_WIFI_ReceiveData L ctx (word_of_int sock) buf (payload L len) timeout) s;
        let ret = sent_ok L status (uint received_len);
        s \<leftarrow> check_chan L E i ret s;
        Some ((ret, buf), s) })"

definition start_udp_client :: "'m es_lib \<Rightarrow> int \<Rightarrow> net_sockaddr \<Rightarrow> 'm es_net \<Rightarrow> (int, 'm es_world) res" where
  "start_udp_client L sock dest s = do {
     let i = nat sock;
     let conn = (new_conn sock)\<lparr>e_LocalPort := Some (c_localport (chan i s)),
            e_RemotePort := Some (NET_NTOHS (sin_port dest)), e_RemoteIP := Some (NET_NTOAR (sin_addr dest)),
            e_Type := Some ES_WIFI_UDP_CONNECTION\<rparr>;
     ctx \<leftarrow> chan_context i s;
     let (status, s) = es_call (ES_WIFI_StartClientConnection L ctx conn) s;
     (if ES_WIFI_STATUS_OK L = status then Some (NET_OK, or_status i WIFI_STARTED_CLIENT_SOCKET s)
      else Some (NET_ERROR_SOCKET_FAILURE, s)) }"

definition es_wifi_sendto ::
  "'m es_lib \<Rightarrow> 'm es_world env \<Rightarrow> int \<Rightarrow> bytes \<Rightarrow> int \<Rightarrow> int \<Rightarrow> net_sockaddr option \<Rightarrow> u32 \<Rightarrow> 'm es_net \<Rightarrow> (int, 'm es_world) res" where
  "es_wifi_sendto L E sock buf len flags to tolen s =
     (if flags \<noteq> 0 then Some (NET_ERROR_UNSUPPORTED, s)
      else do {
        dest \<leftarrow> to;
        (if sa_family dest \<noteq> word_of_int NET_AF_INET then Some (NET_ERROR_UNSUPPORTED, s)
         else if \<not> es_channel sock then Some (NET_ERROR_INVALID_SOCKET, s)
         else if c_protocol (chan (nat sock) s) \<noteq> word_of_int NET_IPPROTO_UDP then Some (NET_ERROR_SOCKET_FAILURE, s)
         else if c_status (chan (nat sock) s) AND WIFI_SEND_OK = 0 then Some (NET_ERROR_SOCKET_FAILURE, s)
         else do {
           let i = nat sock;
           (ret, s) \<leftarrow>
             (if c_status (chan i s) AND WIFI_STARTED_CLIENT_SOCKET = 0 \<and> tolen = 16
              then start_udp_client L sock dest s else Some (NET_OK, s));
           (if ret = NET_OK then do {
              ctx \<leftarrow> chan_context i s;
              let ((status, sent_len), s) =
                es_call (ES_WIFI_SendDataTo L ctx (word_of_int sock) buf (payload L len)
                  (u32_of (c_sendtimeout (chan i s))) (NET_NTOHL (NET_NTOHL (sin_addr dest)))
                  (NET_NTOHS (sin_port dest))) s;
              let ret = sent_ok L status (uint sent_len);
              s \<leftarrow> check_chan L E i ret s;
              Some (ret, s) }
            else Some (ret, s)) }) })"

definition start_udp_server :: "'m es_lib \<Rightarrow> int \<Rightarrow> 'm es_net \<Rightarrow> (int, 'm es_world) res" where
  "start_udp_server L sock s = do {
     let i = nat sock;
     let conn = (new_conn sock)\<lparr>e_LocalPort := Some (c_localport (chan i s)), e_Type := Some ES_WIFI_UDP_CONNECTION\<rparr>;
     ctx \<leftarrow> chan_context i s;
     let (status, s) = es_call (ES_WIFI_StartServerSingleConn L ctx conn) s;
     (if ES_WIFI_STATUS_OK L = status then Some (NET_OK, or_status i WIFI_STARTED_SERVER_SOCKET s)
      else Some (NET_ERROR_SOCKET_FAILURE, s)) }"

definition es_wifi_recvfrom ::
  "'m es_lib \<Rightarrow> 'm es_world env \<Rightarrow> int \<Rightarrow> bytes \<Rightarrow> int \<Rightarrow> int \<Rightarrow> net_sockaddr option \<Rightarrow> u32 \<Rightarrow> 'm es_net \<Rightarrow>
     (int \<times> bytes \<times> net_sockaddr option \<times> u32, 'm es_world) res" where
  "es_wifi_recvfrom L E sock buf len flags from fromlen s =
     (if \<not> es_channel sock then Some ((NET_ERROR_INVALID_SOCKET, buf, from, fromlen), s)
      else if c_protocol (chan (nat sock) s) \<noteq> word_of_int NET_IPPROTO_UDP
      then Some ((NET_ERROR_SOCKET_FAILURE, buf, from, fromlen), s)
      else if c_status (chan (nat sock) s) AND WIFI_RECV_OK = 0 then Some ((NET_ERROR_SOCKET_FAILURE, buf, from, fromlen), s)
      else do {
        let i = nat sock;
        let timeout = (if (word_of_int flags :: u8) AND word_of_int NET_MSG_DONTWAIT = 0
                       then u32_of (c_recvtimeout (chan i s)) else 0);
        (if timeout > u32_of (ES_WIFI_MAX_SO_TIMEOUT L) then Some ((NET_ERROR_UNSUPPORTED, buf, from, fromlen), s)
         else do {
           (ret, s) \<leftarrow> (if c_status (chan i s) AND WIFI_STARTED_SERVER_SOCKET = 0
                       then start_udp_server L sock s else Some (NET_OK, s));
           ((ret, buf, from, fromlen), s) \<leftarrow>
             (if ret = NET_OK then do {
                ctx \<leftarrow> chan_context i s;
                let ((status, buf, received_len, ip_addr, port), s) =
                  es_call (ES_WIFI_ReceiveDataFrom L ctx (word_of_int sock) buf (payload L len) timeout) s;
                (if ES_WIFI_STATUS_OK L = status then do {
                   a \<leftarrow> from;
                   let a = a\<lparr>sa_family := word_of_int NET_AF_INET, sin_addr := ip_addr,
                             sin_port := NET_NTOHS port, sa_len := 16\<rparr>;
                   Some ((uint received_len, buf, Some a, 16), s) }
                 else Some ((NET_ERROR_SOCKET_FAILURE, buf, from, fromlen), s)) }
              else Some ((ret, buf, from, fromlen), s));
           s \<leftarrow> check_chan L E i ret s;
           Some ((ret, buf, from, fromlen), s) }) })"

section \<open>Options and addresses\<close>

text \<open>The element \<open>WifiChannel[sock]\<close>; the bounds check of \<open>es_wifi_setsockopt\<close> lets every index pass.\<close>

definition the_channel :: "int \<Rightarrow> nat option" where
  "the_channel sock = (if es_channel sock then Some (nat sock) else None)"

definition is_tls :: "nat \<Rightarrow> 'm es_net \<Rightarrow> bool" where
  "is_tls i s \<longleftrightarrow> c_protocol (chan i s) = word_of_int NET_IPPROTO_TCP_TLS"

definition upd_tlsdata :: "nat \<Rightarrow> (eswifi_tls_data \<Rightarrow> eswifi_tls_data) \<Rightarrow> 'm es_net \<Rightarrow> 'm es_net" where
  "upd_tlsdata i f s = upd_chan i (\<lambda>c. c\<lparr>c_tlsData := f (c_tlsData c)\<rparr>) s"

text \<open>An option that is a string: checked against its length unless \<open>chk\<close> is off, then stored.\<close>

definition tls_string ::
  "bool \<Rightarrow> int \<Rightarrow> optval \<Rightarrow> u32 \<Rightarrow> (string option \<Rightarrow> eswifi_tls_data \<Rightarrow> eswifi_tls_data) \<Rightarrow> 'm es_net \<Rightarrow> (int, 'm es_world) res" where
  "tls_string chk sock optvalue optlen f s = do {
     ok \<leftarrow> (if chk then OPTCHECKSTRING optvalue optlen else Some True);
     (if \<not> ok then Some (NET_ERROR_PARAMETER, s)
      else do {
        i \<leftarrow> the_channel sock;
        (if \<not> is_tls i s then Some (NET_ERROR_IS_NOT_SECURE, s)
         else Some (NET_OK, upd_tlsdata i (f (opt_string optvalue)) s)) }) }"

definition es_tls_option :: "int \<Rightarrow> net_socketoption \<Rightarrow> optval \<Rightarrow> u32 \<Rightarrow> 'm es_net \<Rightarrow> (int, 'm es_world) res" where
  "es_tls_option sock optname optvalue optlen s =
     (case optname of
        NET_SO_SECURE \<Rightarrow> do {
          i \<leftarrow> the_channel sock;
          Some (if c_protocol (chan i s) = word_of_int NET_IPPROTO_TCP
                then (NET_OK, upd_chan i (\<lambda>c. c\<lparr>c_protocol := word_of_int NET_IPPROTO_TCP_TLS\<rparr>) s)
                else (NET_ERROR_PARAMETER, s)) }
      | NET_SO_TLS_DEV_CERT \<Rightarrow> do {
          ok \<leftarrow> OPTCHECKSTRING optvalue optlen;
          (if \<not> ok then Some (NET_ERROR_PARAMETER, s)
           else do {
             i \<leftarrow> the_channel sock;
             let ret = (if \<not> is_tls i s then NET_ERROR_IS_NOT_SECURE else NET_ERROR_PARAMETER);
             let s = upd_tlsdata i (\<lambda>t. t\<lparr>es_dev_cert := opt_string optvalue\<rparr>) s;
             let ret = NET_OK;
             Some (ret, s) }) }
      | NET_SO_TLS_DEV_KEY \<Rightarrow> tls_string True sock optvalue optlen (\<lambda>x t. t\<lparr>es_dev_key := x\<rparr>) s
      | NET_SO_TLS_CA_CERT \<Rightarrow> tls_string False sock optvalue optlen (\<lambda>x t. t\<lparr>es_ca_certs := x\<rparr>) s
      | NET_SO_TLS_CA_CRL \<Rightarrow> tls_string True sock optvalue optlen (\<lambda>x t. t\<lparr>es_ca_crl := x\<rparr>) s
      | NET_SO_TLS_PASSWORD \<Rightarrow> tls_string True sock optvalue optlen (\<lambda>x t. t\<lparr>es_dev_pwd := x\<rparr>) s
      | NET_SO_TLS_SERVER_VERIFICATION \<Rightarrow>
          (if optlen \<noteq> 1 then Some (NET_ERROR_PARAMETER, s)
           else do {
             i \<leftarrow> the_channel sock;
             (if \<not> is_tls i s then Some (NET_ERROR_IS_NOT_SECURE, s)
              else case optvalue of
                OptBool b \<Rightarrow> Some (NET_OK, upd_tlsdata i (\<lambda>t. t\<lparr>es_srv_verification := b\<rparr>) s)
              | _ \<Rightarrow> None) })
      | NET_SO_TLS_SERVER_NAME \<Rightarrow> tls_string True sock optvalue optlen (\<lambda>x t. t\<lparr>es_srv_name := x\<rparr>) s
      | _ \<Rightarrow> Some (NET_ERROR_PARAMETER, s))"

definition es_wifi_setsockopt ::
  "'m es_lib \<Rightarrow> int \<Rightarrow> int \<Rightarrow> net_socketoption \<Rightarrow> optval \<Rightarrow> u32 \<Rightarrow> 'm es_net \<Rightarrow> (int, 'm es_world) res" where
  "es_wifi_setsockopt L sock level optname optvalue optlen s =
     (if 0 \<le> sock \<or> sock < int ESWIFI_MAX_CHANNEL_NBR then
        (case optname of
           NET_SO_RCVTIMEO \<Rightarrow>
             (case optvalue of
                OptI32 v \<Rightarrow> do {
                  i \<leftarrow> the_channel sock;
                  Some (NET_OK, upd_chan i (\<lambda>c. c\<lparr>c_recvtimeout := v\<rparr>) s) }
              | _ \<Rightarrow> None)
         | NET_SO_SNDTIMEO \<Rightarrow>
             (case optvalue of
                OptI32 v \<Rightarrow> do {
                  i \<leftarrow> the_channel sock;
                  let s = upd_chan i (\<lambda>c. c\<lparr>c_sendtimeout := v\<rparr>) s;
                  let s = (if c_protocol (chan i s) = word_of_int NET_IPPROTO_UDP
                              \<and> c_sendtimeout (chan i s) > NET_UDP_MAX_SEND_BLOCK_TO
                           then upd_chan i (\<lambda>c. c\<lparr>c_sendtimeout := NET_UDP_MAX_SEND_BLOCK_TO\<rparr>) s else s);
                  Some (NET_OK, s) }
              | _ \<Rightarrow> None)
         | NET_SO_BLOCKING \<Rightarrow>
             (if optlen \<noteq> 1 then Some (NET_ERROR_PARAMETER, s)
              else (case optvalue of
                  OptBool b \<Rightarrow>
                    (if b then Some (NET_OK, s)
                     else do {
                       i \<leftarrow> the_channel sock;
                       Some (NET_OK, upd_chan i (\<lambda>c. c\<lparr>c_sendtimeout := 1, c_recvtimeout := 1\<rparr>) s) })
                | _ \<Rightarrow> None))
         | NET_SO_TLS_CERT_PROF \<Rightarrow> Some (NET_OK, s)
         | _ \<Rightarrow> if module_tls L then es_tls_option sock optname optvalue optlen s else Some (NET_ERROR_PARAMETER, s))
      else Some (NET_ERROR_INVALID_SOCKET, s))"

definition es_wifi_getsockopt ::
  "int \<Rightarrow> int \<Rightarrow> net_socketoption \<Rightarrow> optval \<Rightarrow> u32 \<Rightarrow> 'm es_net \<Rightarrow> (int \<times> optval \<times> u32, 'm es_world) res" where
  "es_wifi_getsockopt sock level optname optvalue optlen s = Some ((NET_ERROR_UNSUPPORTED, optvalue, optlen), s)"

text \<open>The common part of \<open>getsockname\<close> and \<open>getpeername\<close>: \<open>info\<close> is the call of the library.\<close>

definition sock_info ::
  "'m es_lib \<Rightarrow> (es_ctx \<Rightarrow> u8 \<Rightarrow> 'm \<Rightarrow> (int \<times> u32 \<times> u16) \<times> 'm) \<Rightarrow> int \<Rightarrow> net_sockaddr \<Rightarrow> u32 \<Rightarrow> 'm es_net \<Rightarrow>
     (int \<times> net_sockaddr \<times> u32, 'm es_world) res" where
  "sock_info L info sock name namelen s =
     (if \<not> es_channel sock then Some ((NET_ERROR_INVALID_SOCKET, name, namelen), s)
      else do {
        let i = nat sock;
        ctx \<leftarrow> chan_context i s;
        let ((status, ip_addr, port), s) = es_call (info ctx (c_Number (chan i s))) s;
        Some (if ES_WIFI_STATUS_OK L = status
              then ((NET_OK, name\<lparr>sa_family := word_of_int NET_AF_INET, sin_addr := ip_addr,
                       sin_port := NET_NTOHS port, sa_len := 16\<rparr>, 16), s)
              else ((NET_ERROR_NO_CONNECTION, name, namelen), s)) })"

definition es_wifi_getsockname ::
  "'m es_lib \<Rightarrow> int \<Rightarrow> net_sockaddr \<Rightarrow> u32 \<Rightarrow> 'm es_net \<Rightarrow> (int \<times> net_sockaddr \<times> u32, 'm es_world) res" where
  "es_wifi_getsockname L sock name namelen s =
     (if 16 \<le> namelen then sock_info L (ES_WIFI_SockInfo L) sock name namelen s
      else Some ((NET_ERROR_PARAMETER, name, namelen), s))"

definition es_wifi_getpeername ::
  "'m es_lib \<Rightarrow> int \<Rightarrow> net_sockaddr \<Rightarrow> u32 \<Rightarrow> 'm es_net \<Rightarrow> (int \<times> net_sockaddr \<times> u32, 'm es_world) res" where
  "es_wifi_getpeername L sock name namelen s =
     (if namelen < 16 then Some ((NET_ERROR_PARAMETER, name, namelen), s)
      else sock_info L (ES_WIFI_PeerInfo L) sock name namelen s)"

section \<open>Services and scanning\<close>

definition es_wifi_gethostbyname ::
  "'m es_lib \<Rightarrow> netref \<Rightarrow> net_sockaddr \<Rightarrow> string \<Rightarrow> 'm es_net \<Rightarrow> (int \<times> net_sockaddr, 'm es_world) res" where
  "es_wifi_gethostbyname L p addr name s =
     (if 16 \<le> sa_len addr then do {
        ctx \<leftarrow> es_context p s;
        let ((status, ip_addr), s) = es_call (ES_WIFI_DNS_LookUp L ctx name) s;
        Some (if ES_WIFI_STATUS_OK L = status
              then ((NET_OK, addr\<lparr>sa_family := word_of_int NET_AF_INET, sin_addr := NET_ARTON ip_addr\<rparr>), s)
              else ((NET_ERROR_DNS_FAILURE, addr), s)) }
      else Some ((NET_ERROR_PARAMETER, addr), s))"

definition es_wifi_ping ::
  "'m es_lib \<Rightarrow> netref \<Rightarrow> net_sockaddr \<Rightarrow> int \<Rightarrow> int \<Rightarrow> int list \<Rightarrow> 'm es_net \<Rightarrow> (int \<times> int list, 'm es_world) res" where
  "es_wifi_ping L p addr count delay response s = do {
     ctx \<leftarrow> es_context p s;
     let ((status, response), s) =
       es_call (ES_WIFI_Ping L ctx (sin_addr addr) (word_of_int count) (word_of_int delay) response) s;
     Some ((if ES_WIFI_STATUS_OK L = status then NET_OK else NET_ERROR_NO_CONNECTION, response), s) }"

definition es_wifi_scan :: "netref \<Rightarrow> net_wifi_scan_mode \<Rightarrow> string option \<Rightarrow> 'm es_net \<Rightarrow> (int, 'm es_world) res" where
  "es_wifi_scan p mode ssid s = Some (0, s)"

definition scan_result :: "es_ap \<Rightarrow> net_wifi_scan_result" where
  "scan_result ap = \<lparr>sr_ssid_length = of_nat (length (takeWhile (\<lambda>c. c \<noteq> 0) (a_SSID ap))),
     sr_ssid = take 32 (a_SSID ap), sr_bssid = take 6 (a_MAC ap),
     sr_security = conv_to_net_security (a_Security ap), sr_channel = a_Channel ap,
     sr_country = ''.CN'', sr_rssi = a_RSSI ap\<rparr>"

text \<open>The loop over the access points; a write behind the caller's array is \<^term>\<open>None\<close>.\<close>

fun copy_results :: "nat \<Rightarrow> nat \<Rightarrow> es_ap list \<Rightarrow> net_wifi_scan_result list \<Rightarrow> net_wifi_scan_result list option" where
  "copy_results i 0 aps results = Some results"
| "copy_results i (Suc n) aps results =
     (if i < length aps \<and> i < length results
      then copy_results (Suc i) n aps (results[i := scan_result (aps ! i)]) else None)"

definition es_wifi_get_scan_results ::
  "'m es_lib \<Rightarrow> netref \<Rightarrow> net_wifi_scan_result list \<Rightarrow> u8 \<Rightarrow> 'm es_net \<Rightarrow> (int \<times> net_wifi_scan_result list, 'm es_world) res" where
  "es_wifi_get_scan_results L p results number s = do {
     ctx \<leftarrow> es_context p s;
     let ((status, nbr, aps), s) = es_call (ES_WIFI_ListAccessPoints L ctx) s;
     (if ES_WIFI_STATUS_OK L = status then do {
        let nbr = (if nbr > number then number else nbr);
        results \<leftarrow> copy_results 0 (unat nbr) aps results;
        Some ((uint nbr, results), s) }
      else Some ((NET_ERROR_NO_CONNECTION, results), s)) }"

section \<open>The driver table\<close>

definition es_wifi_drv :: "'m es_lib \<Rightarrow> 'm es_world env \<Rightarrow> 'm es_net net_if_drv" where
  "es_wifi_drv L E = null_drv\<lparr>if_init := Some (es_wifi_if_init L E), if_deinit := Some (es_wifi_if_deinit L E),
     if_start := Some (es_wifi_if_start E), if_stop := Some (es_wifi_if_stop E),
     if_connect := Some (es_wifi_if_connect L E), if_disconnect := Some (es_wifi_if_disconnect L E),
     if_atcmd := Some (es_wifi_cmd L), psocket := Some es_wifi_socket, pbind := Some es_wifi_bind,
     plisten := Some (es_wifi_listen L), paccept := Some (es_wifi_accept L),
     pconnect := Some (es_wifi_connect L), psend := Some (es_wifi_send L E), precv := Some (es_wifi_recv L E),
     psendto := Some (es_wifi_sendto L E), precvfrom := Some (es_wifi_recvfrom L E),
     psetsockopt := Some (es_wifi_setsockopt L), pgetsockopt := Some es_wifi_getsockopt,
     pgetsockname := Some (es_wifi_getsockname L), pgetpeername := Some (es_wifi_getpeername L),
     pclose := Some (es_wifi_close L), pshutdown := Some es_wifi_shutdown,
     pgethostbyname := Some (es_wifi_gethostbyname L), pping := Some (es_wifi_ping L),
     wifi_scan := Some es_wifi_scan, wifi_get_scan_results := Some (es_wifi_get_scan_results L)\<rparr>"

text \<open>
  The library with this driver. The driver's functions send events only, and an event a driver sends
  reaches the application's callback and never a driver function: so the driver is given the
  environment \<open>B\<close> below it, and the rest of the library the environment with the driver.
\<close>

definition es_env :: "'m es_lib \<Rightarrow> 'm es_world env \<Rightarrow> 'm es_world env" where
  "es_env L B = B\<lparr>env_drv := (\<lambda>_. es_wifi_drv L B)\<rparr>"

lemma es_env_sel [simp]:
  "env_drv (es_env L B) d = es_wifi_drv L B" "env_notify (es_env L B) = env_notify B"
  by (simp_all add: es_env_def)

lemma driver_sends_es_env:
  "driver_event e \<Longrightarrow> driver_sends (es_env L B) p e s = driver_sends B p e s"
  using manage_event_driver_free [of e "es_env L B" B p s] by (simp add: driver_sends_def)

end
