(* ===== verification/Es_Wifi_Props.thy ===== *)
theory Es_Wifi_Props
  imports Es_Wifi
begin

text \<open>
  The ES-WiFi driver keeps the contracts the library relies on, so what was shown for every driver holds
  with this one; its channel table; and its conversions.
\<close>

section \<open>Frame\<close>

lemma only_dev_upd_chan [simp]: "only_dev s (upd_chan i f s)"
  by (simp add: upd_chan_def)

lemma only_dev_es_call [simp]: "only_dev s (snd (es_call f s))"
  by (simp add: es_call_def split_def Let_def)

lemma only_dev_upd_chan_after [simp]: "only_dev s t \<Longrightarrow> only_dev s (upd_chan i f t)"
  using only_dev_trans only_dev_upd_chan by blast

lemma only_dev_call_after [simp]: "only_dev s t \<Longrightarrow> only_dev s (snd (es_call f t))"
  using only_dev_trans only_dev_es_call by blast

lemma check_connection_lost_dev: "check_connection_lost L E p w t = Some u \<Longrightarrow> only_dev s t \<Longrightarrow> only_dev s u"
  by (auto simp: check_connection_lost_def Let_def split_def bind_Some_iff split: if_splits)

lemma check_chan_dev: "check_chan L E i w t = Some u \<Longrightarrow> only_dev s t \<Longrightarrow> only_dev s u"
  by (auto simp: check_chan_def bind_Some_iff dest: check_connection_lost_dev)

lemma es_wifi_socket_keeps: "keeps only_dev s (es_wifi_socket d t p s)"
  unfolding es_wifi_socket_def
  by (auto simp: Let_def upd_chan_def split: option.split)

lemma es_wifi_bind_keeps: "keeps only_dev s (es_wifi_bind k a l s)"
  unfolding es_wifi_bind_def by (auto simp: Let_def upd_chan_def intro!: keeps_read elim!: check_chan_dev)

lemma es_wifi_listen_keeps: "keeps only_dev s (es_wifi_listen L k n s)"
  unfolding es_wifi_listen_def by (auto simp: Let_def split_def intro!: keeps_read elim!: check_chan_dev)

lemma es_wifi_accept_keeps: "keeps only_dev s (es_wifi_accept L k a l s)"
  unfolding es_wifi_accept_def by (auto simp: Let_def split_def intro!: keeps_read elim!: check_chan_dev)

lemma store_creds_keeps: "keeps only_dev s (store_creds L i c s)"
  unfolding store_creds_def by (auto simp: Let_def split_def intro!: keeps_read)

lemma es_wifi_connect_keeps: "keeps only_dev s (es_wifi_connect L k a l s)"
  unfolding es_wifi_connect_def Let_def
  by (auto simp: split_def intro!: keeps_read dest!: keeps_only_devD [OF store_creds_keeps _ only_dev_upd(2)] split: if_splits)

lemma es_wifi_shutdown_keeps: "keeps only_dev s (es_wifi_shutdown k m s)"
  unfolding es_wifi_shutdown_def by (simp add: Let_def)

lemma es_wifi_close_keeps: "keeps only_dev s (es_wifi_close L k c s)"
  unfolding es_wifi_close_def by (auto simp: Let_def split_def intro!: keeps_read)

lemma es_wifi_send_keeps: "keeps only_dev s (es_wifi_send L E k b n f s)"
  unfolding es_wifi_send_def by (auto simp: Let_def split_def intro!: keeps_read elim!: check_chan_dev)

lemma es_wifi_recv_keeps: "keeps only_dev s (es_wifi_recv L E k b n f s)"
  unfolding es_wifi_recv_def by (auto simp: Let_def split_def intro!: keeps_read elim!: check_chan_dev)

lemma start_udp_keeps: "keeps only_dev s (start_udp_client L k d s)" "keeps only_dev s (start_udp_server L k s)"
  unfolding start_udp_client_def start_udp_server_def
  by (auto simp: Let_def split_def intro!: keeps_read)

lemma es_wifi_sendto_keeps: "keeps only_dev s (es_wifi_sendto L E k b n f a l s)"
  unfolding es_wifi_sendto_def Let_def
  by (auto simp: split_def bind_Some_iff intro!: keeps_read elim!: check_chan_dev
      dest!: start_udp_keeps [THEN keeps_only_devD, OF _ only_dev_upd(2)] split: if_splits)

lemma es_wifi_recvfrom_keeps: "keeps only_dev s (es_wifi_recvfrom L E k b n f a l s)"
  unfolding es_wifi_recvfrom_def Let_def
  by (auto simp: split_def bind_Some_iff intro!: keeps_read elim!: check_chan_dev
      dest!: start_udp_keeps [THEN keeps_only_devD, OF _ only_dev_upd(2)] split: if_splits)

lemma tls_string_keeps: "keeps only_dev s (tls_string c k v l f s)"
  unfolding tls_string_def upd_tlsdata_def by (auto intro!: keeps_read)

lemma es_tls_option_keeps: "keeps only_dev s (es_tls_option k oo v l s)"
  unfolding es_tls_option_def upd_tlsdata_def
  by (cases oo) (auto simp: Let_def tls_string_keeps intro!: keeps_read split: optval.split)

lemma es_wifi_setsockopt_keeps: "keeps only_dev s (es_wifi_setsockopt L k lv oo v l s)"
  unfolding es_wifi_setsockopt_def
  by (cases oo) (auto simp: Let_def es_tls_option_keeps intro!: keeps_read split: optval.split)

lemma sock_info_keeps: "keeps only_dev s (sock_info L f k n l s)"
  unfolding sock_info_def by (auto simp: Let_def split_def intro!: keeps_read)

lemma es_wifi_names_keep:
  "keeps only_dev s (es_wifi_getsockname L k n l s)" "keeps only_dev s (es_wifi_getpeername L k n l s)"
  unfolding es_wifi_getsockname_def es_wifi_getpeername_def by (simp_all add: sock_info_keeps)

text \<open>The driver as a provider of the socket contract.\<close>

lemma es_drv_sel:
  "psocket (es_wifi_drv L B) = Some es_wifi_socket" "pbind (es_wifi_drv L B) = Some es_wifi_bind"
  "plisten (es_wifi_drv L B) = Some (es_wifi_listen L)" "paccept (es_wifi_drv L B) = Some (es_wifi_accept L)"
  "pconnect (es_wifi_drv L B) = Some (es_wifi_connect L)" "psend (es_wifi_drv L B) = Some (es_wifi_send L B)"
  "precv (es_wifi_drv L B) = Some (es_wifi_recv L B)" "psendto (es_wifi_drv L B) = Some (es_wifi_sendto L B)"
  "precvfrom (es_wifi_drv L B) = Some (es_wifi_recvfrom L B)"
  "psetsockopt (es_wifi_drv L B) = Some (es_wifi_setsockopt L)"
  "pgetsockname (es_wifi_drv L B) = Some (es_wifi_getsockname L)"
  "pgetpeername (es_wifi_drv L B) = Some (es_wifi_getpeername L)"
  "pclose (es_wifi_drv L B) = Some (es_wifi_close L)" "pshutdown (es_wifi_drv L B) = Some es_wifi_shutdown"
  "if_deinit (es_wifi_drv L B) = Some (es_wifi_if_deinit L B)" "if_start (es_wifi_drv L B) = Some (es_wifi_if_start B)"
  "if_stop (es_wifi_drv L B) = Some (es_wifi_if_stop B)" "if_connect (es_wifi_drv L B) = Some (es_wifi_if_connect L B)"
  "if_disconnect (es_wifi_drv L B) = Some (es_wifi_if_disconnect L B)"
  by (simp_all add: es_wifi_drv_def)

lemmas es_socket_keeps = es_wifi_socket_keeps es_wifi_bind_keeps es_wifi_listen_keeps es_wifi_accept_keeps
  es_wifi_connect_keeps es_wifi_send_keeps es_wifi_recv_keeps es_wifi_sendto_keeps es_wifi_recvfrom_keeps
  es_wifi_setsockopt_keeps es_wifi_names_keep es_wifi_close_keeps es_wifi_shutdown_keeps

lemmas es_socket_frames = es_socket_keeps [THEN keepsD(1), THEN only_dev_sock_frame]

interpretation es_sockets: socket_driver "es_env L B" for L B
  by unfold_locales (auto simp: es_drv_sel intro: es_socket_frames)

section \<open>Interface functions\<close>

lemma driver_ok_call: "driver_ok p s t \<Longrightarrow> driver_ok p s (snd (es_call f t))"
  using driver_ok_trans driver_ok_only_dev only_dev_es_call by blast

lemma driver_ok_called: "es_call f t = (r, u) \<Longrightarrow> driver_ok p s t \<Longrightarrow> driver_ok p s u"
  using driver_ok_call [of p s t f] by simp

lemmas driver_ok_steps = driver_ok_call driver_ok_upd_netif driver_ok_upd_drv driver_ok_mem

lemma es_wifi_if_deinit_ok: "es_wifi_if_deinit L B p s = Some (r, s') \<Longrightarrow> driver_ok p s s'"
  by (auto simp: es_wifi_if_deinit_def Let_def split_def bind_Some_iff intro!: driver_ok_steps)

lemma es_wifi_if_start_stop_ok:
  "es_wifi_if_start B p s = Some (r, s') \<Longrightarrow> driver_ok p s s'"
  "es_wifi_if_stop B p s = Some (r, s') \<Longrightarrow> driver_ok p s s'"
  by (auto simp: es_wifi_if_start_def es_wifi_if_stop_def bind_Some_iff elim!: driver_ok_sends)

lemma es_wifi_if_disconnect_ok: "es_wifi_if_disconnect L B p s = Some (r, s') \<Longrightarrow> driver_ok p s s'"
  by (auto simp: es_wifi_if_disconnect_def split_def bind_Some_iff Let_def elim!: driver_ok_sends intro!: driver_ok_steps)

lemma es_wifi_if_connect_sta_ok:
  assumes "es_wifi_if_connect_sta L B p s = Some (r, s')"
  shows "driver_ok p s s'"
proof -
  have settings: "driver_ok p s (snd (if b then es_call f (snd (es_call g s)) else (c, snd (es_call g s))))"
    for b c and f g :: "'a \<Rightarrow> int \<times> 'a"
    by (simp add: driver_ok_call)
  show ?thesis
    using assms unfolding es_wifi_if_connect_sta_def Let_def split_def
    by (auto simp: bind_Some_iff settings split: if_splits
        elim!: driver_ok_sends driver_ok_called intro!: driver_ok_upd_netif driver_ok_call simp del: if_split_asm)
qed

lemma es_wifi_if_connect_ap_ok: "es_wifi_if_connect_ap L B p s = Some (r, s') \<Longrightarrow> driver_ok p s s'"
  unfolding es_wifi_if_connect_ap_def Let_def split_def
  by (auto simp: bind_Some_iff split: if_splits
      elim!: driver_ok_sends driver_ok_called intro!: driver_ok_upd_netif driver_ok_call)

lemma es_wifi_if_connect_ok: "es_wifi_if_connect L B p s = Some (r, s') \<Longrightarrow> driver_ok p s s'"
  by (auto simp: es_wifi_if_connect_def bind_Some_iff split: if_splits
      intro: es_wifi_if_connect_sta_ok es_wifi_if_connect_ap_ok)

interpretation es_netif: netif_driver "es_env L B" for L B
  by unfold_locales (auto simp: call_if_def drv_of_def es_drv_sel bind_Some_iff
      intro: es_wifi_if_deinit_ok es_wifi_if_start_stop_ok es_wifi_if_disconnect_ok es_wifi_if_connect_ok)

lemma driver_ok_upd_chan [simp]: "driver_ok p s t \<Longrightarrow> driver_ok p s (upd_chan i f t)"
  by (erule driver_ok_trans, rule driver_ok_only_dev) simp

lemma driver_ok_init_channels: "driver_ok p s t \<Longrightarrow> driver_ok p s (init_channels L q is t)"
  by (induction "is" arbitrary: t) simp_all

lemma es_wifi_if_probe_ok:
  assumes "h_pdrv (Netifs s p) \<noteq> None"
  shows "\<exists>r s'. es_wifi_if_probe L p s = Some (r, s') \<and> driver_ok p s s'"
  using assms unfolding es_wifi_if_probe_def Let_def split_def
  by (auto intro!: driver_ok_steps driver_ok_init_channels)

lemma es_wifi_driver_ok: "init_driver_ok (es_wifi_driver L B) p"
  unfolding init_driver_ok_def
proof
  fix s :: "'a es_net"
  let ?x = "net_malloc B (env_sizeof B Sizeof_net_if_drv) s"
  show "\<exists>r t'. es_wifi_driver L B p s = Some (r, t') \<and> driver_ok p s t'"
  proof (cases "fst ?x")
    case None
    then show ?thesis
      by (simp add: es_wifi_driver_def es_wifi_if_init_def split_def driver_ok_mem)
  next
    case (Some d)
    let ?t = "upd_drv d (\<lambda>x. x\<lparr>d_if_class := NET_INTERFACE_CLASS_WIFI\<rparr>) (snd ?x)"
    let ?y = "net_malloc B (env_sizeof B Sizeof_wifi_extension) ?t"
    show ?thesis
    proof (cases "fst ?y")
      case None
      with Some show ?thesis
        by (simp add: es_wifi_driver_def es_wifi_if_init_def split_def driver_ok_mem driver_ok_upd_drv)
    next
      case (Some x)
      let ?u = "upd_drv d (\<lambda>y. y\<lparr>d_wifi := Some zero_wifi_ext, d_wifi_ref := x\<rparr>)
        (upd_netif p (\<lambda>h. h\<lparr>h_pdrv := Some d\<rparr>) (snd ?y))"
      have u: "driver_ok p s ?u" by (intro driver_ok_steps) simp_all
      obtain r v where v: "es_wifi_if_probe L p ?u = Some (r, v)" "driver_ok p ?u v"
        using es_wifi_if_probe_ok [of ?u p L] by (auto simp: upd_drv_def)
      obtain w where w: "driver_sends B p NET_EVENT_INTERFACE_INITIALIZED v = Some w"
        using driver_sends_returns [of NET_EVENT_INTERFACE_INITIALIZED B p v] by auto
      have "driver_ok p s v" "driver_ok p s w"
        using driver_ok_trans [OF u v(2)] driver_ok_sends [OF w] by simp_all
      with \<open>fst ?x = Some d\<close> Some v(1) w show ?thesis
        by (simp add: es_wifi_driver_def es_wifi_if_init_def split_def)
    qed
  qed
qed

section \<open>A module to evaluate with\<close>

definition demo_es_lib :: "nat es_lib" where
  "demo_es_lib = \<lparr>ES_WIFI_STATUS_OK = 0, ES_WIFI_STATUS_ERROR = 1, ES_WIFI_PAYLOAD_SIZE = 1200,
     ES_WIFI_MAX_SO_TIMEOUT = 30000, module_tls = True, sizeof_Product_Name = 32, sizeof_Product_ID = 32,
     sizeof_FW_Rev = 24, sizeof_AP_SSID = 33,
     wifi_probe = (\<lambda>m. ((0, Some 7), m)), ES_WIFI_Init = (\<lambda>_ m. (0, m)), ES_WIFI_DeInit = (\<lambda>_ m. (0, m)),
     Product_Name = (\<lambda>_ _. ''ISM43362''), Product_ID = (\<lambda>_ _. ''ISM''), FW_Rev = (\<lambda>_ _. ''C3''),
     ES_WIFI_GetMACAddress = (\<lambda>_ _ m. ((0, [1, 2, 3, 4, 5, 6]), m)),
     ES_WIFI_AtCommand = (\<lambda>_ c _ m. ((0, c), m)), ES_WIFI_Connect = (\<lambda>_ _ k _ m. (if k = ''secret'' then 0 else 3, m)),
     ES_WIFI_GetNetworkSettings = (\<lambda>_ m. (0, m)), NetSettings_IsConnected = (\<lambda>_ _. 1),
     NetSettings_IP_Addr = (\<lambda>_ _. [192, 168, 1, 7]), ES_WIFI_ActivateAP = (\<lambda>_ _ m. (0, m)),
     ES_WIFI_Disconnect = (\<lambda>_ m. (0, m)), ES_WIFI_IsConnected = (\<lambda>_ m. (1, m)),
     ES_WIFI_StartServerSingleConn = (\<lambda>_ _ m. (0, m)),
     ES_WIFI_WaitServerConnection = (\<lambda>_ _ _ m. ((0, 0x5000, [10, 0, 0, 1]), m)),
     ES_WIFI_CloseServerConnection = (\<lambda>_ _ m. (0, m)), ES_WIFI_StopServerSingleConn = (\<lambda>_ _ m. (0, m)),
     ES_WIFI_StoreCreds = (\<lambda>_ _ _ _ _ _ _ m. (0, m)), ES_WIFI_StartClientConnection = (\<lambda>_ _ m. (0, m)),
     ES_WIFI_StopClientConnection = (\<lambda>_ _ m. (0, m)),
     ES_WIFI_SendData = (\<lambda>_ _ _ n _ m. ((0, n), m + unat n)),
     ES_WIFI_ReceiveData = (\<lambda>_ _ b n _ m. ((0, b, n), m)), ES_WIFI_SendDataTo = (\<lambda>_ _ _ n _ _ _ m. ((0, n), m)),
     ES_WIFI_ReceiveDataFrom = (\<lambda>_ _ b n _ m. ((0, b, n, 0, 0), m)), ES_WIFI_SockInfo = (\<lambda>_ _ m. ((0, 0, 0), m)),
     ES_WIFI_PeerInfo = (\<lambda>_ _ m. ((0, 0, 0), m)), ES_WIFI_DNS_LookUp = (\<lambda>_ _ m. ((0, [8, 8, 8, 8]), m)),
     ES_WIFI_Ping = (\<lambda>_ _ _ _ r m. ((0, r), m)), ES_WIFI_ListAccessPoints = (\<lambda>_ m. ((0, 0, []), m))\<rparr>"

definition demo_channel :: "nat \<Rightarrow> WIFI_Channel" where
  "demo_channel i = \<lparr>c_Number = of_nat i, c_status = 0, c_protocol = 0, c_type = 0, c_localport = 0,
     c_localaddress = 0, c_maxpconnections = 0, c_blocking = 1, c_sendtimeout = 100, c_recvtimeout = 100,
     c_pnetif = Some 1, c_tlsData = no_tls_data\<rparr>"

definition demo_es_base :: "nat es_world env" where
  "demo_es_base = \<lparr>env_drv = (\<lambda>_. null_drv), env_notify = (\<lambda>_ _ _ w. w),
     env_tick = (\<lambda>w. (0, w)), env_wait = (\<lambda>_ s. s), env_sizeof = (\<lambda>_. 64),
     env_malloc = (\<lambda>_ w. (Some (module w), w\<lparr>module := Suc (module w)\<rparr>)), env_free = (\<lambda>_ w. w),
     mb_void = (\<lambda>_ _ w. w), mb_int = (\<lambda>_ _ w. (0, w)), mb_handshake = (\<lambda>_ _ s. Some (0, s)),
     mb_ssl_read = (\<lambda>_ _ b n s. Some ((int (unat n), b), s)), mb_ssl_write = (\<lambda>_ _ _ n s. Some (int (unat n), s)),
     mb_close_notify = (\<lambda>_ _ s. Some (0, s))\<rparr>"

text \<open>The state of \<open>demo_net\<close> over four free channels.\<close>

definition demo_es_net :: "net_state \<Rightarrow> string \<Rightarrow> nat es_net" where
  "demo_es_net st psk = \<lparr>Netifs = (\<lambda>_. demo_netif st), NetIfList = Some 1, NetInitialized = True,
     Sockets = replicate 5 zero_socket,
     Drivers = (\<lambda>_. \<lparr>d_if_class = NET_INTERFACE_CLASS_WIFI, d_context = Some 7,
       d_wifi = Some (demo_wifi\<lparr>x_credentials := Some \<lparr>cr_ssid = ''home'', cr_psk = psk, cr_security_mode = 0\<rparr>\<rparr>),
       d_wifi_ref = 50\<rparr>),
     TlsHeap = Map.empty, oslog = [Tls_init, Init_locks],
     dev = \<lparr>WifiChannel = map demo_channel [0..<4], module = 100\<rparr>\<rparr>"

section \<open>The library over the driver\<close>

interpretation es: net_driver "es_env L B" for L B ..

text \<open>
  Initialising an interface that is not registered with the ES-WiFi driver returns, whatever the module and the allocator
  answer, with the outcome the answer of the driver asks for.
\<close>

theorem es_init_outcome:
  assumes "registered s ps" and "p \<notin> set ps" and "h_next (Netifs s p) = None" and "locks_match s"
  shows "\<exists>t r s'. net_if_init (Some p) (es_wifi_driver L B) eh s = Some (r, s')
     \<and> init_follows_driver (es_wifi_driver L B) p ps eh t r s'"
  using assms es_wifi_driver_ok by (rule net_if_init_follows)

text \<open>
  C3. The library over the ES-WiFi driver, with no assumption on the module: any interleaving of the
  commands start, stop, connect and disconnect, the driver's events and socket calls without TLS that runs to its end
  leaves no lock held and the socket table well formed. (Not \<open>net_if_init\<close> and \<open>net_if_deinit\<close>, which make and destroy
  the locks.)
\<close>

theorem es_history_keeps_table:
  assumes "mbedtls_contract (es_env L B)" and "table_plain s" and "list_all plain_step xs"
    and "run_history (es_env L B) xs s = Some (rs, s')"
  shows "table_plain s'"
  using assms by (rule es.run_history_keeps_table)

section \<open>Channels\<close>

lemma chan_upd [simp]:
  "chan j (upd_chan i f s) = (if j = i \<and> i < length (WifiChannel (dev s)) then f (chan i s) else chan j s)"
  "length (WifiChannel (dev (upd_chan i f s))) = length (WifiChannel (dev s))"
  by (auto simp add: chan_def upd_chan_def nth_list_update list_update_beyond)

lemma chan_call [simp]:
  "chan j (snd (es_call f s)) = chan j s"
  "length (WifiChannel (dev (snd (es_call f s)))) = length (WifiChannel (dev s))"
  by (simp_all add: chan_def es_call_def Let_def split_def)

definition es_free :: "nat \<Rightarrow> 'm es_net \<Rightarrow> bool" where
  "es_free i s \<longleftrightarrow> c_status (chan i s) = WIFI_FREE_SOCKET"

lemma find_free_channel:
  "List.find (\<lambda>i. c_status (chan i s) = 0) [0..<4] = Some i \<longleftrightarrow> i < 4 \<and> es_free i s \<and> (\<forall>j<i. \<not> es_free j s)"
  unfolding find_Some_iff es_free_def by auto

lemma es_wifi_socket_cases:
  assumes "es_wifi_socket d t p s = Some (r, s')"
  shows "r = NET_ERROR_UNSUPPORTED \<and> s' = s
    \<or> r = NET_ERROR_INVALID_SOCKET \<and> s' = s \<and> (\<forall>i<4. \<not> es_free i s)
    \<or> (\<exists>i<4. r = int i \<and> es_free i s \<and> (\<forall>j<i. \<not> es_free j s) \<and> (\<forall>j. j \<noteq> i \<longrightarrow> chan j s' = chan j s)
         \<and> length (WifiChannel (dev s')) = length (WifiChannel (dev s)))"
proof (cases "List.find (\<lambda>i. c_status (chan i s) = 0) [0..<4]")
  case None
  then have "\<forall>i<4. \<not> es_free i s" by (auto simp: find_None_iff es_free_def)
  with None show ?thesis using assms by (auto simp: es_wifi_socket_def split: if_splits)
next
  case (Some i)
  then show ?thesis using assms find_free_channel [of s i]
    by (auto simp: es_wifi_socket_def Let_def split: if_splits)
qed

lemma es_wifi_close_frees:
  assumes "es_wifi_close L (int i) False s = Some (c, s')" and "i < 4" and "length (WifiChannel (dev s)) = 4"
  shows "es_free i s' \<and> (\<forall>j. j \<noteq> i \<longrightarrow> chan j s' = chan j s)"
  using assms by (auto simp: es_wifi_close_def es_channel_def es_free_def Let_def split_def bind_Some_iff split: if_splits)

text \<open>
  A socket of the driver is the lowest free channel, and only that channel changes; closing it frees
  it, whatever the module answers to the close, so the next socket of that kind is the same channel again.
\<close>

theorem es_channel_reused:
  assumes "es_wifi_socket d t p s = Some (r, s1)" and "0 \<le> r" and "length (WifiChannel (dev s)) = 4"
    and "es_wifi_close L r False s1 = Some (c, s2)"
  shows "(\<exists>i<4. r = int i \<and> es_free i s \<and> (\<forall>j<i. \<not> es_free j s) \<and> es_free i s2
            \<and> (\<forall>j. j \<noteq> i \<longrightarrow> chan j s2 = chan j s))
    \<and> (\<exists>s3. es_wifi_socket d t p s2 = Some (r, s3))"
proof -
  obtain i where i: "i < 4" "r = int i" "es_free i s" "\<forall>j<i. \<not> es_free j s"
      "\<forall>j. j \<noteq> i \<longrightarrow> chan j s1 = chan j s" "length (WifiChannel (dev s1)) = 4"
    using es_wifi_socket_cases [OF assms(1)] assms(2,3) by auto
  then have c: "es_free i s2" "\<forall>j. j \<noteq> i \<longrightarrow> chan j s2 = chan j s"
    using es_wifi_close_frees [of L i s1 c s2] assms(4) by auto
  have "d = NET_AF_INET" "t = NET_SOCK_STREAM \<or> t = NET_SOCK_DGRAM"
    using assms(1,2) by (auto simp: es_wifi_socket_def split: if_splits)
  moreover have "List.find (\<lambda>i. c_status (chan i s2) = 0) [0..<4] = Some i"
    using i c find_free_channel [of s2 i] by (auto simp: es_free_def)
  ultimately have "\<exists>s3. es_wifi_socket d t p s2 = Some (int i, s3)"
    by (auto simp: es_wifi_socket_def Let_def)
  with i c show ?thesis by blast
qed

theorem es_channel_reused_witness:
  "\<exists>s1 c s2 s3. es_wifi_socket NET_AF_INET NET_SOCK_STREAM 0 (demo_es_net NET_STATE_CONNECTED ''x'') = Some (0, s1)
     \<and> es_wifi_close demo_es_lib 0 False s1 = Some (c, s2)
     \<and> es_wifi_socket NET_AF_INET NET_SOCK_STREAM 0 s2 = Some (0, s3)"
proof -
  have "\<exists>s1 c s2. es_wifi_socket NET_AF_INET NET_SOCK_STREAM 0 (demo_es_net NET_STATE_CONNECTED ''x'') = Some (0, s1)
     \<and> es_wifi_close demo_es_lib 0 False s1 = Some (c, s2)"
    by (simp add: es_wifi_socket_def demo_es_net_def chan_def demo_channel_def upt_rec es_wifi_close_def es_channel_def
       Let_def upd_chan_def chan_context_def es_context_def demo_netif_def es_call_def demo_es_lib_def)
  moreover have "length (WifiChannel (dev (demo_es_net NET_STATE_CONNECTED ''x''))) = 4"
    by (simp add: demo_es_net_def)
  ultimately show ?thesis using es_channel_reused by (metis order_refl)
qed

lemma server_flag: "(x OR 92) AND 64 = (64 :: u8)"
  by (simp add: bit.conj_disj_distrib2)

text \<open>
  C5. Accepting returns the listening channel itself, so two accepted connections are one channel: when
  the first is closed, the second can neither send nor receive any more.
\<close>

theorem es_accepted_sockets_alias:
  assumes "es_wifi_accept L k a l s = Some ((r1, a1, l1), s1)" and "0 \<le> r1"
    and "es_wifi_accept L k a' l' s1 = Some ((r2, a2, l2), s2)" and "0 \<le> r2"
    and "es_wifi_close L r1 True s2 = Some (c, s3)" and "length (WifiChannel (dev s)) = 4"
  shows "r2 = r1 \<and> es_wifi_send L B r2 buf n 0 s3 = Some (NET_ERROR_SOCKET_FAILURE, s3)
    \<and> es_wifi_recv L B r2 rbuf n f s3 = Some ((NET_ERROR_SOCKET_FAILURE, rbuf), s3)"
proof -
  have accept: "r = k \<and> es_channel k \<and> length (WifiChannel (dev t')) = length (WifiChannel (dev t))
      \<and> (length (WifiChannel (dev t)) = 4 \<longrightarrow> c_status (chan (nat k) t') AND 64 \<noteq> 0)"
    if "es_wifi_accept L k a l t = Some ((r, a1, l1), t')" "0 \<le> r" for a l t r a1 l1 t'
    using that
    by (auto simp: es_wifi_accept_def Let_def split_def bind_Some_iff es_channel_def server_flag split: if_splits)
  have "r1 = k" "r2 = k" "es_channel k" "length (WifiChannel (dev s2)) = 4" "c_status (chan (nat k) s2) AND 64 \<noteq> 0"
    using accept [OF assms(1,2)] accept [OF assms(3,4)] assms(6) by auto
  moreover from this have "c_status (chan (nat k) s3) = 64"
    using assms(5) by (auto simp: es_wifi_close_def es_channel_def Let_def split_def bind_Some_iff)
  ultimately show ?thesis by (simp add: es_wifi_send_def es_wifi_recv_def)
qed

lemmas es_eval = demo_es_net_def chan_def demo_channel_def es_channel_def Let_def upd_chan_def chan_context_def
  es_context_def demo_netif_def es_call_def demo_es_lib_def upt_rec new_conn_def nth_list_update

theorem es_accepted_sockets_alias_witness:
  "\<exists>s. es_wifi_send demo_es_lib demo_es_base 2 [1] 1 0 s = Some (NET_ERROR_SOCKET_FAILURE, s)"
proof -
  let ?s = "demo_es_net NET_STATE_CONNECTED ''x''"
  let ?a = "Some \<lparr>sa_len = 16, sa_family = 2, sin_port = 0, sin_addr = 0\<rparr>"
  have "\<exists>a1 l1 s1 a2 l2 s2 c s3. es_wifi_accept demo_es_lib 2 ?a 16 ?s = Some ((2, a1, l1), s1)
     \<and> es_wifi_accept demo_es_lib 2 ?a 16 s1 = Some ((2, a2, l2), s2) \<and> es_wifi_close demo_es_lib 2 True s2 = Some (c, s3)"
    by (simp add: es_wifi_accept_def es_wifi_close_def es_eval)
  moreover have "length (WifiChannel (dev ?s)) = 4" by (simp add: demo_es_net_def)
  ultimately show ?thesis using es_accepted_sockets_alias [of demo_es_lib 2 ?a 16 ?s 2] by (metis zero_le_numeral)
qed

lemma clear_flags:
  fixes x :: u8
  shows "(x AND - 13) AND 4 = 0" "(x AND - 13) AND 8 = 0" "(x AND - 9) AND 8 = 0" "(x AND - 9) AND 4 = x AND 4"
    "(x AND - 5) AND 4 = 0" "(x AND - 5) AND 8 = x AND 8"
  by (simp_all add: and.assoc)

text \<open>
  After a shutdown of both directions every send and receive on the channel fails at once and
  without the module; a shutdown of one direction alone does not block the other.
\<close>

theorem es_shutdown_blocks:
  assumes "es_channel k" and "length (WifiChannel (dev s)) = 4"
    and "c_status (chan (nat k) s) AND WIFI_CONNECTED_SOCKET \<noteq> 0"
  shows "(\<exists>s'. es_wifi_shutdown k NET_SHUTDOWN_RW s = Some (NET_OK, s')
      \<and> es_wifi_send L B k buf n 0 s' = Some (NET_ERROR_SOCKET_FAILURE, s')
      \<and> es_wifi_recv L B k rbuf n f s' = Some ((NET_ERROR_SOCKET_FAILURE, rbuf), s'))
    \<and> (\<exists>s'. es_wifi_shutdown k NET_SHUTDOWN_R s = Some (NET_OK, s')
      \<and> es_wifi_recv L B k rbuf n f s' = Some ((NET_ERROR_SOCKET_FAILURE, rbuf), s')
      \<and> c_status (chan (nat k) s') AND WIFI_SEND_OK = c_status (chan (nat k) s) AND WIFI_SEND_OK)
    \<and> (\<exists>s'. es_wifi_shutdown k NET_SHUTDOWN_W s = Some (NET_OK, s')
      \<and> es_wifi_send L B k buf n 0 s' = Some (NET_ERROR_SOCKET_FAILURE, s')
      \<and> c_status (chan (nat k) s') AND WIFI_RECV_OK = c_status (chan (nat k) s) AND WIFI_RECV_OK)"
proof -
  have "nat k < 4" using assms(1) by (auto simp: es_channel_def)
  with assms show ?thesis
    by (simp add: es_wifi_shutdown_def es_wifi_send_def es_wifi_recv_def Let_def clear_flags)
qed

theorem es_shutdown_blocks_witness:
  "\<exists>s. es_wifi_send demo_es_lib demo_es_base 1 [1] 1 0 s = Some (NET_ERROR_SOCKET_FAILURE, s)"
proof -
  let ?s = "upd_chan 1 (\<lambda>c. c\<lparr>c_status := WIFI_CONNECTED_SOCKET_RW\<rparr>) (demo_es_net NET_STATE_CONNECTED ''x'')"
  have "es_channel 1" "length (WifiChannel (dev ?s)) = 4" "c_status (chan (nat 1) ?s) AND WIFI_CONNECTED_SOCKET \<noteq> 0"
    by (simp_all add: es_eval)
  from es_shutdown_blocks [OF this] show ?thesis by blast
qed

section \<open>Lengths and addresses\<close>

lemma payload_range:
  assumes "0 \<le> ES_WIFI_PAYLOAD_SIZE L" and "ES_WIFI_PAYLOAD_SIZE L < 65536"
  shows "uint (payload L n) = (if n < 0 then n mod 65536 else min n (ES_WIFI_PAYLOAD_SIZE L))"
  using assms by (auto simp: payload_def uint_word_of_int min_def)

lemma byte_mask: "(255 :: u32) = mask 8"
  by (simp add: mask_eq_exp_minus_1)

lemma NTOAR_bytes: "NET_NTOAR N = [ucast N, ucast (drop_bit 8 N), ucast (drop_bit 16 N), ucast (drop_bit 24 N)]"
  by (auto simp: NET_NTOAR_def drop_bit_and byte_mask bit_simps intro!: bit_word_eqI)

lemma ARTON_NTOAR: "NET_ARTON (NET_NTOAR N) = N"
proof (rule bit_word_eqI)
  fix n assume "n < LENGTH(32)"
  then show "bit (NET_ARTON (NET_NTOAR N)) n = bit N n"
    unfolding NET_ARTON_def NTOAR_bytes
    by (cases "24 \<le> n"; cases "16 \<le> n"; cases "8 \<le> n") (auto simp: bit_simps)
qed

lemma no_high_bit: "8 \<le> m \<Longrightarrow> \<not> bit (a :: u8) m"
  by (auto dest: bit_imp_le_length)

lemma NTOAR_ARTON: "NET_NTOAR (NET_ARTON [a, b, c, d]) = [a, b, c, d]"
  unfolding NTOAR_bytes NET_ARTON_def
  by (auto intro!: bit_word_eqI simp: bit_simps no_high_bit)

text \<open>
  The four-byte form of an address the driver gives the module and the word of the library are
  inverse to each other, in both directions.
\<close>

theorem es_address_roundtrip:
  "NET_ARTON (NET_NTOAR N) = N \<and> (length A = 4 \<longrightarrow> NET_NTOAR (NET_ARTON A) = A)"
proof -
  have "NET_NTOAR (NET_ARTON A) = A" if l: "length A = 4"
  proof -
    obtain a b c d where "A = [a, b, c, d]"
      using l by (auto simp: numeral_eq_Suc length_Suc_conv)
    then show ?thesis by (simp add: NTOAR_ARTON)
  qed
  with ARTON_NTOAR show ?thesis by blast
qed

theorem es_address_roundtrip_witness: "NET_NTOAR (NET_ARTON [192, 168, 1, 7]) = [192, 168, 1, 7]"
  using es_address_roundtrip [of 0 "[192, 168, 1, 7]"] by simp

text \<open>
  A send of the driver never reports more than was asked, nor more than the payload size of the module,
  provided the module reports no more than it was asked to send; but a length with the top bit set, which
  \<open>net_send\<close> hands on as a negative number, is cut to its low 16 bits past that limit.
\<close>

theorem es_send_length:
  assumes "0 \<le> ES_WIFI_PAYLOAD_SIZE L" and "ES_WIFI_PAYLOAD_SIZE L < 65536"
    and "\<forall>ctx i b n t m. snd (fst (ES_WIFI_SendData L ctx i b n t m)) \<le> n"
    and "es_wifi_send L B k buf n f s = Some (r, s')"
  shows "(0 \<le> n \<longrightarrow> r \<le> min n (ES_WIFI_PAYLOAD_SIZE L)) \<and> (n < 0 \<longrightarrow> r \<le> n mod 65536)"
proof -
  let ?N = "uint (payload L n)"
  have "r \<le> ?N"
  proof (cases "f \<noteq> 0 \<or> \<not> es_channel k \<or> c_status (chan (nat k) s) AND WIFI_SEND_OK = 0")
    case True
    then have "r < 0" using assms(4) by (auto simp: es_wifi_send_def split: if_splits)
    then show ?thesis using uint_ge_0 [of "payload L n"] by linarith
  next
    case False
    then obtain ctx where r: "r = (let x = fst (es_call (ES_WIFI_SendData L ctx (word_of_int k) buf (payload L n)
          (u32_of (c_sendtimeout (chan (nat k) s)))) s) in sent_ok L (fst x) (uint (snd x)))"
      using assms(4) by (auto simp: es_wifi_send_def Let_def split_def bind_Some_iff)
    have "- 19 \<le> ?N" by (rule order_trans [of _ 0]) simp_all
    then show ?thesis
      using assms(3) by (auto simp: r es_call_def Let_def split_def sent_ok_def word_le_def)
  qed
  then show ?thesis by (auto simp: payload_range [OF assms(1,2)])
qed

theorem es_send_length_witness:
  "\<exists>r s'. es_wifi_send demo_es_lib demo_es_base 1 [1] 5000 0
       (upd_chan 1 (\<lambda>c. c\<lparr>c_status := WIFI_CONNECTED_SOCKET_RW\<rparr>) (demo_es_net NET_STATE_CONNECTED ''x'')) = Some (r, s')
     \<and> r \<le> 1200"
proof -
  let ?s = "upd_chan 1 (\<lambda>c. c\<lparr>c_status := WIFI_CONNECTED_SOCKET_RW\<rparr>) (demo_es_net NET_STATE_CONNECTED ''x'')"
  have "\<exists>r s'. es_wifi_send demo_es_lib demo_es_base 1 [1] 5000 0 ?s = Some (r, s')"
    by (simp add: es_wifi_send_def es_eval check_chan_def check_connection_lost_def)
  then obtain r s' where s': "es_wifi_send demo_es_lib demo_es_base 1 [1] 5000 0 ?s = Some (r, s')" by blast
  have "\<forall>ctx i b n t m. snd (fst (ES_WIFI_SendData demo_es_lib ctx i b n t m)) \<le> n"
    by (simp add: demo_es_lib_def)
  from es_send_length [OF _ _ this s'] s' show ?thesis by (simp add: demo_es_lib_def)
qed

section \<open>Joining a network\<close>

text \<open>What the module answers to the station's connection attempt: the address it got, if it joined.\<close>

definition es_join :: "'m es_lib \<Rightarrow> es_ctx \<Rightarrow> net_wifi_credentials \<Rightarrow> 'm \<Rightarrow> u8 list option" where
  "es_join L ctx cr m =
     (let (r1, m) = ES_WIFI_Connect L ctx (cr_ssid cr) (cr_psk cr) (GetESWifiSecurityType (cr_security_mode cr)) m in
      if r1 \<noteq> ES_WIFI_STATUS_OK L then None
      else let (r2, m) = ES_WIFI_GetNetworkSettings L ctx m in
           if r2 \<noteq> ES_WIFI_STATUS_OK L \<or> NetSettings_IsConnected L ctx m = 0 then None
           else Some (NetSettings_IP_Addr L ctx m))"

lemma es_wifi_connect_sta_outcome:
  assumes "h_pdrv (Netifs s p) = Some d" and "d_wifi (Drivers s d) = Some x" and "x_credentials x = Some cr"
    and "h_state (Netifs s p) = NET_STATE_CONNECTING"
  shows "case es_join L (d_context (Drivers s d)) cr (module (dev s)) of
     Some ip \<Rightarrow> \<exists>s'. es_wifi_if_connect_sta L B p s = Some (ES_WIFI_STATUS_OK L, s')
        \<and> h_state (Netifs s' p) = NET_STATE_CONNECTED \<and> h_ipaddr (Netifs s' p) = NET_ARTON ip
   | None \<Rightarrow> \<exists>r s'. es_wifi_if_connect_sta L B p s = Some (r, s') \<and> (r \<noteq> ES_WIFI_STATUS_OK L \<or> r = ES_WIFI_STATUS_ERROR L)
        \<and> h_state (Netifs s' p) = NET_STATE_CONNECTING \<and> only_dev s s'"
  using assms
  by (auto simp: es_wifi_if_connect_sta_def es_join_def es_context_def es_call_def driver_sends_def Let_def split_def
      manage_event_from_driver split: option.split if_split)

text \<open>
  C4. Joining as a station: if the module joins, \<open>net_if_connect\<close>'s event ends in state CONNECTED with the address
  the module got. If it does not, the call reports \<open>NET_ERROR_INTERFACE_FAILURE\<close> but the interface stays in state
  CONNECTING, where every further connect command is dropped with \<open>NET_OK\<close>, without a word to the module.
\<close>

theorem es_connect_outcome:
  assumes "h_state (Netifs s p) = NET_STATE_READY" and "h_pdrv (Netifs s p) = Some d"
    and "d_wifi (Drivers s d) = Some x" and "x_mode x = NET_WIFI_MODE_STA" and "x_credentials x = Some cr"
    and "ES_WIFI_STATUS_OK L = 0" and "ES_WIFI_STATUS_ERROR L \<noteq> 0"
    and "m = module (dev (set_state (es_env L B) p NET_STATE_CONNECTING s))"
  shows "case es_join L (d_context (Drivers s d)) cr m of
     Some ip \<Rightarrow> \<exists>s'. net_state_manage_event (es_env L B) (Some p) NET_EVENT_CMD_CONNECT s = Some (NET_OK, s')
        \<and> h_state (Netifs s' p) = NET_STATE_CONNECTED \<and> h_ipaddr (Netifs s' p) = NET_ARTON ip
   | None \<Rightarrow> \<exists>s'. net_state_manage_event (es_env L B) (Some p) NET_EVENT_CMD_CONNECT s
          = Some (NET_ERROR_INTERFACE_FAILURE, s') \<and> h_state (Netifs s' p) = NET_STATE_CONNECTING
        \<and> net_state_manage_event (es_env L B) (Some p) NET_EVENT_CMD_CONNECT s' = Some (NET_OK, s')"
proof -
  let ?s = "set_state (es_env L B) p NET_STATE_CONNECTING s"
  have run: "net_state_manage_event (es_env L B) (Some p) NET_EVENT_CMD_CONNECT s =
      map_option (\<lambda>(r, s'). (if_failure r, s')) (es_wifi_if_connect_sta L B p ?s)"
    using assms(1-5)
    by (simp add: manage_event_Some net_state_ready_def Let_def call_if_def drv_of_def es_drv_sel es_wifi_if_connect_def
        bind_result split_def)
  have sta: "case es_join L (d_context (Drivers s d)) cr m of
     Some ip \<Rightarrow> \<exists>s'. es_wifi_if_connect_sta L B p ?s = Some (0, s')
        \<and> h_state (Netifs s' p) = NET_STATE_CONNECTED \<and> h_ipaddr (Netifs s' p) = NET_ARTON ip
   | None \<Rightarrow> \<exists>r s'. es_wifi_if_connect_sta L B p ?s = Some (r, s') \<and> r \<noteq> 0
        \<and> h_state (Netifs s' p) = NET_STATE_CONNECTING \<and> only_dev ?s s'"
    using es_wifi_connect_sta_outcome [of ?s p d x cr L B] assms by (auto split: option.splits)
  show ?thesis
  proof (cases "es_join L (d_context (Drivers s d)) cr m")
    case None
    then show ?thesis using sta run
      by (auto simp: if_failure_def manage_event_ignored)
  next
    case (Some ip)
    then show ?thesis using sta run by (auto simp: if_failure_def)
  qed
qed

theorem es_connect_outcome_witness:
  "\<exists>s1 s2. net_state_manage_event (es_env demo_es_lib demo_es_base) (Some 1) NET_EVENT_CMD_CONNECT
        (demo_es_net NET_STATE_READY ''secret'') = Some (NET_OK, s1)
     \<and> h_ipaddr (Netifs s1 1) = NET_ARTON [192, 168, 1, 7]
     \<and> net_state_manage_event (es_env demo_es_lib demo_es_base) (Some 1) NET_EVENT_CMD_CONNECT
        (demo_es_net NET_STATE_READY ''wrong'') = Some (NET_ERROR_INTERFACE_FAILURE, s2)"
proof -
  let ?x = "\<lambda>k. demo_wifi\<lparr>x_credentials := Some \<lparr>cr_ssid = ''home'', cr_psk = k, cr_security_mode = 0\<rparr>\<rparr>"
  have "h_state (Netifs (demo_es_net NET_STATE_READY k) 1) = NET_STATE_READY"
    "h_pdrv (Netifs (demo_es_net NET_STATE_READY k) 1) = Some 0"
    "d_wifi (Drivers (demo_es_net NET_STATE_READY k) 0) = Some (?x k)"
    "x_mode (?x k) = NET_WIFI_MODE_STA" "ES_WIFI_STATUS_OK demo_es_lib = 0" "ES_WIFI_STATUS_ERROR demo_es_lib \<noteq> 0"
    "x_credentials (?x k) = Some \<lparr>cr_ssid = ''home'', cr_psk = k, cr_security_mode = 0\<rparr>" for k
    by (simp_all add: demo_es_net_def demo_defs demo_es_lib_def)
  note pre = this
  have join: "es_join demo_es_lib ctx \<lparr>cr_ssid = ''home'', cr_psk = ''secret'', cr_security_mode = 0\<rparr> m = Some [192, 168, 1, 7]"
      "es_join demo_es_lib ctx \<lparr>cr_ssid = ''home'', cr_psk = ''wrong'', cr_security_mode = 0\<rparr> m = None" for ctx m
    by (simp_all add: es_join_def demo_es_lib_def)
  show ?thesis
    using es_connect_outcome [OF pre(1,2,3,4,7,5,6) refl, of demo_es_base "''secret''"]
      es_connect_outcome [OF pre(1,2,3,4,7,5,6) refl, of demo_es_base "''wrong''"]
    by (auto simp: join)
qed

section \<open>Witnesses over the demonstration module\<close>

lemma demo_es_plain: "table_plain (demo_es_net st k)"
  by (auto simp: table_plain_def demo_es_net_def sock_at_def zero_socket_def held_def held_after_def nth_Cons'
      less_Suc_eq numeral_eq_Suc)

lemma demo_es_mbedtls: "mbedtls_contract (es_env demo_es_lib demo_es_base)"
  by (auto simp: mbedtls_contract_def mbedtls_relation_def demo_es_base_def es_env_def reflp_def)

theorem es_history_keeps_table_witness:
  "\<exists>rs s'. run_history (es_env demo_es_lib demo_es_base)
       [Step_event 1 NET_EVENT_CMD_CONNECT, Step_call (Api_socket NET_AF_INET NET_SOCK_STREAM NET_IPPROTO_TCP),
        Step_event 1 NET_EVENT_CMD_DISCONNECT] (demo_es_net NET_STATE_READY ''secret'') = Some (rs, s') \<and> table_plain s'"
proof -
  let ?h = "[Step_event 1 NET_EVENT_CMD_CONNECT, Step_call (Api_socket NET_AF_INET NET_SOCK_STREAM NET_IPPROTO_TCP),
        Step_event 1 NET_EVENT_CMD_DISCONNECT]"
  have "map_option fst (run_history (es_env demo_es_lib demo_es_base) ?h (demo_es_net NET_STATE_READY ''secret'')) \<noteq> None"
    by code_simp
  then obtain rs s' where r: "run_history (es_env demo_es_lib demo_es_base) ?h (demo_es_net NET_STATE_READY ''secret'') = Some (rs, s')"
    by auto
  have "list_all plain_step ?h" by simp
  from es_history_keeps_table [OF demo_es_mbedtls demo_es_plain this r] r show ?thesis by blast
qed

theorem es_init_outcome_witness:
  "\<exists>r s'. net_if_init (Some 2) (es_wifi_driver demo_es_lib demo_es_base) None (demo_es_net NET_STATE_READY ''x'') = Some (r, s')
     \<and> (registered s' [1, 2] \<or> registered s' [1])"
proof -
  let ?s = "demo_es_net NET_STATE_READY ''x''"
  have "registered ?s [1]" "2 \<notin> set [1::nat]" "h_next (Netifs ?s 2) = None" "locks_match ?s"
    by (simp_all add: registered_def locks_match_def demo_es_net_def demo_defs held_after_def)
  from es_init_outcome [OF this, of demo_es_lib demo_es_base None] show ?thesis
    by (auto simp: init_follows_driver_def split: if_splits)
qed

section \<open>Security modes\<close>

text \<open>
  The security mode a scan reports for an access point, given back to connect to it, is the module's
  own mode for open, WEP and WPA networks; every other access point, WPA2 only and unknown ones included,
  is joined as WPA/WPA2.
\<close>

theorem es_security_roundtrip:
  "GetESWifiSecurityType (sint (sr_security (scan_result ap))) =
     (if a_Security ap \<in> {ES_WIFI_SEC_OPEN, ES_WIFI_SEC_WEP, ES_WIFI_SEC_WPA} then a_Security ap
      else ES_WIFI_SEC_WPA_WPA2)"
proof -
  have "GetESWifiSecurityType (sint (conv_to_net_security x)) =
     (if x \<in> {ES_WIFI_SEC_OPEN, ES_WIFI_SEC_WEP, ES_WIFI_SEC_WPA} then x else ES_WIFI_SEC_WPA_WPA2)" for x
    by (cases x; simp only: ; code_simp)
  then show ?thesis by (simp add: scan_result_def)
qed

end
