(* ===== verification/Mx_Wifi.thy ===== *)
theory Mx_Wifi
  imports Driver_Frame
begin

text \<open>
  \<open>netif/wifi_if/mx_wifi/net_mx_wifi.c\<close>: the driver of the MXCHIP module, built with
  \<open>MX_WIFI_NETWORK_BYPASS_MODE\<close> 0 (the sockets are the module's; \<open>Mx_Bypass\<close> is the other build) and IPv4. The component library of the module
  (\<open>mx_wifi.h\<close>) is outside the repository: the record \<open>mx_lib\<close>. Its object \<open>*wifi_obj_get()\<close>, whose network
  settings the driver reads and writes, and the module behind it are what \<open>dev\<close> is for this driver.
  The library reports a change of the station or of the access point by calling \<open>mx_wifi_status_changed\<close>,
  from a task of its own: the callback is an operation of the model like the driver functions.
\<close>

section \<open>The component library of the module\<close>

text \<open>The members of \<open>MX_WIFIObject_t\<close> the driver uses: \<open>Runtime\<close> and \<open>NetSettings\<close>.\<close>

record 'm mx_world =
  Runtime_interfaces :: u8
  DHCP_IsEnabled :: u8
  IP_Addr :: "u8 list"
  IP_Mask :: "u8 list"
  Gateway_Addr :: "u8 list"
  mx_module :: 'm

type_synonym 'm mx_net = "'m mx_world net"

datatype mwifi_if = MC_SOFTAP | MC_STATION

record mx_ap_settings =
  map_SSID :: string
  map_pswd :: string
  map_channel :: u8
  map_localip :: string
  map_gateway :: string
  map_netmask :: string
  map_dnserver :: string

record mx_ap_info =
  mai_ssid :: bytes
  mai_bssid :: bytes
  mai_security :: nat
  mai_rssi :: int
  mai_channel :: int

record 'm mx_lib =
  MX_WIFI_STATUS_OK :: int
  MX_WIFI_STATUS_ERROR :: int
  MX_WIFI_STATUS_TIMEOUT :: int
  mwifi_if_code :: "mwifi_if \<Rightarrow> u8"
  MWIFI_EVENT_STA_UP :: u8
  MWIFI_EVENT_STA_DOWN :: u8
  MWIFI_EVENT_STA_GOT_IP :: u8
  MWIFI_EVENT_AP_UP :: u8
  MWIFI_EVENT_AP_DOWN :: u8
  MX_WIFI_SEC_AUTO :: int
  sizeof_mx_sockaddr_in :: u32
  sizeof_mx_sockaddr_in6 :: u32
  sizeof_mx_AP_SSID :: nat
  sizeof_mx_AP_pswd :: nat
  sizeof_mx_ip :: nat
  sizeof_mwifi_ap_info :: nat
  mxwifi_probe :: "'m mx_world \<Rightarrow> (int \<times> nat option) \<times> 'm mx_world"
  MX_WIFI_HardResetModule :: "'m mx_world \<Rightarrow> int \<times> 'm mx_world"
  MX_WIFI_Init :: "'m mx_world \<Rightarrow> int \<times> 'm mx_world"
  MX_WIFI_DeInit :: "'m mx_world \<Rightarrow> int \<times> 'm mx_world"
  SysInfo_Product_Name :: "'m mx_world \<Rightarrow> string"
  SysInfo_Product_ID :: "'m mx_world \<Rightarrow> string"
  SysInfo_FW_Rev :: "'m mx_world \<Rightarrow> string"
  MX_WIFI_GetMACAddress :: "bytes \<Rightarrow> 'm mx_world \<Rightarrow> (int \<times> bytes) \<times> 'm mx_world"
  MX_WIFI_GetsoftapMACAddress :: "bytes \<Rightarrow> 'm mx_world \<Rightarrow> (int \<times> bytes) \<times> 'm mx_world"
  MX_WIFI_IO_YIELD :: "u32 \<Rightarrow> 'm mx_world \<Rightarrow> int \<times> 'm mx_world"
  MX_WIFI_RegisterStatusCallback_if :: "netref \<Rightarrow> mwifi_if \<Rightarrow> 'm mx_world \<Rightarrow> int \<times> 'm mx_world"
  MX_WIFI_WPS_Connect :: "'m mx_world \<Rightarrow> int \<times> 'm mx_world"
  MX_WIFI_WPS_Stop :: "'m mx_world \<Rightarrow> int \<times> 'm mx_world"
  MX_WIFI_Connect :: "string \<Rightarrow> string \<Rightarrow> int \<Rightarrow> 'm mx_world \<Rightarrow> int \<times> 'm mx_world"
  MX_WIFI_Disconnect :: "'m mx_world \<Rightarrow> int \<times> 'm mx_world"
  MX_WIFI_StartAP :: "mx_ap_settings \<Rightarrow> 'm mx_world \<Rightarrow> int \<times> 'm mx_world"
  MX_WIFI_StopAP :: "'m mx_world \<Rightarrow> int \<times> 'm mx_world"
  MX_WIFI_GetIPAddress :: "mwifi_if \<Rightarrow> 'm mx_world \<Rightarrow> int \<times> 'm mx_world"
    \<comment> \<open>writes the settings of the object, and a local buffer the driver does not use\<close>
  DELAY_MS :: "u32 \<Rightarrow> 'm mx_world \<Rightarrow> 'm mx_world"
  MX_WIFI_Scan :: "u8 \<Rightarrow> string option \<Rightarrow> int \<Rightarrow> 'm mx_world \<Rightarrow> int \<times> 'm mx_world"
  MX_WIFI_Get_scan_result :: "u8 \<Rightarrow> 'm mx_world \<Rightarrow> (8 word \<times> mx_ap_info list) \<times> 'm mx_world"
  MX_WIFI_Socket_create :: "int \<Rightarrow> int \<Rightarrow> int \<Rightarrow> 'm mx_world \<Rightarrow> int \<times> 'm mx_world"
  MX_WIFI_Socket_setsockopt :: "int \<Rightarrow> int \<Rightarrow> net_socketoption \<Rightarrow> optval \<Rightarrow> int \<Rightarrow> 'm mx_world \<Rightarrow> int \<times> 'm mx_world"
  MX_WIFI_Socket_getsockopt :: "int \<Rightarrow> int \<Rightarrow> net_socketoption \<Rightarrow> optval \<Rightarrow> u32 \<Rightarrow> 'm mx_world \<Rightarrow> (int \<times> optval \<times> u32) \<times> 'm mx_world"
  MX_WIFI_Socket_bind :: "int \<Rightarrow> net_sockaddr \<Rightarrow> int \<Rightarrow> 'm mx_world \<Rightarrow> int \<times> 'm mx_world"
  MX_WIFI_Socket_listen :: "int \<Rightarrow> int \<Rightarrow> 'm mx_world \<Rightarrow> int \<times> 'm mx_world"
  MX_WIFI_Socket_accept :: "int \<Rightarrow> net_sockaddr option \<Rightarrow> u32 \<Rightarrow> 'm mx_world \<Rightarrow> (int \<times> net_sockaddr option \<times> u32) \<times> 'm mx_world"
  MX_WIFI_Socket_connect :: "int \<Rightarrow> net_sockaddr option \<Rightarrow> int \<Rightarrow> 'm mx_world \<Rightarrow> int \<times> 'm mx_world"
  MX_WIFI_Socket_shutdown :: "int \<Rightarrow> int \<Rightarrow> 'm mx_world \<Rightarrow> int \<times> 'm mx_world"
  MX_WIFI_Socket_close :: "int \<Rightarrow> 'm mx_world \<Rightarrow> int \<times> 'm mx_world"
  MX_WIFI_Socket_send :: "int \<Rightarrow> bytes \<Rightarrow> int \<Rightarrow> int \<Rightarrow> 'm mx_world \<Rightarrow> int \<times> 'm mx_world"
  MX_WIFI_Socket_recv :: "int \<Rightarrow> bytes \<Rightarrow> int \<Rightarrow> int \<Rightarrow> 'm mx_world \<Rightarrow> (int \<times> bytes) \<times> 'm mx_world"
  MX_WIFI_Socket_sendto :: "int \<Rightarrow> bytes \<Rightarrow> int \<Rightarrow> int \<Rightarrow> net_sockaddr \<Rightarrow> int \<Rightarrow> 'm mx_world \<Rightarrow> int \<times> 'm mx_world"
  MX_WIFI_Socket_recvfrom :: "int \<Rightarrow> bytes \<Rightarrow> int \<Rightarrow> int \<Rightarrow> net_sockaddr \<Rightarrow> u32 \<Rightarrow> 'm mx_world \<Rightarrow>
    (int \<times> bytes \<times> net_sockaddr \<times> u32) \<times> 'm mx_world"
  MX_WIFI_Socket_gethostbyname :: "net_sockaddr \<Rightarrow> string \<Rightarrow> 'm mx_world \<Rightarrow> (int \<times> net_sockaddr) \<times> 'm mx_world"
  MX_WIFI_Socket_ping :: "string \<Rightarrow> int \<Rightarrow> int \<Rightarrow> int list \<Rightarrow> 'm mx_world \<Rightarrow> (int \<times> int list) \<times> 'm mx_world"
  MX_WIFI_Socket_ping6 :: "string \<Rightarrow> int \<Rightarrow> int \<Rightarrow> int list \<Rightarrow> 'm mx_world \<Rightarrow> (int \<times> int list) \<times> 'm mx_world"
  MX_WIFI_Socket_getsockname :: "int \<Rightarrow> net_sockaddr \<Rightarrow> u32 \<Rightarrow> 'm mx_world \<Rightarrow> (int \<times> net_sockaddr \<times> u32) \<times> 'm mx_world"
  MX_WIFI_Socket_getpeername :: "int \<Rightarrow> net_sockaddr \<Rightarrow> u32 \<Rightarrow> 'm mx_world \<Rightarrow> (int \<times> net_sockaddr \<times> u32) \<times> 'm mx_world"

definition mx_call :: "('m mx_world \<Rightarrow> 'a \<times> 'm mx_world) \<Rightarrow> 'm mx_net \<Rightarrow> 'a \<times> 'm mx_net" where
  "mx_call f s = (let (r, w) = f (dev s) in (r, s\<lparr>dev := w\<rparr>))"

definition wps_mode :: "net_wifi_credentials \<Rightarrow> bool" where
  "wps_mode cr \<longleftrightarrow> int32_of NET_WIFI_SM_WPS_OPEN = cr_security_mode cr \<or> int32_of NET_WIFI_SM_WPS_SECURE = cr_security_mode cr"

abbreviation (input) NET_ERROR_NO_ADDRESS :: int where "NET_ERROR_NO_ADDRESS \<equiv> -7"

section \<open>Initialisation\<close>

definition hw_start :: "'m mx_lib \<Rightarrow> netref \<Rightarrow> 'm mx_net \<Rightarrow> (int, 'm mx_world) res" where
  "hw_start L p s = do {
     d \<leftarrow> h_pdrv (Netifs s p);
     let ((r, ctx), s) = mx_call (mxwifi_probe L) s;
     let s = upd_drv d (\<lambda>x. x\<lparr>d_context := ctx\<rparr>) s;
     (if r = 0 then
        let (ret, s) = (if Runtime_interfaces (dev s) = 0 then mx_call (MX_WIFI_HardResetModule L) s
                        else (MX_WIFI_STATUS_OK L, s)) in
        if MX_WIFI_STATUS_OK L \<noteq> ret then Some (NET_ERROR_DEVICE_ERROR, s)
        else
          (case mx_call (MX_WIFI_Init L) s of (r, s) \<Rightarrow>
             if MX_WIFI_STATUS_OK L \<noteq> r then Some (NET_ERROR_INTERFACE_FAILURE, s)
             else
               (let s = upd_netif p (\<lambda>h. h\<lparr>h_DeviceName := take NET_DEVICE_NAME_LEN (SysInfo_Product_Name L (dev s))\<rparr>) s;
                    s = upd_netif p (\<lambda>h. h\<lparr>h_DeviceID := take NET_DEVICE_ID_LEN (SysInfo_Product_ID L (dev s))\<rparr>) s;
                    s = upd_netif p (\<lambda>h. h\<lparr>h_DeviceVer := take NET_DEVICE_VER_LEN (SysInfo_FW_Rev L (dev s))\<rparr>) s;
                    ((_, mac), s) = mx_call (MX_WIFI_GetMACAddress L (h_macaddr (Netifs s p))) s
                in Some (NET_OK, upd_netif p (\<lambda>h. h\<lparr>h_macaddr := mac\<rparr>) s)))
      else Some (NET_ERROR_DEVICE_ERROR, s)) }"

text \<open>
  The two blocks are not cleared: the members the driver does not set hold what the memory held. The model has them
  null, which is the case of a heap that hands out cleared memory.
\<close>

definition mx_wifi_if_init :: "'m mx_lib \<Rightarrow> 'm mx_world env \<Rightarrow> netref \<Rightarrow> 'm mx_net \<Rightarrow> (int, 'm mx_world) res" where
  "mx_wifi_if_init L E p s =
     (case net_malloc E (env_sizeof E Sizeof_net_if_drv) s of
        (None, s) \<Rightarrow> Some (NET_ERROR_NO_MEMORY, s)
      | (Some d, s) \<Rightarrow>
          (let s = upd_drv d (\<lambda>x. x\<lparr>d_if_class := NET_INTERFACE_CLASS_WIFI\<rparr>) s in
           case net_malloc E (env_sizeof E Sizeof_wifi_extension) s of
             (None, s) \<Rightarrow> Some (NET_ERROR_NO_MEMORY, net_free E d s)
           | (Some x, s) \<Rightarrow>
               (let s = upd_drv d (\<lambda>y. y\<lparr>d_wifi := Some zero_wifi_ext, d_wifi_ref := x\<rparr>) s;
                    s = upd_netif p (\<lambda>h. h\<lparr>h_dhcp_mode := True\<rparr>) s;
                    s = upd_netif p (\<lambda>h. h\<lparr>h_pdrv := Some d\<rparr>) s
                in hw_start L p s)))"

definition mx_wifi_driver :: "'m mx_lib \<Rightarrow> 'm mx_world env \<Rightarrow> netref \<Rightarrow> 'm mx_net \<Rightarrow> (int, 'm mx_world) res" where
  "mx_wifi_driver L E pnetif s = mx_wifi_if_init L E pnetif s"

definition mx_wifi_if_deinit :: "'m mx_lib \<Rightarrow> 'm mx_world env \<Rightarrow> netref \<Rightarrow> 'm mx_net \<Rightarrow> (int, 'm mx_world) res" where
  "mx_wifi_if_deinit L E p s = (case mx_call (MX_WIFI_DeInit L) s of (r, s) \<Rightarrow> do {
     let ret = (if MX_WIFI_STATUS_OK L \<noteq> r then NET_ERROR_GENERIC else NET_OK);
     d \<leftarrow> h_pdrv (Netifs s p);
     let s = net_free E (d_wifi_ref (Drivers s d)) s;
     let s = upd_drv d (\<lambda>x. x\<lparr>d_wifi := None\<rparr>) s;
     let s = net_free E d s;
     Some (ret, upd_netif p (\<lambda>h. h\<lparr>h_pdrv := None\<rparr>) s) })"

section \<open>Station and access point\<close>

definition mx_wifi_if_start_station :: "'m mx_lib \<Rightarrow> netref \<Rightarrow> 'm mx_net \<Rightarrow> (int, 'm mx_world) res" where
  "mx_wifi_if_start_station L p s = do {
     x \<leftarrow> wifi_of p s;
     let h = Netifs s p;
     let s = (if h_dhcp_mode h = False
              then s\<lparr>dev := (dev s)\<lparr>DHCP_IsEnabled := 0, IP_Addr := NET_NTOAR (h_static_ipaddr h),
                     IP_Mask := NET_NTOAR (h_static_netmask h), Gateway_Addr := NET_NTOAR (h_static_gateway h)\<rparr>\<rparr>
              else s\<lparr>dev := (dev s)\<lparr>DHCP_IsEnabled := 1\<rparr>\<rparr>);
     let (_, s) = mx_call (MX_WIFI_RegisterStatusCallback_if L p MC_STATION) s;
     cr \<leftarrow> x_credentials x;
     Some (if wps_mode cr then mx_call (MX_WIFI_WPS_Connect L) s
           else mx_call (MX_WIFI_Connect L (cr_ssid cr) (cr_psk cr) (MX_WIFI_SEC_AUTO L)) s) }"

text \<open>\<open>snprintf\<close> of \<open>ADDR(A)\<close> into an array of \<open>sizeof(ap_cfg.ip.localip)\<close> characters.\<close>

definition print_ADDR :: "'m mx_lib \<Rightarrow> u32 \<Rightarrow> string" where
  "print_ADDR L a = take (sizeof_mx_ip L - 1) (dotted a)"

definition mx_wifi_if_start_softap :: "'m mx_lib \<Rightarrow> netref \<Rightarrow> 'm mx_net \<Rightarrow> (int, 'm mx_world) res" where
  "mx_wifi_if_start_softap L p s = do {
     x \<leftarrow> wifi_of p s;
     let h = Netifs s p;
     let (ssid, pswd) = (case x_credentials x of None \<Rightarrow> ([], [])
                         | Some cr \<Rightarrow> (take (sizeof_mx_AP_SSID L) (cr_ssid cr), take (sizeof_mx_AP_pswd L) (cr_psk cr)));
     let ap_cfg = \<lparr>map_SSID = ssid, map_pswd = pswd, map_channel = x_access_channel x,
           map_localip = print_ADDR L (h_static_ipaddr h), map_gateway = print_ADDR L (h_static_gateway h),
           map_netmask = print_ADDR L (h_static_netmask h), map_dnserver = print_ADDR L (h_static_dnserver h)\<rparr>;
     let (_, s) = mx_call (MX_WIFI_RegisterStatusCallback_if L p MC_SOFTAP) s;
     (case mx_call (MX_WIFI_StartAP L ap_cfg) s of (r, s) \<Rightarrow>
        if MX_WIFI_STATUS_OK L = r then
          (case mx_call (MX_WIFI_GetsoftapMACAddress L (h_macaddr (Netifs s p))) s of ((_, mac), s) \<Rightarrow>
             Some (NET_OK, upd_netif p (\<lambda>h. h\<lparr>h_macaddr := mac\<rparr>) s))
        else Some (NET_ERROR_GENERIC, s)) }"

definition mx_wifi_if_start :: "'m mx_lib \<Rightarrow> netref \<Rightarrow> 'm mx_net \<Rightarrow> (int, 'm mx_world) res" where
  "mx_wifi_if_start L p s = do {
     x \<leftarrow> wifi_of p s;
     (if x_mode x = NET_WIFI_MODE_STA then mx_wifi_if_start_station L p s else mx_wifi_if_start_softap L p s) }"

definition mx_wifi_if_stop :: "'m mx_lib \<Rightarrow> 'm mx_world env \<Rightarrow> netref \<Rightarrow> 'm mx_net \<Rightarrow> (int, 'm mx_world) res" where
  "mx_wifi_if_stop L E p s = do {
     x \<leftarrow> wifi_of p s;
     s \<leftarrow> (if x_mode x = NET_WIFI_MODE_STA then do {
             cr \<leftarrow> x_credentials x;
             let s = (if wps_mode cr then snd (mx_call (MX_WIFI_WPS_Stop L) s) else s);
             Some (snd (mx_call (MX_WIFI_Disconnect L) s)) }
           else Some (snd (mx_call (MX_WIFI_StopAP L) s)));
     s \<leftarrow> driver_sends E p NET_EVENT_INTERFACE_INITIALIZED s;
     Some (NET_OK, s) }"

definition mx_wifi_if_yield :: "'m mx_lib \<Rightarrow> netref \<Rightarrow> u32 \<Rightarrow> 'm mx_net \<Rightarrow> (int, 'm mx_world) res" where
  "mx_wifi_if_yield L p timeout_ms s = Some (mx_call (MX_WIFI_IO_YIELD L timeout_ms) s)"

section \<open>Changes of status\<close>

text \<open>The addresses the module was given, copied into the handle.\<close>

definition take_settings :: "netref \<Rightarrow> 'm mx_net \<Rightarrow> 'm mx_net" where
  "take_settings p s =
     (let s = upd_netif p (\<lambda>h. h\<lparr>h_ipaddr := NET_ARTON (IP_Addr (dev s))\<rparr>) s;
          s = upd_netif p (\<lambda>h. h\<lparr>h_netmask := NET_ARTON (IP_Mask (dev s))\<rparr>) s
      in upd_netif p (\<lambda>h. h\<lparr>h_gateway := NET_ARTON (Gateway_Addr (dev s))\<rparr>) s)"

definition mx_wifi_status_changed ::
  "'m mx_lib \<Rightarrow> 'm mx_world env \<Rightarrow> u8 \<Rightarrow> u8 \<Rightarrow> netref \<Rightarrow> 'm mx_net \<Rightarrow> 'm mx_net option" where
  "mx_wifi_status_changed L E cate status p s = do {
     ((_, net_state), s) \<leftarrow> net_if_getState (Some p) s;
     (if mwifi_if_code L MC_STATION = cate then
        if status = MWIFI_EVENT_STA_DOWN L then
          if NET_STATE_STOPPING = net_state then driver_sends E p NET_EVENT_INTERFACE_INITIALIZED s
          else if NET_STATE_CONNECTED = net_state then driver_sends E p NET_EVENT_LINK_DOWN s
          else Some s
        else if status = MWIFI_EVENT_STA_UP L then driver_sends E p NET_EVENT_INTERFACE_READY s
        else if status = MWIFI_EVENT_STA_GOT_IP L then driver_sends E p NET_EVENT_IPADDR (take_settings p s)
        else Some s
      else if mwifi_if_code L MC_SOFTAP = cate then
        if status = MWIFI_EVENT_AP_DOWN L then
          if NET_STATE_CONNECTED = net_state then driver_sends E p NET_EVENT_LINK_DOWN s
          else driver_sends E p NET_EVENT_INTERFACE_READY s
        else if status = MWIFI_EVENT_AP_UP L then
          (let s = upd_netif p (\<lambda>h. h\<lparr>h_ipaddr := h_static_ipaddr h\<rparr>) s;
               s = upd_netif p (\<lambda>h. h\<lparr>h_gateway := h_static_gateway h\<rparr>) s;
               s = upd_netif p (\<lambda>h. h\<lparr>h_netmask := h_static_netmask h\<rparr>) s
           in driver_sends E p NET_EVENT_INTERFACE_READY s)
        else Some s
      else Some s) }"

definition mx_wifi_if_disconnect :: "'m mx_world env \<Rightarrow> netref \<Rightarrow> 'm mx_net \<Rightarrow> (int, 'm mx_world) res" where
  "mx_wifi_if_disconnect E p s = do { s \<leftarrow> driver_sends E p NET_EVENT_INTERFACE_READY s; Some (NET_OK, s) }"

text \<open>
  The loop of \<open>mx_wifi_if_connect\<close>: \<open>retry\<close> tries, a second apart. The result is the code and \<open>ip_got_flag\<close>.
\<close>

fun get_address :: "'m mx_lib \<Rightarrow> netref \<Rightarrow> mwifi_if \<Rightarrow> nat \<Rightarrow> int \<Rightarrow> 'm mx_net \<Rightarrow> (int \<times> bool) \<times> 'm mx_net" where
  "get_address L p wifi_mode 0 ret s = ((ret, False), s)"
| "get_address L p wifi_mode (Suc retry) ret s =
     (case mx_call (MX_WIFI_GetIPAddress L wifi_mode) s of (r, s) \<Rightarrow>
        if MX_WIFI_STATUS_OK L = r then ((NET_OK, True), take_settings p s)
        else get_address L p wifi_mode retry NET_ERROR_NO_ADDRESS (s\<lparr>dev := DELAY_MS L 1000 (dev s)\<rparr>))"

definition mx_wifi_if_connect :: "'m mx_lib \<Rightarrow> 'm mx_world env \<Rightarrow> netref \<Rightarrow> 'm mx_net \<Rightarrow> (int, 'm mx_world) res" where
  "mx_wifi_if_connect L E p s = do {
     x \<leftarrow> wifi_of p s;
     let wifi_mode = (if x_mode x = NET_WIFI_MODE_AP then MC_SOFTAP else MC_STATION);
     let ((ret, ip_got_flag), s) = get_address L p wifi_mode 3 NET_OK s;
     s \<leftarrow> (if ip_got_flag then driver_sends E p NET_EVENT_IPADDR s else Some s);
     Some (ret, s) }"

section \<open>Scanning\<close>

text \<open>The cast \<open>(uint8_t) mode\<close>.\<close>

fun scan_mode_code :: "net_wifi_scan_mode \<Rightarrow> u8" where
  "scan_mode_code NET_WIFI_SCAN_PASSIVE = 0"
| "scan_mode_code NET_WIFI_SCAN_ACTIVE = 1"
| "scan_mode_code NET_WIFI_SCAN_AUTO = 2"

definition mx_wifi_scan :: "'m mx_lib \<Rightarrow> netref \<Rightarrow> net_wifi_scan_mode \<Rightarrow> string option \<Rightarrow> 'm mx_net \<Rightarrow> (int, 'm mx_world) res" where
  "mx_wifi_scan L p mode ssid s =
     Some (mx_call (MX_WIFI_Scan L (scan_mode_code mode) ssid (case ssid of None \<Rightarrow> 0 | Some t \<Rightarrow> int (length t))) s)"

definition mxsec :: "u32 list" where
  "mxsec = [NET_WIFI_SM_OPEN, NET_WIFI_SM_WEP_PSK, NET_WIFI_SM_WPA_TKIP_PSK, NET_WIFI_SM_WPA_AES_PSK,
     NET_WIFI_SM_WPA2_TKIP_PSK, NET_WIFI_SM_WPA2_AES_PSK, NET_WIFI_SM_WPA2_MIXED_PSK]"

definition mx_bss :: "mx_ap_info \<Rightarrow> net_wifi_scan_result option" where
  "mx_bss ap = (if mai_security ap < length mxsec then Some
     \<lparr>sr_ssid_length = of_nat (length (takeWhile (\<lambda>c. c \<noteq> 0) (mai_ssid ap))), sr_ssid = take 32 (mai_ssid ap),
      sr_bssid = take 6 (mai_bssid ap), sr_security = mxsec ! mai_security ap,
      sr_channel = word_of_int (mai_channel ap), sr_country = ''.CN'', sr_rssi = word_of_int (mai_rssi ap)\<rparr>
     else None)"

text \<open>The loop over \<open>number\<close> access points; an access outside an array is \<^term>\<open>None\<close>.\<close>

fun mx_copy_results :: "nat \<Rightarrow> nat \<Rightarrow> mx_ap_info list \<Rightarrow> net_wifi_scan_result list \<Rightarrow> net_wifi_scan_result list option" where
  "mx_copy_results i 0 aps results = Some results"
| "mx_copy_results i (Suc n) aps results =
     (if i < length aps \<and> i < length results
      then do { b \<leftarrow> mx_bss (aps ! i); mx_copy_results (Suc i) n aps (results[i := b]) } else None)"

definition mx_wifi_get_scan_result ::
  "'m mx_lib \<Rightarrow> 'm mx_world env \<Rightarrow> netref \<Rightarrow> net_wifi_scan_result list \<Rightarrow> u8 \<Rightarrow> 'm mx_net \<Rightarrow>
     (int \<times> net_wifi_scan_result list, 'm mx_world) res" where
  "mx_wifi_get_scan_result L E p scan_bss_array scan_bss_count s =
     (if scan_bss_count = 0 then Some ((NET_ERROR_PARAMETER, scan_bss_array), s)
      else case net_malloc E (unat scan_bss_count * sizeof_mwifi_ap_info L) s of
        (None, s) \<Rightarrow> Some ((NET_ERROR_NO_MEMORY, scan_bss_array), s)
      | (Some a, s) \<Rightarrow> do {
          let ((number, aps), s) = mx_call (MX_WIFI_Get_scan_result L scan_bss_count) s;
          results \<leftarrow> mx_copy_results 0 (nat (sint number)) aps scan_bss_array;
          Some ((sint number, results), net_free E a s) })"

section \<open>Socket functions\<close>

definition mx_addrlen_ok :: "'m mx_lib \<Rightarrow> u32 \<Rightarrow> bool" where
  "mx_addrlen_ok L len \<longleftrightarrow> len = sizeof_mx_sockaddr_in6 L \<or> len = sizeof_mx_sockaddr_in L"

definition mx_wifi_socket :: "'m mx_lib \<Rightarrow> int \<Rightarrow> int \<Rightarrow> int \<Rightarrow> 'm mx_net \<Rightarrow> (int, 'm mx_world) res" where
  "mx_wifi_socket L sdomain type protocol s = Some (mx_call (MX_WIFI_Socket_create L sdomain type protocol) s)"

definition mx_wifi_setsockopt ::
  "'m mx_lib \<Rightarrow> int \<Rightarrow> int \<Rightarrow> net_socketoption \<Rightarrow> optval \<Rightarrow> u32 \<Rightarrow> 'm mx_net \<Rightarrow> (int, 'm mx_world) res" where
  "mx_wifi_setsockopt L sock level optname optvalue optlen s =
     Some (if optname \<noteq> NET_SO_BINDTODEVICE
           then mx_call (MX_WIFI_Socket_setsockopt L sock level optname optvalue (int32_of optlen)) s
           else (MX_WIFI_STATUS_OK L, s))"

definition mx_wifi_getsockopt ::
  "'m mx_lib \<Rightarrow> int \<Rightarrow> int \<Rightarrow> net_socketoption \<Rightarrow> optval \<Rightarrow> u32 \<Rightarrow> 'm mx_net \<Rightarrow> (int \<times> optval \<times> u32, 'm mx_world) res" where
  "mx_wifi_getsockopt L sock level optname optvalue optlen s =
     Some (mx_call (MX_WIFI_Socket_getsockopt L sock level optname optvalue optlen) s)"

definition mx_wifi_bind :: "'m mx_lib \<Rightarrow> int \<Rightarrow> net_sockaddr option \<Rightarrow> u32 \<Rightarrow> 'm mx_net \<Rightarrow> (int, 'm mx_world) res" where
  "mx_wifi_bind L sock addr addrlen s =
     (case addr of
        None \<Rightarrow> Some (MX_WIFI_STATUS_ERROR L, s)
      | Some a \<Rightarrow> Some (if mx_addrlen_ok L addrlen then mx_call (MX_WIFI_Socket_bind L sock a (int32_of addrlen)) s
                       else (MX_WIFI_STATUS_ERROR L, s)))"

definition mx_wifi_listen :: "'m mx_lib \<Rightarrow> int \<Rightarrow> int \<Rightarrow> 'm mx_net \<Rightarrow> (int, 'm mx_world) res" where
  "mx_wifi_listen L sock backlog s = Some (mx_call (MX_WIFI_Socket_listen L sock backlog) s)"

definition mx_wifi_accept ::
  "'m mx_lib \<Rightarrow> int \<Rightarrow> net_sockaddr option \<Rightarrow> u32 \<Rightarrow> 'm mx_net \<Rightarrow> (int \<times> net_sockaddr option \<times> u32, 'm mx_world) res" where
  "mx_wifi_accept L sock addr addrlen s = Some (mx_call (MX_WIFI_Socket_accept L sock addr addrlen) s)"

definition mx_wifi_connect :: "'m mx_lib \<Rightarrow> int \<Rightarrow> net_sockaddr option \<Rightarrow> u32 \<Rightarrow> 'm mx_net \<Rightarrow> (int, 'm mx_world) res" where
  "mx_wifi_connect L sock addr addrlen s = Some (mx_call (MX_WIFI_Socket_connect L sock addr (int32_of addrlen)) s)"

definition mx_wifi_shutdown :: "'m mx_lib \<Rightarrow> int \<Rightarrow> int \<Rightarrow> 'm mx_net \<Rightarrow> (int, 'm mx_world) res" where
  "mx_wifi_shutdown L sock mode s = Some (mx_call (MX_WIFI_Socket_shutdown L sock mode) s)"

definition mx_wifi_close :: "'m mx_lib \<Rightarrow> int \<Rightarrow> bool \<Rightarrow> 'm mx_net \<Rightarrow> (int, 'm mx_world) res" where
  "mx_wifi_close L sock isaclone s = Some (mx_call (MX_WIFI_Socket_close L sock) s)"

definition mx_wifi_send :: "'m mx_lib \<Rightarrow> int \<Rightarrow> bytes \<Rightarrow> int \<Rightarrow> int \<Rightarrow> 'm mx_net \<Rightarrow> (int, 'm mx_world) res" where
  "mx_wifi_send L sock buf len flags s = Some (mx_call (MX_WIFI_Socket_send L sock buf len flags) s)"

definition mx_wifi_recv :: "'m mx_lib \<Rightarrow> int \<Rightarrow> bytes \<Rightarrow> int \<Rightarrow> int \<Rightarrow> 'm mx_net \<Rightarrow> (int \<times> bytes, 'm mx_world) res" where
  "mx_wifi_recv L sock buf len flags s =
     (case mx_call (MX_WIFI_Socket_recv L sock buf len flags) s of ((ret, buf), s) \<Rightarrow>
        Some ((if MX_WIFI_STATUS_OK L \<noteq> ret \<and> MX_WIFI_STATUS_TIMEOUT L = ret then NET_TIMEOUT else ret, buf), s))"

definition mx_wifi_sendto ::
  "'m mx_lib \<Rightarrow> int \<Rightarrow> bytes \<Rightarrow> int \<Rightarrow> int \<Rightarrow> net_sockaddr option \<Rightarrow> u32 \<Rightarrow> 'm mx_net \<Rightarrow> (int, 'm mx_world) res" where
  "mx_wifi_sendto L sock buf len flags to to_len s =
     (case to of
        None \<Rightarrow> Some (MX_WIFI_STATUS_ERROR L, s)
      | Some a \<Rightarrow> Some (if mx_addrlen_ok L to_len
                       then mx_call (MX_WIFI_Socket_sendto L sock buf len flags a (int32_of to_len)) s
                       else (MX_WIFI_STATUS_ERROR L, s)))"

definition mx_wifi_recvfrom ::
  "'m mx_lib \<Rightarrow> int \<Rightarrow> bytes \<Rightarrow> int \<Rightarrow> int \<Rightarrow> net_sockaddr option \<Rightarrow> u32 \<Rightarrow> 'm mx_net \<Rightarrow>
     (int \<times> bytes \<times> net_sockaddr option \<times> u32, 'm mx_world) res" where
  "mx_wifi_recvfrom L sock buf len flags from from_len s =
     (case from of
        None \<Rightarrow> Some ((MX_WIFI_STATUS_ERROR L, buf, from, from_len), s)
      | Some a \<Rightarrow>
          if mx_addrlen_ok L from_len then
            (case mx_call (MX_WIFI_Socket_recvfrom L sock buf len flags a from_len) s of
               ((ret, buf, a, from_len), s) \<Rightarrow> Some ((ret, buf, Some a, from_len), s))
          else Some ((MX_WIFI_STATUS_ERROR L, buf, from, from_len), s))"

definition mx_wifi_gethostbyname ::
  "'m mx_lib \<Rightarrow> netref \<Rightarrow> net_sockaddr \<Rightarrow> string \<Rightarrow> 'm mx_net \<Rightarrow> (int \<times> net_sockaddr, 'm mx_world) res" where
  "mx_wifi_gethostbyname L p addr name s = Some (mx_call (MX_WIFI_Socket_gethostbyname L addr name) s)"

abbreviation (input) NET_AF_INET6 :: int where "NET_AF_INET6 \<equiv> 10"

text \<open>\<open>NET_NTOA(&ip_addr)\<close> is \<open>net_ntoa\<close>, which prints into a buffer of its own.\<close>

definition mx_wifi_ping ::
  "'m mx_lib \<Rightarrow> netref \<Rightarrow> net_sockaddr \<Rightarrow> int \<Rightarrow> int \<Rightarrow> int list \<Rightarrow> 'm mx_net \<Rightarrow> (int \<times> int list, 'm mx_world) res" where
  "mx_wifi_ping L p addr count delay response s = do {
     (_, t) \<leftarrow> net_ntoa (sin_addr addr);
     let t = takeWhile (\<lambda>c. c \<noteq> CHR 0x00) t;
     Some (if sa_family addr = word_of_int NET_AF_INET6 then mx_call (MX_WIFI_Socket_ping6 L t count delay response) s
           else mx_call (MX_WIFI_Socket_ping L t count delay response) s) }"

definition mx_wifi_getsockname ::
  "'m mx_lib \<Rightarrow> int \<Rightarrow> net_sockaddr \<Rightarrow> u32 \<Rightarrow> 'm mx_net \<Rightarrow> (int \<times> net_sockaddr \<times> u32, 'm mx_world) res" where
  "mx_wifi_getsockname L sock name namelen s = Some (mx_call (MX_WIFI_Socket_getsockname L sock name namelen) s)"

definition mx_wifi_getpeername ::
  "'m mx_lib \<Rightarrow> int \<Rightarrow> net_sockaddr \<Rightarrow> u32 \<Rightarrow> 'm mx_net \<Rightarrow> (int \<times> net_sockaddr \<times> u32, 'm mx_world) res" where
  "mx_wifi_getpeername L sock name namelen s = Some (mx_call (MX_WIFI_Socket_getpeername L sock name namelen) s)"

section \<open>The driver table\<close>

definition mx_wifi_drv :: "'m mx_lib \<Rightarrow> 'm mx_world env \<Rightarrow> 'm mx_net net_if_drv" where
  "mx_wifi_drv L E = null_drv\<lparr>if_init := Some (mx_wifi_if_init L E), if_deinit := Some (mx_wifi_if_deinit L E),
     if_start := Some (mx_wifi_if_start L), if_stop := Some (mx_wifi_if_stop L E), if_yield := Some (mx_wifi_if_yield L),
     if_connect := Some (mx_wifi_if_connect L E), if_disconnect := Some (mx_wifi_if_disconnect E),
     psocket := Some (mx_wifi_socket L), pbind := Some (mx_wifi_bind L), plisten := Some (mx_wifi_listen L),
     paccept := Some (mx_wifi_accept L), pconnect := Some (mx_wifi_connect L), psend := Some (mx_wifi_send L),
     precv := Some (mx_wifi_recv L), psendto := Some (mx_wifi_sendto L), precvfrom := Some (mx_wifi_recvfrom L),
     psetsockopt := Some (mx_wifi_setsockopt L), pgetsockopt := Some (mx_wifi_getsockopt L),
     pgetsockname := Some (mx_wifi_getsockname L), pgetpeername := Some (mx_wifi_getpeername L),
     pclose := Some (mx_wifi_close L), pshutdown := Some (mx_wifi_shutdown L),
     pgethostbyname := Some (mx_wifi_gethostbyname L), pping := Some (mx_wifi_ping L),
     wifi_scan := Some (mx_wifi_scan L), wifi_get_scan_results := Some (mx_wifi_get_scan_result L E)\<rparr>"

text \<open>The library with this driver, as for the ES-WiFi driver.\<close>

definition mx_env :: "'m mx_lib \<Rightarrow> 'm mx_world env \<Rightarrow> 'm mx_world env" where
  "mx_env L B = B\<lparr>env_drv := (\<lambda>_. mx_wifi_drv L B)\<rparr>"

lemma mx_env_sel [simp]:
  "env_drv (mx_env L B) d = mx_wifi_drv L B" "env_notify (mx_env L B) = env_notify B"
  by (simp_all add: mx_env_def)

end
