(* ===== verification/Mx_Wifi_Props.thy ===== *)
theory Mx_Wifi_Props
  imports Mx_Wifi
begin

text \<open>
  The MXCHIP driver keeps the contracts the library relies on, with its status callback; what an interface on it
  does when an address is asked for and when the link is lost.
\<close>

section \<open>Socket functions\<close>

lemma only_dev_mx_call [simp]: "only_dev s (snd (mx_call f s))"
  by (simp add: mx_call_def split_def Let_def)

lemma mx_called [simp]: "keeps only_dev s (Some (mx_call f s))"
  by (simp add: mx_call_def split_def Let_def)

lemma mx_socket_keeps:
  "keeps only_dev s (mx_wifi_socket L d t p s)" "keeps only_dev s (mx_wifi_bind L k a l s)"
  "keeps only_dev s (mx_wifi_listen L k n s)" "keeps only_dev s (mx_wifi_accept L k a l s)"
  "keeps only_dev s (mx_wifi_connect L k a l s)" "keeps only_dev s (mx_wifi_send L k b n f s)"
  "keeps only_dev s (mx_wifi_recv L k b n f s)" "keeps only_dev s (mx_wifi_sendto L k b n f a l s)"
  "keeps only_dev s (mx_wifi_recvfrom L k b n f a l s)" "keeps only_dev s (mx_wifi_setsockopt L k lv oo v l s)"
  "keeps only_dev s (mx_wifi_getsockname L k nm l s)" "keeps only_dev s (mx_wifi_getpeername L k nm l s)"
  "keeps only_dev s (mx_wifi_close L k c s)" "keeps only_dev s (mx_wifi_shutdown L k m s)"
  by (simp_all add: mx_wifi_socket_def mx_wifi_bind_def mx_wifi_listen_def mx_wifi_accept_def mx_wifi_connect_def
      mx_wifi_send_def mx_wifi_recv_def mx_wifi_sendto_def mx_wifi_recvfrom_def mx_wifi_setsockopt_def
      mx_wifi_getsockname_def mx_wifi_getpeername_def mx_wifi_close_def mx_wifi_shutdown_def split_def
      split: option.split)

lemma mx_drv_sel:
  "psocket (mx_wifi_drv L B) = Some (mx_wifi_socket L)" "pbind (mx_wifi_drv L B) = Some (mx_wifi_bind L)"
  "plisten (mx_wifi_drv L B) = Some (mx_wifi_listen L)" "paccept (mx_wifi_drv L B) = Some (mx_wifi_accept L)"
  "pconnect (mx_wifi_drv L B) = Some (mx_wifi_connect L)" "psend (mx_wifi_drv L B) = Some (mx_wifi_send L)"
  "precv (mx_wifi_drv L B) = Some (mx_wifi_recv L)" "psendto (mx_wifi_drv L B) = Some (mx_wifi_sendto L)"
  "precvfrom (mx_wifi_drv L B) = Some (mx_wifi_recvfrom L)" "psetsockopt (mx_wifi_drv L B) = Some (mx_wifi_setsockopt L)"
  "pgetsockname (mx_wifi_drv L B) = Some (mx_wifi_getsockname L)"
  "pgetpeername (mx_wifi_drv L B) = Some (mx_wifi_getpeername L)"
  "pclose (mx_wifi_drv L B) = Some (mx_wifi_close L)" "pshutdown (mx_wifi_drv L B) = Some (mx_wifi_shutdown L)"
  "if_deinit (mx_wifi_drv L B) = Some (mx_wifi_if_deinit L B)" "if_start (mx_wifi_drv L B) = Some (mx_wifi_if_start L)"
  "if_stop (mx_wifi_drv L B) = Some (mx_wifi_if_stop L B)" "if_connect (mx_wifi_drv L B) = Some (mx_wifi_if_connect L B)"
  "if_disconnect (mx_wifi_drv L B) = Some (mx_wifi_if_disconnect B)"
  by (simp_all add: mx_wifi_drv_def)

interpretation mx_sockets: socket_driver "mx_env L B" for L B
  by unfold_locales (auto simp: mx_drv_sel intro: mx_socket_keeps [THEN keepsD(1), THEN only_dev_sock_frame])

section \<open>Interface functions\<close>

lemma driver_ok_mx_call: "driver_ok p s t \<Longrightarrow> driver_ok p s (snd (mx_call f t))"
  using driver_ok_trans driver_ok_only_dev only_dev_mx_call by blast

lemma driver_ok_take_settings: "driver_ok p s t \<Longrightarrow> driver_ok p s (take_settings p t)"
  unfolding take_settings_def Let_def by (intro driver_ok_upd_netif) simp_all

lemmas mx_ok_steps = driver_ok_mx_call driver_ok_dev driver_ok_upd_netif driver_ok_upd_drv driver_ok_mem driver_ok_take_settings

lemma mx_wifi_if_deinit_ok: "mx_wifi_if_deinit L B p s = Some (r, s') \<Longrightarrow> driver_ok p s s'"
  by (auto simp: mx_wifi_if_deinit_def Let_def split_def bind_Some_iff intro!: mx_ok_steps)

lemma mx_wifi_if_start_station_ok: "mx_wifi_if_start_station L p s = Some (r, s') \<Longrightarrow> driver_ok p s s'"
  unfolding mx_wifi_if_start_station_def Let_def split_def
  by (auto simp: bind_Some_iff prod_eq_iff split: if_splits intro!: mx_ok_steps)

lemma mx_wifi_if_start_softap_ok: "mx_wifi_if_start_softap L p s = Some (r, s') \<Longrightarrow> driver_ok p s s'"
  unfolding mx_wifi_if_start_softap_def Let_def split_def
  by (auto simp: bind_Some_iff split: if_splits intro!: mx_ok_steps)

lemma mx_wifi_if_start_ok: "mx_wifi_if_start L p s = Some (r, s') \<Longrightarrow> driver_ok p s s'"
  by (auto simp: mx_wifi_if_start_def bind_Some_iff split: if_splits
      dest: mx_wifi_if_start_station_ok mx_wifi_if_start_softap_ok)

lemma mx_wifi_if_stop_ok: "mx_wifi_if_stop L B p s = Some (r, s') \<Longrightarrow> driver_ok p s s'"
  unfolding mx_wifi_if_stop_def Let_def
  by (auto simp: bind_Some_iff split: if_splits elim!: driver_ok_sends intro!: mx_ok_steps)

lemma mx_wifi_if_disconnect_ok: "mx_wifi_if_disconnect B p s = Some (r, s') \<Longrightarrow> driver_ok p s s'"
  by (auto simp: mx_wifi_if_disconnect_def bind_Some_iff elim!: driver_ok_sends)

lemma get_address_ok: "driver_ok p s t \<Longrightarrow> driver_ok p s (snd (get_address L p m n r t))"
  by (induction n arbitrary: r t) (simp_all add: split_def mx_ok_steps)

lemma mx_wifi_if_connect_ok: "mx_wifi_if_connect L B p s = Some (r, s') \<Longrightarrow> driver_ok p s s'"
  unfolding mx_wifi_if_connect_def Let_def split_def
  by (auto simp: bind_Some_iff split: if_splits elim!: driver_ok_sends intro!: get_address_ok)

interpretation mx_netif: netif_driver "mx_env L B" for L B
  by unfold_locales (auto simp: call_if_def drv_of_def mx_drv_sel bind_Some_iff
      intro: mx_wifi_if_deinit_ok mx_wifi_if_start_ok mx_wifi_if_stop_ok mx_wifi_if_disconnect_ok mx_wifi_if_connect_ok)

text \<open>The status callback.\<close>

definition mx_callback :: "'m mx_lib \<Rightarrow> 'm mx_world env \<Rightarrow> netref \<Rightarrow> 'm mx_net \<Rightarrow> 'm mx_net \<Rightarrow> bool" where
  "mx_callback L B p s s' \<longleftrightarrow> (\<exists>cate status. mx_wifi_status_changed L B cate status p s = Some s')"

lemma getState_handle: "net_if_getState (Some p) s = Some (x, t) \<Longrightarrow> x = (NET_OK, h_state (Netifs s p)) \<and> t = s"
  by (auto simp: net_if_getState_def netif_check_def bind_Some_iff)

lemma mx_status_ok: "mx_wifi_status_changed L B cate st p s = Some s' \<Longrightarrow> driver_ok p s s'"
  unfolding mx_wifi_status_changed_def Let_def
  by (auto simp: bind_Some_iff dest!: getState_handle split: if_splits elim!: driver_ok_sends intro!: mx_ok_steps)

interpretation mx: calling_driver "mx_env L B" "mx_callback L B" for L B
  by unfold_locales (auto simp: mx_callback_def dest: mx_status_ok)

text \<open>
  The library over the MXCHIP driver, with no assumption on the module: any interleaving of commands, events, socket
  calls without TLS and status callbacks, from a well-formed table with no lock held, ends in one.
\<close>

theorem mx_history_keeps_table:
  assumes "mbedtls_contract (mx_env L B)" and "lib_history (mx_env L B) (mx_callback L B) plain_step s t"
    and "table_plain s"
  shows "table_plain t"
  using assms by (rule mx.history_keeps_table)

section \<open>Losing the link\<close>

lemma mx_callback_lost:
  assumes "mx_callback L B p s t" and "h_state (Netifs s p) = NET_STATE_CONNECTION_LOST"
  shows "h_state (Netifs t p) = NET_STATE_CONNECTION_LOST"
  using assms
  by (auto simp: mx_callback_def mx_wifi_status_changed_def Let_def bind_Some_iff take_settings_def
      dest!: getState_handle sends_ignored split: if_splits)

text \<open>
  C8. An MXCHIP interface that has lost its link never comes back: whatever statuses the module reports, the return of the
  link and a new address included, and whatever commands start, stop, connect and disconnect the application gives, it
  stays in state CONNECTION_LOST, for the driver never reports \<open>NET_EVENT_LINK_UP\<close>. (Only \<open>net_if_deinit\<close>, which takes it
  out of the library, writes another state.)
\<close>

theorem mx_lost_for_ever:
  assumes "lib_history (mx_env L B) (mx_callback L B) command_step s t"
    and "h_state (Netifs s p) = NET_STATE_CONNECTION_LOST"
  shows "h_state (Netifs t p) = NET_STATE_CONNECTION_LOST"
  by (rule mx.history_stuck [OF assms]) (auto intro: mx_callback_lost split: net_state_event.splits)

text \<open>
  The access point reported down while the interface is being started counts as its start: in state STARTING
  the status moves the interface to READY.
\<close>

theorem mx_access_point_down_means_ready:
  assumes "h_state (Netifs s p) = NET_STATE_STARTING" and "mwifi_if_code L MC_SOFTAP \<noteq> mwifi_if_code L MC_STATION"
  shows "\<exists>t. mx_wifi_status_changed L B (mwifi_if_code L MC_SOFTAP) (MWIFI_EVENT_AP_DOWN L) p s = Some t
    \<and> h_state (Netifs t p) = NET_STATE_READY"
  using assms
  by (simp add: mx_wifi_status_changed_def net_if_getState_def netif_check_def driver_sends_def manage_event_from_driver)

section \<open>Asking for the address\<close>

text \<open>The object after \<open>k\<close> answers without an address, each followed by a delay; the first good answer in \<open>n\<close>.\<close>

definition after_tries :: "'m mx_lib \<Rightarrow> mwifi_if \<Rightarrow> nat \<Rightarrow> 'm mx_world \<Rightarrow> 'm mx_world" where
  "after_tries L m k w = ((\<lambda>w. DELAY_MS L 1000 (snd (MX_WIFI_GetIPAddress L m w))) ^^ k) w"

lemma after_tries_rec [simp]:
  "after_tries L m 0 w = w"
  "after_tries L m (Suc k) w = after_tries L m k (DELAY_MS L 1000 (snd (MX_WIFI_GetIPAddress L m w)))"
  using funpow_swap1 [of "\<lambda>w. DELAY_MS L 1000 (snd (MX_WIFI_GetIPAddress L m w))" k w] by (simp_all add: after_tries_def)

definition answer :: "'m mx_lib \<Rightarrow> mwifi_if \<Rightarrow> nat \<Rightarrow> 'm mx_world \<Rightarrow> 'm mx_world option" where
  "answer L m n w = map_option (\<lambda>k. snd (MX_WIFI_GetIPAddress L m (after_tries L m k w)))
     (List.find (\<lambda>k. MX_WIFI_STATUS_OK L = fst (MX_WIFI_GetIPAddress L m (after_tries L m k w))) [0..<n])"

lemma answer_rec:
  "answer L m 0 w = None"
  "answer L m (Suc n) w = (if MX_WIFI_STATUS_OK L = fst (MX_WIFI_GetIPAddress L m w) then Some (snd (MX_WIFI_GetIPAddress L m w))
     else answer L m n (DELAY_MS L 1000 (snd (MX_WIFI_GetIPAddress L m w))))"
proof -
  have shift: "List.find P (map Suc ks) = map_option Suc (List.find (P \<circ> Suc) ks)" for P ks
    by (induction ks) auto
  show "answer L m 0 w = None" by (simp add: answer_def)
  show "answer L m (Suc n) w = (if MX_WIFI_STATUS_OK L = fst (MX_WIFI_GetIPAddress L m w) then Some (snd (MX_WIFI_GetIPAddress L m w))
     else answer L m n (DELAY_MS L 1000 (snd (MX_WIFI_GetIPAddress L m w))))"
    unfolding answer_def upt_conv_Cons [OF zero_less_Suc] map_Suc_upt [symmetric]
    by (simp add: shift o_def option.map_comp)
qed

lemma get_address_answer:
  "case answer L m n (dev s) of
     Some w \<Rightarrow> get_address L p m n r s = ((NET_OK, True), take_settings p (s\<lparr>dev := w\<rparr>))
   | None \<Rightarrow> \<exists>t. get_address L p m n r s = ((if n = 0 then r else NET_ERROR_NO_ADDRESS, False), t) \<and> only_dev s t"
proof (induction n arbitrary: r s)
  case 0
  then show ?case by (simp add: answer_rec)
next
  case (Suc n)
  let ?x = "MX_WIFI_GetIPAddress L m (dev s)"
  show ?case
  proof (cases "MX_WIFI_STATUS_OK L = fst ?x")
    case True
    then show ?thesis by (simp add: answer_rec mx_call_def Let_def split_def)
  next
    case False
    then show ?thesis using Suc.IH [of NET_ERROR_NO_ADDRESS "s\<lparr>dev := DELAY_MS L 1000 (snd ?x)\<rparr>"]
      by (auto simp: answer_rec mx_call_def Let_def split_def only_dev_def split: option.splits)
  qed
qed

text \<open>
  C9. The connect command on an MXCHIP interface asks the module at most three times, a second apart. With the first good
  answer it returns \<open>NET_OK\<close> in state CONNECTED with the address the module then had; with none it reports
  \<open>NET_ERROR_INTERFACE_FAILURE\<close> and leaves the interface in state CONNECTING.
\<close>

theorem mx_connect_outcome:
  assumes "h_state (Netifs s p) = NET_STATE_READY" and "wifi_of p s = Some x"
    and "m = (if x_mode x = NET_WIFI_MODE_AP then MC_SOFTAP else MC_STATION)"
    and "w = dev (set_state (mx_env L B) p NET_STATE_CONNECTING s)"
  shows "case answer L m 3 w of
     Some w' \<Rightarrow> \<exists>s'. net_state_manage_event (mx_env L B) (Some p) NET_EVENT_CMD_CONNECT s = Some (NET_OK, s')
        \<and> h_state (Netifs s' p) = NET_STATE_CONNECTED \<and> h_ipaddr (Netifs s' p) = NET_ARTON (IP_Addr w')
   | None \<Rightarrow> \<exists>s'. net_state_manage_event (mx_env L B) (Some p) NET_EVENT_CMD_CONNECT s
          = Some (NET_ERROR_INTERFACE_FAILURE, s') \<and> h_state (Netifs s' p) = NET_STATE_CONNECTING"
proof -
  let ?s = "set_state (mx_env L B) p NET_STATE_CONNECTING s"
  obtain d where d: "h_pdrv (Netifs s p) = Some d" using assms(2) by (auto simp: wifi_of_def bind_Some_iff)
  have run: "net_state_manage_event (mx_env L B) (Some p) NET_EVENT_CMD_CONNECT s =
      map_option (\<lambda>(r, s'). (if_failure r, s')) (mx_wifi_if_connect L B p ?s)"
    using assms(1) d
    by (simp add: manage_event_Some net_state_ready_def Let_def call_if_def drv_of_def mx_drv_sel bind_result split_def)
  have x: "wifi_of p ?s = Some x" using assms(2) by (simp add: wifi_of_def)
  show ?thesis
  proof (cases "answer L m 3 w")
    case None
    then obtain t where "get_address L p m 3 NET_OK ?s = ((NET_ERROR_NO_ADDRESS, False), t)" "only_dev ?s t"
      using get_address_answer [where L = L and m = m and n = 3 and s = ?s and p = p and r = NET_OK] assms(4) by auto
    then show ?thesis using run x assms(3) None
      by (auto simp: mx_wifi_if_connect_def if_failure_def only_dev_sel)
  next
    case (Some w')
    then have "get_address L p m 3 NET_OK ?s = ((NET_OK, True), take_settings p (?s\<lparr>dev := w'\<rparr>))"
      using get_address_answer [where L = L and m = m and n = 3 and s = ?s and p = p and r = NET_OK] assms(4) by simp
    then show ?thesis using run x assms(3) Some
      by (simp add: mx_wifi_if_connect_def if_failure_def take_settings_def Let_def driver_sends_def manage_event_from_driver)
  qed
qed

section \<open>Witnesses\<close>

text \<open>A module that has an address after as many questions as its state says.\<close>

definition demo_mx_lib :: "nat mx_lib" where
  "demo_mx_lib = \<lparr>MX_WIFI_STATUS_OK = 0, MX_WIFI_STATUS_ERROR = - 1, MX_WIFI_STATUS_TIMEOUT = - 2,
     mwifi_if_code = (\<lambda>m. if m = MC_STATION then 1 else 0), MWIFI_EVENT_STA_UP = 1, MWIFI_EVENT_STA_DOWN = 0,
     MWIFI_EVENT_STA_GOT_IP = 4, MWIFI_EVENT_AP_UP = 2, MWIFI_EVENT_AP_DOWN = 3, MX_WIFI_SEC_AUTO = 8,
     sizeof_mx_sockaddr_in = 16, sizeof_mx_sockaddr_in6 = 28, sizeof_mx_AP_SSID = 32, sizeof_mx_AP_pswd = 64,
     sizeof_mx_ip = 16, sizeof_mwifi_ap_info = 48, mxwifi_probe = (\<lambda>w. ((0, Some 7), w)),
     MX_WIFI_HardResetModule = (\<lambda>w. (0, w)), MX_WIFI_Init = (\<lambda>w. (0, w)), MX_WIFI_DeInit = (\<lambda>w. (0, w)),
     SysInfo_Product_Name = (\<lambda>_. ''EMW3080''), SysInfo_Product_ID = (\<lambda>_. ''MX''), SysInfo_FW_Rev = (\<lambda>_. ''V2''),
     MX_WIFI_GetMACAddress = (\<lambda>b w. ((0, b), w)), MX_WIFI_GetsoftapMACAddress = (\<lambda>b w. ((0, b), w)),
     MX_WIFI_IO_YIELD = (\<lambda>_ w. (0, w)), MX_WIFI_RegisterStatusCallback_if = (\<lambda>_ _ w. (0, w)),
     MX_WIFI_WPS_Connect = (\<lambda>w. (0, w)), MX_WIFI_WPS_Stop = (\<lambda>w. (0, w)), MX_WIFI_Connect = (\<lambda>_ _ _ w. (0, w)),
     MX_WIFI_Disconnect = (\<lambda>w. (0, w)), MX_WIFI_StartAP = (\<lambda>_ w. (0, w)), MX_WIFI_StopAP = (\<lambda>w. (0, w)),
     MX_WIFI_GetIPAddress = (\<lambda>_ w. (if mx_module w = 0 then (0, w\<lparr>IP_Addr := [192, 168, 1, 7]\<rparr>)
                                      else (- 1, w\<lparr>mx_module := mx_module w - 1\<rparr>))),
     DELAY_MS = (\<lambda>_ w. w), MX_WIFI_Scan = (\<lambda>_ _ _ w. (0, w)), MX_WIFI_Get_scan_result = (\<lambda>_ w. ((0, []), w)),
     MX_WIFI_Socket_create = (\<lambda>_ _ _ w. (3, w)), MX_WIFI_Socket_setsockopt = (\<lambda>_ _ _ _ _ w. (0, w)),
     MX_WIFI_Socket_getsockopt = (\<lambda>_ _ _ v n w. ((0, v, n), w)), MX_WIFI_Socket_bind = (\<lambda>_ _ _ w. (0, w)),
     MX_WIFI_Socket_listen = (\<lambda>_ _ w. (0, w)), MX_WIFI_Socket_accept = (\<lambda>_ a n w. ((4, a, n), w)),
     MX_WIFI_Socket_connect = (\<lambda>_ _ _ w. (0, w)), MX_WIFI_Socket_shutdown = (\<lambda>_ _ w. (0, w)),
     MX_WIFI_Socket_close = (\<lambda>_ w. (0, w)), MX_WIFI_Socket_send = (\<lambda>_ _ n _ w. (n, w)),
     MX_WIFI_Socket_recv = (\<lambda>_ b n _ w. ((n, b), w)), MX_WIFI_Socket_sendto = (\<lambda>_ _ n _ _ _ w. (n, w)),
     MX_WIFI_Socket_recvfrom = (\<lambda>_ b n _ a l w. ((n, b, a, l), w)),
     MX_WIFI_Socket_gethostbyname = (\<lambda>a _ w. ((0, a), w)), MX_WIFI_Socket_ping = (\<lambda>_ _ _ r w. ((0, r), w)),
     MX_WIFI_Socket_ping6 = (\<lambda>_ _ _ r w. ((0, r), w)), MX_WIFI_Socket_getsockname = (\<lambda>_ a n w. ((0, a, n), w)),
     MX_WIFI_Socket_getpeername = (\<lambda>_ a n w. ((0, a, n), w))\<rparr>"

definition demo_mx :: "nat \<Rightarrow> net_state \<Rightarrow> nat mx_net" where
  "demo_mx k = demo_over \<lparr>Runtime_interfaces = 0, DHCP_IsEnabled = 1, IP_Addr = [0, 0, 0, 0], IP_Mask = [0, 0, 0, 0],
     Gateway_Addr = [0, 0, 0, 0], mx_module = k\<rparr>"

lemma demo_mx_callback:
  assumes "map_option (\<lambda>t. h_state (Netifs t 1)) (mx_wifi_status_changed demo_mx_lib demo_base cate st 1 s) \<noteq> None"
  obtains t where "mx_callback demo_mx_lib demo_base 1 s t"
  using assms by (auto simp: mx_callback_def)

lemma mx_history_keeps_table_witness:
  "\<exists>t. lib_history (mx_env demo_mx_lib demo_base) (mx_callback demo_mx_lib demo_base) plain_step
      (demo_mx 1 NET_STATE_READY) t \<and> h_state (Netifs t 1) = NET_STATE_CONNECTION_LOST \<and> table_plain t"
proof -
  let ?E = "mx_env demo_mx_lib demo_base" and ?s = "demo_mx 1 NET_STATE_READY"
  have "map_option (\<lambda>(r, t). h_state (Netifs t 1)) (do {
      (r, t) \<leftarrow> run_step ?E (Step_event 1 NET_EVENT_CMD_CONNECT) ?s;
      t \<leftarrow> mx_wifi_status_changed demo_mx_lib demo_base 1 0 1 t;
      Some (r, t) }) = Some NET_STATE_CONNECTION_LOST"
    by code_simp
  then obtain r t u where r: "run_step ?E (Step_event 1 NET_EVENT_CMD_CONNECT) ?s = Some (r, t)"
      "mx_wifi_status_changed demo_mx_lib demo_base 1 0 1 t = Some u" "h_state (Netifs u 1) = NET_STATE_CONNECTION_LOST"
    by (auto simp: bind_Some_iff)
  have "lib_history ?E (mx_callback demo_mx_lib demo_base) plain_step ?s t"
    by (rule history_step [OF history_start _ r(1)]) simp
  moreover have "mx_callback demo_mx_lib demo_base 1 t u" using r(2) by (auto simp: mx_callback_def)
  ultimately have h: "lib_history ?E (mx_callback demo_mx_lib demo_base) plain_step ?s u" by (rule history_callback)
  have "table_plain u"
    using mx_history_keeps_table [OF _ h] by (simp add: mx_env_def demo_mx_def demo_over_plain demo_base_mbedtls)
  then show ?thesis using h r(3) by blast
qed

lemma mx_lost_for_ever_witness:
  "\<exists>t. lib_history (mx_env demo_mx_lib demo_base) (mx_callback demo_mx_lib demo_base) command_step
      (demo_mx 0 NET_STATE_CONNECTION_LOST) t \<and> h_ipaddr (Netifs t 1) = 0 \<and> h_state (Netifs t 1) = NET_STATE_CONNECTION_LOST"
proof -
  let ?s = "demo_mx 0 NET_STATE_CONNECTION_LOST"
  have "map_option (\<lambda>t. h_ipaddr (Netifs t 1)) (mx_wifi_status_changed demo_mx_lib demo_base 1 4 1 ?s) = Some 0"
    by code_simp
  then obtain t where "mx_callback demo_mx_lib demo_base 1 ?s t" "h_ipaddr (Netifs t 1) = 0"
    by (auto simp: mx_callback_def)
  moreover from this(1) have h: "lib_history (mx_env demo_mx_lib demo_base) (mx_callback demo_mx_lib demo_base) command_step ?s t"
    by (rule history_callback [OF history_start])
  moreover have "h_state (Netifs ?s 1) = NET_STATE_CONNECTION_LOST" by (simp add: demo_mx_def demo_over_def demo_netif_def)
  ultimately show ?thesis using mx_lost_for_ever [OF h, of 1] by blast
qed

lemma mx_access_point_down_means_ready_witness:
  "\<exists>t. mx_wifi_status_changed demo_mx_lib demo_base 0 3 1 (demo_mx 0 NET_STATE_STARTING) = Some t
     \<and> h_state (Netifs t 1) = NET_STATE_READY"
  using mx_access_point_down_means_ready [of "demo_mx 0 NET_STATE_STARTING" 1 demo_mx_lib demo_base]
  by (simp add: demo_mx_def demo_over_def demo_netif_def demo_mx_lib_def)

lemma mx_connect_outcome_witness:
  "\<exists>s1 s2. net_state_manage_event (mx_env demo_mx_lib demo_base) (Some 1) NET_EVENT_CMD_CONNECT (demo_mx 2 NET_STATE_READY)
        = Some (NET_OK, s1) \<and> h_ipaddr (Netifs s1 1) = NET_ARTON [192, 168, 1, 7]
     \<and> net_state_manage_event (mx_env demo_mx_lib demo_base) (Some 1) NET_EVENT_CMD_CONNECT (demo_mx 3 NET_STATE_READY)
        = Some (NET_ERROR_INTERFACE_FAILURE, s2)"
proof -
  let ?w = "\<lambda>k. dev (set_state (mx_env demo_mx_lib demo_base) 1 NET_STATE_CONNECTING (demo_mx k NET_STATE_READY))"
  have pre: "h_state (Netifs (demo_mx k NET_STATE_READY) 1) = NET_STATE_READY"
    "\<exists>x. wifi_of 1 (demo_mx k NET_STATE_READY) = Some x \<and> x_mode x = NET_WIFI_MODE_STA" for k
    by (simp_all add: demo_mx_def demo_over_def demo_netif_def demo_wifi_def wifi_of_def)
  have w: "map_option IP_Addr (answer demo_mx_lib MC_STATION 3 (?w 2)) = Some [192, 168, 1, 7]"
    "map_option IP_Addr (answer demo_mx_lib MC_STATION 3 (?w 3)) = None"
    by code_simp+
  show ?thesis
    using mx_connect_outcome [OF pre(1) _ _ refl, of 2 _ MC_STATION demo_mx_lib demo_base]
      mx_connect_outcome [OF pre(1) _ _ refl, of 3 _ MC_STATION demo_mx_lib demo_base] pre(2) [of 2] pre(2) [of 3] w
    by (fastforce split: option.splits)
qed

end
