(* ===== verification/Net_Ping.thy ===== *)
theory Net_Ping
  imports Net_Core Net_Address Net_Bytes Socket_Props
begin

text \<open>
  \<open>services/net_ping.c\<close>: the ICMP echo client over the socket interface, for IPv4. The checksum is \<open>inet_chksum\<close> of
  lwIP, a parameter, as is the size of the interface handle. The layout of an echo message (type, code, checksum,
  identifier, sequence number) and its codes are those of RFC 792. The static \<open>ping_seq_num\<close> is passed in
  and out. The clock \<open>NET_TICK\<close> is \<^const>\<open>HAL_GetTick\<close>.
\<close>

abbreviation (input) PING_ID :: u16 where "PING_ID \<equiv> 0xAFAF"
abbreviation (input) PING_DATA_SIZE :: nat where "PING_DATA_SIZE \<equiv> 32"
abbreviation (input) ICMP_ECHO :: u8 where "ICMP_ECHO \<equiv> 8"
abbreviation (input) ICMP_ER :: u8 where "ICMP_ER \<equiv> 0"
abbreviation (input) NET_SOCK_RAW :: int where "NET_SOCK_RAW \<equiv> 3"
abbreviation (input) NET_IPPROTO_ICMP :: int where "NET_IPPROTO_ICMP \<equiv> 1"
abbreviation (input) sizeof_icmp_echo_hdr :: nat where "sizeof_icmp_echo_hdr \<equiv> 8"
abbreviation (input) ping_size :: nat where "ping_size \<equiv> sizeof_icmp_echo_hdr + PING_DATA_SIZE"
abbreviation (input) ping_buffer :: nat where "ping_buffer \<equiv> 64 + 40"

record ping_lib =
  inet_chksum :: "bytes \<Rightarrow> u16"
  sizeof_net_if_handle :: u32

section \<open>The echo message\<close>

definition echo_hdr :: "u8 \<Rightarrow> u8 \<Rightarrow> u16 \<Rightarrow> u16 \<Rightarrow> u16 \<Rightarrow> bytes" where
  "echo_hdr type cod chksum ident seqno = [type, cod] @ bytes16 chksum @ bytes16 ident @ bytes16 seqno"

definition ping_prepare_echo :: "ping_lib \<Rightarrow> u16 \<Rightarrow> u16 \<Rightarrow> bytes" where
  "ping_prepare_echo P Len PingSeqNum =
     (let data_len = unat ((ucast Len :: u32) - of_nat sizeof_icmp_echo_hdr);
          data = map of_nat [0..<data_len];
          hdr = (\<lambda>chksum. echo_hdr ICMP_ECHO 0 chksum PING_ID (NET_HTONS PingSeqNum))
      in hdr (inet_chksum P (hdr 0 @ data)) @ data)"

text \<open>
  The tests on a received packet, behind an IP header of the length the packet gives: identifier, sequence number, and
  \<open>ICMPH_CODE\<close>, the code, compared with \<open>ICMP_ER\<close>. A read outside the buffer is \<^term>\<open>None\<close>.
\<close>

definition echo_received :: "u16 \<Rightarrow> bytes \<Rightarrow> bool option" where
  "echo_received seqnum buf = do {
     v_hl \<leftarrow> rd8 buf 0;
     let iphdr_len = unat (v_hl AND 0x0f) * 4;
     iecho \<leftarrow> rd buf iphdr_len sizeof_icmp_echo_hdr;
     Some (le16 iecho 4 = PING_ID \<and> le16 iecho 6 = seqnum \<and> iecho ! 1 = ICMP_ER) }"

section \<open>Waiting for the reply\<close>

text \<open>
  The loop after a request was sent at \<open>start\<close>. The result is \<open>delta\<close> if the reply arrived, and \<open>from_len\<close>, which the calls
  of \<open>net_recvfrom\<close> change.
\<close>

partial_function (option) ping_wait ::
  "'w env \<Rightarrow> int \<Rightarrow> u16 \<Rightarrow> u32 \<Rightarrow> int \<Rightarrow> net_sockaddr option \<Rightarrow> u32 \<Rightarrow> 'w net \<Rightarrow>
     (u32 option \<times> net_sockaddr option \<times> u32, 'w) res" where
  "ping_wait E sock seqnum start timeout from from_len s = do {
     ((len, buf, from, from_len), s) \<leftarrow>
       net_recvfrom E sock (Some (replicate ping_buffer 0)) (of_nat ping_buffer) 0 from from_len s;
     found \<leftarrow> (if len \<ge> int sizeof_icmp_echo_hdr then do { b \<leftarrow> buf; echo_received seqnum b } else Some False);
     (if found then
        let (now, s) = HAL_GetTick E s in Some ((Some (now - start), from, from_len), s)
      else
        let (now, s) = HAL_GetTick E s in
        if now < start + u32_of timeout then ping_wait E sock seqnum start timeout from from_len s
        else Some ((None, from, from_len), s)) }"

text \<open>The loop over the requests from \<open>i\<close>, \<open>n\<close> of them left; a failing send ends it.\<close>

fun ping_loop ::
  "ping_lib \<Rightarrow> 'w env \<Rightarrow> int \<Rightarrow> net_sockaddr \<Rightarrow> int \<Rightarrow> nat \<Rightarrow> nat \<Rightarrow> int list \<Rightarrow> int \<Rightarrow> net_sockaddr option \<Rightarrow> u32 \<Rightarrow> 'w net \<Rightarrow>
     (int list \<times> int, 'w) res" where
  "ping_loop P E sock addr timeout i 0 response seq from from_len s = Some ((response, seq), s)"
| "ping_loop P E sock addr timeout i (Suc n) response seq from from_len s =
     (if length response \<le> i then None
      else do {
        let response = response[i := -1];
        let p_echo = ping_prepare_echo P (of_nat ping_size) (word_of_int seq);
        (ret, s) \<leftarrow> net_sendto E sock (Some p_echo) (of_nat ping_size) 0 (Some addr) from_len s;
        (if ret < 0 then Some ((response, seq), s)
         else do {
           let (ping_start_time, s) = HAL_GetTick E s;
           ((delta, from, from_len), s) \<leftarrow>
             ping_wait E sock (NET_HTONS (word_of_int seq)) ping_start_time timeout from from_len s;
           let response = (case delta of None \<Rightarrow> response | Some d \<Rightarrow> response[i := int32_of d]);
           ping_loop P E sock addr timeout (Suc i) n response (seq + 1) from from_len s }) })"

section \<open>The client\<close>

text \<open>Opening the socket: its number, the code so far and the buffer for the message.\<close>

definition ping_open :: "'w env \<Rightarrow> int \<Rightarrow> 'w net \<Rightarrow> (int \<times> int \<times> nat option, 'w) res" where
  "ping_open E timeout s = do {
     (sock, s) \<leftarrow> net_socket NET_AF_INET NET_SOCK_RAW NET_IPPROTO_ICMP s;
     (if sock < 0 then Some ((sock, -1, None), s)
      else do {
        (r, s) \<leftarrow> net_setsockopt E sock NET_SOL_SOCKET NET_SO_RCVTIMEO (OptI32 timeout) 4 s;
        (if r < 0 then Some ((sock, -1, None), s)
         else (case net_malloc E ping_size s of
             (None, s) \<Rightarrow> Some ((sock, -1, None), s)
           | (Some p, s) \<Rightarrow> Some ((sock, 0, Some p), s))) }) }"

definition icmp_ping ::
  "ping_lib \<Rightarrow> 'w env \<Rightarrow> netref \<Rightarrow> net_sockaddr \<Rightarrow> int \<Rightarrow> int \<Rightarrow> int list \<Rightarrow> int \<Rightarrow> 'w net \<Rightarrow>
     (int \<times> net_sockaddr \<times> int list \<times> int, 'w) res" where
  "icmp_ping P E pnetif addr count timeout response seq s = do {
     ((sock, ret, p_echo), s) \<leftarrow> ping_open E timeout s;
     (_, s) \<leftarrow> net_setsockopt E sock NET_SOL_SOCKET NET_SO_BINDTODEVICE (OptIf pnetif) (sizeof_net_if_handle P) s;
     (if ret = 0 then do {
        let addr = net_set_port addr 0;
        let from = \<lparr>sa_len = 16, sa_family = word_of_int NET_AF_INET, sin_port = 0, sin_addr = 0\<rparr>;
        ((response, seq), s) \<leftarrow> ping_loop P E sock addr timeout 0 (nat count) response seq (Some from) 16 s;
        let s = (case p_echo of None \<Rightarrow> s | Some p \<Rightarrow> net_free E p s);
        (_, s) \<leftarrow> net_closesocket E sock s;
        Some ((ret, addr, response, seq), s) }
      else Some ((ret, addr, response, seq), s)) }"

end
