(* ===== verification/Net_Ping_Props.thy ===== *)
theory Net_Ping_Props
  imports Net_Ping Socket_Errors
begin

text \<open>
  The echo client: what it takes for a reply, which interface it uses, what becomes of the socket it opens.
\<close>

section \<open>Echo messages\<close>

lemma length_echo_hdr [simp]: "length (echo_hdr type cod chksum ident seqno) = sizeof_icmp_echo_hdr"
  by (simp add: echo_hdr_def)

lemma echo_hdr_fields:
  "le16 (echo_hdr type cod chksum ident seqno) 4 = ident" "le16 (echo_hdr type cod chksum ident seqno) 6 = seqno"
  "echo_hdr type cod chksum ident seqno ! 1 = cod"
  using le16_stored [of 4 "[type, cod] @ bytes16 chksum" ident "bytes16 seqno"]
    le16_stored [of 6 "[type, cod] @ bytes16 chksum @ bytes16 ident" seqno "[]"]
  by (simp_all add: echo_hdr_def)

definition ip_header :: "bytes \<Rightarrow> bool" where
  "ip_header ip \<longleftrightarrow> ip \<noteq> [] \<and> unat (ip ! 0 AND 0x0f) * 4 = length ip"

lemma echo_received_hdr:
  assumes "ip_header ip"
  shows "echo_received seqnum (ip @ echo_hdr type cod chksum ident seqno @ rest)
    = Some (ident = PING_ID \<and> seqno = seqnum \<and> cod = ICMP_ER)"
proof -
  have "rd8 (ip @ echo_hdr type cod chksum ident seqno @ rest) 0 = Some (ip ! 0)"
    using assms unfolding rd8_Some_iff by (simp add: ip_header_def nth_append)
  moreover have "rd (ip @ echo_hdr type cod chksum ident seqno @ rest) (length ip) sizeof_icmp_echo_hdr
      = Some (echo_hdr type cod chksum ident seqno)"
    using rd_in_the_middle [of ip "echo_hdr type cod chksum ident seqno" rest] by simp
  ultimately show ?thesis
    using assms unfolding echo_received_def ip_header_def by (simp only: bind.bind_lunit Let_def echo_hdr_fields simp_thms)
qed

text \<open>
  C11. A message built by \<open>ping_prepare_echo\<close> for one sequence number, behind any IP header, is taken for a reply exactly
  when that number is waited for: the client accepts its own request, and with it a message of any other type (only the
  code is compared with \<open>ICMP_ER\<close>, the type is not looked at).
\<close>

theorem echo_accepts_request:
  assumes "ip_header ip"
  shows "echo_received (NET_HTONS n) (ip @ ping_prepare_echo P len m @ pad) = Some (n = m)
    \<and> echo_received (NET_HTONS n) (ip @ echo_hdr type 0 chksum PING_ID (NET_HTONS n) @ pad) = Some True"
proof -
  have "NET_HTONS n = NET_HTONS m \<longleftrightarrow> n = m"
    by (metis NET_HTONS_involution)
  then show ?thesis
    using echo_received_hdr [OF assms, of "NET_HTONS n" ICMP_ECHO 0 _ PING_ID "NET_HTONS m" "_ @ pad"]
      echo_received_hdr [OF assms, of "NET_HTONS n" type 0 chksum PING_ID "NET_HTONS n" pad]
    by (auto simp: ping_prepare_echo_def Let_def)
qed

theorem echo_accepts_request_witness:
  "echo_received (NET_HTONS 7) ((0x45 # replicate 19 0) @ ping_prepare_echo \<lparr>inet_chksum = (\<lambda>_. 0), sizeof_net_if_handle = 200\<rparr> 40 7 @ [])
     = Some True"
proof -
  have "ip_header (0x45 # replicate 19 0)" by (simp add: ip_header_def)
  from echo_accepts_request [OF this, of 7 "\<lparr>inet_chksum = (\<lambda>_. 0), sizeof_net_if_handle = 200\<rparr>" 40 7 "[]"]
  show ?thesis by simp
qed

section \<open>The socket of the client\<close>

lemma ping_dev_step [simp]:
  "api_rel pl i s (s\<lparr>dev := w\<rparr>)" "api_rel pl i s (net_free E p s)" "api_rel pl i s (snd (net_malloc E n s))"
  by (auto simp: net_free_def net_malloc_def split_def Let_def api_rel_def api_pre_def sound_def bio_ok_def plain_def)

lemma tick_step: "HAL_GetTick E s = (fst (env_tick E (dev s)), s\<lparr>dev := snd (env_tick E (dev s))\<rparr>)"
  by (simp add: HAL_GetTick_def split_def Let_def)

context socket_driver
begin

lemmas ping_shape = keeps_shape(1) [OF api_rel_transp] keeps_shape(2,3,4) keeps_read keeps_api_same

lemma keeps_tick:
  "(\<And>now t. keeps (api_rel pl i) t (f now t)) \<Longrightarrow> keeps (api_rel pl i) s (case HAL_GetTick E s of (now, t) \<Rightarrow> f now t)"
  unfolding tick_step prod.case by (rule keeps_after(1) [OF api_rel_transp ping_dev_step(1)])

lemma ping_wait_keeps: "keeps (api_rel pl (nat sock)) s (ping_wait E sock seqnum start timeout ad n s)"
proof (rule keepsI)
  fix r s'
  assume eq: "ping_wait E sock seqnum start timeout ad n s = Some (r, s')"
  have "E = E \<longrightarrow> keeps (api_rel pl (nat sock)) s (Some (r, s'))"
  proof (rule ping_wait.raw_induct [where P = "\<lambda>E' sock seqnum start timeout ad n s x. E' = E \<longrightarrow>
      keeps (api_rel pl (nat sock)) s (Some x)", OF _ eq], goal_cases)
    case (1 w E' sock seqnum start timeout ad n s x)
    have again: "keeps (api_rel pl (nat sock)) t (w E sock seqnum start timeout ad n t)" for ad n t
      using 1(1) by (auto intro!: keepsI)
    show ?case
      unfolding 1(2) [symmetric] Let_def
      by (intro impI, hypsubst, intro keeps_tick ping_shape net_recvfrom_keeps again)
  qed
  then show "api_rel pl (nat sock) s s'" by simp
qed

lemma ping_loop_keeps:
  "keeps (api_rel pl (nat sock)) s (ping_loop P E sock addr timeout i m response seq ad n s)"
proof (induction m arbitrary: i response seq ad n s)
  case 0
  then show ?case by simp
next
  case (Suc m)
  show ?case
    unfolding ping_loop.simps Let_def
    by (intro keeps_tick ping_shape keeps_None net_sendto_keeps ping_wait_keeps Suc.IH)
qed

end

definition same_status :: "nat \<Rightarrow> 'w net \<Rightarrow> 'w net \<Rightarrow> bool" where
  "same_status i s t \<longleftrightarrow> s_status (sock_at i t) = s_status (sock_at i s)"

lemma same_status_transp [simp]: "transp (same_status i)"
  by (simp add: transp_def same_status_def)

lemma same_status_refl [simp]: "same_status i s s" "same_status i s (net_os_op e s)" "same_status i s (s\<lparr>dev := w\<rparr>)"
  by (simp_all add: same_status_def sock_at_def)

lemma same_status_upd: "(\<And>k. s_status (f k) = s_status k) \<Longrightarrow> same_status i s (upd_sock j f s)"
  by (cases "j < length (Sockets s)")
    (auto simp: same_status_def sock_at_def upd_sock_def nth_list_update list_update_beyond)

lemma same_status_fields [simp]:
  "same_status i s (upd_sock j (s_pnetif_update g) s)" "same_status i s (upd_sock j (s_read_timeout_update h) s)"
  by (rule same_status_upd; simp)+

lemma same_status_ops [simp]: "same_status i s (LOCK_SOCK k s)" "same_status i s (UNLOCK_SOCK k s)"
  "same_status i s (UNLOCK_NETIF_LIST (LOCK_NETIF_LIST s))"
  by (simp_all add: lock_op_defs same_status_def)

lemma same_status_trans: "same_status i s t \<Longrightarrow> same_status i t u \<Longrightarrow> same_status i s u"
  by (simp add: same_status_def)

lemma same_status_default: "keeps_state (same_status i) s (default_interface j s)"
  by (auto simp: default_interface_def intro: same_status_trans [OF _ same_status_upd])

lemma same_status_read_timeout:
  assumes "net_mbedtls_set_read_timeout E j (upd_sock j (\<lambda>k. k\<lparr>s_read_timeout := v\<rparr>) s) = Some t"
  shows "same_status i s t"
proof -
  have "same_status i (upd_sock j (\<lambda>k. k\<lparr>s_read_timeout := v\<rparr>) s) t"
    using assms by (auto simp: net_mbedtls_set_read_timeout_def mbv_def bind_Some_iff split: option.splits)
  then show ?thesis by (rule same_status_trans [OF same_status_fields(2)])
qed

lemma same_status_switch:
  assumes "optname = NET_SO_RCVTIMEO \<or> optname = NET_SO_BINDTODEVICE"
  shows "keeps (same_status i) s (setsockopt_switch E j optname v n s)"
proof (rule keepsI)
  fix r t assume "setsockopt_switch E j optname v n s = Some (r, t)"
  then show "same_status i s t"
    using assms by (auto simp: setsockopt_switch_def Let_def bind_Some_iff
        dest: same_status_read_timeout split: optval.splits if_splits)
qed

lemmas status_shape = keeps_shape(1) [OF same_status_transp] keeps_shape(2,3,4) keeps_state_bind [OF same_status_transp]

context socket_driver
begin

lemma same_status_low: "keeps (same_status i) s (create_low_level_socket E (int i) s)"
  by (rule keeps_weaken [OF low_level_keeps])
    (auto simp: same_status_def low_level_def dest: but_low_fields(2))

lemma same_status_unlocked: "keeps (same_status i) s (call_unlocked E k psetsockopt (\<lambda>f s. f (l s) lv oo v n s) s)"
proof (rule keepsI)
  fix r s' assume "call_unlocked E k psetsockopt (\<lambda>f s. f (l s) lv oo v n s) s = Some (r, s')"
  then obtain d f t where "psetsockopt (env_drv E d) = Some f" "f (l (UNLOCK_SOCK k s)) lv oo v n (UNLOCK_SOCK k s) = Some (r, t)"
      and s': "s' = LOCK_SOCK k t"
    by (auto simp: call_unlocked_def sock_drv_def drv_of_def bind_Some_iff Let_def)
  from sock_frame_sock_at [OF psetsockopt_ok [OF this(1,2)]] show "same_status i s s'"
    by (simp add: s' same_status_def sock_at_def lock_op_defs)
qed

lemma setsockopt_keeps_status:
  assumes "optname = NET_SO_RCVTIMEO \<or> optname = NET_SO_BINDTODEVICE"
  shows "keeps (same_status i) s (net_setsockopt E (int i) level optname v n s)"
proof (cases "is_valid_socket (int i) s")
  case True
  have unlock: "keeps (same_status i) t (Some (r, UNLOCK_SOCK k t))" "keeps (same_status i) t (Some (r, t))" for t r k
    by simp_all
  have "keeps (same_status i) (LOCK_SOCK (int i) s) (net_setsockopt E (int i) level optname v n s)"
    by (simp only: net_setsockopt_def True open_call)
      (intro status_shape same_status_default same_status_low same_status_unlocked same_status_switch [OF assms] unlock)
  then show ?thesis using keeps_after(1) [OF same_status_transp same_status_ops(1)] by blast
qed (simp add: net_setsockopt_def)

end

lemma same_status_valid: "same_status i s t \<Longrightarrow> is_valid_socket (int i) t \<longleftrightarrow> is_valid_socket (int i) s"
  by (simp add: same_status_def is_valid_socket_def sock_at_def)

text \<open>Both relations at once: what the calls before the first request keep of the slot.\<close>

definition ping_rel :: "nat \<Rightarrow> 'w net \<Rightarrow> 'w net \<Rightarrow> bool" where
  "ping_rel i s t \<longleftrightarrow> api_rel True i s t \<and> same_status i s t"

lemma ping_rel_transp [simp]: "transp (ping_rel i)"
  unfolding transp_def ping_rel_def using api_rel_trans same_status_trans by blast

lemma ping_option_keeps:
  assumes "socket_driver E" and "optname = NET_SO_RCVTIMEO \<or> optname = NET_SO_BINDTODEVICE"
  shows "keeps (ping_rel i) s (net_setsockopt E (int i) level optname v n s)"
  using keepsD(1) [OF socket_driver.net_setsockopt_keeps [OF assms(1), of True optname "int i"]]
    keepsD(1) [OF socket_driver.setsockopt_keeps_status [OF assms]] assms(2)
  by (fastforce intro!: keepsI simp: ping_rel_def)

lemma ping_malloc: "ping_rel i s (snd (net_malloc E n s))"
  by (simp add: ping_rel_def same_status_def net_malloc_def split_def Let_def sock_at_def)

lemma ping_rel_dev [simp]: "ping_rel i s s"
  by (simp add: ping_rel_def)

lemma ping_rel_trans: "ping_rel i s t \<Longrightarrow> ping_rel i t u \<Longrightarrow> ping_rel i s u"
  using ping_rel_transp [of i] unfolding transp_def by blast

text \<open>A well formed table in which, seen from \<open>s\<close>, only slot \<open>i\<close> may have changed.\<close>

definition but_slot :: "nat \<Rightarrow> 'w net \<Rightarrow> 'w net \<Rightarrow> bool" where
  "but_slot i s t \<longleftrightarrow> table_plain t \<and> (\<forall>j. j \<noteq> i \<longrightarrow> sock_at j t = sock_at j s)"

lemma but_slot_socket:
  assumes "net_socket d ty pr s = Some (r, t)" and "table_plain s" and "free_slot s = Some i"
  shows "r = int i \<and> i < NET_MAX_SOCKETS_NBR \<and> but_slot i s t \<and> is_valid_socket (int i) t"
  using socket_outcome [OF assms(1)] table_plain_socket [OF assms(2,1)] assms(2,3)
  by (auto simp: but_slot_def table_plain_def is_valid_socket_def sock_at_def opened_def)

lemma but_slot_api:
  assumes "but_slot i s t" and "api_rel True i t u" and "i < NET_MAX_SOCKETS_NBR"
  shows "but_slot i s u"
proof -
  have "api_pre i t"
    using assms table_plain_sound [of t i] by (intro api_pre_call) (auto simp: but_slot_def table_plain_def)
  then have "outside i t u" using assms(2) by (simp add: api_rel_def)
  with assms table_plain_slot [of t i u] show ?thesis by (auto simp: but_slot_def outside_def)
qed

lemma ping_open_outcome:
  assumes "socket_driver E" and "free_slot s = Some i" and "table_plain s"
    and "ping_open E timeout s = Some ((sock, ret, p), s')"
  shows "sock = int i \<and> i < NET_MAX_SOCKETS_NBR \<and> but_slot i s s' \<and> is_valid_socket (int i) s'"
proof -
  obtain r t where t: "net_socket NET_AF_INET NET_SOCK_RAW NET_IPPROTO_ICMP s = Some (r, t)"
    using assms(4) unfolding ping_open_def by (rule bind_pair_SomeE)
  note opened = but_slot_socket [OF t assms(3,2)]
  then obtain c u where u: "net_setsockopt E (int i) NET_SOL_SOCKET NET_SO_RCVTIMEO (OptI32 timeout) 4 t = Some (c, u)"
    and "sock = int i" "s' = u \<or> s' = snd (net_malloc E ping_size u)"
    using assms(4) t by (auto simp: ping_open_def elim!: bind_pair_SomeE split: if_splits prod.splits option.splits)
  moreover have "ping_rel i t u"
    using keepsD(1) [OF ping_option_keeps [OF assms(1)] u] by simp
  ultimately have "sock = int i" "ping_rel i t s'"
    using ping_malloc ping_rel_trans by blast+
  then show ?thesis
    using opened but_slot_api [of i s t s'] same_status_valid [of i t s'] by (auto simp: ping_rel_def)
qed

text \<open>
  C10. A ping, whatever the driver answers, returns with no lock held and every other socket as it was; its own socket
  is closed again if it returns 0 and stays open for ever if it fails.
\<close>

theorem ping_isolated:
  assumes "socket_driver E" and "mbedtls_contract E" and "table_plain s" and "free_slot s = Some i"
    and "icmp_ping P E q addr count timeout response seq s = Some ((ret, x), s')"
  shows "table_plain s' \<and> (\<forall>j. j \<noteq> i \<longrightarrow> sock_at j s' = sock_at j s) \<and> (is_valid_socket (int i) s' \<longleftrightarrow> ret \<noteq> 0)"
proof -
  obtain sock ret' p t where t: "ping_open E timeout s = Some ((sock, ret', p), t)"
    using assms(5) unfolding icmp_ping_def by (auto elim!: bind_pair_SomeE)
  note opened = ping_open_outcome [OF assms(1,4,3) t]
  obtain c u where u: "net_setsockopt E (int i) NET_SOL_SOCKET NET_SO_BINDTODEVICE (OptIf q) (sizeof_net_if_handle P) t = Some (c, u)"
    using assms(5) t opened unfolding icmp_ping_def by (auto elim!: bind_pair_SomeE)
  have "ping_rel i t u" using keepsD(1) [OF ping_option_keeps [OF assms(1)] u] by simp
  then have bound: "but_slot i s u" "is_valid_socket (int i) u" "i < NET_MAX_SOCKETS_NBR"
    using opened but_slot_api [of i s t u] same_status_valid [of i t u] by (auto simp: ping_rel_def)
  show ?thesis
  proof (cases "ret' = 0")
    case False
    then have "ret = ret'" "s' = u" using assms(5) t u opened by (auto simp: icmp_ping_def)
    then show ?thesis using bound False by (simp add: but_slot_def)
  next
    case True
    let ?free = "\<lambda>v. case p of None \<Rightarrow> v | Some b \<Rightarrow> net_free E b v"
    obtain a n resp sq r v c where v: "ping_loop P E (int i) a timeout 0 (nat count) response seq n 16 u = Some ((resp, sq), v)"
      and close: "net_closesocket E (int i) (?free v) = Some (c, s')" and ret: "ret = 0"
      using assms(5) t u opened True by (auto simp: icmp_ping_def Let_def elim!: bind_pair_SomeE)
    have "api_rel True i u v"
      using keepsD(1) [OF socket_driver.ping_loop_keeps [OF assms(1)] v, of True] by simp
    then have "api_rel True i u (?free v)"
      by (auto intro: api_rel_trans split: option.split)
    then have before: "but_slot i s (?free v)" using bound but_slot_api by blast
    have "api_rel True i (?free v) s'"
      using keepsD(1) [OF socket_driver.net_closesocket_keeps [OF assms(1,2)] close, of True] by simp
    then have after: "but_slot i s s'" using before bound(3) but_slot_api by blast
    have "\<not> is_valid_socket (int i) s'"
    proof (cases "is_valid_socket (int i) (?free v)")
      case True
      then show ?thesis using net_closesocket_frees [OF assms(1,2) _ True close] before by (simp add: but_slot_def)
    next
      case False
      then show ?thesis using close by (auto simp: net_closesocket_def)
    qed
    with after ret show ?thesis by (simp add: but_slot_def)
  qed
qed

declare ping_wait.simps [code]

definition demo_ping :: ping_lib where
  "demo_ping = \<lparr>inet_chksum = (\<lambda>_. 0), sizeof_net_if_handle = 200\<rparr>"

theorem ping_isolated_witness:
  "\<exists>x s'. icmp_ping demo_ping demo_env 1 \<lparr>sa_len = 16, sa_family = 2, sin_port = 0, sin_addr = 7\<rparr> 1 2 [0] 1
     (demo_net NET_STATE_CONNECTED) = Some ((0, x), s') \<and> \<not> is_valid_socket 0 s'"
proof -
  let ?r = "icmp_ping demo_ping demo_env 1 \<lparr>sa_len = 16, sa_family = 2, sin_port = 0, sin_addr = 7\<rparr> 1 2 [0] 1
     (demo_net NET_STATE_CONNECTED)"
  have "map_option (\<lambda>((r, _), _). r) ?r = Some 0" by code_simp
  then obtain x s' where run: "?r = Some ((0, x), s')" by auto
  from ping_isolated [OF demo_socket_driver demo_mbedtls demo_table_plain demo_fresh(1) run]
  have "\<not> is_valid_socket 0 s'" by simp
  with run show ?thesis by blast
qed

lemma bind_to_device_refused:
  assumes "n \<noteq> 4"
  shows "net_setsockopt E sock level NET_SO_BINDTODEVICE v n s
    = Some (if is_valid_socket sock s then (NET_ERROR_PARAMETER, UNLOCK_SOCK sock (LOCK_SOCK sock s))
            else (NET_ERROR_INVALID_SOCKET, s))"
  using assms by (simp add: net_setsockopt_def setsockopt_switch_def net_socket_get_and_lock_def)

text \<open>
  The size \<open>net_setsockopt\<close> expects for \<open>NET_SO_BINDTODEVICE\<close> is that of a pointer, \<open>icmp_ping\<close> passes that of the whole
  handle: unless the two agree, the interface it is given has no influence on what it does.
\<close>

theorem ping_ignores_interface:
  assumes "sizeof_net_if_handle P \<noteq> 4"
  shows "icmp_ping P E p addr count timeout response seq s = icmp_ping P E q addr count timeout response seq s"
  unfolding icmp_ping_def bind_to_device_refused [OF assms] by simp

theorem ping_ignores_interface_witness:
  "\<forall>a s. icmp_ping demo_ping demo_env 1 a 1 100 [0] 1 s = icmp_ping demo_ping demo_env 2 a 1 100 [0] 1 s"
  by (intro allI ping_ignores_interface) (simp add: demo_ping_def)


end
