(* ===== verification/Net_Lwip.thy ===== *)
theory Net_Lwip
  imports Driver_Frame
begin

text \<open>
  \<open>services/net_ip_lwip.c\<close>: the glue between the library and the TCP/IP stack lwIP, built for IPv4 with lwIP's sockets and
  without \<open>NET_DHCP_SERVER_HOST_SUPPORT\<close>. lwIP is outside the repository. Its functions are the records \<open>lwip_dhcp\<close> and
  \<open>lwip_lib\<close>, its \<open>struct netif\<close> objects and \<open>errno\<close> part of the world \<open>dev\<close>. A function of lwIP that changes an interface
  may call \<open>net_ip_status_cb\<close> before it returns, which reaches the state machine: such a function works on the whole
  system; the others work on the world.
\<close>

section \<open>lwIP\<close>

text \<open>
  The members of \<open>struct netif\<close> the code reads or sets; \<open>n_dhcp_data\<close> is \<open>netif_dhcp_data(netif) != NULL\<close>. The function
  pointers an interface installs in it are not kept: lwIP calls the functions themselves.
\<close>

record lw_netif =
  n_ip :: u32
  n_netmask :: u32
  n_gw :: u32
  n_link_up :: bool
  n_hwaddr :: bytes
  n_name :: bytes
  n_num :: u8
  n_state :: netref
  n_dhcp_data :: bool
  n_hwaddr_len :: u8
  n_mtu :: u16
  n_flags :: u8  \<comment> \<open>without the bits of \<open>n_link_up\<close>\<close>
  n_hostname :: "(nat \<times> string) option"  \<comment> \<open>the pointer and the text it points to\<close>

definition zero_netif :: lw_netif where
  "zero_netif = \<lparr>n_ip = 0, n_netmask = 0, n_gw = 0, n_link_up = False, n_hwaddr = replicate 6 0, n_name = [0, 0],
     n_num = 0, n_state = 0, n_dhcp_data = False, n_hwaddr_len = 0, n_mtu = 0, n_flags = 0, n_hostname = None\<rparr>"

text \<open>
  \<open>lw_linked\<close> says which driver tables \<open>link_socket_to_lwip\<close> has filled, \<open>lw_ping_seq\<close> is the static sequence number of
  \<open>icmp_ping\<close>, \<open>lw_rest\<close> the rest of lwIP and the device below it.
\<close>

record 'l lwip_world =
  lw_netifs :: "nat \<Rightarrow> lw_netif"
  lw_errno :: int
  tcpip_init_done :: bool
  lw_linked :: "drvref \<Rightarrow> bool"
  lw_ping_seq :: int
  lw_rest :: 'l

type_synonym 'l lw_net = "'l lwip_world net"
type_synonym 'l lw_sys = "'l lw_net \<Rightarrow> 'l lw_net option"

text \<open>The argument of \<open>lwip_setsockopt\<close>: an option passed on, or \<open>SO_BINDTODEVICE\<close> with an interface name.\<close>

datatype lw_option = Lw_option net_socketoption optval u32 | Lw_bindtodevice bytes

record 'l lwip_dhcp =
  dhcp_start :: "nat \<Rightarrow> 'l lw_sys"
  dhcp_release :: "nat \<Rightarrow> 'l lw_sys"
  dhcp_inform :: "nat \<Rightarrow> 'l lw_sys"

record 'l lwip_lib =
  lw_dhcp :: "'l lwip_dhcp"
  EWOULDBLOCK :: int
  SOL_SOCKET :: int
  LW_AF_INET :: int
  LW_AF_INET6 :: int
  sizeof_netif :: nat
  sizeof_ifreq_name :: nat
  tcpip_init :: "'l lwip_world \<Rightarrow> 'l lwip_world"
  netif_add :: "nat \<Rightarrow> netref \<Rightarrow> (nat \<Rightarrow> 'l lwip_world \<Rightarrow> int \<times> 'l lwip_world) \<Rightarrow> 'l lwip_world \<Rightarrow> nat option \<times> 'l lwip_world"
    \<comment> \<open>calls the interface's own initialisation on the new object\<close>
  netif_set_default :: "nat option \<Rightarrow> 'l lwip_world \<Rightarrow> 'l lwip_world"
  netif_register_callbacks :: "nat \<Rightarrow> 'l lwip_world \<Rightarrow> 'l lwip_world"
    \<comment> \<open>\<open>netif_set_status_callback\<close> and \<open>netif_set_link_callback\<close> with \<open>net_ip_status_cb\<close>\<close>
  netif_set_up :: "nat \<Rightarrow> 'l lw_sys"
  netif_set_down :: "nat \<Rightarrow> 'l lw_sys"
  netif_set_link_up :: "nat \<Rightarrow> 'l lw_sys"
  netif_set_link_down :: "nat \<Rightarrow> 'l lw_sys"
  netif_set_addr :: "nat \<Rightarrow> u32 \<Rightarrow> u32 \<Rightarrow> u32 \<Rightarrow> 'l lw_sys"
    \<comment> \<open>a null pointer is the address 0\<close>
  netif_remove :: "nat \<Rightarrow> 'l lw_sys"
  dhcp_stop :: "nat \<Rightarrow> 'l lw_sys"
  dhcp_cleanup :: "nat \<Rightarrow> 'l lw_sys"
  lwip_socket :: "int \<Rightarrow> int \<Rightarrow> int \<Rightarrow> 'l lwip_world \<Rightarrow> int \<times> 'l lwip_world"
  lwip_bind :: "int \<Rightarrow> net_sockaddr option \<Rightarrow> u32 \<Rightarrow> 'l lwip_world \<Rightarrow> int \<times> 'l lwip_world"
  lwip_listen :: "int \<Rightarrow> int \<Rightarrow> 'l lwip_world \<Rightarrow> int \<times> 'l lwip_world"
  lwip_accept :: "int \<Rightarrow> net_sockaddr option \<Rightarrow> u32 \<Rightarrow> 'l lwip_world \<Rightarrow> (int \<times> net_sockaddr option \<times> u32) \<times> 'l lwip_world"
  lwip_connect :: "int \<Rightarrow> net_sockaddr option \<Rightarrow> u32 \<Rightarrow> 'l lwip_world \<Rightarrow> int \<times> 'l lwip_world"
  lwip_send :: "int \<Rightarrow> bytes \<Rightarrow> u32 \<Rightarrow> int \<Rightarrow> 'l lwip_world \<Rightarrow> int \<times> 'l lwip_world"
  lwip_recv :: "int \<Rightarrow> bytes \<Rightarrow> u32 \<Rightarrow> int \<Rightarrow> 'l lwip_world \<Rightarrow> (int \<times> bytes) \<times> 'l lwip_world"
  lwip_sendto :: "int \<Rightarrow> bytes \<Rightarrow> u32 \<Rightarrow> int \<Rightarrow> net_sockaddr option \<Rightarrow> u32 \<Rightarrow> 'l lwip_world \<Rightarrow> int \<times> 'l lwip_world"
  lwip_recvfrom :: "int \<Rightarrow> bytes \<Rightarrow> u32 \<Rightarrow> int \<Rightarrow> net_sockaddr option \<Rightarrow> u32 \<Rightarrow> 'l lwip_world \<Rightarrow>
    (int \<times> bytes \<times> net_sockaddr option \<times> u32) \<times> 'l lwip_world"
  lwip_setsockopt :: "int \<Rightarrow> int \<Rightarrow> lw_option \<Rightarrow> 'l lwip_world \<Rightarrow> int \<times> 'l lwip_world"
  lwip_getsockopt :: "int \<Rightarrow> int \<Rightarrow> net_socketoption \<Rightarrow> optval \<Rightarrow> u32 \<Rightarrow> 'l lwip_world \<Rightarrow> (int \<times> optval \<times> u32) \<times> 'l lwip_world"
  lwip_getsockname :: "int \<Rightarrow> net_sockaddr \<Rightarrow> u32 \<Rightarrow> 'l lwip_world \<Rightarrow> (int \<times> net_sockaddr \<times> u32) \<times> 'l lwip_world"
  lwip_getpeername :: "int \<Rightarrow> net_sockaddr \<Rightarrow> u32 \<Rightarrow> 'l lwip_world \<Rightarrow> (int \<times> net_sockaddr \<times> u32) \<times> 'l lwip_world"
  lwip_close :: "int \<Rightarrow> 'l lwip_world \<Rightarrow> int \<times> 'l lwip_world"
  lwip_shutdown :: "int \<Rightarrow> int \<Rightarrow> 'l lwip_world \<Rightarrow> int \<times> 'l lwip_world"
  lwip_getaddrinfo :: "string \<Rightarrow> int \<Rightarrow> 'l lwip_world \<Rightarrow> (int \<times> (int \<times> net_sockaddr) option) \<times> 'l lwip_world"
    \<comment> \<open>for a datagram socket and the given family; family and address of the first result\<close>
  lwip_freeaddrinfo :: "'l lwip_world \<Rightarrow> 'l lwip_world"

definition lw_call :: "('l lwip_world \<Rightarrow> 'a \<times> 'l lwip_world) \<Rightarrow> 'l lw_net \<Rightarrow> 'a \<times> 'l lw_net" where
  "lw_call f s = (let (r, w) = f (dev s) in (r, s\<lparr>dev := w\<rparr>))"

definition lw_do :: "('l lwip_world \<Rightarrow> 'l lwip_world) \<Rightarrow> 'l lw_net \<Rightarrow> 'l lw_net" where
  "lw_do f s = s\<lparr>dev := f (dev s)\<rparr>"

definition upd_lw :: "nat \<Rightarrow> (lw_netif \<Rightarrow> lw_netif) \<Rightarrow> 'l lwip_world \<Rightarrow> 'l lwip_world" where
  "upd_lw n f w = w\<lparr>lw_netifs := (lw_netifs w)(n := f (lw_netifs w n))\<rparr>"

definition lw_at :: "nat \<Rightarrow> 'l lw_net \<Rightarrow> lw_netif" where
  "lw_at n s = lw_netifs (dev s) n"

text \<open>A call that works on the rest, the device below lwIP.\<close>

definition on_rest :: "('l \<Rightarrow> 'a \<times> 'l) \<Rightarrow> 'l lwip_world \<Rightarrow> 'a \<times> 'l lwip_world" where
  "on_rest f w = (let (r, y) = f (lw_rest w) in (r, w\<lparr>lw_rest := y\<rparr>))"

lemma lw_at_upd [simp]: "lw_at n (upd_netif p f s) = lw_at n s"
  by (simp add: lw_at_def)

section \<open>Interfaces\<close>

abbreviation (input) NET_IP_FLAG_DEFAULT_INTERFACE :: u32 where "NET_IP_FLAG_DEFAULT_INTERFACE \<equiv> 1"
abbreviation (input) NET_ETHERNET_FLAG_DEFAULT_IF :: u32 where "NET_ETHERNET_FLAG_DEFAULT_IF \<equiv> 1"

definition net_ip_init :: "'l lwip_lib \<Rightarrow> 'l lw_net \<Rightarrow> 'l lw_net" where
  "net_ip_init L s =
     (if tcpip_init_done (dev s) then s
      else lw_do (\<lambda>w. w\<lparr>tcpip_init_done := True\<rparr>) (lw_do (tcpip_init L) s))"

text \<open>\<open>link_socket_to_lwip\<close> fills the members of the driver's table: see \<open>link_sockets\<close> below for what they call.\<close>

definition link_socket_to_lwip :: "drvref \<Rightarrow> 'l lw_net \<Rightarrow> 'l lw_net" where
  "link_socket_to_lwip d = lw_do (\<lambda>w. w\<lparr>lw_linked := (lw_linked w)(d := True)\<rparr>)"

text \<open>
  If \<open>netif_add\<close> fails it returns a null pointer, from which the code then reads the hardware address.
\<close>

definition net_ip_add_if ::
  "'l lwip_lib \<Rightarrow> 'l lwip_world env \<Rightarrow> netref \<Rightarrow> (nat \<Rightarrow> 'l lwip_world \<Rightarrow> int \<times> 'l lwip_world) \<Rightarrow> u32 \<Rightarrow> 'l lw_net \<Rightarrow>
     (int, 'l lwip_world) res" where
  "net_ip_add_if L E pnetif init flag s =
     (case net_malloc E (sizeof_netif L) s of
        (None, s) \<Rightarrow> Some (NET_ERROR_GENERIC, s)
      | (Some n, s) \<Rightarrow> do {
          let s = lw_do (upd_lw n (\<lambda>_. zero_netif)) s;
          let s = upd_netif pnetif (\<lambda>h. h\<lparr>h_netif := Some n\<rparr>) s;
          let (netif, s) = lw_call (netif_add L n pnetif init) s;
          let s = (if flag AND NET_IP_FLAG_DEFAULT_INTERFACE \<noteq> 0 then lw_do (netif_set_default L netif) s else s);
          n \<leftarrow> netif;
          let s = upd_netif pnetif (\<lambda>h. h\<lparr>h_macaddr := take 6 (n_hwaddr (lw_at n s))\<rparr>) s;
          d \<leftarrow> h_pdrv (Netifs s pnetif);
          Some (NET_OK, link_socket_to_lwip d s) })"

definition net_ip_connect :: "'l lwip_lib \<Rightarrow> netref \<Rightarrow> 'l lw_net \<Rightarrow> (int, 'l lwip_world) res" where
  "net_ip_connect L pnetif s =
     (case h_netif (Netifs s pnetif) of
        None \<Rightarrow> Some (NET_ERROR_PARAMETER, s)
      | Some netif \<Rightarrow>
          (let h = Netifs s pnetif in
           if \<not> h_dhcp_mode h \<and> h_static_ipaddr h = 0 then Some (NET_ERROR_PARAMETER, s)
           else do {
             s \<leftarrow> netif_set_up L netif s;
             s \<leftarrow> (if h_dhcp_mode (Netifs s pnetif) then
                    dhcp_start (lw_dhcp L) netif (upd_netif pnetif (\<lambda>h. h\<lparr>h_dhcp_release_on_link_lost := True\<rparr>) s)
                  else do {
                    let h = Netifs s pnetif;
                    s \<leftarrow> netif_set_addr L netif (h_static_ipaddr h) (h_static_netmask h) (h_static_gateway h) s;
                    (if h_dhcp_version (Netifs s pnetif) = DHCP_CLIENT_V4 then dhcp_inform (lw_dhcp L) netif s
                     else Some s) });
             Some (NET_OK, s) }))"

abbreviation (input) ERR_OK :: int where "ERR_OK \<equiv> 0"

definition net_ip_disconnect :: "'l lwip_lib \<Rightarrow> netref \<Rightarrow> 'l lw_net \<Rightarrow> (int, 'l lwip_world) res" where
  "net_ip_disconnect L pnetif s = do {
     netif \<leftarrow> h_netif (Netifs s pnetif);
     s \<leftarrow> (if n_dhcp_data (lw_at netif s) then do {
            s \<leftarrow> dhcp_release (lw_dhcp L) netif s;
            s \<leftarrow> dhcp_stop L netif s;
            dhcp_cleanup L netif s }
          else do {
            s \<leftarrow> netif_set_addr L netif 0 0 0 s;
            let s = upd_netif pnetif (\<lambda>h. h\<lparr>h_dhcp_inform_flag := False\<rparr>) s;
            (if h_dhcp_version (Netifs s pnetif) = DHCP_CLIENT_V4 then dhcp_inform (lw_dhcp L) netif s
             else Some s) });
     Some (ERR_OK, s) }"

definition net_ip_remove_if ::
  "'l lwip_lib \<Rightarrow> 'l lwip_world env \<Rightarrow> netref \<Rightarrow> (nat \<Rightarrow> 'l lwip_world \<Rightarrow> int \<times> 'l lwip_world) option \<Rightarrow> 'l lw_net \<Rightarrow>
     (int, 'l lwip_world) res" where
  "net_ip_remove_if L E pnetif deinit s =
     (case h_netif (Netifs s pnetif) of
        None \<Rightarrow> Some (NET_OK, s)
      | Some netif \<Rightarrow> do {
          s \<leftarrow> netif_set_down L netif s;
          s \<leftarrow> netif_set_link_down L netif s;
          s \<leftarrow> netif_remove L netif s;
          let s = (case deinit of None \<Rightarrow> s | Some f \<Rightarrow> snd (lw_call (f netif) s));
          let s = net_free E netif s;
          Some (NET_OK, upd_netif pnetif (\<lambda>h. h\<lparr>h_netif := None\<rparr>) s) })"

section \<open>The status callback\<close>

text \<open>The part of \<open>net_ip_status_cb\<close> for an address from DHCP.\<close>

definition status_dhcp :: "'l lwip_dhcp \<Rightarrow> nat \<Rightarrow> 'l lw_sys" where
  "status_dhcp D netif s = do {
     let pnetif = n_state (lw_at netif s);
     s \<leftarrow> (if n_ip (lw_at netif s) \<noteq> 0 \<and> \<not> n_link_up (lw_at netif s) \<and> h_dhcp_release_on_link_lost (Netifs s pnetif)
          then do { s \<leftarrow> dhcp_release D netif s; dhcp_start D netif s } else Some s);
     (if h_dhcp_inform_flag (Netifs s pnetif) \<and> n_link_up (lw_at netif s) \<and> h_dhcp_version (Netifs s pnetif) = DHCP_CLIENT_V4
      then do {
        s \<leftarrow> dhcp_inform D netif s;
        Some (upd_netif pnetif (\<lambda>h. h\<lparr>h_dhcp_inform_flag := False\<rparr>) s) }
      else Some s) }"

text \<open>The part that tells the library: a changed address, then the link.\<close>

definition status_notify :: "'l lwip_world env \<Rightarrow> nat \<Rightarrow> 'l lw_sys" where
  "status_notify E netif s = do {
     let pnetif = n_state (lw_at netif s);
     s \<leftarrow> (if h_ipaddr (Netifs s pnetif) \<noteq> n_ip (lw_at netif s) then
            (let s = upd_netif pnetif (\<lambda>h. h\<lparr>h_ipaddr := n_ip (lw_at netif s)\<rparr>) s;
                 s = upd_netif pnetif (\<lambda>h. h\<lparr>h_netmask := n_netmask (lw_at netif s)\<rparr>) s;
                 s = upd_netif pnetif (\<lambda>h. h\<lparr>h_gateway := n_gw (lw_at netif s)\<rparr>) s
             in if h_ipaddr (Netifs s pnetif) \<noteq> 0 then driver_sends E pnetif NET_EVENT_IPADDR s else Some s)
          else Some s);
     (if n_link_up (lw_at netif s) then driver_sends E pnetif NET_EVENT_LINK_UP s
      else driver_sends E pnetif NET_EVENT_LINK_DOWN s) }"

definition net_ip_status_cb :: "'l lwip_dhcp \<Rightarrow> 'l lwip_world env \<Rightarrow> nat \<Rightarrow> 'l lw_sys" where
  "net_ip_status_cb D E netif s = do {
     s \<leftarrow> (if h_dhcp_mode (Netifs s (n_state (lw_at netif s))) then status_dhcp D netif s else Some s);
     status_notify E netif s }"

section \<open>Sockets\<close>

definition returncode_lwip2net :: "'l lwip_lib \<Rightarrow> int \<Rightarrow> 'l lw_net \<Rightarrow> int" where
  "returncode_lwip2net L ret_in s =
     (if ret_in = -1 then (if lw_errno (dev s) = EWOULDBLOCK L then 0 else ret_in)
      else if ret_in = 0 then NET_ERROR_DISCONNECTED
      else ret_in)"

definition net_lwip_socket :: "'l lwip_lib \<Rightarrow> int \<Rightarrow> int \<Rightarrow> int \<Rightarrow> 'l lw_net \<Rightarrow> (int, 'l lwip_world) res" where
  "net_lwip_socket L sdomain type protocol s = Some (lw_call (lwip_socket L sdomain type protocol) s)"

definition net_lwip_bind :: "'l lwip_lib \<Rightarrow> int \<Rightarrow> net_sockaddr option \<Rightarrow> u32 \<Rightarrow> 'l lw_net \<Rightarrow> (int, 'l lwip_world) res" where
  "net_lwip_bind L sock addr addrlen s = Some (lw_call (lwip_bind L sock addr addrlen) s)"

definition net_lwip_listen :: "'l lwip_lib \<Rightarrow> int \<Rightarrow> int \<Rightarrow> 'l lw_net \<Rightarrow> (int, 'l lwip_world) res" where
  "net_lwip_listen L sock backlog s = Some (lw_call (lwip_listen L sock backlog) s)"

definition net_lwip_accept ::
  "'l lwip_lib \<Rightarrow> int \<Rightarrow> net_sockaddr option \<Rightarrow> u32 \<Rightarrow> 'l lw_net \<Rightarrow> (int \<times> net_sockaddr option \<times> u32, 'l lwip_world) res" where
  "net_lwip_accept L sock addr addrlen s = Some (lw_call (lwip_accept L sock addr addrlen) s)"

definition net_lwip_connect :: "'l lwip_lib \<Rightarrow> int \<Rightarrow> net_sockaddr option \<Rightarrow> u32 \<Rightarrow> 'l lw_net \<Rightarrow> (int, 'l lwip_world) res" where
  "net_lwip_connect L sock addr addrlen s = Some (lw_call (lwip_connect L sock addr addrlen) s)"

definition net_lwip_send :: "'l lwip_lib \<Rightarrow> int \<Rightarrow> bytes \<Rightarrow> int \<Rightarrow> int \<Rightarrow> 'l lw_net \<Rightarrow> (int, 'l lwip_world) res" where
  "net_lwip_send L sock buf len flags s =
     (case lw_call (lwip_send L sock buf (u32_of len) flags) s of (ret, s) \<Rightarrow> Some (returncode_lwip2net L ret s, s))"

definition net_lwip_recv :: "'l lwip_lib \<Rightarrow> int \<Rightarrow> bytes \<Rightarrow> int \<Rightarrow> int \<Rightarrow> 'l lw_net \<Rightarrow> (int \<times> bytes, 'l lwip_world) res" where
  "net_lwip_recv L sock buf len flags s =
     (case lw_call (lwip_recv L sock buf (u32_of len) flags) s of
        ((ret, buf), s) \<Rightarrow> Some ((returncode_lwip2net L ret s, buf), s))"

definition net_lwip_sendto ::
  "'l lwip_lib \<Rightarrow> int \<Rightarrow> bytes \<Rightarrow> int \<Rightarrow> int \<Rightarrow> net_sockaddr option \<Rightarrow> u32 \<Rightarrow> 'l lw_net \<Rightarrow> (int, 'l lwip_world) res" where
  "net_lwip_sendto L sock buf len flags to to_len s =
     (case lw_call (lwip_sendto L sock buf (u32_of len) flags to to_len) s of
        (ret, s) \<Rightarrow> Some (returncode_lwip2net L ret s, s))"

definition net_lwip_recvfrom ::
  "'l lwip_lib \<Rightarrow> int \<Rightarrow> bytes \<Rightarrow> int \<Rightarrow> int \<Rightarrow> net_sockaddr option \<Rightarrow> u32 \<Rightarrow> 'l lw_net \<Rightarrow>
     (int \<times> bytes \<times> net_sockaddr option \<times> u32, 'l lwip_world) res" where
  "net_lwip_recvfrom L sock buf len flags from from_len s =
     (case lw_call (lwip_recvfrom L sock buf (u32_of len) flags from from_len) s of
        ((ret, buf, from, from_len), s) \<Rightarrow> Some ((returncode_lwip2net L ret s, buf, from, from_len), s))"

text \<open>\<open>iface.ifr_name\<close> after the three stores into the cleared structure.\<close>

definition ifr_name :: "'l lwip_lib \<Rightarrow> lw_netif \<Rightarrow> bytes" where
  "ifr_name L netif = [n_name netif ! 0, n_name netif ! 1, 0x30 + n_num netif] @ replicate (sizeof_ifreq_name L - 3) 0"

definition net_lwip_setsockopt ::
  "'l lwip_lib \<Rightarrow> int \<Rightarrow> int \<Rightarrow> net_socketoption \<Rightarrow> optval \<Rightarrow> u32 \<Rightarrow> 'l lw_net \<Rightarrow> (int, 'l lwip_world) res" where
  "net_lwip_setsockopt L sock level optname optvalue optlen s =
     (let forward = lw_call (lwip_setsockopt L sock level (Lw_option optname optvalue optlen)) s in
      case (optname, optvalue) of
        (NET_SO_BINDTODEVICE, OptIf pnetif) \<Rightarrow>
          Some (case h_netif (Netifs s pnetif) of
             None \<Rightarrow> forward
           | Some netif \<Rightarrow> lw_call (lwip_setsockopt L sock (SOL_SOCKET L) (Lw_bindtodevice (ifr_name L (lw_at netif s)))) s)
      | _ \<Rightarrow> Some forward)"

definition net_lwip_getsockopt ::
  "'l lwip_lib \<Rightarrow> int \<Rightarrow> int \<Rightarrow> net_socketoption \<Rightarrow> optval \<Rightarrow> u32 \<Rightarrow> 'l lw_net \<Rightarrow> (int \<times> optval \<times> u32, 'l lwip_world) res" where
  "net_lwip_getsockopt L sock level optname optvalue optlen s =
     Some (lw_call (lwip_getsockopt L sock level optname optvalue optlen) s)"

definition net_lwip_getsockname ::
  "'l lwip_lib \<Rightarrow> int \<Rightarrow> net_sockaddr \<Rightarrow> u32 \<Rightarrow> 'l lw_net \<Rightarrow> (int \<times> net_sockaddr \<times> u32, 'l lwip_world) res" where
  "net_lwip_getsockname L sock name namelen s = Some (lw_call (lwip_getsockname L sock name namelen) s)"

definition net_lwip_getpeername ::
  "'l lwip_lib \<Rightarrow> int \<Rightarrow> net_sockaddr \<Rightarrow> u32 \<Rightarrow> 'l lw_net \<Rightarrow> (int \<times> net_sockaddr \<times> u32, 'l lwip_world) res" where
  "net_lwip_getpeername L sock name namelen s = Some (lw_call (lwip_getpeername L sock name namelen) s)"

definition net_lwip_close :: "'l lwip_lib \<Rightarrow> int \<Rightarrow> bool \<Rightarrow> 'l lw_net \<Rightarrow> (int, 'l lwip_world) res" where
  "net_lwip_close L sock clone s = Some (lw_call (lwip_close L sock) s)"

definition net_lwip_shutdown :: "'l lwip_lib \<Rightarrow> int \<Rightarrow> int \<Rightarrow> 'l lw_net \<Rightarrow> (int, 'l lwip_world) res" where
  "net_lwip_shutdown L sock mode s = Some (lw_call (lwip_shutdown L sock mode) s)"

text \<open>
  Both branches of \<open>net_lwip_gethostbyname\<close>: of the address structure the IPv6 branch copies \<open>sa_data\<close> (port and address), the
  IPv4 branch the address.
\<close>

definition take_host :: "bool \<Rightarrow> net_sockaddr \<Rightarrow> net_sockaddr \<Rightarrow> net_sockaddr" where
  "take_host v6 found paddr =
     (if v6 then paddr\<lparr>sin_port := sin_port found, sin_addr := sin_addr found\<rparr>
      else paddr\<lparr>sa_family := word_of_int NET_AF_INET, sin_addr := sin_addr found\<rparr>)"

definition net_lwip_gethostbyname ::
  "'l lwip_lib \<Rightarrow> netref \<Rightarrow> net_sockaddr \<Rightarrow> string \<Rightarrow> 'l lw_net \<Rightarrow> (int \<times> net_sockaddr, 'l lwip_world) res" where
  "net_lwip_gethostbyname L pnetif paddr name s =
     (let v6 = (sa_family paddr = word_of_int (LW_AF_INET6 L));
          family = (if v6 then LW_AF_INET6 L else LW_AF_INET L)
      in if sa_len paddr < 16 then Some ((NET_ERROR_PARAMETER, paddr), s)
         else case lw_call (lwip_getaddrinfo L name family) s of
           ((r, p_hostinfo), s) \<Rightarrow>
             if r \<noteq> 0 then Some ((NET_ERROR_DNS_FAILURE, paddr), s)
             else do {
               (ai_family, ai_addr) \<leftarrow> p_hostinfo;
               let s' = lw_do (lwip_freeaddrinfo L) s;
               Some (if ai_family = family
                     then (NET_OK, take_host v6 ai_addr paddr)
                     else (NET_ERROR_DNS_FAILURE, paddr), s') })"

text \<open>
  What a driver table holds after \<open>link_socket_to_lwip\<close>. Before it the members are whatever the memory held: a call of
  one of them is undefined, \<^term>\<open>None\<close>.
\<close>

definition linked :: "drvref \<Rightarrow> ('l lw_net \<Rightarrow> 'a option) \<Rightarrow> 'l lw_net \<Rightarrow> 'a option" where
  "linked d f s = (if lw_linked (dev s) d then f s else None)"

definition link_sockets :: "'l lwip_lib \<Rightarrow> drvref \<Rightarrow> 'l lw_net net_if_drv \<Rightarrow> 'l lw_net net_if_drv" where
  "link_sockets L d drv = drv\<lparr>
     psocket := Some (\<lambda>a t p. linked d (net_lwip_socket L a t p)),
     pbind := Some (\<lambda>k a n. linked d (net_lwip_bind L k a n)),
     plisten := Some (\<lambda>k n. linked d (net_lwip_listen L k n)),
     paccept := Some (\<lambda>k a n. linked d (net_lwip_accept L k a n)),
     pconnect := Some (\<lambda>k a n. linked d (net_lwip_connect L k a n)),
     psend := Some (\<lambda>k b n f. linked d (net_lwip_send L k b n f)),
     precv := Some (\<lambda>k b n f. linked d (net_lwip_recv L k b n f)),
     psendto := Some (\<lambda>k b n f a l. linked d (net_lwip_sendto L k b n f a l)),
     precvfrom := Some (\<lambda>k b n f a l. linked d (net_lwip_recvfrom L k b n f a l)),
     psetsockopt := Some (\<lambda>k v nm x l. linked d (net_lwip_setsockopt L k v nm x l)),
     pgetsockopt := Some (\<lambda>k v nm x l. linked d (net_lwip_getsockopt L k v nm x l)),
     pgetsockname := Some (\<lambda>k a l. linked d (net_lwip_getsockname L k a l)),
     pgetpeername := Some (\<lambda>k a l. linked d (net_lwip_getpeername L k a l)),
     pclose := Some (\<lambda>k c. linked d (net_lwip_close L k c)),
     pshutdown := Some (\<lambda>k m. linked d (net_lwip_shutdown L k m)),
     pgethostbyname := Some (\<lambda>p a nm. linked d (net_lwip_gethostbyname L p a nm))\<rparr>"


end
