(* ===== verification/Net_Lwip_Props.thy ===== *)
theory Net_Lwip_Props
  imports Net_Lwip
begin

text \<open>
  What lwIP may do to the library while it works on an interface (\<open>lw_run\<close>), what the glue code keeps under that
  contract, and what the status callback makes of a change of the link or of the address.
\<close>

section \<open>What lwIP does\<close>

text \<open>A step of its own: only the world changes, and no \<open>struct netif\<close> changes its owner.\<close>

definition lw_own :: "'l lw_net \<Rightarrow> 'l lw_net \<Rightarrow> bool" where
  "lw_own s t \<longleftrightarrow> only_dev s t \<and> (\<forall>m. n_state (lw_at m t) = n_state (lw_at m s))"

text \<open>
  lwIP working on interface \<open>n\<close>: steps of its own, restricted by \<open>Q\<close>, and runs of the status callback, of which
  \<open>status_notify\<close> and clearing the inform flag are the parts that reach the library.
\<close>

inductive lw_run :: "'l lwip_world env \<Rightarrow> ('l lw_net \<Rightarrow> 'l lw_net \<Rightarrow> bool) \<Rightarrow> nat \<Rightarrow> 'l lw_net \<Rightarrow> 'l lw_net \<Rightarrow> bool"
  for E Q n s where
    lw_start: "lw_run E Q n s s"
  | lw_step: "lw_run E Q n s t \<Longrightarrow> lw_own t u \<Longrightarrow> Q t u \<Longrightarrow> lw_run E Q n s u"
  | lw_inform: "lw_run E Q n s t \<Longrightarrow>
      lw_run E Q n s (upd_netif (n_state (lw_at n t)) (\<lambda>h. h\<lparr>h_dhcp_inform_flag := False\<rparr>) t)"
  | lw_notify: "lw_run E Q n s t \<Longrightarrow> status_notify E n t = Some u \<Longrightarrow> lw_run E Q n s u"

lemma lw_run_trans:
  assumes "lw_run E Q n t u"
  shows "lw_run E Q n s t \<Longrightarrow> lw_run E Q n s u"
  using assms by (induction rule: lw_run.induct) (auto intro: lw_run.intros)

lemma lw_run_mono: "lw_run E Q n s t \<Longrightarrow> (\<And>s t. Q s t \<Longrightarrow> R s t) \<Longrightarrow> lw_run E R n s t"
  by (induction rule: lw_run.induct) (auto intro: lw_run.intros)

definition lw_does :: "'l lwip_world env \<Rightarrow> ('l lw_net \<Rightarrow> 'l lw_net \<Rightarrow> bool) \<Rightarrow> (nat \<Rightarrow> 'l lw_sys) \<Rightarrow> bool" where
  "lw_does E Q f \<longleftrightarrow> (\<forall>n s t. f n s = Some t \<longrightarrow> lw_run E Q n s t)"

definition lwip_does :: "('l lw_net \<Rightarrow> 'l lw_net \<Rightarrow> bool) \<Rightarrow> 'l lwip_lib \<Rightarrow> 'l lwip_world env \<Rightarrow> bool" where
  "lwip_does Q L E \<longleftrightarrow>
     lw_does E Q (dhcp_start (lw_dhcp L))
     \<and> lw_does E Q (dhcp_release (lw_dhcp L))
     \<and> lw_does E Q (dhcp_inform (lw_dhcp L))
     \<and> lw_does E Q (netif_set_up L)
     \<and> lw_does E Q (netif_set_down L)
     \<and> lw_does E Q (netif_set_link_up L)
     \<and> lw_does E Q (netif_set_link_down L)
     \<and> lw_does E Q (netif_remove L)
     \<and> lw_does E Q (dhcp_stop L)
     \<and> lw_does E Q (dhcp_cleanup L)
     \<and> (\<forall>a m g. lw_does E Q (\<lambda>n. netif_set_addr L n a m g))"

text \<open>lwIP with no restriction on its own steps.\<close>

abbreviation lwip_contract :: "'l lwip_lib \<Rightarrow> 'l lwip_world env \<Rightarrow> bool" where
  "lwip_contract \<equiv> lwip_does (\<lambda>_ _. True)"

lemma lw_does_any: "lw_does E Q f \<Longrightarrow> lw_does E (\<lambda>_ _. True) f"
  using lw_run_mono [of E Q] by (auto simp: lw_does_def)

lemma lwip_does_contract: "lwip_does Q L E \<Longrightarrow> lwip_contract L E"
  unfolding lwip_does_def by (auto intro: lw_does_any)

section \<open>The library under lwIP\<close>

lemma lib_frame_only_dev: "only_dev s t \<Longrightarrow> lib_frame s t"
  using driver_ok_only_dev driver_ok_lib_frame by blast

lemma lib_frame_steps [simp]:
  "lib_frame s (lw_do f s)" "lib_frame s (snd (lw_call g s))" "lib_frame s (upd_netif p h s)"
  "lib_frame s (upd_drv d j s)"
  by (simp_all add: lib_frame_def lw_do_def lw_call_def Let_def split_def net_free_def net_malloc_def upd_drv_def held_def)

lemma lib_frame_malloc [simp]: "lib_frame t (snd (net_malloc E k t))" "lib_frame t (net_free E x t)"
  by (simp_all add: lib_frame_def Let_def split_def net_free_def net_malloc_def held_def)

lemma lib_frame_sends: "driver_sends E p e t = Some u \<Longrightarrow> driver_event e \<Longrightarrow> lib_frame s t \<Longrightarrow> lib_frame s u"
  using driver_ok_sends [OF _ _ driver_ok_refl] driver_ok_lib_frame lib_frame_trans by blast

lemma lib_frame_upds: "lib_frame s t \<Longrightarrow> lib_frame s (upd_netif p h t)" "lib_frame s t \<Longrightarrow> lib_frame s (lw_do f t)"
  "lib_frame s t \<Longrightarrow> lib_frame s (net_free E x t)" "lib_frame s t \<Longrightarrow> lib_frame s (upd_drv d j t)"
  by (auto intro: lib_frame_trans)

lemma status_notify_ok: "status_notify E n s = Some t \<Longrightarrow> driver_ok (n_state (lw_at n s)) s t"
  unfolding status_notify_def Let_def
  by (auto simp: bind_Some_iff split: if_splits elim!: driver_ok_sends intro!: driver_ok_upd_netif)

lemmas status_notify_frame = driver_ok_lib_frame [OF status_notify_ok]

lemma lw_run_frame: "lw_run E Q n s t \<Longrightarrow> lib_frame s t"
proof (induction rule: lw_run.induct)
  case (lw_step t u)
  then show ?case using lib_frame_only_dev [of t u] lib_frame_trans by (auto simp: lw_own_def)
qed (auto intro: lib_frame_trans status_notify_frame)

text \<open>The interface functions of the glue under the contract.\<close>

lemma lw_run_of:
  assumes "lwip_does Q L E"
  shows "dhcp_start (lw_dhcp L) n t = Some u \<Longrightarrow> lw_run E Q n t u"
    "dhcp_release (lw_dhcp L) n t = Some u \<Longrightarrow> lw_run E Q n t u"
    "dhcp_inform (lw_dhcp L) n t = Some u \<Longrightarrow> lw_run E Q n t u"
    "netif_set_up L n t = Some u \<Longrightarrow> lw_run E Q n t u"
    "netif_set_down L n t = Some u \<Longrightarrow> lw_run E Q n t u"
    "netif_set_link_up L n t = Some u \<Longrightarrow> lw_run E Q n t u"
    "netif_set_link_down L n t = Some u \<Longrightarrow> lw_run E Q n t u"
    "netif_remove L n t = Some u \<Longrightarrow> lw_run E Q n t u"
    "dhcp_stop L n t = Some u \<Longrightarrow> lw_run E Q n t u"
    "dhcp_cleanup L n t = Some u \<Longrightarrow> lw_run E Q n t u"
    "netif_set_addr L n a m g t = Some u \<Longrightarrow> lw_run E Q n t u"
  using assms unfolding lwip_does_def lw_does_def by simp_all

lemma lw_frame_of:
  assumes "lwip_contract L E" and "lib_frame s t"
  shows "dhcp_start (lw_dhcp L) n t = Some u \<Longrightarrow> lib_frame s u"
    "dhcp_release (lw_dhcp L) n t = Some u \<Longrightarrow> lib_frame s u"
    "dhcp_inform (lw_dhcp L) n t = Some u \<Longrightarrow> lib_frame s u"
    "netif_set_up L n t = Some u \<Longrightarrow> lib_frame s u"
    "netif_set_down L n t = Some u \<Longrightarrow> lib_frame s u"
    "netif_set_link_up L n t = Some u \<Longrightarrow> lib_frame s u"
    "netif_set_link_down L n t = Some u \<Longrightarrow> lib_frame s u"
    "netif_remove L n t = Some u \<Longrightarrow> lib_frame s u"
    "dhcp_stop L n t = Some u \<Longrightarrow> lib_frame s u"
    "dhcp_cleanup L n t = Some u \<Longrightarrow> lib_frame s u"
    "netif_set_addr L n a m g t = Some u \<Longrightarrow> lib_frame s u"
  by (drule lw_run_of [OF assms(1)], drule lw_run_frame, rule lib_frame_trans [OF assms(2)], assumption)+

lemma lw_call_frame: "lw_call g t = (r, u) \<Longrightarrow> lib_frame s t \<Longrightarrow> lib_frame s u"
  using lib_frame_steps(2) [of t g] lib_frame_trans by auto

section \<open>The glue under a relation\<close>

text \<open>
  A relation between states that holds for every step of lwIP, of the allocator and of the library: then it holds for
  the interface functions of the glue, and for those of the drivers, which are put together from them.
\<close>

locale lwip_frame =
  fixes L :: "'l lwip_lib" and B :: "'l lwip_world env" and Q R :: "'l lw_net \<Rightarrow> 'l lw_net \<Rightarrow> bool"
  assumes lwip: "lwip_does Q L B"
    and run_step: "lw_run B Q n s t \<Longrightarrow> R s t"
    and refl: "R s s"
    and trans: "R s t \<Longrightarrow> R t u \<Longrightarrow> R s u"
    and world_step: "only_dev s t \<Longrightarrow> lw_rest (dev t) = lw_rest (dev s) \<Longrightarrow> R s t"
    and handle_step: "R s (upd_netif p f s)"
    and table_step: "R s (upd_drv d g s)"
    and malloc_step: "R s (snd (net_malloc B k s))"
    and free_step: "R s (net_free B x s)"
    and default_step: "R s (lw_do (netif_set_default L q) s)"
    and state_step: "R s (set_state B p b s)"
begin

lemma after:
  "R s t \<Longrightarrow> R s (upd_netif p f t)" "R s t \<Longrightarrow> R s (upd_drv d g t)" "R s t \<Longrightarrow> R s (net_free B x t)"
  "R s t \<Longrightarrow> R s (lw_do (netif_set_default L q) t)"
  using handle_step table_step free_step default_step trans by blast+

lemma after_world: "R s t \<Longrightarrow> (\<And>w. lw_rest (f w) = lw_rest w) \<Longrightarrow> R s (lw_do f t)"
  by (erule trans, rule world_step) (simp_all add: lw_do_def)

lemma after_malloc: "net_malloc B k s = (q, t) \<Longrightarrow> R s t"
  using malloc_step [of s k] by simp

lemma after_event: "net_state_manage_event B (Some p) e t = Some (r, u) \<Longrightarrow> driver_event e \<Longrightarrow> R s t \<Longrightarrow> R s u"
  using manage_event_from_driver [of e t p B] manage_event_deinitialized [of t p B e] trans [OF _ state_step]
  by (cases "h_state (Netifs t p) = NET_STATE_DEINITIALIZED") (auto split: option.splits)

lemma after_sends: "driver_sends B p e t = Some u \<Longrightarrow> driver_event e \<Longrightarrow> R s t \<Longrightarrow> R s u"
  unfolding driver_sends_def by (auto elim!: bind_pair_SomeE after_event)

lemma after_lwip:
  assumes "R s t"
  shows "dhcp_start (lw_dhcp L) n t = Some u \<Longrightarrow> R s u"
    "dhcp_release (lw_dhcp L) n t = Some u \<Longrightarrow> R s u"
    "dhcp_inform (lw_dhcp L) n t = Some u \<Longrightarrow> R s u"
    "netif_set_up L n t = Some u \<Longrightarrow> R s u"
    "netif_set_down L n t = Some u \<Longrightarrow> R s u"
    "netif_set_link_up L n t = Some u \<Longrightarrow> R s u"
    "netif_set_link_down L n t = Some u \<Longrightarrow> R s u"
    "netif_remove L n t = Some u \<Longrightarrow> R s u"
    "dhcp_stop L n t = Some u \<Longrightarrow> R s u"
    "dhcp_cleanup L n t = Some u \<Longrightarrow> R s u"
    "netif_set_addr L n a m g t = Some u \<Longrightarrow> R s u"
  by (drule lw_run_of [OF lwip], drule run_step, rule trans [OF assms], assumption)+

lemma add_if_keeps:
  assumes "net_ip_add_if L B p init fl s = Some (r, t)" and "\<And>n t q u. lw_call (netif_add L n p init) t = (q, u) \<Longrightarrow> R t u"
  shows "R s t"
  using assms(1) unfolding net_ip_add_if_def link_socket_to_lwip_def Let_def
  by (auto simp: bind_Some_iff upd_lw_def split: option.splits prod.splits if_splits
      intro!: after_world after elim!: trans [OF _ assms(2), rotated] dest!: after_malloc)

lemma connect_keeps: "net_ip_connect L p s = Some (r, t) \<Longrightarrow> R s t"
  unfolding net_ip_connect_def Let_def
  by (auto simp: bind_Some_iff refl split: option.splits if_splits elim!: after_lwip [rotated] intro!: after refl)

lemma disconnect_keeps: "net_ip_disconnect L p s = Some (r, t) \<Longrightarrow> R s t"
  unfolding net_ip_disconnect_def Let_def
  by (auto simp: bind_Some_iff refl split: option.splits if_splits elim!: after_lwip [rotated] intro!: after refl)

lemma remove_if_keeps:
  assumes "net_ip_remove_if L B p deinit s = Some (r, t)"
    and "\<And>f n t q u. deinit = Some f \<Longrightarrow> lw_call (f n) t = (q, u) \<Longrightarrow> R t u"
  shows "R s t"
proof -
  have ends: "R s (snd (lw_call (f n) u))" if "deinit = Some f" "R s u" for f n u
    using assms(2) [OF that(1), of n u] trans [OF that(2)] by (metis prod.collapse)
  show ?thesis
    using assms(1) unfolding net_ip_remove_if_def Let_def
    by (auto simp: bind_Some_iff refl split: option.splits elim!: after_lwip [rotated] intro!: after refl ends)
qed

lemma command_keeps:
  assumes "net_state_manage_event E (Some p) e s = Some (r, t)" and "env_notify E = env_notify B"
    and "\<And>f s r t. f \<in> {if_stop, if_connect, if_disconnect} \<or> f = if_start \<and> e = NET_EVENT_CMD_START
        \<or> f = if_deinit \<and> e = NET_EVENT_CMD_DEINIT \<Longrightarrow>
      call_if f E p s = Some (r, t) \<Longrightarrow> R s t"
  shows "R s t"
proof (rule manage_event_relation [where R = R, OF assms(1)])
  show "R s (set_state E p b s)" for b s
    using state_step [of s p b] set_state_cong [OF assms(2), of p b s] by simp
qed (auto intro: refl trans elim: assms(3) [rotated])

end

text \<open>The frame of the socket table is such a relation.\<close>

lemma lib_lwip_frame: "lwip_contract L B \<Longrightarrow> lwip_frame L B (\<lambda>_ _. True) lib_frame"
  by unfold_locales
    (auto intro: lib_frame_trans lw_run_frame lib_frame_only_dev lib_frame_set_state)

lemmas net_ip_connect_frame = lwip_frame.connect_keeps [OF lib_lwip_frame]
lemmas net_ip_disconnect_frame = lwip_frame.disconnect_keeps [OF lib_lwip_frame]

lemma net_ip_add_if_frame: "lwip_contract L B \<Longrightarrow> net_ip_add_if L B p init fl s = Some (r, t) \<Longrightarrow> lib_frame s t"
  by (erule lwip_frame.add_if_keeps [OF lib_lwip_frame], assumption) (erule lw_call_frame, rule lib_frame_refl)

lemma net_ip_remove_if_frame: "lwip_contract L B \<Longrightarrow> net_ip_remove_if L B p deinit s = Some (r, t) \<Longrightarrow> lib_frame s t"
  by (erule lwip_frame.remove_if_keeps [OF lib_lwip_frame], assumption) (erule lw_call_frame, rule lib_frame_refl)

section \<open>The status callback\<close>

text \<open>The application's event callback leaves lwIP's interface objects alone.\<close>

definition notify_keeps :: "'l lwip_world env \<Rightarrow> bool" where
  "notify_keeps E \<longleftrightarrow> (\<forall>h e i w. lw_netifs (env_notify E h e i w) = lw_netifs w)"

lemma lw_at_set_state [simp]: "notify_keeps E \<Longrightarrow> lw_at n (set_state E p b s) = lw_at n s"
  by (simp add: lw_at_def set_state_def net_if_notify_def notify_keeps_def lock_op_defs Let_def split: option.split)

fun moves :: "net_state \<Rightarrow> net_state_event list \<Rightarrow> net_state" where
  "moves st [] = st"
| "moves st (e # es) = moves (case next_state st e of None \<Rightarrow> st | Some b \<Rightarrow> b) es"

lemma sends_outcome:
  assumes "driver_event e"
  shows "\<exists>t. driver_sends E p e s = Some t
    \<and> Netifs t = (Netifs s)(p := (Netifs s p)\<lparr>h_state := moves (h_state (Netifs s p)) [e]\<rparr>)
    \<and> (notify_keeps E \<longrightarrow> (\<forall>n. lw_at n t = lw_at n s))"
proof (cases "h_state (Netifs s p) = NET_STATE_DEINITIALIZED")
  case True
  then show ?thesis by (simp add: driver_sends_def manage_event_deinitialized fun_upd_idem)
next
  case False
  then show ?thesis
    using manage_event_from_driver [OF assms False, of E]
    by (auto simp: driver_sends_def fun_upd_idem split: option.split)
qed

text \<open>What one run of the callback makes of the handle \<open>h\<close>, with the object \<open>v\<close> of lwIP.\<close>

definition status_events :: "net_if_handle \<Rightarrow> lw_netif \<Rightarrow> net_state_event list" where
  "status_events h v = (if h_ipaddr h \<noteq> n_ip v \<and> n_ip v \<noteq> 0 then [NET_EVENT_IPADDR] else [])
     @ [if n_link_up v then NET_EVENT_LINK_UP else NET_EVENT_LINK_DOWN]"

definition status_handle :: "net_if_handle \<Rightarrow> lw_netif \<Rightarrow> net_if_handle" where
  "status_handle h v = (if h_ipaddr h \<noteq> n_ip v
     then h\<lparr>h_ipaddr := n_ip v, h_netmask := n_netmask v, h_gateway := n_gw v\<rparr> else h)
     \<lparr>h_state := moves (h_state h) (status_events h v)\<rparr>"

lemma status_notify_outcome:
  assumes "notify_keeps E" and "n_state (lw_at n s) = p"
  shows "\<exists>t. status_notify E n s = Some t \<and> (\<forall>m. lw_at m t = lw_at m s)
    \<and> Netifs t = (Netifs s)(p := status_handle (Netifs s p) (lw_at n s))"
proof -
  define link where "link = (if n_link_up (lw_at n s) then NET_EVENT_LINK_UP else NET_EVENT_LINK_DOWN)"
  have link: "driver_event link" by (simp add: link_def)
  let ?take = "\<lambda>s. upd_netif p (\<lambda>h. h\<lparr>h_gateway := n_gw (lw_at n s)\<rparr>) (upd_netif p (\<lambda>h. h\<lparr>h_netmask := n_netmask (lw_at n s)\<rparr>)
      (upd_netif p (\<lambda>h. h\<lparr>h_ipaddr := n_ip (lw_at n s)\<rparr>) s))"
  have send: "status_notify E n s = driver_sends E p link u"
    if "(if h_ipaddr (Netifs s p) \<noteq> n_ip (lw_at n s) then
           (if n_ip (lw_at n s) \<noteq> 0 then driver_sends E p NET_EVENT_IPADDR (?take s) else Some (?take s)) else Some s) = Some u"
      "lw_at n u = lw_at n s" for u
    using that by (simp add: status_notify_def assms(2) Let_def link_def split: if_splits)
  consider (same) "h_ipaddr (Netifs s p) = n_ip (lw_at n s)" | (gone) "h_ipaddr (Netifs s p) \<noteq> n_ip (lw_at n s)" "n_ip (lw_at n s) = 0"
    | (new) "h_ipaddr (Netifs s p) \<noteq> n_ip (lw_at n s)" "n_ip (lw_at n s) \<noteq> 0" by blast
  then show ?thesis
  proof cases
    case same
    then show ?thesis
      using send [of s] sends_outcome [OF link, of E p s] assms(1)
      by (auto simp: status_handle_def status_events_def link_def)
  next
    case gone
    then show ?thesis
      using send [of "?take s"] sends_outcome [OF link, of E p "?take s"] assms(1)
      by (auto simp: status_handle_def status_events_def link_def fun_upd_twist)
  next
    case new
    obtain u where u: "driver_sends E p NET_EVENT_IPADDR (?take s) = Some u"
        "Netifs u = (Netifs (?take s))(p := (Netifs (?take s) p)\<lparr>h_state := moves (h_state (Netifs (?take s) p)) [NET_EVENT_IPADDR]\<rparr>)"
        "\<forall>m. lw_at m u = lw_at m s"
      using sends_outcome [of NET_EVENT_IPADDR E p "?take s"] assms(1) by auto
    then show ?thesis
      using new send [of u] sends_outcome [OF link, of E p u] assms(1)
      by (auto simp: status_handle_def status_events_def link_def)
  qed
qed

text \<open>What the code reads of an interface object, and steps that change nothing of it.\<close>

definition lw_view :: "lw_netif \<Rightarrow> u32 \<times> u32 \<times> u32 \<times> bool \<times> netref" where
  "lw_view v = (n_ip v, n_netmask v, n_gw v, n_link_up v, n_state v)"

definition same_view :: "'l lw_net \<Rightarrow> 'l lw_net \<Rightarrow> bool" where
  "same_view s t \<longleftrightarrow> Netifs t = Netifs s \<and> (\<forall>m. lw_view (lw_at m t) = lw_view (lw_at m s))"

lemma same_view_refl [simp]: "same_view s s"
  by (simp add: same_view_def)

lemma same_viewD:
  assumes "same_view s t"
  shows "Netifs t = Netifs s" "n_ip (lw_at m t) = n_ip (lw_at m s)" "n_netmask (lw_at m t) = n_netmask (lw_at m s)"
    "n_gw (lw_at m t) = n_gw (lw_at m s)" "n_link_up (lw_at m t) = n_link_up (lw_at m s)"
    "n_state (lw_at m t) = n_state (lw_at m s)"
  using assms by (auto simp: same_view_def lw_view_def)

lemma status_handle_view: "lw_view v = lw_view w \<Longrightarrow> status_handle h v = status_handle h w"
  by (simp add: status_handle_def status_events_def lw_view_def)

text \<open>\<open>dhcp_inform\<close>, as lwIP documents it, sends a message and changes no interface object.\<close>

definition inform_documented :: "'l lwip_dhcp \<Rightarrow> nat \<Rightarrow> bool" where
  "inform_documented D n \<longleftrightarrow> (\<forall>s. \<exists>u. dhcp_inform D n s = Some u \<and> same_view s u)"

text \<open>The handle after an inform that was pending has been sent.\<close>

definition informed :: "net_if_handle \<Rightarrow> lw_netif \<Rightarrow> net_if_handle" where
  "informed h v = (if h_dhcp_mode h \<and> h_dhcp_inform_flag h \<and> n_link_up v \<and> h_dhcp_version h = DHCP_CLIENT_V4
     then h\<lparr>h_dhcp_inform_flag := False\<rparr> else h)"

lemma status_dhcp_outcome:
  assumes "inform_documented D n" and "n_state (lw_at n s) = p" and "h_dhcp_mode (Netifs s p)"
    and "n_link_up (lw_at n s) \<or> n_ip (lw_at n s) = 0 \<or> \<not> h_dhcp_release_on_link_lost (Netifs s p)"
  shows "\<exists>t. status_dhcp D n s = Some t \<and> lw_view (lw_at n t) = lw_view (lw_at n s)
    \<and> Netifs t = (Netifs s)(p := informed (Netifs s p) (lw_at n s))"
proof -
  obtain u where u: "dhcp_inform D n s = Some u" "same_view s u"
    using assms(1) unfolding inform_documented_def by blast
  have "lw_view (lw_at n u) = lw_view (lw_at n s)" using u(2) by (simp add: same_view_def)
  then show ?thesis
    using assms(2-4) u(1) by (auto simp: status_dhcp_def informed_def Let_def same_viewD(1) [OF u(2)])
qed


section \<open>Results of the sockets\<close>

text \<open>
  Three results of lwIP change their meaning: an empty datagram, or nothing sent, counts as a lost connection, a call
  that would block as 0, and every other error is \<open>NET_TIMEOUT\<close>, whatever \<open>errno\<close> says.
\<close>

lemma returncode_cases:
  "returncode_lwip2net L 0 s = NET_ERROR_DISCONNECTED"
  "returncode_lwip2net L (-1) s = (if lw_errno (dev s) = EWOULDBLOCK L then 0 else NET_TIMEOUT)"
  "0 < r \<Longrightarrow> returncode_lwip2net L r s = r"
  by (simp_all add: returncode_lwip2net_def)

lemma linked_frame: "linked d f s = Some (r, t) \<Longrightarrow> (\<And>r t. f s = Some (r, t) \<Longrightarrow> only_dev s t) \<Longrightarrow> sock_frame s t"
  using only_dev_sock_frame by (auto simp: linked_def split: if_splits)

lemma only_dev_lw_call [simp]: "only_dev s (snd (lw_call f s))"
  by (simp add: lw_call_def split_def Let_def)

lemma lw_call_only_dev: "lw_call f s = (r, t) \<Longrightarrow> only_dev s t"
  using only_dev_lw_call [of s f] by simp

lemma net_lwip_only_dev:
  "net_lwip_socket L a b c s = Some (r, t) \<Longrightarrow> only_dev s t" "net_lwip_bind L k ad n s = Some (r, t) \<Longrightarrow> only_dev s t"
  "net_lwip_listen L k b s = Some (r, t) \<Longrightarrow> only_dev s t" "net_lwip_accept L k ad n s = Some (x, t) \<Longrightarrow> only_dev s t"
  "net_lwip_connect L k ad n s = Some (r, t) \<Longrightarrow> only_dev s t" "net_lwip_send L k bu l f s = Some (r, t) \<Longrightarrow> only_dev s t"
  "net_lwip_recv L k bu l f s = Some (y, t) \<Longrightarrow> only_dev s t" "net_lwip_sendto L k bu l f ad n s = Some (r, t) \<Longrightarrow> only_dev s t"
  "net_lwip_recvfrom L k bu l f ad n s = Some (z, t) \<Longrightarrow> only_dev s t" "net_lwip_setsockopt L k b nm ov n s = Some (r, t) \<Longrightarrow> only_dev s t"
  "net_lwip_getsockname L k na n s = Some (v, t) \<Longrightarrow> only_dev s t" "net_lwip_getpeername L k na n s = Some (v, t) \<Longrightarrow> only_dev s t"
  "net_lwip_close L k cl s = Some (r, t) \<Longrightarrow> only_dev s t" "net_lwip_shutdown L k b s = Some (r, t) \<Longrightarrow> only_dev s t"
  by (auto simp: net_lwip_socket_def net_lwip_bind_def net_lwip_listen_def net_lwip_accept_def net_lwip_connect_def
      net_lwip_send_def net_lwip_recv_def net_lwip_sendto_def net_lwip_recvfrom_def net_lwip_setsockopt_def
      net_lwip_getsockname_def net_lwip_getpeername_def net_lwip_close_def net_lwip_shutdown_def Let_def
      split: prod.splits optval.splits net_socketoption.splits option.splits dest: lw_call_only_dev)

lemma link_sockets_sel [simp]:
  "if_init (link_sockets L d v) = if_init v" "if_deinit (link_sockets L d v) = if_deinit v" "if_start (link_sockets L d v) = if_start v"
  "if_stop (link_sockets L d v) = if_stop v" "if_connect (link_sockets L d v) = if_connect v"
  "if_disconnect (link_sockets L d v) = if_disconnect v"
  by (simp_all add: link_sockets_def)

text \<open>Any table whose socket functions are those of lwIP keeps the contract of the socket functions.\<close>

lemma linked_socket_driver:
  assumes "\<And>d. \<exists>v. env_drv E d = link_sockets L d v"
  shows "socket_driver E"
proof -
  obtain v where v: "\<And>d. env_drv E d = link_sockets L d (v d)" using assms by metis
  show ?thesis
    by unfold_locales (auto simp: v link_sockets_def elim!: linked_frame intro: net_lwip_only_dev)
qed

end
