(* ===== verification/Lwip_Driver.thy ===== *)
theory Lwip_Driver
  imports Net_Lwip_Props Net_Ping
begin

text \<open>
  What the drivers of the interfaces over lwIP share: their driver table before the sockets are linked, its \<open>pping\<close>
  member, and the frame of the events they send and of the calls lwIP makes by itself.
\<close>

text \<open>The members of a table from \<open>NET_MALLOC\<close> that nobody has set yet.\<close>

definition fresh_table :: "drvref \<Rightarrow> 'l lw_net \<Rightarrow> 'l lw_net" where
  "fresh_table d = lw_do (\<lambda>w. w\<lparr>lw_linked := (lw_linked w)(d := False)\<rparr>)"

text \<open>
  \<open>pping\<close> is \<open>icmp_ping\<close>, which reaches the driver through the sockets only: \<open>E\<close> is the environment with the tables that
  have the socket functions. The sequence number is its static variable.
\<close>

definition ping_member ::
  "ping_lib \<Rightarrow> 'l lwip_world env \<Rightarrow> netref \<Rightarrow> net_sockaddr \<Rightarrow> int \<Rightarrow> int \<Rightarrow> int list \<Rightarrow> 'l lw_net \<Rightarrow>
     (int \<times> int list, 'l lwip_world) res" where
  "ping_member P E pnetif addr count timeout response s = do {
     ((ret, _, response, seq), s) \<leftarrow> icmp_ping P E pnetif addr count timeout response (lw_ping_seq (dev s)) s;
     Some ((ret, response), lw_do (\<lambda>w. w\<lparr>lw_ping_seq := seq\<rparr>) s) }"

definition sockets_env :: "'l lwip_lib \<Rightarrow> 'l lwip_world env \<Rightarrow> 'l lwip_world env" where
  "sockets_env L B = B\<lparr>env_drv := (\<lambda>d. link_sockets L d null_drv)\<rparr>"

text \<open>The type of an Ethernet frame: the two bytes at offset 12 read in network order.\<close>

definition ethertype :: "bytes \<Rightarrow> u16" where
  "ethertype b = push_bit 8 (ucast (b ! 12)) OR ucast (b ! 13)"

text \<open>The name of the host an interface takes, printed into \<open>NET_IP_HOSTNAME_MAX_LEN + 1\<close> characters, and the members it sets.\<close>

abbreviation (input) NET_IP_HOSTNAME_MAX_LEN :: nat where "NET_IP_HOSTNAME_MAX_LEN \<equiv> 32"
abbreviation (input) MAX_MTU :: u16 where "MAX_MTU \<equiv> 1500"

text \<open>\<open>NETIF_FLAG_BROADCAST | NETIF_FLAG_ETHARP\<close>\<close>
abbreviation (input) GENERIC_NETIF_FLAGS :: u8 where "GENERIC_NETIF_FLAGS \<equiv> 0x0A"

definition generic_netif :: "nat \<Rightarrow> lw_netif \<Rightarrow> lw_netif" where
  "generic_netif hostname v = v\<lparr>
     n_hostname := Some (hostname, take NET_IP_HOSTNAME_MAX_LEN (''generic eth if #'' @ decimal (unat (n_num v)))),
     n_name := [0x73, 0x74], n_hwaddr_len := 6, n_mtu := MAX_MTU, n_flags := n_flags v OR GENERIC_NETIF_FLAGS\<rparr>"

section \<open>Frames\<close>

lemma event_frame: "net_state_manage_event E (Some p) e t = Some (r, u) \<Longrightarrow> driver_event e \<Longrightarrow> lib_frame s t \<Longrightarrow> lib_frame s u"
  using driver_ok_event driver_ok_lib_frame lib_frame_trans by blast

text \<open>The calls lwIP makes by itself, for any interface.\<close>

definition lwip_callback :: "'l lwip_world env \<Rightarrow> netref \<Rightarrow> 'l lw_net \<Rightarrow> 'l lw_net \<Rightarrow> bool" where
  "lwip_callback E p s t \<longleftrightarrow> (\<exists>n. lw_run E (\<lambda>_ _. True) n s t)"

section \<open>A part of the device that is the driver's own\<close>

text \<open>
  \<open>f\<close> reads a part of the state below lwIP, such as the static variables of a driver. \<open>keeps_part\<close> says that neither lwIP
  nor the allocator nor the application's event callback changes it.
\<close>

definition same_part :: "('l \<Rightarrow> 'a) \<Rightarrow> 'l lw_net \<Rightarrow> 'l lw_net \<Rightarrow> bool" where
  "same_part f s t \<longleftrightarrow> f (lw_rest (dev t)) = f (lw_rest (dev s))"

definition keeps_part :: "('l \<Rightarrow> 'a) \<Rightarrow> 'l lwip_lib \<Rightarrow> 'l lwip_world env \<Rightarrow> bool" where
  "keeps_part f L B \<longleftrightarrow> lwip_does (same_part f) L B
     \<and> (\<forall>q w. f (lw_rest (netif_set_default L q w)) = f (lw_rest w))
     \<and> (\<forall>n w. f (lw_rest (netif_register_callbacks L n w)) = f (lw_rest w))
     \<and> (\<forall>k w. f (lw_rest (snd (env_malloc B k w))) = f (lw_rest w))
     \<and> (\<forall>x w. f (lw_rest (env_free B x w)) = f (lw_rest w))
     \<and> (\<forall>h e i w. f (lw_rest (env_notify B h e i w)) = f (lw_rest w))"

text \<open>\<open>netif_add\<close> runs the initialisation it is given once, between steps of its own, and fails if that fails.\<close>

definition add_runs_init :: "('l \<Rightarrow> 'a) \<Rightarrow> 'l lwip_lib \<Rightarrow> bool" where
  "add_runs_init f L \<longleftrightarrow> (\<forall>n p i w. \<exists>w1 w2 w3 r. f (lw_rest w1) = f (lw_rest w) \<and> i n w1 = (r, w2)
     \<and> f (lw_rest w3) = f (lw_rest w2) \<and> netif_add L n p i w = (if r = ERR_OK then Some n else None, w3))"

lemma set_state_view: "(\<And>h e i w. v (env_notify E h e i w) = v w) \<Longrightarrow> v (dev (set_state E p b s)) = v (dev s)"
  by (simp add: set_state_def net_if_notify_def lock_op_defs Let_def split: option.split)

lemma sends_keeps_view:
  assumes "\<And>h e i w. v (env_notify E h e i w) = v w" and "driver_event e" and "driver_sends E p e s = Some t"
  shows "v (dev t) = v (dev s)"
proof (cases "h_state (Netifs s p) = NET_STATE_DEINITIALIZED")
  case True
  then show ?thesis using assms(3) by (simp add: driver_sends_def manage_event_deinitialized)
next
  case False
  then show ?thesis
    using assms(3) manage_event_from_driver [OF assms(2) False, of E] set_state_view [where v = v, OF assms(1)]
    by (auto simp: driver_sends_def split: option.splits)
qed

lemma lw_run_same_part:
  assumes "lw_run B (same_part f) n s t" and "\<And>h e i w. f (lw_rest (env_notify B h e i w)) = f (lw_rest w)"
  shows "same_part f s t"
  using assms(1)
proof (induction rule: lw_run.induct)
  case (lw_notify t u)
  note sends = sends_keeps_view [where v = "\<lambda>w. f (lw_rest w)" and E = B, OF assms(2)]
  from lw_notify have "same_part f t u"
    unfolding status_notify_def Let_def same_part_def
    by (auto simp: bind_Some_iff split: if_splits dest!: sends [rotated])
  then show ?case using lw_notify by (simp add: same_part_def)
qed (simp_all add: same_part_def)

text \<open>A relation between values of such a part is carried through the glue.\<close>

lemma part_lwip_frame:
  assumes "keeps_part f L B" and "\<And>x. P x x" and "\<And>x y z. P x y \<Longrightarrow> P y z \<Longrightarrow> P x z"
  shows "lwip_frame L B (same_part f) (\<lambda>s t. P (f (lw_rest (dev s))) (f (lw_rest (dev t))))"
proof -
  have views: "\<And>q w. f (lw_rest (netif_set_default L q w)) = f (lw_rest w)"
    "\<And>k w. f (lw_rest (snd (env_malloc B k w))) = f (lw_rest w)" "\<And>x w. f (lw_rest (env_free B x w)) = f (lw_rest w)"
    "\<And>h e i w. f (lw_rest (env_notify B h e i w)) = f (lw_rest w)" "lwip_does (same_part f) L B"
    using assms(1) by (simp_all add: keeps_part_def)
  show ?thesis
  proof (unfold_locales)
    show "lwip_does (same_part f) L B" by (fact views)
    show "P (f (lw_rest (dev s))) (f (lw_rest (dev t)))" if "lw_run B (same_part f) n s t" for n s t
      using lw_run_same_part [OF that views(4)] assms(2) by (simp add: same_part_def)
    show "P (f (lw_rest (dev s))) (f (lw_rest (dev (set_state B p b s))))" for s p b
      using set_state_view [where v = "\<lambda>w. f (lw_rest w)" and E = B, OF views(4)] assms(2) by simp
  qed (auto intro: assms(2) assms(3) simp: lw_do_def net_malloc_def net_free_def upd_drv_def views Let_def split_def)
qed

end
