(* ===== verification/Eth_Driver.thy ===== *)
theory Eth_Driver
  imports Lwip_Driver
begin

text \<open>
  \<open>netif/ethernet_if/net_ethernet_driver.c\<close>: the driver of an Ethernet interface over lwIP. The two functions it takes from the
  application, \<open>ethernetif_init\<close> and \<open>ethernetif_deinit\<close>, are parameters, with the two libraries it passes through to: lwIP
  and the checksum of the echo client.
\<close>

section \<open>The driver\<close>

record 'l eth_lib =
  eth_lwip :: "'l lwip_lib"
  eth_ping :: ping_lib
  ethernetif_init :: "nat \<Rightarrow> 'l lwip_world \<Rightarrow> int \<times> 'l lwip_world"
  ethernetif_deinit :: "nat \<Rightarrow> 'l lwip_world \<Rightarrow> int \<times> 'l lwip_world"

definition net_ethernet_if_init ::
  "'l eth_lib \<Rightarrow> 'l lwip_world env \<Rightarrow> netref \<Rightarrow> 'l lw_net \<Rightarrow> (int, 'l lwip_world) res" where
  "net_ethernet_if_init L E pnetif s =
     (case net_malloc E (env_sizeof E Sizeof_net_if_drv) s of
        (None, s) \<Rightarrow> Some (NET_ERROR_NO_MEMORY, s)
      | (Some d, s) \<Rightarrow> do {
          let s = upd_drv d (\<lambda>x. x\<lparr>d_if_class := NET_INTERFACE_CLASS_ETHERNET\<rparr>) (fresh_table d s);
          let s = upd_netif pnetif (\<lambda>h. h\<lparr>h_pdrv := Some d\<rparr>) s;
          let s = upd_netif pnetif (\<lambda>h. h\<lparr>h_DeviceName := ''Ethernet IF''\<rparr>) s;
          let s = upd_netif pnetif (\<lambda>h. h\<lparr>h_DeviceID := ''Unknown''\<rparr>) s;
          let s = upd_netif pnetif (\<lambda>h. h\<lparr>h_DeviceVer := ''Unknown''\<rparr>) s;
          s \<leftarrow> driver_sends E pnetif NET_EVENT_INTERFACE_INITIALIZED s;
          Some (NET_OK, s) })"

definition ethernet_net_driver ::
  "'l eth_lib \<Rightarrow> 'l lwip_world env \<Rightarrow> netref \<Rightarrow> 'l lw_net \<Rightarrow> (int, 'l lwip_world) res" where
  "ethernet_net_driver L E pnetif s = net_ethernet_if_init L E pnetif (net_ip_init (eth_lwip L) s)"

definition net_ethernet_if_start ::
  "'l eth_lib \<Rightarrow> 'l lwip_world env \<Rightarrow> netref \<Rightarrow> 'l lw_net \<Rightarrow> (int, 'l lwip_world) res" where
  "net_ethernet_if_start L E pnetif s = do {
     (ret, s) \<leftarrow> net_ip_add_if (eth_lwip L) E pnetif (ethernetif_init L) NET_ETHERNET_FLAG_DEFAULT_IF s;
     (if ret = NET_OK then do {
        netif \<leftarrow> h_netif (Netifs s pnetif);
        s \<leftarrow> netif_set_down (eth_lwip L) netif s;
        s \<leftarrow> netif_set_link_down (eth_lwip L) netif s;
        let s = lw_do (netif_register_callbacks (eth_lwip L) netif) s;
        s \<leftarrow> netif_set_link_up (eth_lwip L) netif s;
        s \<leftarrow> netif_set_up (eth_lwip L) netif s;
        s \<leftarrow> driver_sends E pnetif NET_EVENT_INTERFACE_READY s;
        Some (ret, s) }
      else Some (ret, s)) }"

definition net_ethernet_if_connect :: "'l eth_lib \<Rightarrow> netref \<Rightarrow> 'l lw_net \<Rightarrow> (int, 'l lwip_world) res" where
  "net_ethernet_if_connect L pnetif s = net_ip_connect (eth_lwip L) pnetif s"

definition net_ethernet_if_disconnect ::
  "'l eth_lib \<Rightarrow> 'l lwip_world env \<Rightarrow> netref \<Rightarrow> 'l lw_net \<Rightarrow> (int, 'l lwip_world) res" where
  "net_ethernet_if_disconnect L E pnetif s = do {
     (_, s) \<leftarrow> net_ip_disconnect (eth_lwip L) pnetif s;
     net_state_manage_event E (Some pnetif) NET_EVENT_INTERFACE_READY s }"

definition net_ethernet_if_stop ::
  "'l eth_lib \<Rightarrow> 'l lwip_world env \<Rightarrow> netref \<Rightarrow> 'l lw_net \<Rightarrow> (int, 'l lwip_world) res" where
  "net_ethernet_if_stop L E pnetif s = do {
     (_, s) \<leftarrow> net_ip_remove_if (eth_lwip L) E pnetif (Some (ethernetif_deinit L)) s;
     net_state_manage_event E (Some pnetif) NET_EVENT_INTERFACE_INITIALIZED s }"

definition net_ethernet_if_deinit :: "'l lwip_world env \<Rightarrow> netref \<Rightarrow> 'l lw_net \<Rightarrow> (int, 'l lwip_world) res" where
  "net_ethernet_if_deinit E pnetif s =
     (let s = (case h_pdrv (Netifs s pnetif) of None \<Rightarrow> s | Some d \<Rightarrow> net_free E d s)
      in Some (NET_OK, upd_netif pnetif (\<lambda>h. h\<lparr>h_pdrv := None\<rparr>) s))"

section \<open>The driver table\<close>

definition eth_drv :: "'l eth_lib \<Rightarrow> 'l lwip_world env \<Rightarrow> drvref \<Rightarrow> 'l lw_net net_if_drv" where
  "eth_drv L E d = link_sockets (eth_lwip L) d (null_drv\<lparr>
     if_init := Some (net_ethernet_if_init L E), if_deinit := Some (net_ethernet_if_deinit E),
     if_start := Some (net_ethernet_if_start L E), if_stop := Some (net_ethernet_if_stop L E),
     if_connect := Some (net_ethernet_if_connect L), if_disconnect := Some (net_ethernet_if_disconnect L E),
     pping := Some (ping_member (eth_ping L) (sockets_env (eth_lwip L) E))\<rparr>)"

definition eth_env :: "'l eth_lib \<Rightarrow> 'l lwip_world env \<Rightarrow> 'l lwip_world env" where
  "eth_env L B = B\<lparr>env_drv := eth_drv L B\<rparr>"

lemma eth_env_sel [simp]:
  "env_drv (eth_env L B) d = eth_drv L B d" "env_notify (eth_env L B) = env_notify B"
  by (simp_all add: eth_env_def)

lemma eth_drv_sel [simp]:
  "if_deinit (eth_drv L B d) = Some (net_ethernet_if_deinit B)" "if_start (eth_drv L B d) = Some (net_ethernet_if_start L B)"
  "if_stop (eth_drv L B d) = Some (net_ethernet_if_stop L B)" "if_connect (eth_drv L B d) = Some (net_ethernet_if_connect L)"
  "if_disconnect (eth_drv L B d) = Some (net_ethernet_if_disconnect L B)"
  by (simp_all add: eth_drv_def)

section \<open>The socket table\<close>

lemma eth_start_frame:
  assumes "lwip_contract (eth_lwip L) B" and "net_ethernet_if_start L B p s = Some (r, t)"
  shows "lib_frame s t"
  using assms(2) unfolding net_ethernet_if_start_def Let_def
  by (auto simp: bind_Some_iff split: if_splits dest!: net_ip_add_if_frame [OF assms(1)]
      elim!: lib_frame_sends lw_frame_of [OF assms(1), rotated] intro!: lib_frame_upds)

lemma eth_disconnect_frame:
  assumes "lwip_contract (eth_lwip L) B" and "net_ethernet_if_disconnect L B p s = Some (r, t)"
  shows "lib_frame s t"
  using assms(2) unfolding net_ethernet_if_disconnect_def
  by (auto elim!: bind_pair_SomeE event_frame intro: net_ip_disconnect_frame [OF assms(1)])

lemma eth_stop_frame:
  assumes "lwip_contract (eth_lwip L) B" and "net_ethernet_if_stop L B p s = Some (r, t)"
  shows "lib_frame s t"
  using assms(2) unfolding net_ethernet_if_stop_def
  by (auto elim!: bind_pair_SomeE event_frame intro: net_ip_remove_if_frame [OF assms(1)])

lemma eth_deinit_frame: "net_ethernet_if_deinit B p s = Some (r, t) \<Longrightarrow> lib_frame s t"
  by (auto simp: net_ethernet_if_deinit_def Let_def split: option.splits intro!: lib_frame_upds)

lemma eth_connect_frame:
  assumes "lwip_contract (eth_lwip L) B" and "net_ethernet_if_connect L p s = Some (r, t)"
  shows "lib_frame s t"
  by (rule net_ip_connect_frame [OF assms(1)]) (rule assms(2) [unfolded net_ethernet_if_connect_def])

lemma eth_calls_frame:
  assumes "lwip_contract (eth_lwip L) B" and "f \<in> {if_deinit, if_start, if_stop, if_connect, if_disconnect}"
    and "call_if f (eth_env L B) p s = Some (r, t)"
  shows "lib_frame s t"
  using assms(2,3)
  by (auto simp: call_if_def drv_of_def bind_Some_iff
      dest: eth_connect_frame [OF assms(1)] eth_start_frame [OF assms(1)] eth_stop_frame [OF assms(1)] eth_disconnect_frame [OF assms(1)]
        eth_deinit_frame)

lemma eth_framed:
  assumes "lwip_contract (eth_lwip L) B"
  shows "framed_driver (eth_env L B) (lwip_callback B)"
proof -
  have "socket_driver (eth_env L B)"
    by (rule linked_socket_driver [of _ "eth_lwip L"]) (auto simp: eth_drv_def)
  then show ?thesis
    unfolding framed_driver_def framed_driver_axioms_def
    using eth_calls_frame [OF assms] lw_run_frame unfolding lwip_callback_def by blast
qed

end
