(* ===== verification/Lwip_Static.thy ===== *)
theory Lwip_Static
  imports Lwip_Driver
begin

text \<open>
  An interface over lwIP with a static address, whatever its driver: when it is out of order and still has its address
  it stays out of order, and what a connect does with a new address.
\<close>

section \<open>Losing the link with a static address\<close>

text \<open>What lwIP documents: these calls leave the address of the interface as it is.\<close>

definition same_addr :: "nat \<Rightarrow> 'l lw_net \<Rightarrow> 'l lw_net \<Rightarrow> bool" where
  "same_addr n s t \<longleftrightarrow> n_ip (lw_at n t) = n_ip (lw_at n s)"

definition keeps_addr :: "'l lwip_world env \<Rightarrow> nat \<Rightarrow> 'l lw_sys \<Rightarrow> bool" where
  "keeps_addr E n f \<longleftrightarrow> (\<forall>s t. f s = Some t \<longrightarrow> lw_run E (same_addr n) n s t)"

definition static_stack :: "'l lwip_lib \<Rightarrow> 'l lwip_world env \<Rightarrow> nat \<Rightarrow> bool" where
  "static_stack L E n \<longleftrightarrow> notify_keeps E \<and> keeps_addr E n (netif_set_up L n) \<and> keeps_addr E n (dhcp_inform (lw_dhcp L) n)
     \<and> (\<forall>m g s t. netif_set_addr L n (n_ip (lw_at n s)) m g s = Some t \<longrightarrow> lw_run E (same_addr n) n s t)"

text \<open>An interface with its static address, out of order or taken out of the library.\<close>

definition halted :: "netref \<Rightarrow> nat \<Rightarrow> 'l lw_net \<Rightarrow> bool" where
  "halted p n s \<longleftrightarrow> h_netif (Netifs s p) = Some n \<and> n_state (lw_at n s) = p \<and> \<not> h_dhcp_mode (Netifs s p)
     \<and> h_ipaddr (Netifs s p) = n_ip (lw_at n s) \<and> h_static_ipaddr (Netifs s p) = n_ip (lw_at n s)
     \<and> h_state (Netifs s p) \<in> {NET_STATE_CONNECTION_LOST, NET_STATE_CONNECTING, NET_STATE_READY, NET_STATE_DEINITIALIZED}"

lemma lw_at_only: "only_dev s t \<Longrightarrow> Netifs t = Netifs s"
  by (rule only_dev_sel)

lemma halted_run:
  assumes "lw_run E (same_addr n) n s t" and "notify_keeps E" and "halted p n s"
  shows "halted p n t"
  using assms(1,3)
proof (induction rule: lw_run.induct)
  case (lw_step t u)
  then show ?case by (auto simp: halted_def lw_own_def same_addr_def only_dev_sel(1))
next
  case (lw_inform t)
  then show ?case by (auto simp: halted_def)
next
  case (lw_notify t u)
  then have halt: "halted p n t" by simp
  then have "n_state (lw_at n t) = p" by (simp add: halted_def)
  from status_notify_outcome [OF assms(2) this] lw_notify(2) halt show ?case
    by (auto simp: halted_def status_handle_def status_events_def)
qed

text \<open>The commands of the interface, all but stop; \<open>net_if_deinit\<close> in full.\<close>

fun resumes :: "netref \<Rightarrow> library_step \<Rightarrow> bool" where
  "resumes p (Step_event q e) = (q = p \<and> \<not> driver_event e \<and> e \<noteq> NET_EVENT_CMD_STOP)"
| "resumes p (Step_call c) = False"

lemma halted_connect:
  assumes "static_stack L E n" and "halted p n s" and "net_ip_connect L p s = Some (r, t)"
  shows "halted p n t"
proof (cases "h_static_ipaddr (Netifs s p) = 0")
  case True
  then show ?thesis using assms(2,3) by (auto simp: net_ip_connect_def halted_def)
next
  case False
  note keep = halted_run [where E = E and p = p and n = n]
  have notify: "notify_keeps E" using assms(1) by (simp add: static_stack_def)
  obtain s1 where s1: "netif_set_up L n s = Some s1"
    using assms(2,3) False by (auto simp: net_ip_connect_def halted_def Let_def bind_Some_iff)
  then have h1: "halted p n s1"
    using assms(1,2) keep [of s s1] by (auto simp: static_stack_def keeps_addr_def)
  let ?h = "Netifs s1 p"
  obtain s2 where s2: "netif_set_addr L n (n_ip (lw_at n s1)) (h_static_netmask ?h) (h_static_gateway ?h) s1 = Some s2"
      "t = s2 \<or> dhcp_inform (lw_dhcp L) n s2 = Some t"
    using assms(2,3) False s1 h1 by (auto simp: net_ip_connect_def halted_def Let_def bind_Some_iff split: if_splits)
  then have "halted p n s2"
    using assms(1) h1 keep [of s1 s2] notify by (auto simp: static_stack_def)
  then show ?thesis
    using s2(2) assms(1) keep [of s2 t] by (auto simp: static_stack_def keeps_addr_def)
qed

lemma halted_set_state:
  assumes "halted p n s" and "notify_keeps E" and "b \<in> {NET_STATE_CONNECTING, NET_STATE_READY}"
  shows "halted p n (set_state E p b s)"
  using assms by (auto simp: halted_def)

lemma halted_links: "halted p n s \<Longrightarrow> links_only s t \<Longrightarrow> halted p n t"
proof -
  assume s: "halted p n s" and t: "links_only s t"
  obtain k where "Netifs t p = (Netifs s p)\<lparr>h_next := k\<rparr>"
    using t unfolding links_only_def by blast
  then show "halted p n t" using s links_onlyD(5) [OF t] by (simp add: halted_def lw_at_def)
qed

lemma halted_upd [simp]:
  "halted p n (upd_netif p (\<lambda>h. h\<lparr>h_next := k\<rparr>) s) = halted p n s"
  "halted p n (s\<lparr>NetInitialized := b\<rparr>) = halted p n s" "halted p n (net_destroy_locks s) = halted p n s"
  by (simp_all add: halted_def lw_at_def)

lemma halted_mark: "halted p n s \<Longrightarrow> halted p n (upd_netif p (\<lambda>h. h\<lparr>h_state := NET_STATE_DEINITIALIZED\<rparr>) s)"
  by (simp add: halted_def)

lemma halted_deinit:
  assumes "halted p n s" and "net_if_deinit E (Some p) s = Some (r, t)"
  shows "halted p n t"
proof -
  have "net_state_manage_event E (Some p) NET_EVENT_CMD_DEINIT s = Some (q, u) \<Longrightarrow> u = s" for q u
    using assms(1) manage_event_ignored [of s p NET_EVENT_CMD_DEINIT E] manage_event_deinitialized [of s p E]
    by (auto simp: halted_def)
  then show ?thesis
    using assms by (auto simp: net_if_deinit_def Let_def bind_Some_iff split: if_splits
        dest!: netif_remove_links intro: halted_mark halted_links [OF halted_mark])
qed

lemma halted_step:
  assumes "static_stack L B n" and "env_notify E = env_notify B" and "halted p n s" and "resumes p x" and "run_step E x s = Some (r, t)"
    and "\<And>s r t. halted p n s \<Longrightarrow> call_if if_connect E p s = Some (r, t) \<Longrightarrow> halted p n t"
  shows "halted p n t"
proof -
  obtain e where x: "x = Step_event p e" "\<not> driver_event e" "e \<noteq> NET_EVENT_CMD_STOP"
    using assms(4) by (cases x) auto
  let ?st = "h_state (Netifs s p)"
  have notify: "notify_keeps E" using assms(1,2) by (simp add: static_stack_def notify_keeps_def)
  have st: "?st \<in> {NET_STATE_CONNECTION_LOST, NET_STATE_CONNECTING, NET_STATE_READY, NET_STATE_DEINITIALIZED}"
    using assms(3) by (simp add: halted_def)
  show ?thesis
  proof (cases "e = NET_EVENT_CMD_DEINIT")
    case True
    then show ?thesis using halted_deinit [OF assms(3)] assms(5) x(1) by simp
  next
    case False
    then have run: "net_state_manage_event E (Some p) e s = Some (r, t)" using assms(5) x(1) by simp
    consider (ended) "?st = NET_STATE_DEINITIALIZED" | (ignored) "next_state ?st e = None" "?st \<noteq> NET_STATE_DEINITIALIZED" | (leave) "?st = NET_STATE_CONNECTING" "e = NET_EVENT_CMD_DISCONNECT"
    | (again) "?st = NET_STATE_READY" "e = NET_EVENT_CMD_CONNECT"
      using st x False by (cases e) auto
    then show ?thesis
    proof cases
      case ended
      then show ?thesis using run manage_event_deinitialized [of s p E e] assms(3) by simp
    next
      case ignored
      then have "t = s" using run manage_event_ignored [of s p e E] by auto
      then show ?thesis using assms(3) by simp
    next
      case leave
      then have "t = set_state E p NET_STATE_READY s" using run by (auto simp: manage_event_Some handler_defs)
      then show ?thesis using halted_set_state [OF assms(3) notify] by simp
    next
      case again
      then obtain r' where "call_if if_connect E p (set_state E p NET_STATE_CONNECTING s) = Some (r', t)"
        using run by (auto simp: manage_event_Some handler_defs Let_def bind_Some_iff)
      then show ?thesis
        using assms(6) halted_set_state [OF assms(3) notify] by blast
    qed
  qed
qed

lemma halted_history:
  assumes "static_stack L B n" and "env_notify E = env_notify B" and "halted p n s"
    and "lib_history E (\<lambda>_. lw_run B (same_addr n) n) (resumes p) s t"
    and "\<And>s r t. halted p n s \<Longrightarrow> call_if if_connect E p s = Some (r, t) \<Longrightarrow> halted p n t"
  shows "halted p n t"
  using assms(4,3)
proof (induction rule: lib_history.induct)
  case (history_step t x r u)
  then have "halted p n t" by simp
  then show ?case by (rule halted_step [OF assms(1,2) _ history_step(2,3)]) (rule assms(5))
next
  case (history_callback t q u)
  then show ?case using halted_run assms(1) unfolding static_stack_def by blast
qed

section \<open>Connecting with a static address\<close>

text \<open>
  What lwIP documents of the calls a connect makes. \<open>netif_set_up\<close> marks the interface as up and, if it was not, runs the
  status callback; \<open>netif_set_addr\<close> with a new address that is not 0 stores address, mask and gateway and then runs the
  callback; \<open>dhcp_inform\<close> sends a message. What else they do shows in no interface object.
\<close>

definition calls_back :: "'l lwip_lib \<Rightarrow> 'l lwip_world env \<Rightarrow> nat \<Rightarrow> 'l lw_net \<Rightarrow> 'l lw_net option \<Rightarrow> bool" where
  "calls_back L E n u result \<longleftrightarrow>
     (case net_ip_status_cb (lw_dhcp L) E n u of None \<Rightarrow> result = None
      | Some w \<Rightarrow> (\<exists>t. result = Some t \<and> same_view w t))"

definition connecting_stack :: "'l lwip_lib \<Rightarrow> 'l lwip_world env \<Rightarrow> nat \<Rightarrow> bool" where
  "connecting_stack L E n \<longleftrightarrow> notify_keeps E
     \<and> (\<forall>s. \<exists>u. same_view s u \<and> (netif_set_up L n s = Some u \<or> calls_back L E n u (netif_set_up L n s)))
     \<and> (\<forall>a m g s. a \<noteq> 0 \<and> n_ip (lw_at n s) \<noteq> a \<longrightarrow>
         (\<exists>u. same_view (lw_do (upd_lw n (\<lambda>v. v\<lparr>n_ip := a, n_netmask := m, n_gw := g\<rparr>)) s) u
           \<and> calls_back L E n u (netif_set_addr L n a m g s)))
     \<and> inform_documented (lw_dhcp L) n"

lemma lw_at_do: "lw_at m (lw_do (upd_lw n f) s) = (if m = n then f (lw_at n s) else lw_at m s)"
  "Netifs (lw_do g s) = Netifs s"
  by (simp_all add: lw_at_def lw_do_def upd_lw_def)

text \<open>A callback on an interface with a static address.\<close>

lemma static_callback:
  assumes "calls_back L E n u result" and "notify_keeps E" and "n_state (lw_at n u) = p" and "\<not> h_dhcp_mode (Netifs u p)"
  shows "\<exists>t. result = Some t \<and> Netifs t = (Netifs u)(p := status_handle (Netifs u p) (lw_at n u))
    \<and> (\<forall>m. lw_view (lw_at m t) = lw_view (lw_at m u))"
proof -
  obtain w where "net_ip_status_cb (lw_dhcp L) E n u = Some w" "\<forall>m. lw_at m w = lw_at m u"
      "Netifs w = (Netifs u)(p := status_handle (Netifs u p) (lw_at n u))"
    using status_notify_outcome [OF assms(2,3)] assms(3,4) by (auto simp: net_ip_status_cb_def)
  then show ?thesis using assms(1) by (auto simp: calls_back_def same_view_def)
qed

lemma static_up:
  assumes "connecting_stack L E n" and "n_state (lw_at n s) = p" and "\<not> h_dhcp_mode (Netifs s p)"
    and "h_state (Netifs s p) = NET_STATE_CONNECTING" and "h_ipaddr (Netifs s p) = n_ip (lw_at n s)"
  shows "\<exists>t. netif_set_up L n s = Some t \<and> same_view s t"
proof -
  obtain u where u: "same_view s u" "netif_set_up L n s = Some u \<or> calls_back L E n u (netif_set_up L n s)"
    using assms(1) unfolding connecting_stack_def by blast
  have idle: "status_handle (Netifs u p) (lw_at n u) = Netifs u p"
    using assms(4,5) by (simp add: same_viewD [OF u(1)] status_handle_def status_events_def)
  have obj: "n_state (lw_at n u) = p" "\<not> h_dhcp_mode (Netifs u p)" "notify_keeps E"
    using assms(1-3) by (simp_all add: same_viewD [OF u(1)] connecting_stack_def)
  have "\<exists>t. netif_set_up L n s = Some t \<and> Netifs t = Netifs u \<and> (\<forall>m. lw_view (lw_at m t) = lw_view (lw_at m u))"
    if cb: "calls_back L E n u (netif_set_up L n s)"
  proof -
    obtain t where t: "netif_set_up L n s = Some t" "Netifs t = (Netifs u)(p := status_handle (Netifs u p) (lw_at n u))"
        "\<forall>m. lw_view (lw_at m t) = lw_view (lw_at m u)"
      using static_callback [OF cb obj(3,1,2)] by blast
    have "Netifs t = Netifs u" by (rule trans [OF t(2)], subst idle, rule fun_upd_triv)
    then show ?thesis using t by blast
  qed
  then show ?thesis using u by (auto simp: same_view_def)
qed

lemma static_connect:
  assumes "connecting_stack L E n" and "h_state (Netifs s p) = NET_STATE_CONNECTING"
    and "h_netif (Netifs s p) = Some n" and "n_state (lw_at n s) = p" and "\<not> h_dhcp_mode (Netifs s p)"
    and "h_static_ipaddr (Netifs s p) = a" and "a \<noteq> 0" and "n_ip (lw_at n s) \<noteq> a" and "h_ipaddr (Netifs s p) = n_ip (lw_at n s)"
  shows "\<exists>t v. net_ip_connect L p s = Some (NET_OK, t) \<and> Netifs t p = status_handle (Netifs s p) v
    \<and> n_ip v = a \<and> n_netmask v = h_static_netmask (Netifs s p) \<and> n_gw v = h_static_gateway (Netifs s p)
    \<and> n_link_up v = n_link_up (lw_at n s)"
proof -
  obtain s1 where s1: "netif_set_up L n s = Some s1" "same_view s s1"
    using static_up [OF assms(1,4,5,2,9)] by blast
  note v1 = same_viewD [OF s1(2)]
  let ?m = "h_static_netmask (Netifs s p)" and ?g = "h_static_gateway (Netifs s p)"
  obtain u where u: "same_view (lw_do (upd_lw n (\<lambda>v. v\<lparr>n_ip := a, n_netmask := ?m, n_gw := ?g\<rparr>)) s1) u"
      "calls_back L E n u (netif_set_addr L n a ?m ?g s1)"
    using assms(1,7,8) v1(2) [of n] unfolding connecting_stack_def by metis
  note vu = same_viewD [OF u(1), unfolded lw_at_do]
  have dhcp: "\<not> h_dhcp_mode (Netifs u p)" and obj: "n_state (lw_at n u) = p"
    using assms(4,5) by (simp_all add: vu v1)
  obtain t where t: "netif_set_addr L n a ?m ?g s1 = Some t" "Netifs t = (Netifs u)(p := status_handle (Netifs u p) (lw_at n u))"
    using static_callback [OF u(2) _ obj dhcp] assms(1) by (auto simp: connecting_stack_def)
  obtain t' where t': "dhcp_inform (lw_dhcp L) n t = Some t'" "Netifs t' = Netifs t"
    using assms(1) unfolding connecting_stack_def inform_documented_def same_view_def by metis
  have "\<exists>t. net_ip_connect L p s = Some (NET_OK, t) \<and> Netifs t p = status_handle (Netifs s p) (lw_at n u)"
    using assms(3,5-7) s1(1) t t' by (auto simp: net_ip_connect_def Let_def v1 vu)
  then show ?thesis using vu(2-5) [of n] v1(5) [of n] by auto
qed

end
