(* ===== verification/Lwip_Demo.thy ===== *)
theory Lwip_Demo
  imports Lwip_Driver
begin

text \<open>
  A stack with the documented behaviour, for the closed instances of the theorems about interfaces over lwIP: it calls
  the status callback when an address changes, and every call succeeds.
\<close>

definition demo_dhcp :: "'l lwip_dhcp" where
  "demo_dhcp = \<lparr>dhcp_start = (\<lambda>_. Some), dhcp_release = (\<lambda>_. Some), dhcp_inform = (\<lambda>_. Some)\<rparr>"

definition demo_lwip :: "'l lwip_lib" where
  "demo_lwip = \<lparr>lw_dhcp = demo_dhcp, EWOULDBLOCK = 11, SOL_SOCKET = 0xfff, LW_AF_INET = 2, LW_AF_INET6 = 10,
     sizeof_netif = 64, sizeof_ifreq_name = 6, tcpip_init = id,
     netif_add = (\<lambda>n p f w. case f n (upd_lw n (\<lambda>v. v\<lparr>n_state := p\<rparr>) w) of (r, w) \<Rightarrow> (if r = ERR_OK then Some n else None, w)),
     netif_set_default = (\<lambda>_. id), netif_register_callbacks = (\<lambda>_. id), netif_set_up = (\<lambda>_. Some), netif_set_down = (\<lambda>_. Some),
     netif_set_link_up = (\<lambda>_. Some), netif_set_link_down = (\<lambda>_. Some),
     netif_set_addr = (\<lambda>n a m g s. if n_ip (lw_at n s) = a then Some s
       else net_ip_status_cb demo_dhcp demo_base n (lw_do (upd_lw n (\<lambda>v. v\<lparr>n_ip := a, n_netmask := m, n_gw := g\<rparr>)) s)),
     netif_remove = (\<lambda>_. Some), dhcp_stop = (\<lambda>_. Some), dhcp_cleanup = (\<lambda>_. Some),
     lwip_socket = (\<lambda>_ _ _ w. (3, w)), lwip_bind = (\<lambda>_ _ _ w. (0, w)), lwip_listen = (\<lambda>_ _ w. (0, w)),
     lwip_accept = (\<lambda>_ a l w. ((4, a, l), w)), lwip_connect = (\<lambda>_ _ _ w. (0, w)), lwip_send = (\<lambda>_ _ n _ w. (int (unat n), w)),
     lwip_recv = (\<lambda>_ b n _ w. ((int (unat n), b), w)), lwip_sendto = (\<lambda>_ _ n _ _ _ w. (int (unat n), w)),
     lwip_recvfrom = (\<lambda>_ b n _ a l w. ((int (unat n), b, a, l), w)), lwip_setsockopt = (\<lambda>_ _ _ w. (0, w)),
     lwip_getsockopt = (\<lambda>_ _ _ v l w. ((0, v, l), w)), lwip_getsockname = (\<lambda>_ a l w. ((0, a, l), w)),
     lwip_getpeername = (\<lambda>_ a l w. ((0, a, l), w)), lwip_close = (\<lambda>_ w. (0, w)), lwip_shutdown = (\<lambda>_ _ w. (0, w)),
     lwip_getaddrinfo = (\<lambda>_ _ w. ((1, None), w)), lwip_freeaddrinfo = id\<rparr>"

lemma demo_notify [simp]: "notify_keeps demo_base"
  by (simp add: notify_keeps_def demo_base_def)

lemma demo_set_addr_run:
  assumes "\<And>n s f. Q s (lw_do (upd_lw n f) s)" and "netif_set_addr demo_lwip n a m g s = Some t"
  shows "lw_run demo_base Q n s t"
proof -
  let ?u = "lw_do (upd_lw n (\<lambda>v. v\<lparr>n_ip := a, n_netmask := m, n_gw := g\<rparr>)) s"
  have "t = s \<or> net_ip_status_cb demo_dhcp demo_base n ?u = Some t"
    using assms(2) by (simp add: demo_lwip_def split: if_splits)
  moreover have "lw_run demo_base Q n s ?u"
    by (rule lw_step [OF lw_start]) (use assms(1) in \<open>auto simp: lw_own_def lw_at_def lw_do_def upd_lw_def\<close>)
  moreover have "\<exists>v. lw_run demo_base Q n ?u v \<and> status_notify demo_base n v = Some t"
    if "net_ip_status_cb demo_dhcp demo_base n ?u = Some t"
    using that lw_inform [OF lw_start, of demo_base Q n ?u] lw_start [of demo_base Q n ?u]
    by (auto simp: net_ip_status_cb_def status_dhcp_def demo_dhcp_def Let_def split: if_splits)
  ultimately show ?thesis using lw_start lw_run_trans [OF lw_notify] lw_run_trans by blast
qed

lemma demo_lwip_sel:
  "lw_dhcp demo_lwip = demo_dhcp" "netif_set_up demo_lwip = (\<lambda>_. Some)" "netif_set_down demo_lwip = (\<lambda>_. Some)"
  "netif_set_link_up demo_lwip = (\<lambda>_. Some)" "netif_set_link_down demo_lwip = (\<lambda>_. Some)" "netif_remove demo_lwip = (\<lambda>_. Some)"
  "dhcp_stop demo_lwip = (\<lambda>_. Some)" "dhcp_cleanup demo_lwip = (\<lambda>_. Some)" "dhcp_start demo_dhcp = (\<lambda>_. Some)"
  "dhcp_release demo_dhcp = (\<lambda>_. Some)" "dhcp_inform demo_dhcp = (\<lambda>_. Some)"
  by (simp_all add: demo_lwip_def demo_dhcp_def)

lemma demo_does:
  assumes "\<And>n s f. Q s (lw_do (upd_lw n f) s)"
  shows "lwip_does Q demo_lwip demo_base"
  using demo_set_addr_run [where Q = Q, OF assms]
  by (auto simp: lwip_does_def lw_does_def demo_lwip_sel intro: lw_start)

lemma demo_contract: "lwip_contract demo_lwip demo_base"
  by (rule demo_does) simp

interpretation demo_lib: lwip_frame demo_lwip demo_base "\<lambda>_ _. True" lib_frame
  by (rule lib_lwip_frame [OF demo_contract])

end
