(* ===== verification/Eth_Props.thy ===== *)
theory Eth_Props
  imports Eth_Driver Lwip_Static Lwip_Demo
begin

text \<open>
  The Ethernet interface over lwIP: the socket table under everything lwIP may do by itself, the connect command with a
  static address, and what the loss of the link does to such an interface.
\<close>

text \<open>
  With the Ethernet driver, any interleaving of commands and events (but net_if_deinit), socket calls without TLS and
  calls lwIP makes by itself (its status callbacks and whatever it does in between) ends with no lock held and the socket table well formed.
\<close>

theorem eth_history_keeps_table:
  assumes "lwip_contract (eth_lwip L) B" and "mbedtls_contract (eth_env L B)"
    and "lib_history (eth_env L B) (lwip_callback B) plain_step s t" and "table_plain s"
  shows "table_plain t"
  by (rule framed_driver.history_keeps_table [OF eth_framed [OF assms(1)] assms(2-4)])

section \<open>A static address\<close>

lemma notify_keeps_eth [simp]: "notify_keeps (eth_env L B) = notify_keeps B"
  by (simp add: notify_keeps_def)

text \<open>
  C12. An Ethernet interface with a static address that has lost its link, and still has its address, never gets back to
  CONNECTED: not by the return of the link, nor by any of the commands start, connect, disconnect and (the whole of) deinit in any order,
  whatever else lwIP does that leaves the address alone. The status callback reports an address only when it changes, and
  the return of the link leads to CONNECTING, where an address is waited for. (Only stop and start help.)
\<close>

theorem static_link_loss_is_final:
  assumes "static_stack (eth_lwip L) B n" and "halted p n s"
    and "lib_history (eth_env L B) (\<lambda>_. lw_run B (same_addr n) n) (resumes p) s t"
  shows "h_state (Netifs t p) \<noteq> NET_STATE_CONNECTED \<and> halted p n t"
proof -
  have "halted p n t"
  proof (rule halted_history [OF assms(1) _ assms(2,3)])
    show "halted p n t" if "halted p n s" "call_if if_connect (eth_env L B) p s = Some (r, t)" for s r t
      using halted_connect [OF assms(1) that(1)] that(2)
      by (auto simp: call_if_def drv_of_def net_ethernet_if_connect_def bind_Some_iff)
  qed simp
  then show ?thesis by (auto simp: halted_def)
qed

text \<open>
  C13. The connect command on a ready Ethernet interface with a static address other than the one it has (and not 0),
  whose handle agrees with lwIP's object, returns \<open>NET_OK\<close> with that address, mask and gateway in the handle, in state
  CONNECTED if the link is up. If the cable is not plugged in it returns \<open>NET_OK\<close> too, in state CONNECTION_LOST, from which
  the interface does not recover (see the property on losing the link).
\<close>

theorem eth_static_connect:
  assumes "connecting_stack (eth_lwip L) B n"
    and "h_state (Netifs s p) = NET_STATE_READY" and "h_pdrv (Netifs s p) \<noteq> None"
    and "h_netif (Netifs s p) = Some n" and "n_state (lw_at n s) = p" and "\<not> h_dhcp_mode (Netifs s p)"
    and "h_static_ipaddr (Netifs s p) = a" and "a \<noteq> 0" and "n_ip (lw_at n s) \<noteq> a"
    and "h_ipaddr (Netifs s p) = n_ip (lw_at n s)"
  shows "\<exists>t. net_state_manage_event (eth_env L B) (Some p) NET_EVENT_CMD_CONNECT s = Some (NET_OK, t)
    \<and> h_ipaddr (Netifs t p) = a \<and> h_netmask (Netifs t p) = h_static_netmask (Netifs s p)
    \<and> h_gateway (Netifs t p) = h_static_gateway (Netifs s p)
    \<and> h_state (Netifs t p) = (if n_link_up (lw_at n s) then NET_STATE_CONNECTED else NET_STATE_CONNECTION_LOST)"
proof -
  let ?s = "set_state (eth_env L B) p NET_STATE_CONNECTING s"
  have same: "lw_at m ?s = lw_at m s" for m
    using assms(1) by (simp add: connecting_stack_def)
  obtain t v where t: "net_ip_connect (eth_lwip L) p ?s = Some (NET_OK, t)" "Netifs t p = status_handle (Netifs ?s p) v"
      "n_ip v = a" "n_netmask v = h_static_netmask (Netifs s p)" "n_gw v = h_static_gateway (Netifs s p)"
      "n_link_up v = n_link_up (lw_at n s)"
    using static_connect [OF assms(1), of ?s p a] assms(4-) same by auto
  have "net_state_manage_event (eth_env L B) (Some p) NET_EVENT_CMD_CONNECT s = Some (NET_OK, t)"
    using assms(2,3) t(1)
    by (auto simp: manage_event_Some handler_defs call_if_def drv_of_def net_ethernet_if_connect_def if_failure_def Let_def)
  moreover have "h_ipaddr (Netifs t p) = a" "h_netmask (Netifs t p) = h_static_netmask (Netifs s p)"
      "h_gateway (Netifs t p) = h_static_gateway (Netifs s p)"
      "h_state (Netifs t p) = (if n_link_up (lw_at n s) then NET_STATE_CONNECTED else NET_STATE_CONNECTION_LOST)"
    using t(2-) assms(8-10) by (auto simp: status_handle_def status_events_def)
  ultimately show ?thesis by blast
qed

section \<open>Sockets before the start\<close>

lemma pnetif_upd: "(\<And>k. s_pnetif (f k) = s_pnetif k) \<Longrightarrow> s_pnetif (sock_at i (upd_sock j f s)) = s_pnetif (sock_at i s)"
  by (cases "j < length (Sockets s)") (auto simp: sock_at_def upd_sock_def nth_list_update list_update_beyond)

lemma default_protocol_pass:
  "s_pnetif (sock_at i (default_protocol j s)) = s_pnetif (sock_at i s)" "Netifs (default_protocol j s) = Netifs s"
  "dev (default_protocol j s) = dev s"
  by (simp_all add: default_protocol_def pnetif_upd Let_def)

lemma eth_psocket: "psocket (eth_drv L B d) = Some (\<lambda>a t p. linked d (net_lwip_socket (eth_lwip L) a t p))"
  by (simp add: eth_drv_def link_sockets_def)

text \<open>
  The socket functions of the driver's table are set by \<open>net_ip_add_if\<close>, when the interface is started, in memory that was
  not cleared: binding a new socket before that calls through a pointer nobody has set.
\<close>

theorem eth_bind_before_start:
  assumes "is_valid_socket (int i) s" and "s_pnetif (sock_at i s) = Some p" and "s_ulsocket (sock_at i s) = -1"
    and "h_pdrv (Netifs s p) = Some d" and "\<not> lw_linked (dev s) d"
  shows "net_bind (eth_env L B) (int i) a n s = None"
proof -
  let ?E = "eth_env L B"
  have lock: "sock_at i (LOCK_SOCK (int i) s) = sock_at i s" by (simp add: LOCK_SOCK_def)
  have "sock_drv ?E i (default_protocol i (upd_sock i (\<lambda>k. k\<lparr>s_ulsocket := c\<rparr>) (LOCK_SOCK (int i) s))) = Some (eth_drv L B d)"
    "dev (default_protocol i (upd_sock i (\<lambda>k. k\<lparr>s_ulsocket := c\<rparr>) (LOCK_SOCK (int i) s))) = dev s" for c
    using assms(2,4) by (simp_all add: sock_drv_def drv_of_def default_protocol_pass pnetif_upd LOCK_SOCK_def)
  then have "create_low_level_socket ?E (int i) (LOCK_SOCK (int i) s) = None"
    using assms(3,5) by (simp add: create_low_level_socket_def Let_def access_socket eth_psocket linked_def LOCK_SOCK_def)
  then show ?thesis
    using assms(1,2) lock by (simp add: net_bind_def net_socket_get_and_lock_def default_interface_def)
qed

section \<open>Witnesses\<close>

text \<open>Interface 1 on its object 5 with the static address \<open>a\<close>, over the demonstration stack.\<close>

definition demo_eth :: "unit eth_lib" where
  "demo_eth = \<lparr>eth_lwip = demo_lwip, eth_ping = \<lparr>inet_chksum = (\<lambda>_. 0), sizeof_net_if_handle = 200\<rparr>,
     ethernetif_init = (\<lambda>_ w. (0, w)), ethernetif_deinit = (\<lambda>_ w. (0, w))\<rparr>"

definition demo_object :: "u32 \<Rightarrow> bool \<Rightarrow> lw_netif" where
  "demo_object a up = zero_netif\<lparr>n_ip := a, n_link_up := up, n_state := 1\<rparr>"

definition demo_cable :: "u32 \<Rightarrow> bool \<Rightarrow> net_state \<Rightarrow> unit lw_net" where
  "demo_cable a up st = (demo_over \<lparr>lw_netifs = (\<lambda>_. demo_object a up), lw_errno = 0, tcpip_init_done = True,
       lw_linked = (\<lambda>_. False), lw_ping_seq = 1, lw_rest = ()\<rparr> st)
     \<lparr>Netifs := (\<lambda>_. (demo_netif st)\<lparr>h_netif := Some 5, h_dhcp_mode := False, h_static_ipaddr := 7, h_ipaddr := a\<rparr>)\<rparr>"

lemma demo_cable_sel [simp]:
  "lw_at n (demo_cable a up st) = demo_object a up" "h_state (Netifs (demo_cable a up st) p) = st"
  "h_netif (Netifs (demo_cable a up st) p) = Some 5" "h_dhcp_mode (Netifs (demo_cable a up st) p) = False"
  "h_static_ipaddr (Netifs (demo_cable a up st) p) = 7" "h_ipaddr (Netifs (demo_cable a up st) p) = a"
  "h_pdrv (Netifs (demo_cable a up st) p) = Some 0"
  "n_state (demo_object a up) = 1" "n_ip (demo_object a up) = a" "n_link_up (demo_object a up) = up"
  by (simp_all add: demo_cable_def demo_over_def lw_at_def demo_netif_def demo_object_def)

lemma demo_eth_sel [simp]: "eth_lwip demo_eth = demo_lwip"
  by (simp add: demo_eth_def)

lemma demo_static: "static_stack (demo_lwip :: unit lwip_lib) demo_base n"
  by (auto simp: static_stack_def keeps_addr_def demo_lwip_sel intro: lw_start)
    (simp add: demo_lwip_def lw_start)

theorem eth_history_keeps_table_witness:
  "\<exists>t. lib_history (eth_env demo_eth demo_base) (lwip_callback demo_base) plain_step (demo_cable 7 False NET_STATE_CONNECTED) t
     \<and> h_state (Netifs t 1) = NET_STATE_CONNECTION_LOST \<and> table_plain t"
proof -
  let ?s = "demo_cable 7 False NET_STATE_CONNECTED"
  obtain t where t: "status_notify demo_base 5 ?s = Some t" "Netifs t = (Netifs ?s)(1 := status_handle (Netifs ?s 1) (lw_at 5 ?s))"
    using status_notify_outcome [of demo_base 5 ?s 1] by auto
  then have run: "lib_history (eth_env demo_eth demo_base) (lwip_callback demo_base) plain_step ?s t"
    by (intro history_callback [OF history_start]) (auto simp: lwip_callback_def intro: lw_notify [OF lw_start])
  have "table_plain ?s"
    using demo_over_plain by (simp add: demo_cable_def table_plain_def sock_at_def held_def)
  moreover have "mbedtls_contract (eth_env demo_eth demo_base)" by (simp add: eth_env_def demo_base_mbedtls)
  moreover have "lwip_contract (eth_lwip demo_eth) demo_base" by (simp add: demo_lwip_sel demo_contract)
  ultimately have "table_plain t" using eth_history_keeps_table [OF _ _ run] by blast
  moreover have "h_state (Netifs t 1) = NET_STATE_CONNECTION_LOST"
    by (simp add: t(2) status_handle_def status_events_def)
  ultimately show ?thesis using run by blast
qed

theorem static_link_loss_is_final_witness:
  "\<exists>t. lib_history (eth_env demo_eth demo_base) (\<lambda>_. lw_run demo_base (same_addr 5) 5) (resumes 1)
       (demo_cable 7 True NET_STATE_CONNECTION_LOST) t
     \<and> h_state (Netifs t 1) = NET_STATE_CONNECTING \<and> halted 1 5 t"
proof -
  let ?s = "demo_cable 7 True NET_STATE_CONNECTION_LOST"
  obtain t where t: "status_notify demo_base 5 ?s = Some t" "Netifs t = (Netifs ?s)(1 := status_handle (Netifs ?s 1) (lw_at 5 ?s))"
    using status_notify_outcome [of demo_base 5 ?s 1] by auto
  have run: "lib_history (eth_env demo_eth demo_base) (\<lambda>_. lw_run demo_base (same_addr 5) 5) (resumes 1) ?s t"
    by (rule history_callback [OF history_start]) (rule lw_notify [OF lw_start t(1)])
  have "halted 1 5 ?s" by (simp add: halted_def)
  then have "halted 1 5 t"
    using static_link_loss_is_final [of demo_eth demo_base 5 1 ?s t] run demo_static by (simp add: demo_lwip_sel)
  moreover have "h_state (Netifs t 1) = NET_STATE_CONNECTING"
    by (simp add: t(2) status_handle_def status_events_def)
  ultimately show ?thesis using run by blast
qed

lemma demo_inform: "inform_documented demo_dhcp n"
  by (simp add: inform_documented_def demo_lwip_sel)

lemma demo_connecting: "connecting_stack (demo_lwip :: unit lwip_lib) demo_base n"
proof -
  have cb: "calls_back demo_lwip demo_base n u (net_ip_status_cb demo_dhcp demo_base n u)" for u :: "unit lw_net"
    by (auto simp: calls_back_def demo_lwip_sel split: option.split)
  have "netif_set_addr demo_lwip n a m g s = net_ip_status_cb demo_dhcp demo_base n
      (lw_do (upd_lw n (\<lambda>v. v\<lparr>n_ip := a, n_netmask := m, n_gw := g\<rparr>)) s)" if "n_ip (lw_at n s) \<noteq> a" for a m g and s :: "unit lw_net"
    using that by (simp add: demo_lwip_def)
  then have "calls_back demo_lwip demo_base n (lw_do (upd_lw n (\<lambda>v. v\<lparr>n_ip := a, n_netmask := m, n_gw := g\<rparr>)) s)
      (netif_set_addr demo_lwip n a m g s)" if "n_ip (lw_at n s) \<noteq> a" for a m g and s :: "unit lw_net"
    using that cb by simp
  then have "\<forall>a m g s :: unit lw_net. a \<noteq> 0 \<and> n_ip (lw_at n s) \<noteq> a \<longrightarrow>
      (\<exists>u. same_view (lw_do (upd_lw n (\<lambda>v. v\<lparr>n_ip := a, n_netmask := m, n_gw := g\<rparr>)) s) u
        \<and> calls_back demo_lwip demo_base n u (netif_set_addr demo_lwip n a m g s))"
    using same_view_refl by blast
  moreover have "\<exists>u. same_view s u \<and> (Some s = Some u \<or> calls_back demo_lwip demo_base n u (Some s))" for s :: "unit lw_net"
    using same_view_refl by blast
  ultimately show ?thesis
    unfolding connecting_stack_def demo_lwip_sel(1,2) using demo_inform demo_notify by blast
qed

theorem eth_static_connect_witness:
  "\<exists>t. net_state_manage_event (eth_env demo_eth demo_base) (Some 1) NET_EVENT_CMD_CONNECT (demo_cable 0 False NET_STATE_READY)
      = Some (NET_OK, t) \<and> h_state (Netifs t 1) = NET_STATE_CONNECTION_LOST"
  using eth_static_connect [of demo_eth demo_base 5 "demo_cable 0 False NET_STATE_READY" 1 7] demo_connecting
  by auto

theorem eth_bind_before_start_witness:
  "net_bind (eth_env demo_eth demo_base) (int 0) None 0 ((demo_cable 0 False NET_STATE_INITIALIZED)
     \<lparr>Sockets := zero_socket\<lparr>s_status := SOCKET_ALLOCATED, s_ulsocket := -1, s_pnetif := Some 1\<rparr> # replicate 4 zero_socket\<rparr>) = None"
  by (rule eth_bind_before_start [where p = 1 and d = 0])
    (simp_all add: is_valid_socket_def sock_at_def demo_cable_def demo_over_def demo_netif_def)


end
