(* ===== verification/Cy_Wifi.thy ===== *)
theory Cy_Wifi
  imports Lwip_Driver Wifi_Class
begin

text \<open>
  \<open>netif/wifi_if/cypress_wifi/net_cypress_whd_driver.c\<close>: the driver of a WiFi interface over lwIP and the Cypress WiFi
  host driver (WHD), with the defines \<open>LWIP_IGMP\<close> set and \<open>FILTER\<close>, \<open>DEEP_SLEEP\<close> and \<open>PPPOE_SUPPORT\<close> not. The static
  variables of the file are the record \<open>whd_state\<close>; WHD, the RTOS objects the file uses and lwIP's packet buffers are
  the record \<open>whd_lib\<close>, whose functions work on a state of their own.
\<close>

section \<open>State\<close>

abbreviation (input) NET_CYPRESS_MAX_INTERFACE :: nat where "NET_CYPRESS_MAX_INTERFACE \<equiv> 4"
abbreviation (input) NET_WHD_LINK_DOWN_FLAG :: u32 where "NET_WHD_LINK_DOWN_FLAG \<equiv> 1"
abbreviation (input) NET_WHD_LINK_UP_FLAG :: u32 where "NET_WHD_LINK_UP_FLAG \<equiv> 2"

record net_cypress_key =
  ck_key :: "nat option"
  ck_value :: "nat option"

text \<open>
  \<open>ext_ifp\<close> is the member \<open>ifp\<close> of the extension of a driver. With the handle of the link thread goes the argument the
  thread was created with.
\<close>

record 'l whd_state =
  netif2ifp :: "net_cypress_key list"
  CypressAliveInterfaceCount :: u32
  LinkStatusFlags :: "nat option"
  LinkThread :: "(nat \<times> nat) option"
  EventIndex :: u16
  ext_ifp :: "drvref \<Rightarrow> nat option"
  w_rest :: 'l

type_synonym 'l cy_world = "'l whd_state lwip_world"
type_synonym 'l cy_net = "'l cy_world net"

record whd_event_header =
  bsscfgidx :: u8
  event_type :: u32
  event_status :: u32
  event_reason :: u32

text \<open>
  The packet buffer: its payload from the pointer \<open>payload\<close> on, its length \<open>len\<close>, the length \<open>tot_len\<close> of the chain it begins and
  the next buffer of the chain.
\<close>

record pbuf =
  pb_ref :: nat
  pb_payload :: bytes
  pb_len :: u16
  pb_tot_len :: u16
  pb_next :: "nat option"

definition pb_chained :: "pbuf \<Rightarrow> bool" where
  "pb_chained b \<longleftrightarrow> \<not> (pb_next b = None \<and> pb_tot_len b = pb_len b)"

record whd_scan_result =
  ws_SSID :: bytes  \<comment> \<open>\<open>SSID.value\<close> up to \<open>SSID.length\<close>\<close>
  ws_security :: u32
  ws_BSSID :: bytes
  ws_signal_strength :: int
  ws_channel :: u8

record 'l whd_lib =
  cy_lwip :: "'l whd_state lwip_lib"
  cy_ping :: ping_lib
  WHD_INTERFACE_MAX :: u8
  WLC_E_DEAUTH_IND :: u32
  WLC_E_DISASSOC_IND :: u32
  WLC_E_PSK_SUP :: u32
  WLC_E_LINK :: u32
  WLC_SUP_KEYED :: u32
  WLC_E_SUP_DEAUTH :: u32
  WLC_E_SUP_OTHER :: u32
  WLC_E_REASON_LOW_RSSI :: u32
  WHD_SUCCESS :: int
  WHD_PAYLOAD_MTU :: u16
  sizeof_ssid_value :: nat
  sizeof_whd_scan_result :: nat
  whd_boot :: "'l \<Rightarrow> int \<times> 'l"
  whd_powerdown :: "'l \<Rightarrow> int \<times> 'l"
  whd_deinit :: "nat option \<Rightarrow> 'l \<Rightarrow> int \<times> 'l"
  whd_wifi_on :: "'l \<Rightarrow> (int \<times> nat option) \<times> 'l"
  whd_wifi_off :: "nat option \<Rightarrow> 'l \<Rightarrow> int \<times> 'l"
  whd_add_secondary_interface :: "bytes \<Rightarrow> 'l \<Rightarrow> (int \<times> nat option) \<times> 'l"
  whd_get_primary_interface :: "'l \<Rightarrow> nat option \<times> 'l"
  whd_wifi_set_event_handler :: "nat option \<Rightarrow> u16 \<Rightarrow> 'l \<Rightarrow> (int \<times> u16) \<times> 'l"
    \<comment> \<open>for the events \<open>sta_link_change_events\<close>; the index argument is written\<close>
  whd_wifi_deregister_event_handler :: "nat option \<Rightarrow> u16 \<Rightarrow> 'l \<Rightarrow> int \<times> 'l"
  whd_wifi_join :: "nat option \<Rightarrow> string \<Rightarrow> int \<Rightarrow> string \<Rightarrow> 'l \<Rightarrow> int \<times> 'l"
  whd_wifi_leave :: "nat option \<Rightarrow> 'l \<Rightarrow> int \<times> 'l"
  whd_wifi_init_ap :: "nat option \<Rightarrow> string \<Rightarrow> int \<Rightarrow> string \<Rightarrow> u8 \<Rightarrow> 'l \<Rightarrow> int \<times> 'l"
  whd_wifi_manage_custom_ie :: "nat option \<Rightarrow> bool \<Rightarrow> nat \<Rightarrow> 'l \<Rightarrow> int \<times> 'l"
    \<comment> \<open>true to add, false to remove the information element\<close>
  whd_wifi_start_ap :: "nat option \<Rightarrow> 'l \<Rightarrow> int \<times> 'l"
  whd_wifi_stop_ap :: "nat option \<Rightarrow> 'l \<Rightarrow> int \<times> 'l"
  whd_wifi_get_mac_address :: "nat option \<Rightarrow> bytes \<Rightarrow> 'l \<Rightarrow> (int \<times> bytes) \<times> 'l"
  whd_wifi_is_ready_to_transceive :: "nat option \<Rightarrow> 'l \<Rightarrow> int \<times> 'l"
  whd_wifi_register_multicast_address :: "nat option \<Rightarrow> bytes \<Rightarrow> 'l \<Rightarrow> int \<times> 'l"
  whd_wifi_unregister_multicast_address :: "nat option \<Rightarrow> bytes \<Rightarrow> 'l \<Rightarrow> int \<times> 'l"
  whd_network_send_ethernet_data :: "nat option \<Rightarrow> pbuf \<Rightarrow> 'l \<Rightarrow> int \<times> 'l"
  whd_wifi_scan_synch :: "nat option \<Rightarrow> u8 \<Rightarrow> 'l \<Rightarrow> (u32 \<times> whd_scan_result list) \<times> 'l"
  osEventFlagsNew :: "'l \<Rightarrow> nat option \<times> 'l"
  osEventFlagsSet :: "nat option \<Rightarrow> u32 \<Rightarrow> 'l \<Rightarrow> u32 \<times> 'l"
  osEventFlagsWait :: "nat option \<Rightarrow> u32 \<Rightarrow> 'l \<Rightarrow> u32 \<times> 'l"
    \<comment> \<open>any of the flags, for ever\<close>
  osThreadNew :: "nat \<Rightarrow> 'l \<Rightarrow> nat option \<times> 'l"
    \<comment> \<open>of the function \<open>whd_link_thread_handler\<close> with the given argument\<close>
  pbuf_ref :: "pbuf \<Rightarrow> 'l \<Rightarrow> 'l"
  pbuf_free :: "pbuf \<Rightarrow> 'l \<Rightarrow> u8 \<times> 'l"
  tcpip_input :: "pbuf \<Rightarrow> nat \<Rightarrow> 'l \<Rightarrow> int \<times> 'l"

text \<open>A call of WHD, from lwIP's world and from the library.\<close>

definition whd_w :: "('l \<Rightarrow> 'a \<times> 'l) \<Rightarrow> 'l cy_world \<Rightarrow> 'a \<times> 'l cy_world" where
  "whd_w f = on_rest (\<lambda>r. let (x, y) = f (w_rest r) in (x, r\<lparr>w_rest := y\<rparr>))"

definition whd_call :: "('l \<Rightarrow> 'a \<times> 'l) \<Rightarrow> 'l cy_net \<Rightarrow> 'a \<times> 'l cy_net" where
  "whd_call f = lw_call (whd_w f)"

definition whd_do :: "('l \<Rightarrow> 'a \<times> 'l) \<Rightarrow> 'l cy_net \<Rightarrow> 'l cy_net" where
  "whd_do f s = snd (whd_call f s)"

definition upd_whd :: "('l whd_state \<Rightarrow> 'l whd_state) \<Rightarrow> 'l cy_net \<Rightarrow> 'l cy_net" where
  "upd_whd f = lw_do (\<lambda>w. w\<lparr>lw_rest := f (lw_rest w)\<rparr>)"

text \<open>\<open>pnetif->pdrv->extension.wifi->ifp\<close>.\<close>

definition wifi_ifp :: "netref \<Rightarrow> 'l cy_net \<Rightarrow> nat option option" where
  "wifi_ifp p s = do {
     d \<leftarrow> h_pdrv (Netifs s p);
     _ \<leftarrow> d_wifi (Drivers s d);
     Some (ext_ifp (lw_rest (dev s)) d) }"

text \<open>The loops over \<open>netif2ifp\<close>: the first entry with the key, or the length of the table.\<close>

fun find_key :: "nat option \<Rightarrow> net_cypress_key list \<Rightarrow> nat" where
  "find_key k [] = 0"
| "find_key k (e # es) = (if ck_key e = k then 0 else Suc (find_key k es))"

abbreviation (input) NET_ERROR_MODULE_INITIALIZATION :: int where "NET_ERROR_MODULE_INITIALIZATION \<equiv> -30"
abbreviation (input) ERR_VAL :: int where "ERR_VAL \<equiv> -6"

section \<open>Initialisation\<close>

text \<open>
  The pointer of the handle to the driver table is set before the other steps, and stays when one of them fails and the
  table is freed. \<open>wifi_started\<close> is the end of the two branches that ask WHD for an interface.
\<close>

definition wifi_started ::
  "'l whd_lib \<Rightarrow> 'l cy_world env \<Rightarrow> drvref \<Rightarrow> (int \<times> nat option) \<times> 'l cy_net \<Rightarrow> (int, 'l cy_world) res" where
  "wifi_started L E d answer = (case answer of ((r, ifp), s) \<Rightarrow>
     (let s = upd_whd (\<lambda>v. v\<lparr>ext_ifp := (ext_ifp v)(d := ifp)\<rparr>) s in
      if r \<noteq> WHD_SUCCESS L
      then Some (NET_ERROR_MODULE_INITIALIZATION, net_free E d (net_free E (d_wifi_ref (Drivers s d)) s))
      else Some (NET_OK, upd_whd (\<lambda>v. v\<lparr>CypressAliveInterfaceCount := CypressAliveInterfaceCount v + 1\<rparr>) s)))"

definition whd_first_start :: "'l whd_lib \<Rightarrow> 'l cy_world env \<Rightarrow> drvref \<Rightarrow> 'l cy_net \<Rightarrow> (int, 'l cy_world) res" where
  "whd_first_start L E d s = (case whd_call (whd_boot L) s of (r, s) \<Rightarrow>
     (let s = upd_whd (\<lambda>v. v\<lparr>netif2ifp := replicate NET_CYPRESS_MAX_INTERFACE \<lparr>ck_key = None, ck_value = None\<rparr>\<rparr>) s in
      if r \<noteq> WHD_SUCCESS L then Some (NET_ERROR_MODULE_INITIALIZATION, s)
      else (case whd_call (osEventFlagsNew L) s of (f, s) \<Rightarrow>
        wifi_started L E d (whd_call (whd_wifi_on L) (upd_whd (\<lambda>v. v\<lparr>LinkStatusFlags := f\<rparr>) s)))))"

definition net_cypress_whd_if_init ::
  "'l whd_lib \<Rightarrow> 'l cy_world env \<Rightarrow> netref \<Rightarrow> 'l cy_net \<Rightarrow> (int, 'l cy_world) res" where
  "net_cypress_whd_if_init L E p s =
     (case net_malloc E (env_sizeof E Sizeof_net_if_drv) s of
        (None, s) \<Rightarrow> Some (NET_ERROR_NO_MEMORY, s)
      | (Some d, s) \<Rightarrow>
          (let s = upd_drv d (\<lambda>x. x\<lparr>d_if_class := NET_INTERFACE_CLASS_WIFI\<rparr>) (fresh_table d s);
               s = upd_netif p (\<lambda>h. h\<lparr>h_pdrv := Some d\<rparr>) s in
           case net_malloc E (env_sizeof E Sizeof_wifi_extension) s of
             (None, s) \<Rightarrow> Some (NET_ERROR_NO_MEMORY, net_free E d s)
           | (Some x, s) \<Rightarrow>
               (let s = upd_drv d (\<lambda>y. y\<lparr>d_wifi := Some zero_wifi_ext, d_wifi_ref := x\<rparr>) s;
                    s = upd_whd (\<lambda>v. v\<lparr>ext_ifp := (ext_ifp v)(d := None)\<rparr>) s
                in if CypressAliveInterfaceCount (lw_rest (dev s)) = 0 then whd_first_start L E d s
                   else wifi_started L E d (whd_call (whd_add_secondary_interface L [0xA0, 0xC9, 0xA0, 0x3D, 0x43, 0x41]) s))))"

definition cypress_whd_net_driver ::
  "'l whd_lib \<Rightarrow> 'l cy_world env \<Rightarrow> netref \<Rightarrow> 'l cy_net \<Rightarrow> (int, 'l cy_world) res" where
  "cypress_whd_net_driver L E pnetif s = net_cypress_whd_if_init L E pnetif (net_ip_init (cy_lwip L) s)"

section \<open>The interface of lwIP\<close>

abbreviation (input) ETHARP_HWADDR_LEN :: u8 where "ETHARP_HWADDR_LEN \<equiv> 6"
text \<open>\<open>NETIF_FLAG_BROADCAST | NETIF_FLAG_ETHARP | NETIF_FLAG_ETHERNET | NETIF_FLAG_IGMP\<close>\<close>
abbreviation (input) CY_NETIF_FLAGS :: u8 where "CY_NETIF_FLAGS \<equiv> 0x3A"

text \<open>
  \<open>low_level_init\<close> for the WHD interface \<open>ifp\<close>, which the code reads through \<open>netif->state\<close>. If the table is full the
  error is returned at the end, with the rest done. The assignment to \<open>netif->flags\<close> clears the bit of the link.
\<close>

definition low_level_init :: "'l whd_lib \<Rightarrow> nat option \<Rightarrow> nat \<Rightarrow> 'l cy_world \<Rightarrow> int \<times> 'l cy_world" where
  "low_level_init L ifp netif w =
     (let table = netif2ifp (lw_rest w);
          i = find_key None table;
          ret = (if i < length table then ERR_OK else ERR_VAL);
          w = w\<lparr>lw_rest := (lw_rest w)\<lparr>netif2ifp := table[i := \<lparr>ck_key = ifp, ck_value = Some netif\<rparr>]\<rparr>\<rparr>;
          w = upd_lw netif (\<lambda>v. v\<lparr>n_name := [0x63, 0x79], n_hwaddr_len := ETHARP_HWADDR_LEN\<rparr>) w;
          ((r, mac), w) = whd_w (whd_wifi_get_mac_address L ifp (n_hwaddr (lw_netifs w netif))) w;
          w = upd_lw netif (\<lambda>v. v\<lparr>n_hwaddr := mac\<rparr>) w
      in if r \<noteq> WHD_SUCCESS L then (ERR_VAL, w)
         else
           (let w = upd_lw netif (\<lambda>v. v\<lparr>n_mtu := WHD_PAYLOAD_MTU L, n_flags := CY_NETIF_FLAGS, n_link_up := False\<rparr>) w;
                w = netif_register_callbacks (cy_lwip L) netif w;
                w = (if LinkStatusFlags (lw_rest w) = None
                     then case whd_w (osEventFlagsNew L) w of (f, w) \<Rightarrow> w\<lparr>lw_rest := (lw_rest w)\<lparr>LinkStatusFlags := f\<rparr>\<rparr>
                     else w);
                w = (if LinkThread (lw_rest w) = None
                     then case whd_w (osThreadNew L netif) w of (h, w) \<Rightarrow>
                       w\<lparr>lw_rest := (lw_rest w)\<lparr>LinkThread := map_option (\<lambda>h. (h, netif)) h\<rparr>\<rparr>
                     else w)
            in (ret, w)))"

text \<open>What lwIP calls to send a frame; a failing \<open>LWIP_ASSERT\<close> stops the program, \<^term>\<open>None\<close>.\<close>

definition low_level_output :: "'l whd_lib \<Rightarrow> nat \<Rightarrow> pbuf \<Rightarrow> 'l cy_net \<Rightarrow> (int, 'l cy_world) res" where
  "low_level_output L netif b s = do {
     ifp \<leftarrow> wifi_ifp (n_state (lw_at netif s)) s;
     let s = whd_do (\<lambda>y. ((), pbuf_ref L b y)) s;
     (if pb_chained b then None
      else Some (ERR_OK, whd_do (whd_network_send_ethernet_data L ifp b) s)) }"

datatype netif_mac_filter_action = NETIF_DEL_MAC_FILTER | NETIF_ADD_MAC_FILTER

text \<open>The multicast address of a group: \<open>ip4_addr2\<close> to \<open>ip4_addr4\<close> are the bytes in memory order.\<close>

definition igmp_mac :: "u32 \<Rightarrow> bytes" where
  "igmp_mac grp = [0x01, 0x00, 0x5E, ucast (drop_bit 8 grp) AND 0x7F, ucast (drop_bit 16 grp), ucast (drop_bit 24 grp)]"

definition lwip_igmp_mac_filter ::
  "'l whd_lib \<Rightarrow> u32 \<Rightarrow> netif_mac_filter_action \<Rightarrow> 'l cy_net \<Rightarrow> (int, 'l cy_world) res" where
  "lwip_igmp_mac_filter L grp action s =
     (case whd_call (whd_get_primary_interface L) s of (ifp, s) \<Rightarrow>
        Some (ERR_OK, case action of
            NETIF_DEL_MAC_FILTER \<Rightarrow> whd_do (whd_wifi_unregister_multicast_address L ifp (igmp_mac grp)) s
          | NETIF_ADD_MAC_FILTER \<Rightarrow> whd_do (whd_wifi_register_multicast_address L ifp (igmp_mac grp)) s))"

section \<open>Station and access point\<close>

text \<open>\<open>strcpy\<close> of the name into \<open>whd_ssid_t\<close>: a name that does not fit is written behind it, \<^term>\<open>None\<close>.\<close>

definition convert_credential :: "'l whd_lib \<Rightarrow> net_wifi_credentials \<Rightarrow> (int \<times> string) option" where
  "convert_credential L cr =
     (if length (cr_ssid cr) < sizeof_ssid_value L then Some (cr_security_mode cr, cr_ssid cr) else None)"

definition whd_join :: "'l whd_lib \<Rightarrow> nat option \<Rightarrow> net_wifi_credentials \<Rightarrow> 'l cy_net \<Rightarrow> (int, 'l cy_world) res" where
  "whd_join L ifp cr s = do {
     (privacy, myssid) \<leftarrow> convert_credential L cr;
     Some (whd_call (whd_wifi_join L ifp myssid privacy (cr_psk cr)) s) }"

definition whd_access_point ::
  "'l whd_lib \<Rightarrow> nat option \<Rightarrow> wifi_ext \<Rightarrow> net_wifi_credentials \<Rightarrow> 'l cy_net \<Rightarrow> (int, 'l cy_world) res" where
  "whd_access_point L ifp x cr s = do {
     (privacy, myssid) \<leftarrow> convert_credential L cr;
     let (r, s) = whd_call (whd_wifi_init_ap L ifp myssid privacy (cr_psk cr) (x_access_channel x)) s;
     (if r \<noteq> 0 then Some (r, s)
      else
        (let s = (case x_information_element x of None \<Rightarrow> s
                  | Some ie \<Rightarrow> whd_do (whd_wifi_manage_custom_ie L ifp True ie) s)
         in Some (whd_call (whd_wifi_start_ap L ifp) s))) }"

definition watch_station :: "'l whd_lib \<Rightarrow> nat option \<Rightarrow> 'l cy_net \<Rightarrow> 'l cy_net" where
  "watch_station L ifp s = (case whd_call (whd_wifi_set_event_handler L ifp (EventIndex (lw_rest (dev s)))) s of
     ((_, i), s) \<Rightarrow> upd_whd (\<lambda>v. v\<lparr>EventIndex := i\<rparr>) s)"

definition cy_add_interface ::
  "'l whd_lib \<Rightarrow> 'l cy_world env \<Rightarrow> netref \<Rightarrow> 'l cy_net \<Rightarrow> (int, 'l cy_world) res" where
  "cy_add_interface L E p s = do {
     ifp \<leftarrow> wifi_ifp p s;
     (ret, s) \<leftarrow> net_ip_add_if (cy_lwip L) E p (low_level_init L ifp) NET_ETHERNET_FLAG_DEFAULT_IF s;
     (if ret = NET_OK then do {
        let s = upd_netif p (\<lambda>h. h\<lparr>h_DeviceName := ''Wlan WHD murata 1LD''\<rparr>) s;
        let s = upd_netif p (\<lambda>h. h\<lparr>h_DeviceID := ''Unknown''\<rparr>) s;
        let s = upd_netif p (\<lambda>h. h\<lparr>h_DeviceVer := ''Unknown''\<rparr>) s;
        s \<leftarrow> driver_sends E p NET_EVENT_INTERFACE_READY s;
        netif \<leftarrow> h_netif (Netifs s p);
        s \<leftarrow> netif_set_link_up (cy_lwip L) netif s;
        Some (ret, s) }
      else Some (ret, s)) }"

definition net_cypress_whd_if_start_sta ::
  "'l whd_lib \<Rightarrow> 'l cy_world env \<Rightarrow> netref \<Rightarrow> 'l cy_net \<Rightarrow> (int, 'l cy_world) res" where
  "net_cypress_whd_if_start_sta L E p s = do {
     x \<leftarrow> wifi_of p s;
     ifp \<leftarrow> wifi_ifp p s;
     let s = watch_station L ifp s;
     cr \<leftarrow> x_credentials x;
     (r, s) \<leftarrow> whd_join L ifp cr s;
     (if r \<noteq> 0 then Some (NET_ERROR_MODULE_INITIALIZATION, s) else cy_add_interface L E p s) }"

definition net_cypress_whd_if_start_ap ::
  "'l whd_lib \<Rightarrow> 'l cy_world env \<Rightarrow> netref \<Rightarrow> 'l cy_net \<Rightarrow> (int, 'l cy_world) res" where
  "net_cypress_whd_if_start_ap L E p s = do {
     x \<leftarrow> wifi_of p s;
     ifp \<leftarrow> wifi_ifp p s;
     cr \<leftarrow> x_credentials x;
     (r, s) \<leftarrow> whd_access_point L ifp x cr s;
     (if r \<noteq> 0 then Some (NET_ERROR_MODULE_INITIALIZATION, s) else cy_add_interface L E p s) }"

definition net_cypress_whd_if_start ::
  "'l whd_lib \<Rightarrow> 'l cy_world env \<Rightarrow> netref \<Rightarrow> 'l cy_net \<Rightarrow> (int, 'l cy_world) res" where
  "net_cypress_whd_if_start L E p s = do {
     x \<leftarrow> wifi_of p s;
     (if x_mode x = NET_WIFI_MODE_STA then net_cypress_whd_if_start_sta L E p s
      else net_cypress_whd_if_start_ap L E p s) }"

definition switch_to_station ::
  "'l whd_lib \<Rightarrow> netref \<Rightarrow> 'l cy_net \<Rightarrow> (int, 'l cy_world) res" where
  "switch_to_station L p s = do {
     x \<leftarrow> wifi_of p s;
     ifp \<leftarrow> wifi_ifp p s;
     let s = (case x_information_element x of None \<Rightarrow> s
              | Some ie \<Rightarrow> whd_do (whd_wifi_manage_custom_ie L ifp False ie) s);
     let s = whd_do (whd_wifi_stop_ap L ifp) s;
     cr \<leftarrow> x_credentials x;
     (r, s) \<leftarrow> whd_join L ifp cr s;
     (if r \<noteq> 0 then Some (NET_ERROR_MODULE_INITIALIZATION, s)
      else do {
        s \<leftarrow> upd_wifi p (\<lambda>x. x\<lparr>x_mode := NET_WIFI_MODE_STA\<rparr>) (watch_station L ifp s);
        Some (NET_OK, s) }) }"

definition switch_to_access_point ::
  "'l whd_lib \<Rightarrow> 'l cy_world env \<Rightarrow> netref \<Rightarrow> 'l cy_net \<Rightarrow> (int, 'l cy_world) res" where
  "switch_to_access_point L E p s = do {
     x0 \<leftarrow> wifi_of p s;
     netif \<leftarrow> h_netif (Netifs s p);
     s \<leftarrow> netif_set_link_down (cy_lwip L) netif s;
     x \<leftarrow> wifi_of p s;
     ifp \<leftarrow> wifi_ifp p s;
     let s = whd_do (whd_wifi_leave L ifp) s;
     let s = whd_do (whd_wifi_deregister_event_handler L ifp (EventIndex (lw_rest (dev s)))) s;
     cr \<leftarrow> x_credentials x0;
     (r, s) \<leftarrow> whd_access_point L ifp x cr s;
     (if r \<noteq> 0 then Some (NET_ERROR_MODULE_INITIALIZATION, s)
      else do {
        s \<leftarrow> driver_sends E p NET_EVENT_INTERFACE_READY s;
        netif \<leftarrow> h_netif (Netifs s p);
        s \<leftarrow> netif_set_link_up (cy_lwip L) netif s;
        s \<leftarrow> upd_wifi p (\<lambda>x. x\<lparr>x_mode := NET_WIFI_MODE_AP\<rparr>) s;
        Some (NET_OK, s) }) }"

definition net_cypress_whd_id_switch_mode ::
  "'l whd_lib \<Rightarrow> 'l cy_world env \<Rightarrow> netref \<Rightarrow> net_wifi_mode \<Rightarrow> 'l cy_net \<Rightarrow> (int, 'l cy_world) res" where
  "net_cypress_whd_id_switch_mode L E p target_mode s = do {
     x \<leftarrow> wifi_of p s;
     (if x_mode x = target_mode then Some (NET_OK, s)
      else case target_mode of
        NET_WIFI_MODE_STA \<Rightarrow> switch_to_station L p s
      | NET_WIFI_MODE_AP \<Rightarrow> switch_to_access_point L E p s) }"

section \<open>Connection and end\<close>

definition net_cypress_whd_if_connect :: "'l whd_lib \<Rightarrow> netref \<Rightarrow> 'l cy_net \<Rightarrow> (int, 'l cy_world) res" where
  "net_cypress_whd_if_connect L p s = do {
     (ret, s) \<leftarrow> net_ip_connect (cy_lwip L) p s;
     Some (if ret \<noteq> NET_OK then NET_ERROR_NO_CONNECTION else ret, s) }"

definition net_cypress_whd_if_disconnect ::
  "'l whd_lib \<Rightarrow> 'l cy_world env \<Rightarrow> netref \<Rightarrow> 'l cy_net \<Rightarrow> (int, 'l cy_world) res" where
  "net_cypress_whd_if_disconnect L E p s = do {
     (ret, s) \<leftarrow> net_ip_disconnect (cy_lwip L) p s;
     (if ret = NET_OK then net_state_manage_event E (Some p) NET_EVENT_INTERFACE_READY s else Some (ret, s)) }"

definition net_cypress_whd_if_stop ::
  "'l whd_lib \<Rightarrow> 'l cy_world env \<Rightarrow> netref \<Rightarrow> 'l cy_net \<Rightarrow> (int, 'l cy_world) res" where
  "net_cypress_whd_if_stop L E p s = do {
     (ret, s) \<leftarrow> net_ip_remove_if (cy_lwip L) E p None s;
     (ret, s) \<leftarrow> (if ret = NET_OK then net_state_manage_event E (Some p) NET_EVENT_INTERFACE_INITIALIZED s
                  else Some (ret, s));
     x \<leftarrow> wifi_of p s;
     ifp \<leftarrow> wifi_ifp p s;
     let s = (if x_mode x = NET_WIFI_MODE_STA
              then (let s = whd_do (whd_wifi_leave L ifp) s
                    in whd_do (whd_wifi_deregister_event_handler L ifp (EventIndex (lw_rest (dev s)))) s)
              else whd_do (whd_wifi_stop_ap L ifp) s);
     Some (ret, s) }"

definition net_cypress_whd_if_deinit ::
  "'l whd_lib \<Rightarrow> 'l cy_world env \<Rightarrow> netref \<Rightarrow> 'l cy_net \<Rightarrow> (int, 'l cy_world) res" where
  "net_cypress_whd_if_deinit L E p s = do {
     ifp \<leftarrow> wifi_ifp p s;
     let s = whd_do (whd_wifi_off L ifp) s;
     let i = find_key ifp (netif2ifp (lw_rest (dev s)));
     (if i = length (netif2ifp (lw_rest (dev s))) then Some (ERR_VAL, s)
      else do {
        let s = upd_whd (\<lambda>v. v\<lparr>netif2ifp := (netif2ifp v)[i := \<lparr>ck_key = None, ck_value = None\<rparr>]\<rparr>) s;
        let s = (if CypressAliveInterfaceCount (lw_rest (dev s)) = 1
                 then whd_do (whd_powerdown L) (whd_do (whd_deinit L ifp) s) else s);
        let s = upd_whd (\<lambda>v. v\<lparr>CypressAliveInterfaceCount := CypressAliveInterfaceCount v - 1\<rparr>) s;
        d \<leftarrow> h_pdrv (Netifs s p);
        let s = net_free E d (net_free E (d_wifi_ref (Drivers s d)) s);
        Some (NET_OK, upd_netif p (\<lambda>h. h\<lparr>h_pdrv := None\<rparr>) s) }) }"

section \<open>Events of WHD\<close>

definition link_lost_event :: "'l whd_lib \<Rightarrow> whd_event_header \<Rightarrow> bool" where
  "link_lost_event L ev \<longleftrightarrow> event_type ev = WLC_E_DEAUTH_IND L \<or> event_type ev = WLC_E_DISASSOC_IND L
     \<or> event_type ev = WLC_E_PSK_SUP L \<and> event_status ev = WLC_SUP_KEYED L \<and> event_reason ev = WLC_E_SUP_DEAUTH L
     \<or> event_type ev = WLC_E_LINK L \<and> event_reason ev = WLC_E_REASON_LOW_RSSI L"

definition set_link_flag :: "'l whd_lib \<Rightarrow> u32 \<Rightarrow> 'l cy_net \<Rightarrow> 'l cy_net" where
  "set_link_flag L flag s = whd_do (osEventFlagsSet L (LinkStatusFlags (lw_rest (dev s))) flag) s"

definition net_cypress_whd_event_handler :: "'l whd_lib \<Rightarrow> nat option \<Rightarrow> whd_event_header \<Rightarrow> 'l cy_net \<Rightarrow> 'l cy_net" where
  "net_cypress_whd_event_handler L ifp ev s =
     (if WHD_INTERFACE_MAX L \<le> bsscfgidx ev then s
      else if link_lost_event L ev then set_link_flag L NET_WHD_LINK_DOWN_FLAG s
      else if event_type ev = WLC_E_PSK_SUP L \<and> event_status ev = WLC_SUP_KEYED L \<and> event_reason ev = WLC_E_SUP_OTHER L
      then set_link_flag L NET_WHD_LINK_UP_FLAG s
      else case whd_call (whd_wifi_is_ready_to_transceive L ifp) s of (r, s) \<Rightarrow>
        if r = WHD_SUCCESS L then set_link_flag L NET_WHD_LINK_UP_FLAG s else s)"

abbreviation (input) osFlagsError :: u32 where "osFlagsError \<equiv> 0x80000000"

text \<open>One turn of the endless loop of the link thread, with the interface the thread was created for.\<close>

definition whd_link_turn :: "'l whd_lib \<Rightarrow> nat \<Rightarrow> 'l cy_net \<Rightarrow> 'l cy_net option" where
  "whd_link_turn L netif s =
     (case whd_call (osEventFlagsWait L (LinkStatusFlags (lw_rest (dev s))) (NET_WHD_LINK_UP_FLAG OR NET_WHD_LINK_DOWN_FLAG)) s of
        (flags, s) \<Rightarrow>
          if flags AND osFlagsError \<noteq> 0 then Some s
          else if flags AND NET_WHD_LINK_DOWN_FLAG \<noteq> 0 \<and> n_link_up (lw_at netif s) then netif_set_link_down (cy_lwip L) netif s
          else if flags AND NET_WHD_LINK_UP_FLAG \<noteq> 0 \<and> \<not> n_link_up (lw_at netif s) then netif_set_link_up (cy_lwip L) netif s
          else Some s)"

section \<open>Packets\<close>

text \<open>The types of IEEE 802 in \<open>whd_types.h\<close>.\<close>

abbreviation (input) WHD_ETHERTYPE_IPv4 :: u16 where "WHD_ETHERTYPE_IPv4 \<equiv> 0x0800"
abbreviation (input) WHD_ETHERTYPE_IPv6 :: u16 where "WHD_ETHERTYPE_IPv6 \<equiv> 0x86DD"
abbreviation (input) WHD_ETHERTYPE_ARP :: u16 where "WHD_ETHERTYPE_ARP \<equiv> 0x0806"
abbreviation (input) WHD_ETHERTYPE_8021Q :: u16 where "WHD_ETHERTYPE_8021Q \<equiv> 0x8100"

text \<open>
  The removal of the tag: the twelve bytes of the addresses move up by four, and with them \<open>payload\<close>. Of the two lengths only
  \<open>len\<close> is lowered.
\<close>

definition strip_vlan :: "pbuf \<Rightarrow> pbuf" where
  "strip_vlan b = b\<lparr>pb_payload := take 12 (pb_payload b) @ drop 16 (pb_payload b), pb_len := pb_len b - 4\<rparr>"

text \<open>\<open>pbuf_free\<close> and the assertion on its result.\<close>

definition drop_packet :: "'l whd_lib \<Rightarrow> pbuf \<Rightarrow> 'l cy_net \<Rightarrow> 'l cy_net option" where
  "drop_packet L b s = (case whd_call (pbuf_free L b) s of (result, s) \<Rightarrow> if result \<noteq> 0 then Some s else None)"

definition netif_of_ifp :: "nat option \<Rightarrow> 'l cy_net \<Rightarrow> nat option" where
  "netif_of_ifp ifp s = (let table = netif2ifp (lw_rest (dev s)); i = find_key ifp table
     in if i < length table then ck_value (table ! i) else None)"

text \<open>The function reads a header of 14 bytes, 18 with a tag, whatever the length of the packet.\<close>

definition cy_network_process_ethernet_data ::
  "'l whd_lib \<Rightarrow> nat option \<Rightarrow> pbuf option \<Rightarrow> 'l cy_net \<Rightarrow> 'l cy_net option" where
  "cy_network_process_ethernet_data L ifp buff s =
     (case buff of None \<Rightarrow> Some s
      | Some b \<Rightarrow>
          if length (pb_payload b) < 14 then None
          else
            (let b = (if ethertype (pb_payload b) = WHD_ETHERTYPE_8021Q then strip_vlan b else b)
             in if length (pb_payload b) < 14 then None
                else if ethertype (pb_payload b) \<in> {WHD_ETHERTYPE_IPv4, WHD_ETHERTYPE_IPv6, WHD_ETHERTYPE_ARP}
                then (case netif_of_ifp ifp s of
                    None \<Rightarrow> drop_packet L b s
                  | Some netif \<Rightarrow>
                      (case whd_call (tcpip_input L b netif) s of (r, s) \<Rightarrow>
                         if r \<noteq> ERR_OK then drop_packet L b s else Some s))
                else drop_packet L b s))"

section \<open>Scanning\<close>

definition net_cypress_whd_scan ::
  "netref \<Rightarrow> net_wifi_scan_mode \<Rightarrow> string option \<Rightarrow> 'l cy_net \<Rightarrow> (int, 'l cy_world) res" where
  "net_cypress_whd_scan p mode ssid s = Some (NET_OK, s)"

text \<open>
  A name longer than the 32 bytes of \<open>ssid.value\<close> is written behind it, \<^term>\<open>None\<close>. For a name of 32 bytes the
  terminating zero falls on the first byte of \<open>bssid\<close>, which is written after it.
\<close>

definition cy_bss :: "whd_scan_result \<Rightarrow> net_wifi_scan_result option" where
  "cy_bss ap = (if length (ws_SSID ap) \<le> 32 then Some
     \<lparr>sr_ssid_length = of_nat (length (ws_SSID ap)), sr_ssid = ws_SSID ap @ replicate (32 - length (ws_SSID ap)) 0,
      sr_bssid = take 6 (ws_BSSID ap), sr_security = ws_security ap, sr_channel = ws_channel ap, sr_country = ''.CN'',
      sr_rssi = word_of_int (ws_signal_strength ap)\<rparr> else None)"

fun cy_copy_results :: "nat \<Rightarrow> nat \<Rightarrow> whd_scan_result list \<Rightarrow> net_wifi_scan_result list \<Rightarrow> net_wifi_scan_result list option" where
  "cy_copy_results i 0 aps results = Some results"
| "cy_copy_results i (Suc n) aps results =
     (if i < length aps \<and> i < length results
      then do { b \<leftarrow> cy_bss (aps ! i); cy_copy_results (Suc i) n aps (results[i := b]) } else None)"

definition net_cypress_whd_scan_result ::
  "'l whd_lib \<Rightarrow> 'l cy_world env \<Rightarrow> netref \<Rightarrow> net_wifi_scan_result list \<Rightarrow> u8 \<Rightarrow> 'l cy_net \<Rightarrow>
     (int \<times> net_wifi_scan_result list, 'l cy_world) res" where
  "net_cypress_whd_scan_result L E p scan_bss number s =
     (if number = 0 then Some ((NET_ERROR_PARAMETER, scan_bss), s)
      else case net_malloc E (sizeof_whd_scan_result L * unat number) s of
        (None, s) \<Rightarrow> Some ((NET_ERROR_NO_MEMORY, scan_bss), s)
      | (Some a, s) \<Rightarrow> do {
          ifp \<leftarrow> wifi_ifp p s;
          let ((ap_count, aps), s) = whd_call (whd_wifi_scan_synch L ifp number) s;
          results \<leftarrow> cy_copy_results 0 (unat ap_count) aps scan_bss;
          Some ((int32_of ap_count, results), net_free E a s) })"

section \<open>The driver table\<close>

definition cy_drv :: "'l whd_lib \<Rightarrow> 'l cy_world env \<Rightarrow> drvref \<Rightarrow> 'l cy_net net_if_drv" where
  "cy_drv L E d = link_sockets (cy_lwip L) d (null_drv\<lparr>
     if_init := Some (net_cypress_whd_if_init L E), if_deinit := Some (net_cypress_whd_if_deinit L E),
     if_start := Some (net_cypress_whd_if_start L E), if_stop := Some (net_cypress_whd_if_stop L E),
     if_connect := Some (net_cypress_whd_if_connect L), if_disconnect := Some (net_cypress_whd_if_disconnect L E),
     pping := Some (ping_member (cy_ping L) (sockets_env (cy_lwip L) E)),
     wifi_scan := Some net_cypress_whd_scan, wifi_get_scan_results := Some (net_cypress_whd_scan_result L E),
     wifi_switch_mode := Some (net_cypress_whd_id_switch_mode L E)\<rparr>)"

definition cy_env :: "'l whd_lib \<Rightarrow> 'l cy_world env \<Rightarrow> 'l cy_world env" where
  "cy_env L B = B\<lparr>env_drv := cy_drv L B\<rparr>"

lemma cy_env_sel [simp]:
  "env_drv (cy_env L B) d = cy_drv L B d" "env_notify (cy_env L B) = env_notify B"
  by (simp_all add: cy_env_def)

lemma cy_drv_sel [simp]:
  "if_deinit (cy_drv L B d) = Some (net_cypress_whd_if_deinit L B)" "if_start (cy_drv L B d) = Some (net_cypress_whd_if_start L B)"
  "if_stop (cy_drv L B d) = Some (net_cypress_whd_if_stop L B)" "if_connect (cy_drv L B d) = Some (net_cypress_whd_if_connect L)"
  "if_disconnect (cy_drv L B d) = Some (net_cypress_whd_if_disconnect L B)"
  by (simp_all add: cy_drv_def)

end
