(* ===== verification/Cy_Props.thy ===== *)
theory Cy_Props
  imports Cy_Wifi Lwip_Demo
begin

text \<open>
  The WiFi driver over WHD: what its functions keep of the library and of the driver's own table \<open>netif2ifp\<close>, the
  packets it passes on, and the events of the link.
\<close>

section \<open>Relations the driver keeps\<close>

definition entries :: "'l cy_net \<Rightarrow> net_cypress_key list" where
  "entries s = netif2ifp (lw_rest (dev s))"

lemma whd_call_step:
  assumes "whd_call f s = (r, t)"
  shows "only_dev s t" "entries t = entries s"
  using assms by (auto simp: whd_call_def lw_call_def whd_w_def on_rest_def Let_def entries_def split: prod.splits)

lemma whd_do_step: "only_dev s (whd_do f s)" "entries (whd_do f s) = entries s"
  using whd_call_step [of f s "fst (whd_call f s)" "whd_do f s"] by (simp_all add: whd_do_def)

lemma upd_whd_step: "only_dev s (upd_whd g s)" "entries (upd_whd g s) = netif2ifp (g (lw_rest (dev s)))"
  by (simp_all add: upd_whd_def lw_do_def entries_def)

text \<open>
  What happens without a command of the application: lwIP works on an interface, WHD reports an event or hands over a
  packet, the link thread takes a turn, and the application switches the mode of an interface.
\<close>

inductive cy_callback ::
  "'l whd_lib \<Rightarrow> 'l cy_world env \<Rightarrow> ('l cy_net \<Rightarrow> 'l cy_net \<Rightarrow> bool) \<Rightarrow> netref \<Rightarrow> 'l cy_net \<Rightarrow> 'l cy_net \<Rightarrow> bool"
  for L B Q p s where
    cy_lwip_works: "lw_run B Q n s t \<Longrightarrow> cy_callback L B Q p s t"
  | cy_event: "cy_callback L B Q p s (net_cypress_whd_event_handler L ifp ev s)"
  | cy_link_thread: "whd_link_turn L n s = Some t \<Longrightarrow> cy_callback L B Q p s t"
  | cy_packet: "cy_network_process_ethernet_data L ifp b s = Some t \<Longrightarrow> cy_callback L B Q p s t"
  | cy_switch: "net_cypress_whd_id_switch_mode L B q m s = Some (r, t) \<Longrightarrow> cy_callback L B Q p s t"

text \<open>
  A relation as for the glue that also holds for every step that leaves the table of the driver alone, and for the
  addition of the interface.
\<close>

locale cy_frame = lwip_frame "cy_lwip L" B Q R for L :: "'l whd_lib" and B Q R +
  assumes entries_step: "only_dev s t \<Longrightarrow> entries t = entries s \<Longrightarrow> R s t"
    and add_step: "lw_call (netif_add (cy_lwip L) n p (low_level_init L ifp)) s = (q, t) \<Longrightarrow> R s t"
begin

lemma after_whd:
  "R s t \<Longrightarrow> R s (whd_do f t)" "R s t \<Longrightarrow> whd_call f t = (r, u) \<Longrightarrow> R s u"
  "R s t \<Longrightarrow> (\<And>v. netif2ifp (g v) = netif2ifp v) \<Longrightarrow> R s (upd_whd g t)"
proof -
  show "R s t \<Longrightarrow> R s (whd_do f t)" by (erule trans, rule entries_step) (rule whd_do_step)+
  show "R s t \<Longrightarrow> whd_call f t = (r, u) \<Longrightarrow> R s u"
    by (erule trans, rule entries_step) (erule whd_call_step)+
  show "R s (upd_whd g t)" if "R s t" "\<And>v. netif2ifp (g v) = netif2ifp v"
    using trans [OF that(1) entries_step [OF upd_whd_step(1)], of g] that(2) upd_whd_step(2) [of g t] by (simp add: entries_def)
qed

lemma after_upd_wifi: "upd_wifi p f t = Some u \<Longrightarrow> R s t \<Longrightarrow> R s u"
  by (auto simp: upd_wifi_def bind_Some_iff upd_drv_def [symmetric] intro!: after)

lemma after_watch: "R s t \<Longrightarrow> R s (watch_station L ifp t)"
  by (auto simp: watch_station_def split: prod.splits intro!: after_whd(3) elim: after_whd(2))

lemma after_add: "net_ip_add_if (cy_lwip L) B p (low_level_init L ifp) fl t = Some (r, u) \<Longrightarrow> R s t \<Longrightarrow> R s u"
  using add_if_keeps add_step trans by meson

lemma after_join: "whd_join L ifp cr t = Some (r, u) \<Longrightarrow> R s t \<Longrightarrow> R s u"
  by (auto simp: whd_join_def bind_Some_iff elim: after_whd(2))

lemma after_access_point: "whd_access_point L ifp x cr t = Some (r, u) \<Longrightarrow> R s t \<Longrightarrow> R s u"
proof -
  assume run: "whd_access_point L ifp x cr t = Some (r, u)" and t: "R s t"
  obtain pr ssid where "convert_credential L cr = Some (pr, ssid)"
    using run by (auto simp: whd_access_point_def bind_Some_iff)
  moreover obtain q v where v: "whd_call (whd_wifi_init_ap L ifp ssid pr (cr_psk cr) (x_access_channel x)) t = (q, v)"
    by (metis prod.collapse)
  ultimately show "R s u"
    using run after_whd(2) [OF t v] by (auto simp: whd_access_point_def Let_def split: if_splits option.splits
        elim: after_whd(2) [rotated] intro: after_whd(1))
qed

lemma after_named:
  assumes "driver_sends B p NET_EVENT_INTERFACE_READY
      (upd_netif p f (upd_netif p g (upd_netif p h s))) = Some t" and "netif_set_link_up (cy_lwip L) n t = Some u"
  shows "R s u"
  using assms by (auto elim!: after_lwip [rotated] after_sends intro!: after refl)

lemma after_add_interface: "cy_add_interface L B p t = Some (r, u) \<Longrightarrow> R s t \<Longrightarrow> R s u"
  by (auto simp: cy_add_interface_def bind_Some_iff Let_def split: if_splits
      elim!: after_lwip [rotated] after_sends after_add intro!: after)

lemma cy_start_keeps: "net_cypress_whd_if_start L B p s = Some (r, t) \<Longrightarrow> R s t"
  by (auto simp: net_cypress_whd_if_start_def net_cypress_whd_if_start_sta_def net_cypress_whd_if_start_ap_def bind_Some_iff
      Let_def refl split: if_splits elim!: after_add_interface after_join after_access_point intro: after_watch)

lemma cy_connect_keeps: "net_cypress_whd_if_connect L p s = Some (r, t) \<Longrightarrow> R s t"
  by (auto simp: net_cypress_whd_if_connect_def bind_Some_iff intro: connect_keeps)

lemma cy_disconnect_keeps: "net_cypress_whd_if_disconnect L B p s = Some (r, t) \<Longrightarrow> R s t"
  by (auto simp: net_cypress_whd_if_disconnect_def bind_Some_iff split: if_splits elim!: after_event dest!: disconnect_keeps)

lemma cy_stop_keeps: "net_cypress_whd_if_stop L B p s = Some (r, t) \<Longrightarrow> R s t"
  by (auto simp: net_cypress_whd_if_stop_def bind_Some_iff Let_def split: if_splits
      elim!: after_event dest!: remove_if_keeps intro!: after_whd(1))

lemma cy_switch_keeps: "net_cypress_whd_id_switch_mode L B p m s = Some (r, t) \<Longrightarrow> R s t"
  by (auto simp: net_cypress_whd_id_switch_mode_def switch_to_station_def switch_to_access_point_def bind_Some_iff Let_def refl
      split: if_splits net_wifi_mode.splits option.splits
      elim!: after_join after_access_point after_upd_wifi after_sends after_lwip [rotated] intro!: after_whd(1) after_watch)

lemma event_keeps: "R s (net_cypress_whd_event_handler L ifp ev s)"
  by (auto simp: net_cypress_whd_event_handler_def set_link_flag_def refl split: prod.splits
      intro!: after_whd(1) intro: after_whd(2) [OF refl])

lemma link_turn_keeps: "whd_link_turn L n s = Some t \<Longrightarrow> R s t"
  by (auto simp: whd_link_turn_def split: prod.splits if_splits intro: after_whd(2) [OF refl]
      elim!: after_lwip [rotated])

lemma after_drop: "drop_packet L b t = Some u \<Longrightarrow> R s t \<Longrightarrow> R s u"
  by (auto simp: drop_packet_def split: prod.splits if_splits elim: after_whd(2) [rotated])

lemma packet_keeps: "cy_network_process_ethernet_data L ifp b s = Some t \<Longrightarrow> R s t"
  by (auto simp: cy_network_process_ethernet_data_def Let_def refl split: prod.splits if_splits option.splits
      elim!: after_drop intro: after_whd(2) [OF refl])

lemma callback_keeps: "cy_callback L B Q p s t \<Longrightarrow> R s t"
  by (induction rule: cy_callback.induct)
    (auto intro: run_step event_keeps link_turn_keeps packet_keeps cy_switch_keeps)

end

section \<open>The socket table\<close>

lemma lib_cy_frame: "lwip_contract (cy_lwip L) B \<Longrightarrow> cy_frame L B (\<lambda>_ _. True) lib_frame"
  unfolding cy_frame_def cy_frame_axioms_def
  by (auto intro: lib_lwip_frame lib_frame_only_dev elim: lw_call_frame)

lemma lib_frame_whd: "lib_frame s t \<Longrightarrow> lib_frame s (whd_do f t)" "lib_frame s t \<Longrightarrow> lib_frame s (upd_whd g t)"
  by (erule lib_frame_trans, rule lib_frame_only_dev, simp add: whd_do_step upd_whd_step)+

lemma cy_deinit_frame: "net_cypress_whd_if_deinit L B p s = Some (r, t) \<Longrightarrow> lib_frame s t"
  by (auto simp: net_cypress_whd_if_deinit_def bind_Some_iff Let_def split: if_splits intro!: lib_frame_upds lib_frame_whd)

lemma cy_calls_frame:
  assumes "lwip_contract (cy_lwip L) B" and "f \<in> {if_deinit, if_start, if_stop, if_connect, if_disconnect}"
    and "call_if f (cy_env L B) p s = Some (r, t)"
  shows "lib_frame s t"
proof -
  note frame = lib_cy_frame [OF assms(1)]
  show ?thesis
    using assms(2,3) by (auto simp: call_if_def drv_of_def bind_Some_iff
        dest: cy_frame.cy_start_keeps [OF frame] cy_frame.cy_stop_keeps [OF frame] cy_frame.cy_connect_keeps [OF frame]
          cy_frame.cy_disconnect_keeps [OF frame] cy_deinit_frame)
qed

lemma cy_framed:
  assumes "lwip_contract (cy_lwip L) B"
  shows "framed_driver (cy_env L B) (cy_callback L B (\<lambda>_ _. True))"
proof -
  have "socket_driver (cy_env L B)"
    by (rule linked_socket_driver [of _ "cy_lwip L"]) (auto simp: cy_drv_def)
  then show ?thesis
    unfolding framed_driver_def framed_driver_axioms_def
    using cy_calls_frame [OF assms] cy_frame.callback_keeps [OF lib_cy_frame [OF assms]] by blast
qed

text \<open>
  C20. With the Cypress driver over WHD and lwIP and no assumption on WHD, any interleaving of the commands start, stop,
  connect and disconnect, of events, socket calls without TLS, events and packets of WHD, turns of the link thread, mode switches and calls lwIP makes by itself
  ends with no lock held and the socket table well formed.
\<close>

theorem cy_history_keeps_table:
  assumes "lwip_contract (cy_lwip L) B" and "mbedtls_contract (cy_env L B)"
    and "lib_history (cy_env L B) (cy_callback L B (\<lambda>_ _. True)) plain_step s t" and "table_plain s"
  shows "table_plain t"
  by (rule framed_driver.history_keeps_table [OF cy_framed [OF assms(1)] assms(2-4)])

section \<open>The table of interfaces\<close>

text \<open>No entry is taken away or changed; free entries may be filled.\<close>

definition keeps_entries :: "'l cy_net \<Rightarrow> 'l cy_net \<Rightarrow> bool" where
  "keeps_entries s t \<longleftrightarrow> length (entries t) = length (entries s)
     \<and> (\<forall>i < length (entries s). ck_key (entries s ! i) \<noteq> None \<longrightarrow> entries t ! i = entries s ! i)"

text \<open>
  The table is static in its file: no function outside the file reaches it but through the functions of the driver it
  is given.
\<close>

definition cy_private :: "'l whd_lib \<Rightarrow> 'l cy_world env \<Rightarrow> bool" where
  "cy_private L B \<longleftrightarrow> keeps_part netif2ifp (cy_lwip L) B \<and> add_runs_init netif2ifp (cy_lwip L)"

lemma find_key_le [simp]: "find_key k es \<le> length es"
  by (induction es) auto

lemma find_key_found: "find_key k es < length es \<Longrightarrow> ck_key (es ! find_key k es) = k"
  by (induction es) auto

lemma find_key_before: "j < find_key k es \<Longrightarrow> ck_key (es ! j) \<noteq> k"
  by (induction es arbitrary: j) (auto simp: nth_Cons' split: if_splits)

lemma find_key_first:
  "i < length es \<Longrightarrow> ck_key (es ! i) = k \<Longrightarrow> (\<And>j. j < i \<Longrightarrow> ck_key (es ! j) \<noteq> k) \<Longrightarrow> find_key k es = i"
  by (metis find_key_before find_key_found le_less_trans linorder_neqE_nat order_le_imp_less_or_eq find_key_le)

lemma keeps_entries_trans: "keeps_entries s t \<Longrightarrow> keeps_entries t u \<Longrightarrow> keeps_entries s u"
  by (auto simp: keeps_entries_def)

lemma same_keeps_entries: "entries t = entries s \<Longrightarrow> keeps_entries s t"
  by (simp add: keeps_entries_def)

lemma low_level_init_entries:
  assumes "\<And>n w. netif2ifp (lw_rest (netif_register_callbacks (cy_lwip L) n w)) = netif2ifp (lw_rest w)"
    and "low_level_init L ifp n w = (r, w')"
  shows "netif2ifp (lw_rest w') = (netif2ifp (lw_rest w))[find_key None (netif2ifp (lw_rest w)) := \<lparr>ck_key = ifp, ck_value = Some n\<rparr>]"
    and "r = ERR_OK \<Longrightarrow> find_key None (netif2ifp (lw_rest w)) < length (netif2ifp (lw_rest w))"
  using assms(2) by (auto simp: low_level_init_def Let_def whd_w_def on_rest_def upd_lw_def assms(1)
      split: prod.splits if_splits)

lemma add_entries:
  assumes "cy_private L B" and "lw_call (netif_add (cy_lwip L) n p (low_level_init L ifp)) s = (q, t)"
  shows "entries t = (entries s)[find_key None (entries s) := \<lparr>ck_key = ifp, ck_value = Some n\<rparr>]"
    and "q \<noteq> None \<Longrightarrow> find_key None (entries s) < length (entries s)"
proof -
  obtain w1 w2 w3 r where w: "netif2ifp (lw_rest w1) = entries s" "low_level_init L ifp n w1 = (r, w2)"
      "netif2ifp (lw_rest w3) = netif2ifp (lw_rest w2)"
      "netif_add (cy_lwip L) n p (low_level_init L ifp) (dev s) = (if r = ERR_OK then Some n else None, w3)"
    using assms(1) unfolding cy_private_def add_runs_init_def entries_def by metis
  have "\<And>n w. netif2ifp (lw_rest (netif_register_callbacks (cy_lwip L) n w)) = netif2ifp (lw_rest w)"
    using assms(1) by (simp add: cy_private_def keeps_part_def)
  note init = low_level_init_entries [OF this w(2)]
  show "entries t = (entries s)[find_key None (entries s) := \<lparr>ck_key = ifp, ck_value = Some n\<rparr>]"
    using assms(2) init(1) w by (auto simp: lw_call_def Let_def entries_def)
  show "q \<noteq> None \<Longrightarrow> find_key None (entries s) < length (entries s)"
    using assms(2) init(2) w by (auto simp: lw_call_def Let_def split: if_splits)
qed

lemma fill_keeps_entries: "entries t = (entries s)[find_key None (entries s) := e] \<Longrightarrow> keeps_entries s t"
  unfolding keeps_entries_def by (metis find_key_found length_list_update nth_list_update_neq)

lemma keeps_entries_eq:
  "keeps_entries = (\<lambda>s t. (\<lambda>es es'. length es' = length es \<and> (\<forall>i < length es. ck_key (es ! i) \<noteq> None \<longrightarrow> es' ! i = es ! i))
     (netif2ifp (lw_rest (dev s))) (netif2ifp (lw_rest (dev t))))"
  by (intro ext) (simp add: keeps_entries_def entries_def)

lemma table_cy_frame:
  assumes "cy_private L B"
  shows "cy_frame L B (same_part netif2ifp) keeps_entries"
proof -
  have "keeps_part netif2ifp (cy_lwip L) B" using assms by (simp add: cy_private_def)
  then have "lwip_frame (cy_lwip L) B (same_part netif2ifp) keeps_entries"
    unfolding keeps_entries_eq by (rule part_lwip_frame) auto
  then show ?thesis
    unfolding cy_frame_def cy_frame_axioms_def
    using add_entries(1) [OF assms] fill_keeps_entries same_keeps_entries by blast
qed

text \<open>The commands start, stop, connect and disconnect of the interfaces and every event; no socket calls.\<close>

fun lasting :: "library_step \<Rightarrow> bool" where
  "lasting (Step_event q e) = (e \<noteq> NET_EVENT_CMD_DEINIT)"
| "lasting (Step_call c) = False"

lemma command_keeps_entries:
  assumes "cy_private L B" and "lasting x" and "run_step (cy_env L B) x s = Some (r, t)"
  shows "keeps_entries s t"
proof -
  note frame = table_cy_frame [OF assms(1)]
  obtain q e where x: "x = Step_event q e" "e \<noteq> NET_EVENT_CMD_DEINIT" using assms(2) by (cases x) auto
  have "net_state_manage_event (cy_env L B) (Some q) e s = Some (r, t)" using assms(3) x by simp
  then show ?thesis
  proof (rule lwip_frame.command_keeps [OF cy_frame.axioms(1) [OF frame]])
    fix f s r t
    assume "f \<in> {if_stop, if_connect, if_disconnect} \<or> f = if_start \<and> e = NET_EVENT_CMD_START
        \<or> f = if_deinit \<and> e = NET_EVENT_CMD_DEINIT"
      and "call_if f (cy_env L B) q s = Some (r, t)"
    then show "keeps_entries s t"
      using x(2) by (auto simp: call_if_def drv_of_def bind_Some_iff
          dest: cy_frame.cy_start_keeps [OF frame] cy_frame.cy_stop_keeps [OF frame] cy_frame.cy_connect_keeps [OF frame]
            cy_frame.cy_disconnect_keeps [OF frame])
  qed simp
qed

lemma history_keeps_entries:
  assumes "cy_private L B" and "lib_history (cy_env L B) (cy_callback L B (same_part netif2ifp)) lasting s t"
  shows "keeps_entries s t"
  using assms(2)
proof (induction rule: lib_history.induct)
  case history_start
  then show ?case by (simp add: same_keeps_entries)
next
  case (history_step t x r u)
  then show ?case using command_keeps_entries [OF assms(1)] keeps_entries_trans by blast
next
  case (history_callback t p u)
  then show ?case using cy_frame.callback_keeps [OF table_cy_frame [OF assms(1)]] keeps_entries_trans by blast
qed

lemma keeps_entries_find:
  assumes "keeps_entries s t" and "find_key (Some k) (entries s) < find_key None (entries s)"
  shows "find_key (Some k) (entries t) = find_key (Some k) (entries s)"
proof (rule find_key_first)
  let ?i = "find_key (Some k) (entries s)"
  have i: "?i < length (entries s)" using assms(2) find_key_le [of None "entries s"] by linarith
  have same: "entries t ! j = entries s ! j" if "j \<le> ?i" for j
    using assms that i find_key_before [of j None "entries s"] by (simp add: keeps_entries_def)
  show "?i < length (entries t)" using assms(1) i by (simp add: keeps_entries_def)
  show "ck_key (entries t ! ?i) = Some k" using same [of ?i] find_key_found [OF i] by simp
  show "ck_key (entries t ! j) \<noteq> Some k" if "j < ?i" for j
    using same [of j] that find_key_before [OF that] by simp
qed

text \<open>A packet given to lwIP, and dropped if it is refused.\<close>

definition hand_to_lwip :: "'l whd_lib \<Rightarrow> pbuf \<Rightarrow> nat \<Rightarrow> 'l cy_net \<Rightarrow> 'l cy_net option" where
  "hand_to_lwip L b n s =
    (case whd_call (tcpip_input L b n) s of (r, u) \<Rightarrow> if r = ERR_OK then Some u else drop_packet L b u)"

text \<open>
  C15. Through any sequence of start, stop, connect and disconnect commands, driver events, events and packets of WHD,
  turns of the link thread, mode switches and calls of lwIP (no socket calls, no \<open>net_if_init\<close> and no \<open>net_if_deinit\<close>), a
  packet of IPv4, IPv6 or ARP for a WHD interface is handed to the lwIP object of the first entry the interface had in the
  table: a stop leaves the entry, and the entry of a further start is never found. (No entry is free before the one found,
  which is the case from the boot of the module to the first \<open>net_if_deinit\<close>.)
\<close>

theorem cy_packets_go_to_first_object:
  assumes "cy_private L B" and "lib_history (cy_env L B) (cy_callback L B (same_part netif2ifp)) lasting s t"
    and "netif_of_ifp (Some k) s = Some n" and "find_key (Some k) (netif2ifp (lw_rest (dev s))) < find_key None (netif2ifp (lw_rest (dev s)))"
    and "14 \<le> length (pb_payload b)"
    and "ethertype (pb_payload b) \<in> {WHD_ETHERTYPE_IPv4, WHD_ETHERTYPE_IPv6, WHD_ETHERTYPE_ARP}"
  shows "cy_network_process_ethernet_data L (Some k) (Some b) t = hand_to_lwip L b n t"
proof -
  have keeps: "keeps_entries s t" by (rule history_keeps_entries [OF assms(1,2)])
  have first: "find_key (Some k) (entries s) < find_key None (entries s)" using assms(4) by (simp add: entries_def)
  let ?i = "find_key (Some k) (entries s)"
  have i: "?i < length (entries s)" using first find_key_le [of None "entries s"] by linarith
  then have "entries t ! ?i = entries s ! ?i" "length (entries t) = length (entries s)"
    using keeps find_key_found [OF i] by (simp_all add: keeps_entries_def)
  then have "netif_of_ifp (Some k) t = Some n"
    using assms(3) i keeps_entries_find [OF keeps first] by (simp add: netif_of_ifp_def Let_def entries_def)
  then show ?thesis
    using assms(5,6) by (auto simp: cy_network_process_ethernet_data_def hand_to_lwip_def Let_def split: prod.splits)
qed

definition free_entries :: "'l cy_net \<Rightarrow> nat" where
  "free_entries s = length (filter (\<lambda>e. ck_key e = None) (netif2ifp (lw_rest (dev s))))"

lemma free_entries_fill:
  assumes "find_key None es < length es" and "k \<noteq> None"
  shows "length (filter (\<lambda>e. ck_key e = None) es) =
    Suc (length (filter (\<lambda>e. ck_key e = None) (es[find_key None es := \<lparr>ck_key = k, ck_value = v\<rparr>])))"
  using assms by (induction es) (auto split: if_splits)

lemma free_entries_keeps: "keeps_entries s t \<Longrightarrow> free_entries t \<le> free_entries s"
proof -
  assume keeps: "keeps_entries s t"
  have "{i. i < length (entries t) \<and> ck_key (entries t ! i) = None} \<subseteq> {i. i < length (entries s) \<and> ck_key (entries s ! i) = None}"
    using keeps unfolding keeps_entries_def by auto
  then have "card {i. i < length (entries t) \<and> ck_key (entries t ! i) = None}
    \<le> card {i. i < length (entries s) \<and> ck_key (entries s ! i) = None}"
    by (intro card_mono) simp_all
  then show ?thesis by (simp add: free_entries_def length_filter_conv_card entries_def)
qed

lemma cy_add_if_takes:
  assumes "cy_private L B" and "net_ip_add_if (cy_lwip L) B p (low_level_init L ifp) fl s = Some (NET_OK, t)"
  shows "find_key None (entries s) < length (entries s)"
    and "\<exists>n. entries t = (entries s)[find_key None (entries s) := \<lparr>ck_key = ifp, ck_value = Some n\<rparr>]"
proof -
  have view: "\<And>q w. netif2ifp (lw_rest (netif_set_default (cy_lwip L) q w)) = netif2ifp (lw_rest w)"
    "\<And>k w. netif2ifp (lw_rest (snd (env_malloc B k w))) = netif2ifp (lw_rest w)"
    using assms(1) by (simp_all add: cy_private_def keeps_part_def)
  obtain n s1 where s1: "net_malloc B (sizeof_netif (cy_lwip L)) s = (Some n, s1)"
    using assms(2) by (auto simp: net_ip_add_if_def split: prod.splits option.splits)
  let ?s = "upd_netif p (\<lambda>h. h\<lparr>h_netif := Some n\<rparr>) (lw_do (upd_lw n (\<lambda>_. zero_netif)) s1)"
  obtain q s2 where s2: "lw_call (netif_add (cy_lwip L) n p (low_level_init L ifp)) ?s = (q, s2)" by (metis prod.collapse)
  have start: "entries ?s = entries s"
    using s1 view(2) [of "sizeof_netif (cy_lwip L)" "dev s"] by (auto simp: entries_def lw_do_def upd_lw_def net_malloc_def Let_def split: prod.splits)
  have q: "q \<noteq> None" and t: "entries t = entries s2"
    using assms(2) s1 s2 view(1) by (auto simp: net_ip_add_if_def Let_def bind_Some_iff entries_def lw_do_def link_socket_to_lwip_def
        split: if_splits)
  show "find_key None (entries s) < length (entries s)"
    "\<exists>n. entries t = (entries s)[find_key None (entries s) := \<lparr>ck_key = ifp, ck_value = Some n\<rparr>]"
    using add_entries [OF assms(1) s2] start t q by auto
qed

lemma cy_add_if_entries:
  assumes "cy_private L B" and "net_ip_add_if (cy_lwip L) B p (low_level_init L ifp) fl s = Some (NET_OK, t)" and "ifp \<noteq> None"
  shows "free_entries t < free_entries s"
proof -
  obtain n where "entries t = (entries s)[find_key None (entries s) := \<lparr>ck_key = ifp, ck_value = Some n\<rparr>]"
    using cy_add_if_takes(2) [OF assms(1,2)] by blast
  then show ?thesis
    using free_entries_fill [OF cy_add_if_takes(1) [OF assms(1,2)] assms(3), of "Some n"] by (simp add: free_entries_def entries_def)
qed

lemma whd_call_ifp: "whd_call f s = (r, t) \<Longrightarrow> wifi_ifp p t = wifi_ifp p s"
  by (auto simp: whd_call_def lw_call_def whd_w_def on_rest_def Let_def wifi_ifp_def split: prod.splits)

lemma whd_call_view: "whd_call f s = (r, t) \<Longrightarrow> entries t = entries s \<and> wifi_ifp p t = wifi_ifp p s"
  using whd_call_step(2) whd_call_ifp by (intro conjI)

lemma upd_index_ifp: "wifi_ifp p (upd_whd (\<lambda>v. v\<lparr>EventIndex := i\<rparr>) s) = wifi_ifp p s"
  by (simp add: upd_whd_def lw_do_def wifi_ifp_def)

lemma whd_do_ifp: "wifi_ifp p (whd_do f s) = wifi_ifp p s"
  using whd_call_ifp [of f s "fst (whd_call f s)" "whd_do f s" p] by (simp add: whd_do_def)

lemma watch_station_view: "entries (watch_station L ifp s) = entries s" "wifi_ifp p (watch_station L ifp s) = wifi_ifp p s"
  by (auto simp: watch_station_def upd_index_ifp upd_whd_step(2) split: prod.splits dest: whd_call_step(2) whd_call_ifp)
    (auto simp: entries_def dest!: whd_call_step(2))

lemma whd_join_view: "whd_join L ifp cr s = Some (r, t) \<Longrightarrow> entries t = entries s \<and> wifi_ifp p t = wifi_ifp p s"
  by (auto simp: whd_join_def bind_Some_iff dest: whd_call_step(2) whd_call_ifp)

lemma whd_access_point_view:
  assumes "whd_access_point L ifp x cr s = Some (r, t)"
  shows "entries t = entries s \<and> wifi_ifp p t = wifi_ifp p s"
proof -
  obtain pr ssid where cr: "convert_credential L cr = Some (pr, ssid)"
    using assms by (auto simp: whd_access_point_def bind_Some_iff)
  obtain q v where v: "whd_call (whd_wifi_init_ap L ifp ssid pr (cr_psk cr) (x_access_channel x)) s = (q, v)"
    by (metis prod.collapse)
  have "entries v = entries s" "wifi_ifp p v = wifi_ifp p s" by (rule whd_call_step(2) [OF v], rule whd_call_ifp [OF v])
  then show ?thesis
    using assms cr v by (auto simp: whd_access_point_def Let_def whd_do_step whd_do_ifp split: if_splits option.splits
        dest!: whd_call_view [where p = p])
qed

lemma cy_start_adds:
  assumes "net_cypress_whd_if_start L B p s = Some (NET_OK, t)"
  shows "\<exists>u. cy_add_interface L B p u = Some (NET_OK, t) \<and> entries u = entries s \<and> wifi_ifp p u = wifi_ifp p s"
proof -
  obtain x where x: "wifi_of p s = Some x" using assms by (auto simp: net_cypress_whd_if_start_def bind_Some_iff)
  show ?thesis
  proof (cases "x_mode x")
    case NET_WIFI_MODE_STA
    then have "net_cypress_whd_if_start_sta L B p s = Some (NET_OK, t)"
      using assms x by (simp add: net_cypress_whd_if_start_def)
    then obtain ifp cr u where u: "whd_join L ifp cr (watch_station L ifp s) = Some (0, u)" "cy_add_interface L B p u = Some (NET_OK, t)"
      by (auto simp: net_cypress_whd_if_start_sta_def bind_Some_iff Let_def split: if_splits)
    show ?thesis
      by (rule exI [of _ u]) (use u(2) whd_join_view [OF u(1), of p] in \<open>simp add: watch_station_view\<close>)
  next
    case NET_WIFI_MODE_AP
    then have "net_cypress_whd_if_start_ap L B p s = Some (NET_OK, t)"
      using assms x by (simp add: net_cypress_whd_if_start_def)
    then obtain ifp cr u where u: "whd_access_point L ifp x cr s = Some (0, u)" "cy_add_interface L B p u = Some (NET_OK, t)"
      by (auto simp: net_cypress_whd_if_start_ap_def x bind_Some_iff split: if_splits)
    show ?thesis
      by (rule exI [of _ u]) (use u(2) whd_access_point_view [OF u(1), of p] in simp)
  qed
qed

abbreviation cy_rest :: "'l cy_net \<Rightarrow> 'l" where
  "cy_rest s \<equiv> w_rest (lw_rest (dev s))"

lemma whd_call_rest: "whd_call f s = (fst (f (cy_rest s)), whd_do f s)" "cy_rest (whd_do f s) = snd (f (cy_rest s))"
  by (simp_all add: whd_do_def whd_call_def lw_call_def whd_w_def on_rest_def Let_def split_def)

text \<open>A start succeeds while an entry is free, if the allocator, WHD and lwIP do what they are asked, and not after that.\<close>

definition cy_willing :: "'l whd_lib \<Rightarrow> 'l cy_world env \<Rightarrow> bool" where
  "cy_willing L B \<longleftrightarrow> cy_private L B \<and> (\<forall>k s. fst (net_malloc B k s) \<noteq> None)
     \<and> (\<forall>i n pr k y. fst (whd_wifi_join L i n pr k y) = 0)
     \<and> (\<forall>i m y. fst (fst (whd_wifi_get_mac_address L i m y)) = WHD_SUCCESS L)
     \<and> (\<forall>n s. netif_set_link_up (cy_lwip L) n s \<noteq> None)"

lemma low_level_init_ok:
  assumes "\<And>i m y. fst (fst (whd_wifi_get_mac_address L i m y)) = WHD_SUCCESS L"
    and "find_key None (netif2ifp (lw_rest w)) < length (netif2ifp (lw_rest w))"
  shows "fst (low_level_init L ifp n w) = ERR_OK"
proof -
  have "fst (fst (whd_w (whd_wifi_get_mac_address L ifp a) y)) = WHD_SUCCESS L" for a y
    using assms(1) by (simp add: whd_w_def on_rest_def Let_def split_def)
  then show ?thesis
    using assms(2) by (simp add: low_level_init_def Let_def split_def)
qed

lemma cy_add_succeeds:
  assumes "cy_willing L B" and "find_key None (entries s) < length (entries s)" and "h_pdrv (Netifs s p) = Some d"
  shows "\<exists>t. net_ip_add_if (cy_lwip L) B p (low_level_init L ifp) fl s = Some (NET_OK, t) \<and> h_netif (Netifs t p) \<noteq> None"
proof -
  have priv: "cy_private L B" and mac: "\<And>i m y. fst (fst (whd_wifi_get_mac_address L i m y)) = WHD_SUCCESS L"
    using assms(1) by (auto simp: cy_willing_def)
  obtain n s1 where s1: "net_malloc B (sizeof_netif (cy_lwip L)) s = (Some n, s1)"
    using assms(1) unfolding cy_willing_def by (metis not_None_eq prod.collapse)
  let ?s = "upd_netif p (\<lambda>h. h\<lparr>h_netif := Some n\<rparr>) (lw_do (upd_lw n (\<lambda>_. zero_netif)) s1)"
  obtain q s2 where s2: "lw_call (netif_add (cy_lwip L) n p (low_level_init L ifp)) ?s = (q, s2)" by (metis prod.collapse)
  have "netif2ifp (lw_rest (snd (env_malloc B k w))) = netif2ifp (lw_rest w)" for k w
    using priv by (simp add: cy_private_def keeps_part_def)
  from this [of "sizeof_netif (cy_lwip L)" "dev s"] have entries: "entries ?s = entries s" "h_pdrv (Netifs s1 p) = Some d"
    using s1 assms(3) by (auto simp: entries_def lw_do_def upd_lw_def net_malloc_def Let_def split: prod.splits)
  obtain w1 w2 w3 r where w: "netif2ifp (lw_rest w1) = entries ?s" "low_level_init L ifp n w1 = (r, w2)"
      "netif_add (cy_lwip L) n p (low_level_init L ifp) (dev ?s) = (if r = ERR_OK then Some n else None, w3)"
    using priv unfolding cy_private_def add_runs_init_def entries_def by metis
  have "r = ERR_OK" using low_level_init_ok [OF mac, of w1 ifp n] w(1,2) entries(1) assms(2) by simp
  then have q: "q = Some n" "Netifs s2 = Netifs ?s" using s2 w(3) by (auto simp: lw_call_def)
  then show ?thesis
    using s1 s2 entries(2) by (auto simp: net_ip_add_if_def Let_def lw_do_def link_socket_to_lwip_def)
qed

lemma cy_start_succeeds:
  assumes "cy_willing L B" and "find_key None (entries s) < length (entries s)" and "wifi_of p s = Some x"
    and "x_mode x = NET_WIFI_MODE_STA" and "x_credentials x = Some cr" and "length (cr_ssid cr) < sizeof_ssid_value L"
  shows "\<exists>t. net_cypress_whd_if_start L B p s = Some (NET_OK, t)"
proof -
  obtain d where d: "h_pdrv (Netifs s p) = Some d" "wifi_ifp p s = Some (ext_ifp (lw_rest (dev s)) d)"
    using assms(3) by (auto simp: wifi_of_def wifi_ifp_def bind_Some_iff)
  let ?ifp = "ext_ifp (lw_rest (dev s)) d" and ?s1 = "watch_station L (ext_ifp (lw_rest (dev s)) d) s"
  obtain r s2 where join: "whd_call (whd_wifi_join L ?ifp (cr_ssid cr) (cr_security_mode cr) (cr_psk cr)) ?s1 = (r, s2)"
    by (metis prod.collapse)
  have r: "whd_join L ?ifp cr ?s1 = Some (0, s2)"
    using join assms(1,6) whd_call_rest(1) [of "whd_wifi_join L ?ifp (cr_ssid cr) (cr_security_mode cr) (cr_psk cr)" ?s1]
    by (auto simp: whd_join_def convert_credential_def cy_willing_def)
  have view: "entries s2 = entries s" "wifi_ifp p s2 = Some ?ifp"
    using whd_join_view [OF r, of p] d by (simp_all add: watch_station_view)
  then obtain e where e: "h_pdrv (Netifs s2 p) = Some e" by (auto simp: wifi_ifp_def bind_Some_iff)
  obtain s3 where s3: "net_ip_add_if (cy_lwip L) B p (low_level_init L ?ifp) NET_ETHERNET_FLAG_DEFAULT_IF s2 = Some (NET_OK, s3)"
      "h_netif (Netifs s3 p) \<noteq> None"
    using cy_add_succeeds [OF assms(1) _ e] assms(2) view(1) by metis
  let ?s4 = "upd_netif p (\<lambda>h. h\<lparr>h_DeviceVer := ''Unknown''\<rparr>) (upd_netif p (\<lambda>h. h\<lparr>h_DeviceID := ''Unknown''\<rparr>)
    (upd_netif p (\<lambda>h. h\<lparr>h_DeviceName := ''Wlan WHD murata 1LD''\<rparr>) s3))"
  obtain s5 where s5: "driver_sends B p NET_EVENT_INTERFACE_READY ?s4 = Some s5" "h_netif (Netifs s5 p) \<noteq> None"
    using sends_outcome [of NET_EVENT_INTERFACE_READY B p ?s4] s3(2) by auto
  then obtain n s6 where "h_netif (Netifs s5 p) = Some n" "netif_set_link_up (cy_lwip L) n s5 = Some s6"
    using assms(1) unfolding cy_willing_def by (metis not_None_eq)
  then have "cy_add_interface L B p s2 = Some (NET_OK, s6)"
    using view(2) s3(1) s5(1) by (simp add: cy_add_interface_def Let_def)
  then have "net_cypress_whd_if_start_sta L B p s = Some (NET_OK, s6)"
    using assms(3,5) d(2) r by (simp add: net_cypress_whd_if_start_sta_def Let_def)
  then show ?thesis using assms(3,4) by (simp add: net_cypress_whd_if_start_def)
qed

lemma cy_start_when_full:
  assumes "cy_willing L B" and "find_key None (entries s) = length (entries s)"
  shows "net_cypress_whd_if_start L B p s \<noteq> Some (NET_OK, t)"
proof
  assume "net_cypress_whd_if_start L B p s = Some (NET_OK, t)"
  then obtain u ifp v where u: "cy_add_interface L B p u = Some (NET_OK, t)" "entries u = entries s" "wifi_ifp p u = Some ifp"
      and v: "net_ip_add_if (cy_lwip L) B p (low_level_init L ifp) NET_ETHERNET_FLAG_DEFAULT_IF u = Some (NET_OK, v)"
    using cy_start_adds [of L B p s t] by (fastforce simp: cy_add_interface_def bind_Some_iff split: if_splits)
  have "find_key None (entries u) < length (entries u)"
    using cy_add_if_takes [OF _ v] assms(1) by (simp add: cy_willing_def)
  then show False using assms(2) u(2) by simp
qed

text \<open>
  C16. Every start of a Cypress interface that succeeds takes an entry of the table, and none of the commands start, stop,
  connect and disconnect, no event and no callback before it has given one back. (The history has no socket calls and no
  \<open>net_if_init\<close> or \<open>net_if_deinit\<close>: the latter frees one entry, and the former clears the table when it boots the module.)
\<close>

theorem cy_start_takes_entry:
  assumes "cy_private L B" and "lib_history (cy_env L B) (cy_callback L B (same_part netif2ifp)) lasting s t"
    and "net_cypress_whd_if_start L B p t = Some (NET_OK, u)" and "wifi_ifp p t = Some (Some k)"
  shows "free_entries u < free_entries s"
proof -
  note frame = table_cy_frame [OF assms(1)]
  obtain v where v: "cy_add_interface L B p v = Some (NET_OK, u)" "entries v = entries t" "wifi_ifp p v = wifi_ifp p t"
    using cy_start_adds [OF assms(3)] by blast
  then obtain w where w: "net_ip_add_if (cy_lwip L) B p (low_level_init L (Some k)) NET_ETHERNET_FLAG_DEFAULT_IF v = Some (NET_OK, w)"
      "keeps_entries w u"
    using assms(4) cy_frame.after_named [OF frame] by (fastforce simp: cy_add_interface_def bind_Some_iff split: if_splits)
  have "free_entries u < free_entries v"
    using free_entries_keeps [OF w(2)] cy_add_if_entries [OF assms(1) w(1)] by simp
  then show ?thesis
    using free_entries_keeps [OF same_keeps_entries [OF v(2)]] free_entries_keeps [OF history_keeps_entries [OF assms(1,2)]] by simp
qed

text \<open>A name of 32 characters, the longest a network can have, does not fit with its terminating zero: no start returns.\<close>

lemma cy_start_long_ssid:
  assumes "sizeof_ssid_value L \<le> length (cr_ssid cr)" and "wifi_of p s = Some x" and "x_credentials x = Some cr"
  shows "net_cypress_whd_if_start L B p s = None"
  using assms by (auto simp: net_cypress_whd_if_start_def net_cypress_whd_if_start_sta_def net_cypress_whd_if_start_ap_def
      whd_join_def whd_access_point_def convert_credential_def Let_def)

section \<open>Packets with a tag\<close>

text \<open>
  C18. The removal of a VLAN tag leaves \<open>tot_len\<close> alone: a tagged frame of IPv4, IPv6 or ARP in one buffer is handed to the same
  lwIP object as the same frame without its tag, with the same payload and \<open>len\<close>, but with a \<open>tot_len\<close> that is 4 too large,
  which makes it look like the begin of a chain.
\<close>

theorem cy_tag_stays_in_total_length:
  assumes "length addrs = 12" and "2 \<le> length rest"
    and "ethertype (addrs @ rest) \<in> {WHD_ETHERTYPE_IPv4, WHD_ETHERTYPE_IPv6, WHD_ETHERTYPE_ARP}"
    and "netif_of_ifp ifp s = Some n"
    and "pb_payload buf = addrs @ rest" and "pb_tot_len buf = pb_len buf" and "pb_next buf = None"
  shows "cy_network_process_ethernet_data L ifp (Some buf) s = hand_to_lwip L buf n s \<and> \<not> pb_chained buf
    \<and> cy_network_process_ethernet_data L ifp (Some (buf\<lparr>pb_payload := addrs @ [0x81, 0x00, t1, t2] @ rest,
          pb_len := pb_len buf + 4, pb_tot_len := pb_len buf + 4\<rparr>)) s
      = hand_to_lwip L (buf\<lparr>pb_tot_len := pb_tot_len buf + 4\<rparr>) n s
    \<and> pb_chained (buf\<lparr>pb_tot_len := pb_tot_len buf + 4\<rparr>)"
proof -
  let ?tagged = "buf\<lparr>pb_payload := addrs @ [0x81, 0x00, t1, t2] @ rest, pb_len := pb_len buf + 4, pb_tot_len := pb_len buf + 4\<rparr>"
  have tag: "ethertype (pb_payload ?tagged) = WHD_ETHERTYPE_8021Q"
    by (simp add: ethertype_def assms(1) nth_append)
  have strip: "strip_vlan ?tagged = buf\<lparr>pb_tot_len := pb_tot_len buf + 4\<rparr>"
    using assms(1,5,6) by (cases buf) (simp add: strip_vlan_def)
  have "cy_network_process_ethernet_data L ifp (Some buf) s = hand_to_lwip L buf n s"
    using assms(1-5) by (auto simp: cy_network_process_ethernet_data_def hand_to_lwip_def Let_def split: prod.splits)
  moreover have "cy_network_process_ethernet_data L ifp (Some ?tagged) s
      = hand_to_lwip L (buf\<lparr>pb_tot_len := pb_tot_len buf + 4\<rparr>) n s"
    unfolding cy_network_process_ethernet_data_def option.case Let_def if_P [OF tag] strip
    using assms(1-5) by (auto simp: hand_to_lwip_def split: prod.splits)
  ultimately show ?thesis using assms(6,7) by (simp add: pb_chained_def)
qed

section \<open>Events of the link\<close>

text \<open>
  What CMSIS-RTOS documents of event flags: \<open>osEventFlagsSet\<close> adds flags; \<open>osEventFlagsWait\<close>, when one of its flags is
  set, returns the flags and clears those it waited for; the highest bit is no flag. \<open>pending\<close> are the flags set.
\<close>

definition event_flags :: "'l whd_lib \<Rightarrow> ('l \<Rightarrow> u32) \<Rightarrow> bool" where
  "event_flags L pending \<longleftrightarrow> (\<forall>o' f y. f AND osFlagsError = 0 \<longrightarrow> pending (snd (osEventFlagsSet L o' f y)) = pending y OR f)
     \<and> (\<forall>o' m y. pending y AND m \<noteq> 0 \<longrightarrow> fst (osEventFlagsWait L o' m y) = pending y
          \<and> pending (snd (osEventFlagsWait L o' m y)) = pending y AND NOT m)
     \<and> (\<forall>y. pending y AND osFlagsError = 0)"

definition link_back_event :: "'l whd_lib \<Rightarrow> whd_event_header \<Rightarrow> bool" where
  "link_back_event L ev \<longleftrightarrow> \<not> link_lost_event L ev \<and> event_type ev = WLC_E_PSK_SUP L
     \<and> event_status ev = WLC_SUP_KEYED L \<and> event_reason ev = WLC_E_SUP_OTHER L"

lemma lw_at_whd [simp]: "lw_at n (whd_do f s) = lw_at n s"
  by (simp add: whd_do_def whd_call_def lw_call_def whd_w_def on_rest_def Let_def split_def lw_at_def)

lemma set_link_flag_rest:
  "event_flags L pending \<Longrightarrow> f AND osFlagsError = 0 \<Longrightarrow> pending (cy_rest (set_link_flag L f s)) = pending (cy_rest s) OR f"
  "lw_at n (set_link_flag L f s) = lw_at n s"
  by (simp_all add: set_link_flag_def whd_call_rest event_flags_def)

lemma both_flags:
  fixes p :: u32
  shows "(p OR 3) AND 3 \<noteq> 0" "(p OR 3) AND 1 \<noteq> 0" "p AND 0x80000000 = 0 \<Longrightarrow> (p OR 3) AND 0x80000000 = 0"
    "((p OR 3) AND - 4) AND 3 = 0"
proof -
  have "((p OR 3) AND 1) = 1" by (rule bit_word_eqI) (auto simp: bit_simps)
  then show "(p OR 3) AND 1 \<noteq> 0" by simp
  moreover have "(p OR 3) AND 3 AND 1 = (p OR 3) AND 1" by (simp add: and.assoc)
  ultimately show "(p OR 3) AND 3 \<noteq> 0" by auto
  show "p AND 0x80000000 = 0 \<Longrightarrow> (p OR 3) AND 0x80000000 = 0"
    by (simp add: bit.conj_disj_distrib2)
  show "((p OR 3) AND - 4) AND 3 = 0" by (simp add: and.assoc)
qed

text \<open>
  C17. When the loss and the return of the link are both reported before the link thread runs, in either order, the
  thread takes the link down and clears both flags: the return is lost, and the next turn waits for another event.
\<close>

theorem cy_return_of_link_is_lost:
  assumes "event_flags L pending" and "n_link_up (lw_at n s)" and "link_lost_event L lost" and "link_back_event L again"
    and "bsscfgidx lost < WHD_INTERFACE_MAX L" and "bsscfgidx again < WHD_INTERFACE_MAX L"
    and "(ev1, ev2) = (lost, again) \<or> (ev1, ev2) = (again, lost)"
  shows "\<exists>u. whd_link_turn L n (net_cypress_whd_event_handler L i2 ev2 (net_cypress_whd_event_handler L i1 ev1 s))
      = netif_set_link_down (cy_lwip L) n u
    \<and> n_link_up (lw_at n u) \<and> pending (cy_rest u) AND (NET_WHD_LINK_UP_FLAG OR NET_WHD_LINK_DOWN_FLAG) = 0"
proof -
  define t where "t = net_cypress_whd_event_handler L i2 ev2 (net_cypress_whd_event_handler L i1 ev1 s)"
  have handler: "net_cypress_whd_event_handler L i lost s = set_link_flag L NET_WHD_LINK_DOWN_FLAG s"
    "net_cypress_whd_event_handler L i again s = set_link_flag L NET_WHD_LINK_UP_FLAG s" for i s
    using assms(3-6) by (auto simp: net_cypress_whd_event_handler_def link_back_event_def)
  have flags: "pending (cy_rest t) = pending (cy_rest s) OR 3"
    using assms(7) by (auto simp: t_def handler set_link_flag_rest(1) [OF assms(1)] or.assoc)
  have up: "n_link_up (lw_at n t)"
    using assms(2,7) by (auto simp: t_def handler set_link_flag_rest(2))
  let ?u = "whd_do (osEventFlagsWait L (LinkStatusFlags (lw_rest (dev t))) 3) t"
  have wait: "fst (osEventFlagsWait L o' 3 (cy_rest t)) = pending (cy_rest t)"
    "pending (snd (osEventFlagsWait L o' 3 (cy_rest t))) = pending (cy_rest t) AND NOT 3" for o'
    using assms(1) both_flags(1) [of "pending (cy_rest s)"] by (simp_all add: event_flags_def flags)
  have "pending (cy_rest s) AND 0x80000000 = 0" using assms(1) by (simp add: event_flags_def)
  then have "whd_link_turn L n t = netif_set_link_down (cy_lwip L) n ?u"
    using up both_flags(2,3) [of "pending (cy_rest s)"]
    by (simp add: whd_link_turn_def whd_call_rest wait flags)
  moreover have "pending (cy_rest ?u) AND (NET_WHD_LINK_UP_FLAG OR NET_WHD_LINK_DOWN_FLAG) = 0"
    using both_flags(4) by (simp add: whd_call_rest wait flags)
  moreover have "n_link_up (lw_at n ?u)" using up by simp
  ultimately show ?thesis unfolding t_def [symmetric] by blast
qed

section \<open>The end of an interface\<close>

fun deinit_tries :: "'w env \<Rightarrow> netref \<Rightarrow> nat \<Rightarrow> 'w net \<Rightarrow> (int list, 'w) res" where
  "deinit_tries E p 0 s = Some ([], s)"
| "deinit_tries E p (Suc n) s = do {
     (r, s) \<leftarrow> net_if_deinit E (Some p) s;
     (rs, s) \<leftarrow> deinit_tries E p n s;
     Some (r # rs, s) }"

text \<open>A further try on a de-initialised interface once the locks are gone: it fails and changes nothing.\<close>

lemma deinit_again:
  assumes "h_state (Netifs s p) = NET_STATE_DEINITIALIZED" and "\<not> NetInitialized s"
  shows "deinit_tries E p n s = Some (replicate n NET_ERROR_INVALID_STATE, s)"
proof (induction n)
  case (Suc n)
  have "upd_netif p (\<lambda>h. h\<lparr>h_state := NET_STATE_DEINITIALIZED\<rparr>) s = s"
    using assms(1) unfolding upd_netif_def by (cases s) (simp add: fun_upd_idem)
  then have "net_if_deinit E (Some p) s = Some (NET_ERROR_INVALID_STATE, s)"
    using assms by (simp add: net_if_deinit_def Let_def manage_event_deinitialized)
  then show ?case using Suc.IH by simp
qed simp

text \<open>
  C19. An interface that was never started, whose WHD interface is therefore not in the table, cannot be taken out of
  the library by any number of tries: the first fails as the driver does, the others because the interface is marked as
  de-initialised. After them the list is what it was, the handle still points to its driver table, and the outside world
  has seen nothing but the module switched off and the notification of the state: no memory was freed.
\<close>

theorem cy_unstarted_cannot_end:
  assumes "h_state (Netifs s p) = NET_STATE_INITIALIZED" and "wifi_ifp p s = Some ifp"
    and "find_key ifp (netif2ifp (lw_rest (dev s))) = length (netif2ifp (lw_rest (dev s)))"
  shows "\<exists>t. deinit_tries (cy_env L B) p (Suc n) s
        = Some (NET_ERROR_INTERFACE_FAILURE # replicate n NET_ERROR_INVALID_STATE, t)
    \<and> NetIfList t = NetIfList s \<and> (\<forall>q. h_next (Netifs t q) = h_next (Netifs s q) \<and> h_pdrv (Netifs t q) = h_pdrv (Netifs s q))
    \<and> Drivers t = Drivers s
    \<and> dev t = dev (net_if_notify B p NET_EVENT_STATE_CHANGE (state_code NET_STATE_DEINITIALIZED) (whd_do (whd_wifi_off L ifp) s))"
proof -
  obtain d where d: "h_pdrv (Netifs s p) = Some d" using assms(2) by (auto simp: wifi_ifp_def bind_Some_iff)
  let ?u = "whd_do (whd_wifi_off L ifp) s"
  let ?t = "set_state (cy_env L B) p NET_STATE_DEINITIALIZED ?u"
  have only: "Netifs ?u = Netifs s" "Drivers ?u = Drivers s" "NetIfList ?u = NetIfList s"
    using whd_do_step(1) [of s "whd_wifi_off L ifp"] unfolding only_dev_def by (cases s; cases ?u; simp)+
  have "netif2ifp (lw_rest (dev ?u)) = netif2ifp (lw_rest (dev s))"
    using whd_do_step(2) [of "whd_wifi_off L ifp" s] by (simp add: entries_def)
  then have event: "net_state_manage_event (cy_env L B) (Some p) NET_EVENT_CMD_DEINIT s = Some (NET_ERROR_INTERFACE_FAILURE, ?t)"
    using assms d by (simp add: manage_event_Some handler_defs call_if_def drv_of_def net_cypress_whd_if_deinit_def if_failure_def)
  have notified: "dev ?t = dev (net_if_notify B p NET_EVENT_STATE_CHANGE (state_code NET_STATE_DEINITIALIZED) ?u)"
    by (simp add: set_state_def net_if_notify_def lock_op_defs Let_def split: option.split)
  let ?m = "upd_netif p (\<lambda>h. h\<lparr>h_state := NET_STATE_DEINITIALIZED\<rparr>) ?t"
  define v where "v = (if NetInitialized ?m then (net_destroy_locks ?m)\<lparr>NetInitialized := False\<rparr> else ?m)"
  have first: "net_if_deinit (cy_env L B) (Some p) s = Some (NET_ERROR_INTERFACE_FAILURE, v)"
    by (simp add: net_if_deinit_def Let_def event v_def)
  have "h_state (Netifs v p) = NET_STATE_DEINITIALIZED" "\<not> NetInitialized v"
    by (simp_all add: v_def)
  then have "deinit_tries (cy_env L B) p n v = Some (replicate n NET_ERROR_INVALID_STATE, v)"
    by (rule deinit_again)
  moreover have "NetIfList v = NetIfList s" "Drivers v = Drivers s" "dev v = dev ?t"
    "\<forall>q. h_next (Netifs v q) = h_next (Netifs s q) \<and> h_pdrv (Netifs v q) = h_pdrv (Netifs s q)"
    by (simp_all add: v_def only net_destroy_locks_def net_tls_destroy_def)
  ultimately show ?thesis using first notified by simp
qed

section \<open>Witnesses\<close>

text \<open>
  A module with one interface, 9, on which every call succeeds; its state are the event flags. \<open>demo_cy\<close> is interface 1
  with its object 5 and a table of four entries.
\<close>

definition demo_whd :: "u32 whd_lib" where
  "demo_whd = \<lparr>cy_lwip = demo_lwip, cy_ping = \<lparr>inet_chksum = (\<lambda>_. 0), sizeof_net_if_handle = 200\<rparr>, WHD_INTERFACE_MAX = 3,
     WLC_E_DEAUTH_IND = 6, WLC_E_DISASSOC_IND = 12, WLC_E_PSK_SUP = 46, WLC_E_LINK = 16, WLC_SUP_KEYED = 6,
     WLC_E_SUP_DEAUTH = 14, WLC_E_SUP_OTHER = 0, WLC_E_REASON_LOW_RSSI = 1, WHD_SUCCESS = 0, WHD_PAYLOAD_MTU = 1500,
     sizeof_ssid_value = 32, sizeof_whd_scan_result = 64,
     whd_boot = (\<lambda>y. (0, y)), whd_powerdown = (\<lambda>y. (0, y)), whd_deinit = (\<lambda>_ y. (0, y)), whd_wifi_on = (\<lambda>y. ((0, Some 9), y)),
     whd_wifi_off = (\<lambda>_ y. (0, y)), whd_add_secondary_interface = (\<lambda>_ y. ((0, Some 10), y)),
     whd_get_primary_interface = (\<lambda>y. (Some 9, y)), whd_wifi_set_event_handler = (\<lambda>_ _ y. ((0, 1), y)),
     whd_wifi_deregister_event_handler = (\<lambda>_ _ y. (0, y)), whd_wifi_join = (\<lambda>_ _ _ _ y. (0, y)),
     whd_wifi_leave = (\<lambda>_ y. (0, y)), whd_wifi_init_ap = (\<lambda>_ _ _ _ _ y. (0, y)), whd_wifi_manage_custom_ie = (\<lambda>_ _ _ y. (0, y)),
     whd_wifi_start_ap = (\<lambda>_ y. (0, y)), whd_wifi_stop_ap = (\<lambda>_ y. (0, y)),
     whd_wifi_get_mac_address = (\<lambda>_ _ y. ((0, [2, 0, 0, 0, 0, 9]), y)), whd_wifi_is_ready_to_transceive = (\<lambda>_ y. (1, y)),
     whd_wifi_register_multicast_address = (\<lambda>_ _ y. (0, y)), whd_wifi_unregister_multicast_address = (\<lambda>_ _ y. (0, y)),
     whd_network_send_ethernet_data = (\<lambda>_ _ y. (0, y)), whd_wifi_scan_synch = (\<lambda>_ _ y. ((0, []), y)),
     osEventFlagsNew = (\<lambda>y. (Some 3, y)), osEventFlagsSet = (\<lambda>_ f y. (y OR f, y OR f)),
     osEventFlagsWait = (\<lambda>_ m y. (y AND 0x7FFFFFFF, y AND NOT m)), osThreadNew = (\<lambda>_ y. (Some 4, y)),
     pbuf_ref = (\<lambda>_ y. y), pbuf_free = (\<lambda>_ y. (1, y)), tcpip_input = (\<lambda>_ _ y. (0, y))\<rparr>"

definition demo_table :: "net_cypress_key list" where
  "demo_table = \<lparr>ck_key = Some 9, ck_value = Some 5\<rparr> # replicate 3 \<lparr>ck_key = None, ck_value = None\<rparr>"

definition demo_cy :: "net_cypress_key list \<Rightarrow> net_state \<Rightarrow> u32 cy_net" where
  "demo_cy table st = (demo_over \<lparr>lw_netifs = (\<lambda>_. zero_netif\<lparr>n_link_up := True, n_state := 1\<rparr>), lw_errno = 0, tcpip_init_done = True,
       lw_linked = (\<lambda>_. False), lw_ping_seq = 1,
       lw_rest = \<lparr>netif2ifp = table, CypressAliveInterfaceCount = 1, LinkStatusFlags = Some 3, LinkThread = Some (4, 5),
         EventIndex = 0xFF, ext_ifp = (\<lambda>_. Some 9), w_rest = 0\<rparr>\<rparr> st)
     \<lparr>Netifs := (\<lambda>_. (demo_netif st)\<lparr>h_netif := Some 5\<rparr>)\<rparr>"

lemma demo_whd_lwip [simp]: "cy_lwip demo_whd = demo_lwip"
  by (simp add: demo_whd_def)

lemma demo_private: "cy_private demo_whd demo_base"
proof -
  have "same_part netif2ifp s (lw_do (upd_lw n f) s)" for n f and s :: "u32 cy_net"
    by (simp add: same_part_def entries_def lw_do_def upd_lw_def)
  then have "lwip_does (same_part netif2ifp) demo_lwip (demo_base :: u32 cy_world env)" by (rule demo_does)
  moreover have "\<exists>w1 w2 w3 r. netif2ifp (lw_rest w1) = netif2ifp (lw_rest w) \<and> f n w1 = (r, w2)
      \<and> netif2ifp (lw_rest w3) = netif2ifp (lw_rest w2)
      \<and> netif_add demo_lwip n p f w = (if r = ERR_OK then Some n else None, w3)" for n p f and w :: "u32 cy_world"
    by (rule exI [of _ "upd_lw n (\<lambda>v. v\<lparr>n_state := p\<rparr>) w"])
      (auto simp: demo_lwip_def upd_lw_def split: prod.splits)
  ultimately show ?thesis
    by (simp add: cy_private_def keeps_part_def add_runs_init_def) (simp add: demo_lwip_def demo_base_def)
qed

interpretation demo_cy_table: cy_frame demo_whd demo_base "same_part netif2ifp" keeps_entries
  by (rule table_cy_frame [OF demo_private])

lemma demo_cy_plain: "table_plain (demo_cy table st)"
  using demo_over_plain by (simp add: demo_cy_def table_plain_def sock_at_def held_def)

lemma demo_cy_sel [simp]:
  "h_state (Netifs (demo_cy table st) p) = st" "h_pdrv (Netifs (demo_cy table st) p) = Some 0"
  "wifi_ifp p (demo_cy table st) = Some (Some 9)" "netif2ifp (lw_rest (dev (demo_cy table st))) = table"
  "lw_at n (demo_cy table st) = zero_netif\<lparr>n_link_up := True, n_state := 1\<rparr>"
  "wifi_of p (demo_cy table st) =
    Some (demo_wifi\<lparr>x_credentials := Some \<lparr>cr_ssid = ''home'', cr_psk = ''secret'', cr_security_mode = 0\<rparr>\<rparr>)"
  "cy_rest (demo_cy table st) = 0"
  by (simp_all add: demo_cy_def demo_over_def demo_netif_def demo_wifi_def wifi_ifp_def wifi_of_def lw_at_def)

lemma demo_willing: "cy_willing demo_whd demo_base"
  by (simp add: cy_willing_def demo_private) (simp add: demo_whd_def demo_base_def demo_lwip_sel net_malloc_def)

lemma demo_start: "\<exists>u. net_cypress_whd_if_start demo_whd demo_base 1 (demo_cy demo_table st) = Some (NET_OK, u)"
proof (rule cy_start_succeeds [where cr = "\<lparr>cr_ssid = ''home'', cr_psk = ''secret'', cr_security_mode = 0\<rparr>", OF demo_willing])
  show "find_key None (entries (demo_cy demo_table st)) < length (entries (demo_cy demo_table st))"
    by (simp add: entries_def demo_table_def numeral_eq_Suc)
qed (simp_all add: demo_wifi_def, simp_all add: demo_whd_def)

theorem cy_history_keeps_table_witness:
  "\<exists>t. lib_history (cy_env demo_whd demo_base) (cy_callback demo_whd demo_base (\<lambda>_ _. True)) plain_step
       (demo_cy demo_table NET_STATE_CONNECTED) t \<and> cy_rest t = 1 \<and> table_plain t"
proof -
  let ?s = "demo_cy demo_table NET_STATE_CONNECTED"
  let ?ev = "\<lparr>bsscfgidx = 0, event_type = 6, event_status = 0, event_reason = 0\<rparr>"
  let ?t = "net_cypress_whd_event_handler demo_whd (Some 9) ?ev ?s"
  have run: "lib_history (cy_env demo_whd demo_base) (cy_callback demo_whd demo_base (\<lambda>_ _. True)) plain_step ?s ?t"
    by (rule history_callback [OF history_start]) (rule cy_event)
  have "lwip_contract (cy_lwip demo_whd) demo_base" by (simp add: demo_contract)
  moreover have "mbedtls_contract (cy_env demo_whd demo_base)" by (simp add: cy_env_def demo_base_mbedtls)
  ultimately have "table_plain ?t" using cy_history_keeps_table [OF _ _ run] demo_cy_plain by blast
  moreover have "cy_rest ?t = 1"
    by (simp add: net_cypress_whd_event_handler_def link_lost_event_def set_link_flag_def whd_call_rest)
      (simp add: demo_whd_def)
  ultimately show ?thesis using run by blast
qed

theorem cy_packets_go_to_first_object_witness:
  "\<exists>t u. lib_history (cy_env demo_whd demo_base) (cy_callback demo_whd demo_base (same_part netif2ifp)) lasting
       (demo_cy demo_table NET_STATE_CONNECTED) t
     \<and> cy_network_process_ethernet_data demo_whd (Some 9)
         (Some \<lparr>pb_ref = 1, pb_payload = replicate 12 0 @ [8, 0, 0x45], pb_len = 15, pb_tot_len = 15, pb_next = None\<rparr>) t = Some u"
proof -
  let ?s = "demo_cy demo_table NET_STATE_CONNECTED"
  let ?ev = "\<lparr>bsscfgidx = 0, event_type = 6, event_status = 0, event_reason = 0\<rparr>"
  let ?t = "net_cypress_whd_event_handler demo_whd (Some 9) ?ev ?s"
  let ?b = "\<lparr>pb_ref = 1, pb_payload = replicate 12 0 @ [8, 0, 0x45], pb_len = 15, pb_tot_len = 15, pb_next = None\<rparr>"
  have run: "lib_history (cy_env demo_whd demo_base) (cy_callback demo_whd demo_base (same_part netif2ifp)) lasting ?s ?t"
    by (rule history_callback [OF history_start]) (rule cy_event)
  have "cy_network_process_ethernet_data demo_whd (Some 9) (Some ?b) ?t = hand_to_lwip demo_whd ?b 5 ?t"
    by (rule cy_packets_go_to_first_object [OF demo_private run])
      (simp_all add: netif_of_ifp_def demo_table_def ethertype_def nth_append)
  moreover have "fst (tcpip_input demo_whd ?b 5 y) = ERR_OK" for y by (simp add: demo_whd_def)
  ultimately show ?thesis using run by (auto simp: hand_to_lwip_def whd_call_rest(1))
qed

theorem cy_start_takes_entry_witness:
  "\<exists>u. net_cypress_whd_if_start demo_whd demo_base 1 (demo_cy demo_table NET_STATE_STARTING) = Some (NET_OK, u) \<and> free_entries u < 3"
proof -
  let ?s = "demo_cy demo_table NET_STATE_STARTING"
  obtain u where u: "net_cypress_whd_if_start demo_whd demo_base 1 ?s = Some (NET_OK, u)" using demo_start by blast
  have "free_entries u < free_entries ?s"
    by (rule cy_start_takes_entry [OF demo_private history_start u]) simp
  moreover have "free_entries ?s = 3" by (simp add: free_entries_def demo_table_def)
  ultimately show ?thesis using u by auto
qed

theorem cy_tag_stays_in_total_length_witness:
  "\<exists>u. cy_network_process_ethernet_data demo_whd (Some 9)
     (Some \<lparr>pb_ref = 1, pb_payload = replicate 12 0 @ [0x81, 0, 0, 7, 8, 0, 0x45], pb_len = 19, pb_tot_len = 19, pb_next = None\<rparr>)
     (demo_cy demo_table NET_STATE_CONNECTED) = Some u"
proof -
  let ?s = "demo_cy demo_table NET_STATE_CONNECTED"
  let ?b = "\<lparr>pb_ref = 1, pb_payload = replicate 12 0 @ [8, 0, 0x45], pb_len = 15, pb_tot_len = 15, pb_next = None\<rparr>"
  have "netif_of_ifp (Some 9) ?s = Some 5" by (simp add: netif_of_ifp_def demo_table_def)
  moreover have "ethertype (replicate 12 0 @ [8, 0, 0x45]) = WHD_ETHERTYPE_IPv4" by (simp add: ethertype_def nth_append)
  ultimately have "cy_network_process_ethernet_data demo_whd (Some 9)
      (Some (?b\<lparr>pb_payload := replicate 12 0 @ [0x81, 0, 0, 7] @ [8, 0, 0x45], pb_len := 15 + 4, pb_tot_len := 15 + 4\<rparr>)) ?s
      = hand_to_lwip demo_whd (?b\<lparr>pb_tot_len := 19\<rparr>) 5 ?s"
    using cy_tag_stays_in_total_length [of "replicate 12 0" "[8, 0, 0x45]" "Some 9" ?s 5 ?b demo_whd 0 7] by simp
  moreover have "fst (tcpip_input demo_whd b n y) = ERR_OK" for b n y by (simp add: demo_whd_def)
  ultimately show ?thesis by (simp add: hand_to_lwip_def whd_call_rest(1))
qed

lemma demo_flags: "event_flags demo_whd (\<lambda>y. y AND 0x7FFFFFFF)"
proof -
  have "(y OR f) AND 0x7FFFFFFF = (y AND 0x7FFFFFFF) OR f" if "f AND 0x80000000 = 0" for y f :: u32
  proof (rule bit_word_eqI)
    fix n assume n: "n < LENGTH(32)"
    have "bit (0x7FFFFFFF :: u32) n \<longleftrightarrow> n < 31"
      using bit_mask_iff [of 31 n, where ?'a = u32] n by (simp add: mask_eq_exp_minus_1)
    moreover have "\<not> bit f 31"
      using that bit_and_iff [of f "0x80000000" 31] bit_push_bit_iff [of 31 "1 :: u32" 31] by (auto simp: push_bit_eq_mult)
    ultimately show "bit ((y OR f) AND 0x7FFFFFFF) n = bit ((y AND 0x7FFFFFFF) OR f) n"
      using n by (cases "n = 31") (auto simp: bit_simps)
  qed
  then show ?thesis
    by (simp add: event_flags_def demo_whd_def ac_simps)
qed

theorem cy_return_of_link_is_lost_witness:
  "\<exists>u. whd_link_turn demo_whd 5 (net_cypress_whd_event_handler demo_whd (Some 9)
        \<lparr>bsscfgidx = 0, event_type = 46, event_status = 6, event_reason = 0\<rparr> (net_cypress_whd_event_handler demo_whd (Some 9)
        \<lparr>bsscfgidx = 0, event_type = 6, event_status = 0, event_reason = 0\<rparr> (demo_cy demo_table NET_STATE_CONNECTED))) = Some u"
proof -
  let ?d = "\<lparr>bsscfgidx = 0, event_type = 6, event_status = 0, event_reason = 0\<rparr>"
  let ?b = "\<lparr>bsscfgidx = 0, event_type = 46, event_status = 6, event_reason = 0\<rparr>"
  have "\<exists>u. whd_link_turn demo_whd 5 (net_cypress_whd_event_handler demo_whd (Some 9) ?b
      (net_cypress_whd_event_handler demo_whd (Some 9) ?d (demo_cy demo_table NET_STATE_CONNECTED)))
        = netif_set_link_down (cy_lwip demo_whd) 5 u
      \<and> n_link_up (lw_at 5 u) \<and> (cy_rest u AND 0x7FFFFFFF) AND (2 OR 1) = 0"
    by (rule cy_return_of_link_is_lost [where ?ev1.0 = ?d and ?ev2.0 = ?b and lost = ?d and again = ?b, OF demo_flags])
      (simp_all add: link_lost_event_def link_back_event_def demo_whd_def)
  then show ?thesis by (auto simp: demo_lwip_sel)
qed

theorem cy_unstarted_cannot_end_witness:
  "\<exists>t. deinit_tries (cy_env demo_whd demo_base) 1 3
     (demo_cy (replicate 4 \<lparr>ck_key = None, ck_value = None\<rparr>) NET_STATE_INITIALIZED)
       = Some ([NET_ERROR_INTERFACE_FAILURE, NET_ERROR_INVALID_STATE, NET_ERROR_INVALID_STATE], t)
     \<and> NetIfList t = Some 1"
proof -
  let ?s = "demo_cy (replicate 4 \<lparr>ck_key = None, ck_value = None\<rparr>) NET_STATE_INITIALIZED"
  have "find_key (Some 9) (netif2ifp (lw_rest (dev ?s))) = length (netif2ifp (lw_rest (dev ?s)))" by (simp add: numeral_eq_Suc)
  then have "\<exists>t. deinit_tries (cy_env demo_whd demo_base) 1 (Suc 2) ?s
        = Some (NET_ERROR_INTERFACE_FAILURE # replicate 2 NET_ERROR_INVALID_STATE, t) \<and> NetIfList t = NetIfList ?s"
    using cy_unstarted_cannot_end [of ?s 1 "Some 9" demo_whd demo_base 2] by auto
  moreover have "NetIfList ?s = Some 1" by (simp add: demo_cy_def demo_over_def)
  moreover have "Suc 2 = 3" "replicate 2 x = [x, x]" for x :: int by (simp_all add: numeral_eq_Suc)
  ultimately show ?thesis by (metis)
qed

end
