(* ===== verification/St_Wifi.thy ===== *)
theory St_Wifi
  imports Lwip_Driver Wifi_Class
begin

text \<open>
  \<open>netif/wifi_if/st_wifi/net_st_wifi.c\<close>: the driver of a WiFi interface over lwIP and the WiFi stack of ST (\<open>wifi.h\<close>,
  not in the repository: the record \<open>st_lib\<close>, whose functions work on a state of their own). The file has no variable
  but the pointer to that stack.
\<close>

section \<open>The WiFi stack\<close>

datatype wifi_mode = WIFI_MODE_STA | WIFI_MODE_AP | WIFI_MODE_OTHER
datatype wifi_privacy = WIFI_PRIVACY_NONE | WIFI_PRIVACY_WPA
datatype wifi_scan_kind = WIFI_SCAN_MODE_PASSIVE | WIFI_SCAN_MODE_ACTIVE | WIFI_SCAN_MODE_AUTO

record wifi_scan_bss =
  sb_ssid :: bytes  \<comment> \<open>\<open>ssid.value\<close> up to \<open>ssid.length\<close>\<close>
  sb_bssid :: bytes  \<comment> \<open>a \<open>wifi_mac_t\<close>\<close>
  sb_channel :: u8
  sb_country :: string
  sb_rssi :: u8

record wifi_rx_data =
  rx_len :: nat
  rx_frame :: bytes

datatype wifi_event = WIFI_EVENT_LINK_DOWN | WIFI_EVENT_LINK_UP | WIFI_EVENT_SCAN_COMPLETE | WIFI_EVENT_POWER_MODE_COMPLETE
  | WIFI_EVENT_RX_DATA wifi_rx_data | WIFI_EVENT_OTHER

text \<open>
  The calls of \<open>wifi_get_system_info\<close> come as one function for each kind of information; an out-parameter is passed with
  its old value.
\<close>

record 'l st_lib =
  st_lwip :: "'l lwip_lib"
  st_ping :: ping_lib
  WIFI_STATUS_OK :: int
  WIFI_POWER_MODE_ACTIVE :: int
  sizeof_wifi_eth :: nat
  sizeof_wifi_scan_bss :: nat
  stale_nb :: u8  \<comment> \<open>what the local variable \<open>nb\<close> holds before it is written\<close>
  wifi_obj_mode :: "'l \<Rightarrow> wifi_mode"
    \<comment> \<open>\<open>wifi_obj->mode\<close>\<close>
  wifi_probe :: "nat option \<Rightarrow> 'l \<Rightarrow> (int \<times> nat option) \<times> 'l"
  wifi_init :: "netref \<Rightarrow> 'l \<Rightarrow> int \<times> 'l"
    \<comment> \<open>with \<open>st_wifi_event_callback\<close>, and the interface as its context\<close>
  wifi_deinit :: "'l \<Rightarrow> int \<times> 'l"
  wifi_start :: "'l \<Rightarrow> int \<times> 'l"
  wifi_stop :: "'l \<Rightarrow> int \<times> 'l"
  wifi_connect :: "string \<Rightarrow> string \<Rightarrow> wifi_privacy \<Rightarrow> 'l \<Rightarrow> int \<times> 'l"
    \<comment> \<open>on channel 0\<close>
  wifi_disconnect :: "'l \<Rightarrow> int \<times> 'l"
  wifi_power_mode :: "int \<Rightarrow> 'l \<Rightarrow> int \<times> 'l"
  wifi_device_name :: "'l \<Rightarrow> (int \<times> string) \<times> 'l"
  wifi_wlan_mac :: "bytes \<Rightarrow> 'l \<Rightarrow> (int \<times> bytes) \<times> 'l"
  wifi_results_number :: "u8 \<Rightarrow> 'l \<Rightarrow> (int \<times> u8) \<times> 'l"
  lib_wifi_scan :: "wifi_scan_kind \<Rightarrow> 'l \<Rightarrow> int \<times> 'l"
    \<comment> \<open>for every name and channel\<close>
  lib_wifi_get_scan_results :: "nat option \<Rightarrow> u8 \<Rightarrow> 'l \<Rightarrow> (int \<times> wifi_scan_bss list) \<times> 'l"
    \<comment> \<open>\<open>wifi_get_scan_results\<close>: what it stores in the block for the networks\<close>
  lib_wifi_set_mode :: "wifi_mode \<Rightarrow> 'l \<Rightarrow> int \<times> 'l"
    \<comment> \<open>\<open>wifi_set_param\<close> with \<open>WIFI_MODE\<close>\<close>
  wifi_os_malloc :: "nat \<Rightarrow> 'l \<Rightarrow> nat option \<times> 'l"
  wifi_os_free :: "nat \<Rightarrow> 'l \<Rightarrow> 'l"
  wifi_os_delay :: "u32 \<Rightarrow> 'l \<Rightarrow> 'l"
  NET_BUF_ALLOC :: "nat \<Rightarrow> 'l \<Rightarrow> nat option \<times> 'l"
  wifi_eth_receive :: "nat \<Rightarrow> wifi_rx_data \<Rightarrow> 'l \<Rightarrow> 'l"
    \<comment> \<open>into the payload of the buffer\<close>
  wifi_eth_transmit :: "bytes \<Rightarrow> u16 \<Rightarrow> 'l \<Rightarrow> int \<times> 'l"
  st_tcpip_input :: "nat \<Rightarrow> nat option \<Rightarrow> 'l \<Rightarrow> int \<times> 'l"

definition st_call :: "('l \<Rightarrow> 'a \<times> 'l) \<Rightarrow> 'l lw_net \<Rightarrow> 'a \<times> 'l lw_net" where
  "st_call f = lw_call (on_rest f)"

definition st_do :: "('l \<Rightarrow> 'a \<times> 'l) \<Rightarrow> 'l lw_net \<Rightarrow> 'l lw_net" where
  "st_do f s = snd (st_call f s)"

definition st_mode :: "'l st_lib \<Rightarrow> 'l lw_net \<Rightarrow> wifi_mode" where
  "st_mode L s = wifi_obj_mode L (lw_rest (dev s))"

abbreviation (input) NET_ERROR_AUTH_FAILURE :: int where "NET_ERROR_AUTH_FAILURE \<equiv> -12"
abbreviation (input) NET_ERROR_DATA :: int where "NET_ERROR_DATA \<equiv> -18"
abbreviation (input) ERR_MEM :: int where "ERR_MEM \<equiv> -1"

section \<open>Initialisation\<close>

text \<open>
  The table goes into the handle when both blocks could be allocated. The WiFi stack is probed in any case, and its
  context stored in the table of the handle, which may be missing: \<^term>\<open>None\<close>.
\<close>

definition st_wifi_table :: "'l lwip_world env \<Rightarrow> netref \<Rightarrow> 'l lw_net \<Rightarrow> (int, 'l lwip_world) res" where
  "st_wifi_table E p s =
     (case net_malloc E (env_sizeof E Sizeof_net_if_drv) s of
        (None, s) \<Rightarrow> Some (NET_ERROR_NO_MEMORY, s)
      | (Some d, s) \<Rightarrow>
          (let s = upd_drv d (\<lambda>x. x\<lparr>d_if_class := NET_INTERFACE_CLASS_WIFI\<rparr>) (fresh_table d s) in
           case net_malloc E (env_sizeof E Sizeof_wifi_extension) s of
             (None, s) \<Rightarrow> Some (NET_ERROR_NO_MEMORY, net_free E d s)
           | (Some x, s) \<Rightarrow> do {
               let s = upd_netif p (\<lambda>h. h\<lparr>h_pdrv := Some d\<rparr>) s;
               let s = upd_drv d (\<lambda>y. y\<lparr>d_wifi := Some zero_wifi_ext, d_wifi_ref := x\<rparr>) s;
               s \<leftarrow> driver_sends E p NET_EVENT_INTERFACE_INITIALIZED s;
               Some (NET_OK, s) }))"

definition st_wifi_if_init :: "'l st_lib \<Rightarrow> 'l lwip_world env \<Rightarrow> netref \<Rightarrow> 'l lw_net \<Rightarrow> (int, 'l lwip_world) res" where
  "st_wifi_if_init L E p s = do {
     (ret, s) \<leftarrow> st_wifi_table E p s;
     d \<leftarrow> h_pdrv (Netifs s p);
     let ((r, ctx), s) = st_call (wifi_probe L (d_context (Drivers s d))) s;
     let s = upd_drv d (\<lambda>x. x\<lparr>d_context := ctx\<rparr>) s;
     (if r = NET_OK
      then (case st_call (wifi_init L p) s of
          (r, s) \<Rightarrow> Some (if r \<noteq> WIFI_STATUS_OK L then NET_ERROR_INTERFACE_FAILURE else ret, s))
      else Some (NET_ERROR_DEVICE_ERROR, s)) }"

definition st_wifi_driver :: "'l st_lib \<Rightarrow> 'l lwip_world env \<Rightarrow> netref \<Rightarrow> 'l lw_net \<Rightarrow> (int, 'l lwip_world) res" where
  "st_wifi_driver L E pnetif s = st_wifi_if_init L E pnetif (net_ip_init (st_lwip L) s)"

definition st_wifi_if_deinit :: "'l st_lib \<Rightarrow> 'l lwip_world env \<Rightarrow> netref \<Rightarrow> 'l lw_net \<Rightarrow> (int, 'l lwip_world) res" where
  "st_wifi_if_deinit L E p s = do {
     let (r, s) = st_call (wifi_deinit L) s;
     let ret = (if r \<noteq> WIFI_STATUS_OK L then NET_ERROR_INTERFACE_FAILURE else NET_OK);
     d \<leftarrow> h_pdrv (Netifs s p);
     let s = upd_drv d (\<lambda>x. x\<lparr>d_wifi := None\<rparr>) (net_free E (d_wifi_ref (Drivers s d)) s);
     let s = net_free E d s;
     Some (ret, upd_netif p (\<lambda>h. h\<lparr>h_pdrv := None\<rparr>) s) }"

section \<open>The interface of lwIP\<close>

text \<open>No code gives back the block of the host's name.\<close>

definition net_wifi_if_init :: "'l st_lib \<Rightarrow> 'l lwip_world env \<Rightarrow> nat \<Rightarrow> 'l lwip_world \<Rightarrow> int \<times> 'l lwip_world" where
  "net_wifi_if_init L E netif w =
     (case env_malloc E (NET_IP_HOSTNAME_MAX_LEN + 1) w of
        (None, w) \<Rightarrow> (ERR_MEM, w)
      | (Some hostname, w) \<Rightarrow>
          (let w = upd_lw netif (generic_netif hostname) w;
               ((_, mac), w) = on_rest (wifi_wlan_mac L (n_hwaddr (lw_netifs w netif))) w;
               w = upd_lw netif (\<lambda>v. v\<lparr>n_hwaddr := mac\<rparr>) w
           in (ERR_OK, netif_register_callbacks (st_lwip L) netif w)))"

text \<open>What lwIP calls to send a frame: the payload of the buffer it passes, and its length.\<close>

definition st_wifi_transmit :: "'l st_lib \<Rightarrow> nat \<Rightarrow> bytes \<Rightarrow> u16 \<Rightarrow> 'l lw_net \<Rightarrow> int \<times> 'l lw_net" where
  "st_wifi_transmit L netif payload len s = (case st_call (wifi_eth_transmit L payload len) s of
     (r, s) \<Rightarrow> (if r \<noteq> WIFI_STATUS_OK L then NET_ERROR_DATA else NET_OK, s))"

section \<open>Start, stop and connection\<close>

text \<open>
  A station gets the address of a local variable of \<open>st_wifi_if_start\<close> as its \<open>powersave\<close> pointer. When that function
  returns its variable is gone, and a pointer to it can no longer be read: \<open>st_end_of_local\<close>. Other pointers stay.
\<close>

definition st_start_station :: "'l st_lib \<Rightarrow> netref \<Rightarrow> 'l lw_net \<Rightarrow> 'l lw_net option" where
  "st_start_station L p s = do {
     let ((_, device_name), s) = st_call (wifi_device_name L) s;
     let s = upd_netif p (\<lambda>h. h\<lparr>h_DeviceName := take NET_DEVICE_NAME_LEN device_name\<rparr>) s;
     let ((_, mac), s) = st_call (wifi_wlan_mac L (h_macaddr (Netifs s p))) s;
     let s = upd_netif p (\<lambda>h. h\<lparr>h_macaddr := mac\<rparr>) s;
     upd_wifi p (\<lambda>x. x\<lparr>x_powersave := Some (To_local WIFI_POWERSAVE_LIGHT_SLEEP)\<rparr>) s }"

fun end_of_local :: "powersave_ptr \<Rightarrow> powersave_ptr" where
  "end_of_local (To_local v) = Dangling"
| "end_of_local q = q"

definition st_end_of_local :: "netref \<Rightarrow> 'l lw_net \<Rightarrow> 'l lw_net" where
  "st_end_of_local p s = (case h_pdrv (Netifs s p) of None \<Rightarrow> s
     | Some d \<Rightarrow> upd_drv d (\<lambda>y. y\<lparr>d_wifi := map_option
         (\<lambda>x. x\<lparr>x_powersave := map_option end_of_local (x_powersave x)\<rparr>) (d_wifi y)\<rparr>) s)"

definition st_add_interface :: "'l st_lib \<Rightarrow> 'l lwip_world env \<Rightarrow> netref \<Rightarrow> 'l lw_net \<Rightarrow> (int, 'l lwip_world) res" where
  "st_add_interface L E p s = do {
     (ret, s) \<leftarrow> net_ip_add_if (st_lwip L) E p (net_wifi_if_init L E) NET_ETHERNET_FLAG_DEFAULT_IF s;
     s \<leftarrow> (if ret = NET_OK \<and> st_mode L s = WIFI_MODE_STA then driver_sends E p NET_EVENT_INTERFACE_READY s else Some s);
     Some (ret, s) }"

definition st_wifi_if_start :: "'l st_lib \<Rightarrow> 'l lwip_world env \<Rightarrow> netref \<Rightarrow> 'l lw_net \<Rightarrow> (int, 'l lwip_world) res" where
  "st_wifi_if_start L E p s =
     (case st_call (wifi_start L) s of (r, s) \<Rightarrow>
        if r \<noteq> WIFI_STATUS_OK L then Some (NET_ERROR_INTERFACE_FAILURE, st_end_of_local p s)
        else do {
          s \<leftarrow> (if st_mode L s = WIFI_MODE_STA then st_start_station L p s else Some s);
          (ret, s) \<leftarrow> st_add_interface L E p s;
          Some (ret, st_end_of_local p s) })"

definition st_wifi_if_stop :: "'l st_lib \<Rightarrow> 'l lwip_world env \<Rightarrow> netref \<Rightarrow> 'l lw_net \<Rightarrow> (int, 'l lwip_world) res" where
  "st_wifi_if_stop L E p s =
     (case st_call (wifi_stop L) s of (r, s) \<Rightarrow>
        if r \<noteq> WIFI_STATUS_OK L then Some (NET_ERROR_INTERFACE_FAILURE, s)
        else net_state_manage_event E (Some p) NET_EVENT_INTERFACE_INITIALIZED s)"

definition st_privacy :: "int \<Rightarrow> wifi_privacy" where
  "st_privacy security_mode =
     (let privacy = WIFI_PRIVACY_NONE;
          privacy = (if (word_of_int security_mode :: u32) AND NET_WPA_SECURITY \<noteq> 0 then WIFI_PRIVACY_WPA else privacy);
          privacy = (if (word_of_int security_mode :: u32) AND NET_WPA2_SECURITY \<noteq> 0 then WIFI_PRIVACY_WPA else privacy)
      in privacy)"

definition st_wifi_if_connect :: "'l st_lib \<Rightarrow> netref \<Rightarrow> 'l lw_net \<Rightarrow> (int, 'l lwip_world) res" where
  "st_wifi_if_connect L p s = do {
     x \<leftarrow> wifi_of p s;
     cr \<leftarrow> x_credentials x;
     (case st_call (wifi_connect L (cr_ssid cr) (cr_psk cr) (st_privacy (cr_security_mode cr))) s of (r, s) \<Rightarrow>
        if r \<noteq> WIFI_STATUS_OK L then Some (NET_ERROR_AUTH_FAILURE, s) else net_ip_connect (st_lwip L) p s) }"

definition st_wifi_if_disconnect :: "'l st_lib \<Rightarrow> 'l lwip_world env \<Rightarrow> netref \<Rightarrow> 'l lw_net \<Rightarrow> (int, 'l lwip_world) res" where
  "st_wifi_if_disconnect L E p s =
     (case st_call (wifi_disconnect L) s of (r, s) \<Rightarrow>
        if r \<noteq> WIFI_STATUS_OK L then Some (NET_ERROR_FRAMEWORK, s)
        else do { s \<leftarrow> driver_sends E p NET_EVENT_INTERFACE_READY s; Some (NET_OK, s) })"

text \<open>The values of \<open>net_wifi_powersave_t\<close>, passed on as they are.\<close>

fun powersave_code :: "net_wifi_powersave \<Rightarrow> int" where
  "powersave_code WIFI_POWERSAVE_ACTIVE = 0"
| "powersave_code WIFI_POWERSAVE_LIGHT_SLEEP = 1"
| "powersave_code WIFI_POWERSAVE_DEEP_SLEEP = 2"

definition st_wifi_if_powersave_enable :: "'l st_lib \<Rightarrow> netref \<Rightarrow> 'l lw_net \<Rightarrow> (int, 'l lwip_world) res" where
  "st_wifi_if_powersave_enable L p s = do {
     x \<leftarrow> wifi_of p s;
     pointer \<leftarrow> x_powersave x;
     powersave \<leftarrow> powersave_at pointer;
     Some (NET_OK, st_do (wifi_power_mode L (powersave_code powersave)) s) }"

definition st_wifi_if_powersave_disable :: "'l st_lib \<Rightarrow> netref \<Rightarrow> 'l lw_net \<Rightarrow> (int, 'l lwip_world) res" where
  "st_wifi_if_powersave_disable L p s = Some (NET_OK, st_do (wifi_power_mode L (WIFI_POWER_MODE_ACTIVE L)) s)"

section \<open>The WiFi class\<close>

fun scan_kind :: "net_wifi_scan_mode \<Rightarrow> wifi_scan_kind" where
  "scan_kind NET_WIFI_SCAN_PASSIVE = WIFI_SCAN_MODE_PASSIVE"
| "scan_kind NET_WIFI_SCAN_ACTIVE = WIFI_SCAN_MODE_ACTIVE"
| "scan_kind NET_WIFI_SCAN_AUTO = WIFI_SCAN_MODE_AUTO"

definition st_wifi_scan ::
  "'l st_lib \<Rightarrow> netref \<Rightarrow> net_wifi_scan_mode \<Rightarrow> string option \<Rightarrow> 'l lw_net \<Rightarrow> (int, 'l lwip_world) res" where
  "st_wifi_scan L p mode ssid s = (case st_call (lib_wifi_scan L (scan_kind mode)) s of
     (r, s) \<Rightarrow> Some (if r \<noteq> WIFI_STATUS_OK L then NET_ERROR_GENERIC else NET_OK, s))"

text \<open>
  A network found, copied over an element of the caller's array. A name longer than the 32 bytes of \<open>ssid.value\<close>, or an
  address longer than \<open>bssid\<close>, is written behind it: \<^term>\<open>None\<close>. Three characters of the country are copied.
\<close>

definition st_bss :: "wifi_scan_bss \<Rightarrow> net_wifi_scan_result \<Rightarrow> net_wifi_scan_result option" where
  "st_bss b r =
     (if length (sb_ssid b) \<le> 32 \<and> length (sb_bssid b) \<le> 6
      then Some (r\<lparr>sr_ssid_length := of_nat (length (sb_ssid b)),
             sr_ssid := sb_ssid b @ drop (length (sb_ssid b)) (sr_ssid r),
             sr_bssid := sb_bssid b @ drop (length (sb_bssid b)) (sr_bssid r), sr_channel := sb_channel b,
             sr_country := take 3 (sb_country b) @ drop 3 (sr_country r), sr_rssi := sb_rssi b\<rparr>)
      else None)"

fun st_copy_results :: "nat \<Rightarrow> nat \<Rightarrow> wifi_scan_bss list \<Rightarrow> net_wifi_scan_result list \<Rightarrow> net_wifi_scan_result list option" where
  "st_copy_results i 0 bss results = Some results"
| "st_copy_results i (Suc n) bss results =
     (if i < length bss \<and> i < length results
      then do { b \<leftarrow> st_bss (bss ! i) (results ! i); st_copy_results (Suc i) n bss (results[i := b]) } else None)"

text \<open>
  \<open>nb\<close> is not initialised. The allocation is not checked; networks in a block that is not there cannot be read.
\<close>

definition st_wifi_get_scan_results ::
  "'l st_lib \<Rightarrow> 'l lwip_world env \<Rightarrow> netref \<Rightarrow> net_wifi_scan_result list \<Rightarrow> u8 \<Rightarrow> 'l lw_net \<Rightarrow>
     (int \<times> net_wifi_scan_result list, 'l lwip_world) res" where
  "st_wifi_get_scan_results L E p results number s = do {
     let ((_, nb), s) = st_call (wifi_results_number L (stale_nb L)) s;
     let nb = (if number < nb then number else nb);
     let (block, s) = net_malloc E (unat number * sizeof_wifi_scan_bss L) s;
     let ((r, bss), s) = st_call (lib_wifi_get_scan_results L block nb) s;
     (ret, results) \<leftarrow>
       (if r = WIFI_STATUS_OK L
        then do {
          results \<leftarrow> st_copy_results 0 (unat nb) (case block of None \<Rightarrow> [] | Some _ \<Rightarrow> bss) results;
          Some (int (unat nb), results) }
        else Some (NET_ERROR_GENERIC, results));
     let s = (case block of None \<Rightarrow> s | Some a \<Rightarrow> net_free E a s);
     Some ((ret, results), s) }"

datatype net_wifi_system_info = NET_WIFI_SCAN_RESULTS_NUMBER | Other_wifi_system_info

text \<open>No function of the library calls this member of the WiFi extension.\<close>

definition st_wifi_get_system_info ::
  "'l st_lib \<Rightarrow> net_wifi_system_info \<Rightarrow> u8 \<Rightarrow> 'l lw_net \<Rightarrow> (int \<times> u8, 'l lwip_world) res" where
  "st_wifi_get_system_info L info data s =
     (case info of
        NET_WIFI_SCAN_RESULTS_NUMBER \<Rightarrow>
          (case st_call (wifi_results_number L data) s of
             ((r, data), s) \<Rightarrow> Some ((if r \<noteq> WIFI_STATUS_OK L then NET_ERROR_PARAMETER else NET_OK, data), s))
      | Other_wifi_system_info \<Rightarrow> Some ((NET_ERROR_PARAMETER, data), s))"

text \<open>\<open>NET_WIFI_MODE_STA\<close> is 0 and \<open>NET_WIFI_MODE_AP\<close> 1; for another byte the block is not given back.\<close>

definition st_wifi_set_param :: "'l st_lib \<Rightarrow> net_wifi_param \<Rightarrow> nat \<Rightarrow> 'l lw_net \<Rightarrow> (int, 'l lwip_world) res" where
  "st_wifi_set_param L param data s =
     (case param of NET_WIFI_MODE \<Rightarrow>
       (case st_call (wifi_os_malloc L 1) s of (wifi_data, s) \<Rightarrow>
          let byte = (of_nat data :: u8) in
          if byte = 0 \<or> byte = 1 then do {
            a \<leftarrow> wifi_data;
            let (r, s) = st_call (lib_wifi_set_mode L (if byte = 0 then WIFI_MODE_STA else WIFI_MODE_AP)) s;
            Some (if r \<noteq> WIFI_STATUS_OK L then NET_ERROR_PARAMETER else NET_OK, st_do (\<lambda>y. ((), wifi_os_free L a y)) s) }
          else Some (NET_ERROR_PARAMETER, s)))"

section \<open>Events of the WiFi stack\<close>

text \<open>Without a buffer for a frame the code waits and then writes through the null pointer.\<close>

definition st_wifi_event_callback ::
  "'l st_lib \<Rightarrow> 'l lwip_world env \<Rightarrow> netref \<Rightarrow> wifi_event \<Rightarrow> 'l lw_net \<Rightarrow> 'l lw_net option" where
  "st_wifi_event_callback L E p event s =
     (case event of
        WIFI_EVENT_LINK_DOWN \<Rightarrow>
          (if st_mode L s = WIFI_MODE_STA
           then do { netif \<leftarrow> h_netif (Netifs s p); netif_set_link_down (st_lwip L) netif s } else Some s)
      | WIFI_EVENT_LINK_UP \<Rightarrow> do {
          s \<leftarrow> (if st_mode L s = WIFI_MODE_STA
                 then do { netif \<leftarrow> h_netif (Netifs s p); netif_set_link_up (st_lwip L) netif s } else Some s);
          (if st_mode L s = WIFI_MODE_AP then driver_sends E p NET_EVENT_INTERFACE_READY s else Some s) }
      | WIFI_EVENT_SCAN_COMPLETE \<Rightarrow> Some (net_if_notify E p NET_EVENT_WIFI 0 s)
      | WIFI_EVENT_POWER_MODE_COMPLETE \<Rightarrow> Some (net_if_notify E p NET_EVENT 0 s)
      | WIFI_EVENT_RX_DATA frame \<Rightarrow>
          (case st_call (NET_BUF_ALLOC L (rx_len frame + sizeof_wifi_eth L)) s of
             (None, s) \<Rightarrow> None
           | (Some buf, s) \<Rightarrow>
               (let s = st_do (\<lambda>y. ((), wifi_eth_receive L buf frame y)) s
                in Some (st_do (st_tcpip_input L buf (h_netif (Netifs s p))) s)))
      | WIFI_EVENT_OTHER \<Rightarrow> Some s)"

section \<open>The driver table\<close>

definition st_drv :: "'l st_lib \<Rightarrow> 'l lwip_world env \<Rightarrow> drvref \<Rightarrow> 'l lw_net net_if_drv" where
  "st_drv L E d = link_sockets (st_lwip L) d (null_drv\<lparr>
     if_init := Some (st_wifi_if_init L E), if_deinit := Some (st_wifi_if_deinit L E),
     if_start := Some (st_wifi_if_start L E), if_stop := Some (st_wifi_if_stop L E),
     if_connect := Some (st_wifi_if_connect L), if_disconnect := Some (st_wifi_if_disconnect L E),
     if_powersave_enable := Some (st_wifi_if_powersave_enable L), if_powersave_disable := Some (st_wifi_if_powersave_disable L),
     pping := Some (ping_member (st_ping L) (sockets_env (st_lwip L) E)),
     wifi_scan := Some (st_wifi_scan L), wifi_get_scan_results := Some (st_wifi_get_scan_results L E),
     wifi_set_param := Some (st_wifi_set_param L)\<rparr>)"

definition st_env :: "'l st_lib \<Rightarrow> 'l lwip_world env \<Rightarrow> 'l lwip_world env" where
  "st_env L B = B\<lparr>env_drv := st_drv L B\<rparr>"

lemma st_env_sel [simp]:
  "env_drv (st_env L B) d = st_drv L B d" "env_notify (st_env L B) = env_notify B"
  by (simp_all add: st_env_def)

lemma st_drv_sel [simp]:
  "if_deinit (st_drv L B d) = Some (st_wifi_if_deinit L B)" "if_start (st_drv L B d) = Some (st_wifi_if_start L B)"
  "if_stop (st_drv L B d) = Some (st_wifi_if_stop L B)" "if_connect (st_drv L B d) = Some (st_wifi_if_connect L)"
  "if_disconnect (st_drv L B d) = Some (st_wifi_if_disconnect L B)"
  "if_powersave_enable (st_drv L B d) = Some (st_wifi_if_powersave_enable L)"
  by (simp_all add: st_drv_def link_sockets_def)

end
