(* ===== verification/St_Props.thy ===== *)
theory St_Props
  imports St_Wifi Lwip_Static Lwip_Demo
begin

text \<open>
  The WiFi driver over the stack of ST: the socket table under everything the stack and lwIP may do, the end of a
  connection with a static address, the power save command, the results of a scan and the security asked for.
\<close>

section \<open>The socket table\<close>

lemma st_steps:
  "st_call f t = (r, u) \<Longrightarrow> lib_frame s t \<Longrightarrow> lib_frame s u" "lib_frame s t \<Longrightarrow> lib_frame s (st_do f t)"
proof -
  show call: "lib_frame s u" if "st_call f t = (r, u)" "lib_frame s t" for r u
    using lw_call_frame that by (auto simp: st_call_def)
  show "lib_frame s t \<Longrightarrow> lib_frame s (st_do f t)"
    using call [of "fst (st_call f t)" "st_do f t"] by (simp add: st_do_def)
qed

lemma st_upd_wifi: "upd_wifi p f t = Some u \<Longrightarrow> lib_frame s (t :: 'l lw_net) \<Longrightarrow> lib_frame s u"
  by (auto simp: upd_wifi_def bind_Some_iff upd_drv_def [symmetric] intro!: lib_frame_upds)

lemma st_add_frame:
  assumes "lwip_contract (st_lwip L) B" and "net_ip_add_if (st_lwip L) B p i fl t = Some (r, u)" and "lib_frame s t"
  shows "lib_frame s u"
  by (rule lib_frame_trans [OF assms(3) net_ip_add_if_frame [OF assms(1,2)]])

lemma st_end_of_local_frame: "lib_frame s t \<Longrightarrow> lib_frame s (st_end_of_local p t)"
  by (auto simp: st_end_of_local_def split: option.splits intro!: lib_frame_upds)

lemma st_start_frame:
  assumes "lwip_contract (st_lwip L) B" and "st_wifi_if_start L B p s = Some (r, t)"
  shows "lib_frame s t"
  using assms(2)
  by (auto simp: st_wifi_if_start_def st_start_station_def st_add_interface_def Let_def bind_Some_iff
      split: if_splits prod.splits
      elim!: lib_frame_sends st_upd_wifi st_add_frame [OF assms(1)] st_steps(1)
      intro!: st_end_of_local_frame lib_frame_upds lib_frame_refl)

lemma st_calls_frame:
  assumes "lwip_contract (st_lwip L) B" and "f \<in> {if_deinit, if_start, if_stop, if_connect, if_disconnect}"
    and "call_if f (st_env L B) p s = Some (r, t)"
  shows "lib_frame s t"
proof -
  have connect: "lib_frame s t" if run: "st_wifi_if_connect L p s = Some (r, t)"
  proof -
    obtain x cr where wifi: "wifi_of p s = Some x" "x_credentials x = Some cr"
      using run by (auto simp: st_wifi_if_connect_def bind_Some_iff)
    obtain q u where u: "st_call (wifi_connect L (cr_ssid cr) (cr_psk cr) (st_privacy (cr_security_mode cr))) s = (q, u)"
      by (cases "st_call (wifi_connect L (cr_ssid cr) (cr_psk cr) (st_privacy (cr_security_mode cr))) s")
    have "lib_frame s u" by (rule st_steps(1) [OF u lib_frame_refl])
    then show ?thesis
      using run wifi u by (auto simp: st_wifi_if_connect_def split: if_splits
          elim: lib_frame_trans [rotated, OF net_ip_connect_frame [OF assms(1)]])
  qed
  have stop: "st_wifi_if_stop L B p s = Some (r, t) \<Longrightarrow> lib_frame s t"
    by (auto simp: st_wifi_if_stop_def split: prod.splits if_splits elim!: event_frame st_steps(1) intro: lib_frame_refl)
  have disconnect: "st_wifi_if_disconnect L B p s = Some (r, t) \<Longrightarrow> lib_frame s t"
    by (auto simp: st_wifi_if_disconnect_def bind_Some_iff split: prod.splits if_splits
        elim!: lib_frame_sends st_steps(1) intro: lib_frame_refl)
  have deinit: "st_wifi_if_deinit L B p s = Some (r, t) \<Longrightarrow> lib_frame s t"
    by (auto simp: st_wifi_if_deinit_def bind_Some_iff Let_def split: prod.splits elim!: st_steps(1)
        intro!: lib_frame_upds intro: lib_frame_refl)
  show ?thesis
    using assms(2,3) connect stop disconnect deinit st_start_frame [OF assms(1), of p s r t]
    by (auto simp: call_if_def drv_of_def bind_Some_iff)
qed

text \<open>What happens without a command of the application: lwIP works on an interface, or the WiFi stack reports an event.\<close>

definition st_callback ::
  "'l st_lib \<Rightarrow> 'l lwip_world env \<Rightarrow> ('l lw_net \<Rightarrow> 'l lw_net \<Rightarrow> bool) \<Rightarrow> netref \<Rightarrow> 'l lw_net \<Rightarrow> 'l lw_net \<Rightarrow> bool" where
  "st_callback L B Q p s t \<longleftrightarrow> (\<exists>n. lw_run B Q n s t) \<or> (\<exists>q ev. st_wifi_event_callback L B q ev s = Some t)"

lemma st_event_frame:
  assumes "lwip_contract (st_lwip L) B" and "st_wifi_event_callback L B p ev s = Some t"
  shows "lib_frame s t"
proof -
  have notify: "lib_frame s (net_if_notify B p c i s)" for c i
    by (rule lib_frame_only_dev) (auto simp: net_if_notify_def only_dev_def split: option.splits)
  note link = lw_frame_of [OF assms(1)]
  show ?thesis
  proof (cases ev)
    case WIFI_EVENT_LINK_UP
    obtain u where u: "(if st_mode L s = WIFI_MODE_STA
        then Option.bind (h_netif (Netifs s p)) (\<lambda>netif. netif_set_link_up (st_lwip L) netif s) else Some s) = Some u"
      "(if st_mode L u = WIFI_MODE_AP then driver_sends B p NET_EVENT_INTERFACE_READY u else Some u) = Some t"
      using assms(2) WIFI_EVENT_LINK_UP by (auto simp: st_wifi_event_callback_def bind_Some_iff)
    have "lib_frame s u"
      using u(1) by (auto simp: bind_Some_iff split: if_splits intro: lib_frame_refl link(6) [OF lib_frame_refl])
    then show ?thesis using u(2) by (auto split: if_splits elim: lib_frame_sends)
  next
    case (WIFI_EVENT_RX_DATA frame)
    obtain buf u where u: "st_call (NET_BUF_ALLOC L (rx_len frame + sizeof_wifi_eth L)) s = (buf, u)"
      by (cases "st_call (NET_BUF_ALLOC L (rx_len frame + sizeof_wifi_eth L)) s")
    have "lib_frame s u" by (rule st_steps(1) [OF u lib_frame_refl])
    then show ?thesis
      using assms(2) WIFI_EVENT_RX_DATA u
      by (auto simp: st_wifi_event_callback_def Let_def split: option.splits intro!: st_steps(2))
  qed (use assms(2) notify in \<open>auto simp: st_wifi_event_callback_def bind_Some_iff split: if_splits
      intro: lib_frame_refl link(7) [OF lib_frame_refl]\<close>)
qed

lemma st_framed:
  assumes "lwip_contract (st_lwip L) B"
  shows "framed_driver (st_env L B) (st_callback L B (\<lambda>_ _. True))"
proof -
  have "socket_driver (st_env L B)"
    by (rule linked_socket_driver [of _ "st_lwip L"]) (auto simp: st_drv_def)
  moreover have "lib_frame s t" if "st_callback L B (\<lambda>_ _. True) p s t" for p s t
    using that lw_run_frame st_event_frame [OF assms] unfolding st_callback_def by (elim disjE exE) simp_all
  ultimately show ?thesis
    unfolding framed_driver_def framed_driver_axioms_def using st_calls_frame [OF assms] by blast
qed

text \<open>
  With the driver of ST and no assumption on its WiFi stack, any interleaving of commands, events, socket calls without
  TLS, events of the stack and calls lwIP makes by itself ends with no lock held and the socket table well formed.
\<close>

theorem st_history_keeps_table:
  assumes "lwip_contract (st_lwip L) B" and "mbedtls_contract (st_env L B)"
    and "lib_history (st_env L B) (st_callback L B (\<lambda>_ _. True)) plain_step s t" and "table_plain s"
  shows "table_plain t"
  by (rule framed_driver.history_keeps_table [OF st_framed [OF assms(1)] assms(2-4)])

section \<open>Disconnecting with a static address\<close>

lemma st_call_sel:
  assumes "st_call f s = (r, t)"
  shows "Netifs t = Netifs s" "lw_at n t = lw_at n s" "Drivers t = Drivers s" "lw_rest (dev t) = snd (f (lw_rest (dev s)))"
    "r = fst (f (lw_rest (dev s)))"
  using assms by (auto simp: st_call_def lw_call_def on_rest_def lw_at_def Let_def split: prod.splits)

lemma notify_keeps_st [simp]: "notify_keeps (st_env L B) = notify_keeps B"
  by (simp add: notify_keeps_def)

lemma st_call_halted: "st_call f s = (r, t) \<Longrightarrow> halted p n t \<longleftrightarrow> halted p n s"
  by (simp add: halted_def st_call_sel)

lemma st_connect_halted:
  assumes "static_stack (st_lwip L) B n" and "halted p n s" and "st_wifi_if_connect L p s = Some (r, t)"
  shows "halted p n t"
proof -
  obtain x cr where wifi: "wifi_of p s = Some x" "x_credentials x = Some cr"
    using assms(3) by (auto simp: st_wifi_if_connect_def bind_Some_iff)
  obtain q u where u: "st_call (wifi_connect L (cr_ssid cr) (cr_psk cr) (st_privacy (cr_security_mode cr))) s = (q, u)"
    by (cases "st_call (wifi_connect L (cr_ssid cr) (cr_psk cr) (st_privacy (cr_security_mode cr))) s")
  then have "halted p n u" using st_call_halted [OF u] assms(2) by simp
  then show ?thesis
    using assms(3) wifi u by (auto simp: st_wifi_if_connect_def split: if_splits elim: halted_connect [OF assms(1)])
qed

text \<open>An interface connected with its static address.\<close>

definition static_connected :: "netref \<Rightarrow> nat \<Rightarrow> 'l lw_net \<Rightarrow> bool" where
  "static_connected p n s \<longleftrightarrow> h_netif (Netifs s p) = Some n \<and> n_state (lw_at n s) = p \<and> \<not> h_dhcp_mode (Netifs s p)
     \<and> h_ipaddr (Netifs s p) = n_ip (lw_at n s) \<and> h_static_ipaddr (Netifs s p) = n_ip (lw_at n s)
     \<and> h_state (Netifs s p) = NET_STATE_CONNECTED"

lemma st_disconnect_halts:
  assumes "static_connected p n s" and "notify_keeps B"
    and "net_state_manage_event (st_env L B) (Some p) NET_EVENT_CMD_DISCONNECT s = Some (NET_OK, t)"
  shows "halted p n t \<and> h_state (Netifs t p) = NET_STATE_READY"
proof -
  let ?s = "set_state (st_env L B) p NET_STATE_DISCONNECTING s"
  obtain q u where u: "st_call (wifi_disconnect L) ?s = (q, u)" by (cases "st_call (wifi_disconnect L) ?s")
  note same = st_call_sel [OF u]
  have "driver_sends B p NET_EVENT_INTERFACE_READY u = Some t"
    using assms(1,3) u by (auto simp: static_connected_def manage_event_Some handler_defs call_if_def drv_of_def
        st_wifi_if_disconnect_def if_failure_def bind_Some_iff split: if_splits)
  then have "Netifs t = (Netifs u)(p := (Netifs u p)\<lparr>h_state := NET_STATE_READY\<rparr>)" "lw_at m t = lw_at m u" for m
    using sends_outcome [of NET_EVENT_INTERFACE_READY B p u] assms(2) same(1) by auto
  then show ?thesis
    using assms(1) same(1,2) assms(2) by (auto simp: halted_def static_connected_def)
qed

text \<open>
  C21. With the driver of ST, an interface with a static address can be connected once: after a disconnect command that
  succeeds it never gets back to CONNECTED by the commands start, connect, disconnect and deinit in any order, whatever
  lwIP does that leaves the address alone. The driver does not take the address from lwIP when it disconnects, so that
  the next connect changes nothing there, and the status callback reports an address only when it changes.
\<close>

theorem st_disconnect_is_final:
  assumes "static_stack (st_lwip L) B n" and "static_connected p n s"
    and "net_state_manage_event (st_env L B) (Some p) NET_EVENT_CMD_DISCONNECT s = Some (NET_OK, t)"
    and "lib_history (st_env L B) (\<lambda>_. lw_run B (same_addr n) n) (resumes p) t u"
  shows "h_state (Netifs u p) \<noteq> NET_STATE_CONNECTED"
proof -
  have "notify_keeps B" using assms(1) by (simp add: static_stack_def)
  then have halt: "halted p n t" using st_disconnect_halts [OF assms(2) _ assms(3)] by simp
  have "halted p n u"
  proof (rule halted_history [OF assms(1) _ halt assms(4)])
    show "halted p n t" if "halted p n s" "call_if if_connect (st_env L B) p s = Some (r, t)" for s r t
      using st_connect_halted [OF assms(1) that(1)] that(2) by (auto simp: call_if_def drv_of_def bind_Some_iff)
  qed simp
  then show ?thesis by (auto simp: halted_def)
qed

section \<open>Power save\<close>

lemma upd_wifi_of: "upd_wifi p f s = Some t \<Longrightarrow> \<exists>x. wifi_of p s = Some x \<and> wifi_of p t = Some (f x)"
  by (auto simp: upd_wifi_def wifi_of_def bind_Some_iff)

lemma wifi_of_cong: "Drivers t = Drivers s \<Longrightarrow> h_pdrv (Netifs t p) = h_pdrv (Netifs s p) \<Longrightarrow> wifi_of p t = wifi_of p s"
  by (simp add: wifi_of_def)

lemma net_ip_add_if_wifi:
  assumes "net_ip_add_if L E p i fl s = Some (r, t)"
  shows "wifi_of p t = wifi_of p s"
  by (rule wifi_of_cong)
    (use assms in \<open>auto simp: net_ip_add_if_def net_malloc_def lw_call_def lw_do_def link_socket_to_lwip_def Let_def
       bind_Some_iff split: option.splits prod.splits if_splits\<close>)

lemma driver_sends_wifi:
  assumes "driver_sends E p e s = Some t" and "driver_event e"
  shows "wifi_of p t = wifi_of p s"
proof (cases "h_state (Netifs s p) = NET_STATE_DEINITIALIZED")
  case True
  then show ?thesis using assms(1) by (simp add: driver_sends_def manage_event_deinitialized)
next
  case False
  then show ?thesis
    using assms(1) manage_event_from_driver [OF assms(2) False, of E]
    by (auto simp: driver_sends_def wifi_of_def split: option.splits)
qed

lemma st_add_wifi:
  assumes "st_add_interface L B p s = Some (r, t)"
  shows "wifi_of p t = wifi_of p s"
  using assms by (auto simp: st_add_interface_def bind_Some_iff split: if_splits
      dest!: net_ip_add_if_wifi driver_sends_wifi)

lemma st_end_of_local_wifi:
  "wifi_of p (st_end_of_local p s) =
     map_option (\<lambda>x. x\<lparr>x_powersave := map_option end_of_local (x_powersave x)\<rparr>) (wifi_of p s)"
  by (auto simp: st_end_of_local_def wifi_of_def upd_drv_def split: option.split)

lemma st_station_pointer:
  assumes "st_start_station L p s = Some t"
  shows "\<exists>x. wifi_of p t = Some x \<and> x_powersave x = Some (To_local WIFI_POWERSAVE_LIGHT_SLEEP)"
  using assms by (auto simp: st_start_station_def Let_def split: prod.splits dest!: upd_wifi_of)

text \<open>
  C22. The start of a station interface, whether it succeeds or not after the module has started, leaves the interface with
  a pointer to a local variable of a function that has returned: as long as no other pointer is set, the command to enable
  power save reads through it when the interface is CONNECTED.
\<close>

theorem st_powersave_after_start:
  assumes "st_call (wifi_start L) s = (WIFI_STATUS_OK L, s1)" and "st_mode L s1 = WIFI_MODE_STA"
    and "st_wifi_if_start L B p s = Some (r, t)"
  shows "map_option x_powersave (wifi_of p t) = Some (Some Dangling)
    \<and> (map_option x_powersave (wifi_of p u) = map_option x_powersave (wifi_of p t)
        \<and> h_state (Netifs u p) = NET_STATE_CONNECTED \<longrightarrow> net_if_powersave_enable (st_env L B) (Some p) u = None)"
proof -
  obtain v w where v: "st_start_station L p s1 = Some v" "st_add_interface L B p v = Some (r, w)" "t = st_end_of_local p w"
    using assms by (auto simp: st_wifi_if_start_def bind_Some_iff)
  have ptr: "map_option x_powersave (wifi_of p t) = Some (Some Dangling)"
    using st_station_pointer [OF v(1)] st_add_wifi [OF v(2)] by (auto simp: v(3) st_end_of_local_wifi)
  have "call_if if_powersave_enable (st_env L B) p u = None"
    if "map_option x_powersave (wifi_of p u) = Some (Some Dangling)"
    using that by (auto simp: call_if_def drv_of_def st_wifi_if_powersave_enable_def wifi_of_def split: bind_splits)
  then have "net_if_powersave_enable (st_env L B) (Some p) u = None"
    if "map_option x_powersave (wifi_of p u) = Some (Some Dangling)" "h_state (Netifs u p) = NET_STATE_CONNECTED"
    using that by (simp add: net_if_powersave_enable_def)
  then show ?thesis using ptr by metis
qed

section \<open>Scan results\<close>

lemma st_bss_security: "st_bss b r = Some r' \<Longrightarrow> sr_security r' = sr_security r"
  by (auto simp: st_bss_def split: if_splits)

lemma st_bss_fields:
  assumes "st_bss b r = Some r'"
  shows "sr_ssid_length r' = of_nat (length (sb_ssid b)) \<and> take (length (sb_ssid b)) (sr_ssid r') = sb_ssid b
    \<and> sr_channel r' = sb_channel b \<and> sr_rssi r' = sb_rssi b"
  using assms by (auto simp: st_bss_def split: if_splits)

lemma st_copied:
  assumes "st_copy_results i n bss results = Some out"
  shows "length out = length results \<and> (0 < n \<longrightarrow> i + n \<le> length bss \<and> i + n \<le> length results)
    \<and> (\<forall>j < length results. if i \<le> j \<and> j < i + n then st_bss (bss ! j) (results ! j) = Some (out ! j) else out ! j = results ! j)"
  using assms
proof (induction n arbitrary: i results)
  case 0
  then show ?case by auto
next
  case (Suc n)
  obtain b where b: "i < length bss" "i < length results" "st_bss (bss ! i) (results ! i) = Some b"
      "st_copy_results (Suc i) n bss (results[i := b]) = Some out"
    using Suc.prems by (auto simp: bind_Some_iff split: if_splits)
  note rest = Suc.IH [OF b(4)]
  have "if i \<le> j \<and> j < i + Suc n then st_bss (bss ! j) (results ! j) = Some (out ! j) else out ! j = results ! j"
    if "j < length results" for j
  proof (cases "j = i")
    case True
    have "out ! i = results[i := b] ! i" using rest b(2) by (metis length_list_update not_less_eq_eq order_refl)
    then show ?thesis using b(2,3) True by simp
  next
    case False
    then have "if Suc i \<le> j \<and> j < Suc i + n then st_bss (bss ! j) (results ! j) = Some (out ! j) else out ! j = results ! j"
      using rest that by (metis length_list_update nth_list_update_neq)
    then show ?thesis using False by (auto split: if_splits)
  qed
  moreover have "i + Suc n \<le> length bss \<and> i + Suc n \<le> length results" using rest b(1,2) by (cases n) auto
  ultimately show ?case using rest by simp
qed

text \<open>
  C23. The scan results of the driver of ST: when the stack stores the networks \<open>bss\<close>, as many elements of the caller's
  array as the driver reports, and not more than asked for, get the name, the channel and the signal of a network, in
  order; the others stay as they are. The security of a network is never stored: every element keeps what it held.
\<close>

theorem st_scan_results:
  assumes "st_wifi_get_scan_results L B p results number s = Some ((ret, out), t)"
    and "\<And>b n y. snd (fst (lib_wifi_get_scan_results L b n y)) = bss"
  shows "length out = length results \<and> map sr_security out = map sr_security results \<and> ret \<le> int (unat number)
    \<and> (\<forall>j < length results. if int j < ret
        then sr_ssid_length (out ! j) = of_nat (length (sb_ssid (bss ! j)))
          \<and> take (length (sb_ssid (bss ! j))) (sr_ssid (out ! j)) = sb_ssid (bss ! j)
          \<and> sr_channel (out ! j) = sb_channel (bss ! j) \<and> sr_rssi (out ! j) = sb_rssi (bss ! j)
        else out ! j = results ! j)"
proof -
  define nb where "nb = snd (fst (st_call (wifi_results_number L (stale_nb L)) s))"
  define m where "m = unat (if number < nb then number else nb)"
  have "m \<le> unat number" by (auto simp: m_def word_less_nat_alt)
  then have m: "int m \<le> int (unat number)" by (rule of_nat_mono)
  have bss: "b = bss" if "st_call (lib_wifi_get_scan_results L x n) u = ((r, b), v)" for x n u r b v
    using st_call_sel(5) [OF that] assms(2) [of x n "lw_rest (dev u)"] by (metis snd_conv)
  have out: "ret = NET_ERROR_GENERIC \<and> out = results \<or> ret = int m \<and> (\<exists>b \<in> {[], bss}. st_copy_results 0 m b results = Some out)"
    using assms(1) by (auto simp: st_wifi_get_scan_results_def Let_def bind_Some_iff m_def nb_def
        split: prod.splits if_splits option.splits dest!: bss)
  then show ?thesis
  proof
    assume "ret = NET_ERROR_GENERIC \<and> out = results"
    then show ?thesis using m by simp
  next
    assume "ret = int m \<and> (\<exists>b \<in> {[], bss}. st_copy_results 0 m b results = Some out)"
    then obtain b where run: "ret = int m" "b \<in> {[], bss}" "st_copy_results 0 m b results = Some out" by blast
    note copied = st_copied [OF run(3)]
    have "map sr_security out = map sr_security results"
    proof (rule nth_equalityI)
      show "map sr_security out ! j = map sr_security results ! j" if "j < length (map sr_security out)" for j
        using copied that st_bss_security [of "b ! j" "results ! j" "out ! j"] by (auto dest!: spec [of _ j] split: if_splits)
    qed (use copied in simp)
    moreover have "if int j < ret then sr_ssid_length (out ! j) = of_nat (length (sb_ssid (bss ! j)))
          \<and> take (length (sb_ssid (bss ! j))) (sr_ssid (out ! j)) = sb_ssid (bss ! j)
          \<and> sr_channel (out ! j) = sb_channel (bss ! j) \<and> sr_rssi (out ! j) = sb_rssi (bss ! j)
        else out ! j = results ! j" if j: "j < length results" for j
    proof (cases "j < m")
      case True
      then have "b = bss" using copied run(2) by auto
      then show ?thesis
        using st_bss_fields [of "b ! j" "results ! j" "out ! j"] copied True j run(1) by (auto dest!: spec [of _ j])
    next
      case False
      then show ?thesis using copied j run(1) by (auto dest!: spec [of _ j])
    qed
    ultimately show ?thesis using copied m run(1) by simp
  qed
qed

section \<open>The security asked for\<close>

text \<open>
  Of the modes the library names, those without the bits for WPA and WPA2 are joined as open networks: WEP, WPS and a
  network with WPA3 only among them.
\<close>

lemma st_joins_as_open:
  "[m \<leftarrow> named_modes. st_privacy (sint m) = WIFI_PRIVACY_NONE] =
     [NET_WIFI_SM_OPEN, NET_WIFI_SM_WEP_SHARED, NET_WIFI_SM_WPA3_SAE, NET_WIFI_SM_IBSS_OPEN, NET_WIFI_SM_WPS_OPEN,
      NET_WIFI_SM_WPS_SECURE]"
  by code_simp

section \<open>Witnesses\<close>

text \<open>Interface 1 as a station on its object 5 with the static address 7, over a stack where every call succeeds.\<close>

definition demo_networks :: "wifi_scan_bss list" where
  "demo_networks = [\<lparr>sb_ssid = [104, 105], sb_bssid = [1, 2, 3, 4, 5, 6], sb_channel = 11, sb_country = ''FR '', sb_rssi = 200\<rparr>]"

definition demo_st :: "unit st_lib" where
  "demo_st = \<lparr>st_lwip = demo_lwip, st_ping = \<lparr>inet_chksum = (\<lambda>_. 0), sizeof_net_if_handle = 200\<rparr>, WIFI_STATUS_OK = 0,
     WIFI_POWER_MODE_ACTIVE = 0, sizeof_wifi_eth = 14, sizeof_wifi_scan_bss = 50, stale_nb = 0,
     wifi_obj_mode = (\<lambda>_. WIFI_MODE_STA), wifi_probe = (\<lambda>c y. ((0, Some 3), y)), wifi_init = (\<lambda>_ y. (0, y)),
     wifi_deinit = (\<lambda>y. (0, y)), wifi_start = (\<lambda>y. (0, y)), wifi_stop = (\<lambda>y. (0, y)), wifi_connect = (\<lambda>_ _ _ y. (0, y)),
     wifi_disconnect = (\<lambda>y. (0, y)), wifi_power_mode = (\<lambda>_ y. (0, y)), wifi_device_name = (\<lambda>y. ((0, ''st''), y)),
     wifi_wlan_mac = (\<lambda>_ y. ((0, [2, 0, 0, 0, 0, 1]), y)), wifi_results_number = (\<lambda>_ y. ((0, 1), y)),
     lib_wifi_scan = (\<lambda>_ y. (0, y)), lib_wifi_get_scan_results = (\<lambda>_ _ y. ((0, demo_networks), y)),
     lib_wifi_set_mode = (\<lambda>_ y. (0, y)), wifi_os_malloc = (\<lambda>_ y. (Some 9, y)), wifi_os_free = (\<lambda>_ y. y),
     wifi_os_delay = (\<lambda>_ y. y), NET_BUF_ALLOC = (\<lambda>_ y. (Some 8, y)), wifi_eth_receive = (\<lambda>_ _ y. y),
     wifi_eth_transmit = (\<lambda>_ _ y. (0, y)), st_tcpip_input = (\<lambda>_ _ y. (0, y))\<rparr>"

definition demo_station :: "net_state \<Rightarrow> unit lw_net" where
  "demo_station st = (demo_over \<lparr>lw_netifs = (\<lambda>_. zero_netif\<lparr>n_ip := 7, n_link_up := True, n_state := 1\<rparr>), lw_errno = 0,
       tcpip_init_done = True, lw_linked = (\<lambda>_. False), lw_ping_seq = 1, lw_rest = ()\<rparr> st)
     \<lparr>Netifs := (\<lambda>_. (demo_netif st)\<lparr>h_netif := Some 5, h_dhcp_mode := False, h_static_ipaddr := 7, h_ipaddr := 7\<rparr>)\<rparr>"

lemma demo_station_sel [simp]:
  "n_ip (lw_at n (demo_station st)) = 7" "n_state (lw_at n (demo_station st)) = 1"
  "h_state (Netifs (demo_station st) p) = st" "h_netif (Netifs (demo_station st) p) = Some 5"
  "h_dhcp_mode (Netifs (demo_station st) p) = False" "h_static_ipaddr (Netifs (demo_station st) p) = 7"
  "h_ipaddr (Netifs (demo_station st) p) = 7" "h_pdrv (Netifs (demo_station st) p) = Some 0"
  by (simp_all add: demo_station_def demo_over_def lw_at_def demo_netif_def)

lemma demo_st_sel [simp]:
  "st_lwip demo_st = demo_lwip" "WIFI_STATUS_OK demo_st = 0" "wifi_start demo_st = (\<lambda>y. (0, y))" "st_mode demo_st s = WIFI_MODE_STA"
  "sizeof_wifi_scan_bss demo_st = 50" "wifi_connect demo_st = (\<lambda>_ _ _ y. (0, y))" "wifi_disconnect demo_st = (\<lambda>y. (0, y))"
  "wifi_results_number demo_st = (\<lambda>_ y. ((0, 1), y))" "lib_wifi_get_scan_results demo_st = (\<lambda>_ _ y. ((0, demo_networks), y))"
  "wifi_device_name demo_st = (\<lambda>y. ((0, ''st''), y))" "wifi_wlan_mac demo_st = (\<lambda>_ y. ((0, [2, 0, 0, 0, 0, 1]), y))"
  by (simp_all add: demo_st_def st_mode_def)

lemma demo_st_malloc [simp]: "net_malloc demo_base k s = (Some 60, s)"
  by (simp add: net_malloc_def demo_base_def)

lemma demo_st_call [simp]:
  "(\<And>y. f y = (r, y)) \<Longrightarrow> st_call f s = (r, s)"
  by (simp add: st_call_def lw_call_def on_rest_def)

lemma demo_static_stack: "static_stack (demo_lwip :: unit lwip_lib) demo_base n"
  by (auto simp: static_stack_def keeps_addr_def demo_lwip_sel intro: lw_start) (simp add: demo_lwip_def lw_start)

lemma demo_same_addr: "n_ip (lw_at n s) = a \<Longrightarrow> netif_set_addr demo_lwip n a m g s = Some s"
  by (simp add: demo_lwip_def)

theorem st_history_keeps_table_witness:
  "\<exists>t. st_wifi_event_callback demo_st demo_base 1 WIFI_EVENT_LINK_UP (demo_station NET_STATE_READY) = Some t \<and> table_plain t"
proof -
  let ?s = "demo_station NET_STATE_READY"
  have run: "st_wifi_event_callback demo_st demo_base 1 WIFI_EVENT_LINK_UP ?s = Some ?s"
    by (simp add: st_wifi_event_callback_def demo_lwip_sel)
  have "table_plain ?s" using demo_over_plain by (simp add: demo_station_def table_plain_def sock_at_def held_def)
  moreover have "mbedtls_contract (st_env demo_st demo_base)" by (simp add: st_env_def demo_base_mbedtls)
  moreover have "lib_history (st_env demo_st demo_base) (st_callback demo_st demo_base (\<lambda>_ _. True)) plain_step ?s ?s"
    by (rule history_callback [OF history_start]) (use run in \<open>auto simp: st_callback_def\<close>)
  ultimately show ?thesis
    using st_history_keeps_table [of demo_st demo_base ?s ?s] run demo_contract by auto
qed

text \<open>A disconnect and a second connect, after which the interface waits in CONNECTING.\<close>

theorem st_disconnect_is_final_witness:
  "\<exists>t r u. net_state_manage_event (st_env demo_st demo_base) (Some 1) NET_EVENT_CMD_DISCONNECT (demo_station NET_STATE_CONNECTED)
       = Some (NET_OK, t)
     \<and> net_state_manage_event (st_env demo_st demo_base) (Some 1) NET_EVENT_CMD_CONNECT t = Some (r, u)
     \<and> h_state (Netifs u 1) \<noteq> NET_STATE_CONNECTED"
proof -
  let ?E = "st_env demo_st demo_base" and ?s = "demo_station NET_STATE_CONNECTED"
  let ?t = "set_state demo_base 1 NET_STATE_READY (set_state ?E 1 NET_STATE_DISCONNECTING ?s)"
  have stop: "net_state_manage_event ?E (Some 1) NET_EVENT_CMD_DISCONNECT ?s = Some (NET_OK, ?t)"
    by (simp add: manage_event_Some handler_defs call_if_def drv_of_def st_wifi_if_disconnect_def if_failure_def
        driver_sends_def)
  obtain cr where cr: "d_wifi (Drivers ?s 0) = Some (demo_wifi\<lparr>x_credentials := Some cr\<rparr>)"
    by (simp add: demo_station_def demo_over_def)
  have again: "st_wifi_if_connect demo_st 1 (set_state ?E 1 NET_STATE_CONNECTING ?t)
      = Some (NET_OK, set_state ?E 1 NET_STATE_CONNECTING ?t)"
    by (simp add: st_wifi_if_connect_def wifi_of_def cr net_ip_connect_def demo_lwip_sel demo_same_addr)
  obtain u where u: "net_state_manage_event ?E (Some 1) NET_EVENT_CMD_CONNECT ?t = Some (NET_OK, u)"
    using again by (simp add: manage_event_Some handler_defs call_if_def drv_of_def if_failure_def)
  have "lib_history ?E (\<lambda>_. lw_run demo_base (same_addr 5) 5) (resumes 1) ?t u"
    by (rule history_step [OF history_start, where x = "Step_event 1 NET_EVENT_CMD_CONNECT"]) (use u in simp_all)
  moreover have "static_connected 1 5 ?s" by (simp add: static_connected_def)
  ultimately have "h_state (Netifs u 1) \<noteq> NET_STATE_CONNECTED"
    using st_disconnect_is_final [OF _ _ stop] demo_static_stack by simp
  then show ?thesis using stop u by blast
qed

theorem st_scan_results_witness:
  "\<forall>r. \<exists>out t. st_wifi_get_scan_results demo_st demo_base 1 [r] 1 (demo_station NET_STATE_READY) = Some ((1, out), t)
     \<and> sr_channel (out ! 0) = 11 \<and> sr_security (out ! 0) = sr_security r"
proof
  fix r
  let ?s = "demo_station NET_STATE_READY"
  obtain b where b: "st_bss (hd demo_networks) r = Some b" by (simp add: st_bss_def demo_networks_def)
  have run: "st_wifi_get_scan_results demo_st demo_base 1 [r] 1 ?s = Some ((1, [b]), net_free demo_base 60 ?s)"
    using b by (simp add: st_wifi_get_scan_results_def demo_networks_def)
  show "\<exists>out t. st_wifi_get_scan_results demo_st demo_base 1 [r] 1 ?s = Some ((1, out), t)
      \<and> sr_channel (out ! 0) = 11 \<and> sr_security (out ! 0) = sr_security r"
    using st_scan_results [OF run, of demo_networks] run by (simp add: demo_networks_def)
qed

lemma demo_st_add:
  assumes "h_pdrv (Netifs s p) = Some d"
  shows "\<exists>t. net_ip_add_if demo_lwip demo_base p (net_wifi_if_init demo_st demo_base) fl s = Some (NET_OK, t)
    \<and> Drivers t = Drivers s \<and> h_pdrv (Netifs t p) = Some d \<and> h_state (Netifs t p) = h_state (Netifs s p)"
proof -
  have "fst (net_wifi_if_init demo_st demo_base n w) = ERR_OK" for n and w :: "unit lwip_world"
    by (simp add: net_wifi_if_init_def demo_base_def Let_def split: prod.splits)
  then have "\<exists>w'. netif_add demo_lwip 60 p (net_wifi_if_init demo_st demo_base) w = (Some 60, w')" for w :: "unit lwip_world"
    by (auto simp: demo_lwip_def split: prod.splits) (metis fst_conv)
  then obtain w' where "netif_add demo_lwip 60 p (net_wifi_if_init demo_st demo_base) (upd_lw 60 (\<lambda>_. zero_netif) (dev s)) = (Some 60, w')"
    by blast
  then show ?thesis
    using assms by (simp add: net_ip_add_if_def lw_call_def lw_do_def link_socket_to_lwip_def Let_def)
qed

theorem st_powersave_after_start_witness:
  "\<exists>t. st_wifi_if_start demo_st demo_base 1 (demo_station NET_STATE_STARTING) = Some (NET_OK, t)
     \<and> net_if_powersave_enable (st_env demo_st demo_base) (Some 1) (set_state demo_base 1 NET_STATE_CONNECTED t) = None"
proof -
  let ?s = "demo_station NET_STATE_STARTING"
  obtain x where x: "d_wifi (Drivers ?s 0) = Some x" by (simp add: demo_station_def demo_over_def)
  obtain v where v: "st_start_station demo_st 1 ?s = Some v" "h_pdrv (Netifs v 1) = Some 0"
      "h_state (Netifs v 1) = NET_STATE_STARTING"
    by (simp add: st_start_station_def upd_wifi_def x)
  obtain a where a: "net_ip_add_if demo_lwip demo_base 1 (net_wifi_if_init demo_st demo_base) 1 v = Some (NET_OK, a)"
      "Drivers a = Drivers v" "h_pdrv (Netifs a 1) = Some 0" "h_state (Netifs a 1) = NET_STATE_STARTING"
    using demo_st_add [OF v(2), of 1] unfolding v(3) by (elim exE conjE) (rule that)
  obtain t where run: "st_wifi_if_start demo_st demo_base 1 ?s = Some (NET_OK, t)"
    by (auto simp: st_wifi_if_start_def v(1) st_add_interface_def a
        driver_sends_def manage_event_from_driver simp del: One_nat_def)
  have "net_if_powersave_enable (st_env demo_st demo_base) (Some 1) (set_state demo_base 1 NET_STATE_CONNECTED t) = None"
    using st_powersave_after_start [OF _ _ run, of ?s "set_state demo_base 1 NET_STATE_CONNECTED t"] by (simp add: wifi_of_def)
  then show ?thesis using run by blast
qed

end
