(* ===== verification/Mx_Bypass.thy ===== *)
theory Mx_Bypass
  imports Mx_Wifi Lwip_Driver
begin

text \<open>
  The same driver of the MXCHIP module built with \<open>MX_WIFI_NETWORK_BYPASS_MODE\<close> 1: the sockets are those of lwIP, and the
  module only carries Ethernet frames. The module and its component library are those of \<open>Mx_Wifi\<close>; what the bypass mode
  adds to the library, with the queue and the thread of the RTOS port, is the record \<open>bypass_lib\<close>. \<open>LWIP_IGMP\<close> is not set.
\<close>

section \<open>State\<close>

text \<open>The two static variables of the file, and the module.\<close>

record 'm bypass =
  Station_pNetif :: "netref option"
  SoftAP_pNetif :: "netref option"
  by_module :: "'m mx_world"

type_synonym 'm by_world = "'m bypass lwip_world"
type_synonym 'm by_net = "'m by_world net"

text \<open>A packet buffer: its payload, and its members \<open>len\<close> and \<open>if_idx\<close>.\<close>

record mx_buf =
  mb_ref :: nat
  mb_payload :: bytes
  mb_len :: u16
  mb_if_idx :: u8
  mb_chained :: bool  \<comment> \<open>\<open>p->next != NULL || p->tot_len != p->len\<close>\<close>

record 'm bypass_lib =
  by_lwip :: "'m bypass lwip_lib"
  by_ping :: ping_lib
  by_mx :: "'m mx_lib"
  MX_WIFI_PAYLOAD_MTU :: u32
  STATION_IDX :: u8
  SOFTAP_IDX :: u8
  MX_WIFI_MAX_TX_BUFFER_COUNT :: nat
  THREAD_OK :: int
  FIFO_OK :: int
  SysInfo_MAC :: "'m mx_world \<Rightarrow> bytes"
  SysInfo_apMAC :: "'m mx_world \<Rightarrow> bytes"
  MX_WIFI_Network_bypass_mode_set :: "bool \<Rightarrow> netref option \<Rightarrow> 'm mx_world \<Rightarrow> int \<times> 'm mx_world"
    \<comment> \<open>with \<open>net_mx_wifi_netlink_input_callback\<close> when it is switched on\<close>
  MX_WIFI_Network_bypass_netlink_output :: "bytes \<Rightarrow> int \<Rightarrow> int \<Rightarrow> 'm mx_world \<Rightarrow> int \<times> 'm mx_world"
  FIFO_INIT :: "nat \<Rightarrow> 'm mx_world \<Rightarrow> 'm mx_world"
  FIFO_PUSH :: "mx_buf \<Rightarrow> 'm mx_world \<Rightarrow> int \<times> 'm mx_world"
    \<comment> \<open>with \<open>WAIT_FOREVER\<close>; a port without threads calls \<open>PushToDriver\<close> while it waits\<close>
  FIFO_POP :: "u32 \<Rightarrow> 'm mx_world \<Rightarrow> mx_buf option \<times> 'm mx_world"
  THREAD_INIT :: "'m mx_world \<Rightarrow> int \<times> 'm mx_world"
    \<comment> \<open>a thread of the function \<open>NET_MX_WIFI_TranmitThread\<close>\<close>
  by_pbuf_ref :: "mx_buf \<Rightarrow> 'm mx_world \<Rightarrow> 'm mx_world"
  by_pbuf_free :: "mx_buf \<Rightarrow> 'm mx_world \<Rightarrow> u8 \<times> 'm mx_world"
  pbuf_clone :: "mx_buf \<Rightarrow> 'm mx_world \<Rightarrow> mx_buf option \<times> 'm mx_world"
  by_tcpip_input :: "mx_buf \<Rightarrow> nat \<Rightarrow> 'm mx_world \<Rightarrow> int \<times> 'm mx_world"

definition by_w :: "('m mx_world \<Rightarrow> 'a \<times> 'm mx_world) \<Rightarrow> 'm by_world \<Rightarrow> 'a \<times> 'm by_world" where
  "by_w f = on_rest (\<lambda>b. let (x, y) = f (by_module b) in (x, b\<lparr>by_module := y\<rparr>))"

definition by_call :: "('m mx_world \<Rightarrow> 'a \<times> 'm mx_world) \<Rightarrow> 'm by_net \<Rightarrow> 'a \<times> 'm by_net" where
  "by_call f = lw_call (by_w f)"

definition by_do :: "('m mx_world \<Rightarrow> 'a \<times> 'm mx_world) \<Rightarrow> 'm by_net \<Rightarrow> 'm by_net" where
  "by_do f s = snd (by_call f s)"

definition upd_bypass :: "('m bypass \<Rightarrow> 'm bypass) \<Rightarrow> 'm by_net \<Rightarrow> 'm by_net" where
  "upd_bypass f = lw_do (\<lambda>w. w\<lparr>lw_rest := f (lw_rest w)\<rparr>)"

text \<open>A function of \<open>Mx_Wifi\<close> that is the same in both builds, run on the library and the module.\<close>

definition with_dev :: "'v \<Rightarrow> 'w net \<Rightarrow> 'v net" where
  "with_dev w s = \<lparr>Netifs = Netifs s, NetIfList = NetIfList s, NetInitialized = NetInitialized s, Sockets = Sockets s,
     Drivers = Drivers s, TlsHeap = TlsHeap s, oslog = oslog s, dev = w\<rparr>"

definition in_module :: "('m mx_net \<Rightarrow> ('a, 'm mx_world) res) \<Rightarrow> 'm by_net \<Rightarrow> ('a, 'm by_world) res" where
  "in_module f s = do {
     (r, t) \<leftarrow> f (with_dev (by_module (lw_rest (dev s))) s);
     Some (r, with_dev ((dev s)\<lparr>lw_rest := (lw_rest (dev s))\<lparr>by_module := dev t\<rparr>\<rparr>) t) }"

abbreviation (input) NET_ERROR_MODULE_INITIALIZATION :: int where "NET_ERROR_MODULE_INITIALIZATION \<equiv> -30"
abbreviation (input) ERR_MEM :: int where "ERR_MEM \<equiv> -1"
abbreviation (input) ERR_INPROGRESS :: int where "ERR_INPROGRESS \<equiv> -5"
abbreviation (input) ERR_ARG :: int where "ERR_ARG \<equiv> -16"

section \<open>The interface of lwIP\<close>

text \<open>\<open>NETIF_FLAG_BROADCAST | NETIF_FLAG_ETHARP | NETIF_FLAG_ETHERNET\<close>\<close>
abbreviation (input) MX_NETIF_FLAGS :: u8 where "MX_NETIF_FLAGS \<equiv> 0x1A"

text \<open>
  \<open>low_level_init\<close> for an interface in the given mode, which the code reads through \<open>netif->state\<close>: a queue and a thread
  for each call. The assignment to \<open>netif->flags\<close> clears the bit of the link.
\<close>

definition mx_low_level_init :: "'m bypass_lib \<Rightarrow> net_wifi_mode \<Rightarrow> nat \<Rightarrow> 'm by_world \<Rightarrow> int \<times> 'm by_world" where
  "mx_low_level_init L mode netif w =
     (let w = snd (by_w (\<lambda>y. ((), FIFO_INIT L (MX_WIFI_MAX_TX_BUFFER_COUNT L) y)) w);
          (r, w) = by_w (THREAD_INIT L) w
      in if r \<noteq> THREAD_OK L then (-1, w)
         else
           (let w = upd_lw netif (\<lambda>v. v\<lparr>n_hwaddr_len := 6\<rparr>) w;
                m = by_module (lw_rest w);
                w = (if mode = NET_WIFI_MODE_AP
                     then upd_lw netif (\<lambda>v. v\<lparr>n_name := [0x4D, 0x41], n_hwaddr := take 6 (SysInfo_apMAC L m)\<rparr>) w
                     else upd_lw netif (\<lambda>v. v\<lparr>n_name := [0x4D, 0x53], n_hwaddr := take 6 (SysInfo_MAC L m)\<rparr>) w);
                w = upd_lw netif (\<lambda>v. v\<lparr>n_mtu := ucast (MX_WIFI_PAYLOAD_MTU L), n_flags := MX_NETIF_FLAGS, n_link_up := False\<rparr>) w
            in (ERR_OK, netif_register_callbacks (by_lwip L) netif w)))"

definition push_packet :: "'m bypass_lib \<Rightarrow> mx_buf \<Rightarrow> 'm by_net \<Rightarrow> int \<times> 'm by_net" where
  "push_packet L p s = (case by_call (FIFO_PUSH L p) s of (r, s) \<Rightarrow> (if FIFO_OK L = r then ERR_OK else ERR_ARG, s))"

definition mx_low_level_output :: "'m bypass_lib \<Rightarrow> nat \<Rightarrow> mx_buf option \<Rightarrow> 'm by_net \<Rightarrow> (int, 'm by_world) res" where
  "mx_low_level_output L netif buffer s =
     (case buffer of
        None \<Rightarrow> Some (ERR_INPROGRESS, s)
      | Some p \<Rightarrow> do {
          let s = by_do (\<lambda>y. ((), by_pbuf_ref L p y)) s;
          x \<leftarrow> wifi_of (n_state (lw_at netif s)) s;
          let p = p\<lparr>mb_if_idx := (if x_mode x = NET_WIFI_MODE_AP then SOFTAP_IDX L else STATION_IDX L)\<rparr>;
          Some (if mb_chained p
                then (case by_call (pbuf_clone L p) s of (pbuf_send, s) \<Rightarrow>
                  let s = by_do (by_pbuf_free L p) s in
                  case pbuf_send of None \<Rightarrow> (ERR_MEM, s) | Some q \<Rightarrow> push_packet L q s)
                else push_packet L p s) })"

text \<open>One turn of the endless loop of \<open>NET_MX_WIFI_TranmitThread\<close>, for the timeout \<open>WAIT_FOREVER\<close>.\<close>

definition PushToDriver :: "'m bypass_lib \<Rightarrow> u32 \<Rightarrow> 'm by_net \<Rightarrow> 'm by_net" where
  "PushToDriver L timeout s =
     (case by_call (FIFO_POP L timeout) s of
        (None, s) \<Rightarrow> s
      | (Some p, s) \<Rightarrow>
          by_do (by_pbuf_free L p)
            (by_do (MX_WIFI_Network_bypass_netlink_output L (mb_payload p) (int (unat (mb_len p))) (int (unat (mb_if_idx p)))) s))"

abbreviation (input) ETHTYPE_IP :: u16 where "ETHTYPE_IP \<equiv> 0x0800"
abbreviation (input) ETHTYPE_ARP :: u16 where "ETHTYPE_ARP \<equiv> 0x0806"
abbreviation (input) ETHTYPE_IPV6 :: u16 where "ETHTYPE_IPV6 \<equiv> 0x86DD"

text \<open>The outer option is the access through the static variable, the inner one a null result.\<close>

definition get_netif :: "'m bypass_lib \<Rightarrow> u8 \<Rightarrow> 'm by_net \<Rightarrow> nat option option" where
  "get_netif L low_level_netif_idx s =
     (if low_level_netif_idx = SOFTAP_IDX L
      then do { p \<leftarrow> SoftAP_pNetif (lw_rest (dev s)); Some (h_netif (Netifs s p)) }
      else if low_level_netif_idx = STATION_IDX L
      then do { p \<leftarrow> Station_pNetif (lw_rest (dev s)); Some (h_netif (Netifs s p)) }
      else Some None)"

text \<open>\<open>idx\<close> is what \<open>user_args\<close> points to. The header is read from a packet of any length but 0.\<close>

definition net_mx_wifi_netlink_input_callback :: "'m bypass_lib \<Rightarrow> mx_buf option \<Rightarrow> u8 \<Rightarrow> 'm by_net \<Rightarrow> 'm by_net option" where
  "net_mx_wifi_netlink_input_callback L buffer idx s =
     (case buffer of
        None \<Rightarrow> Some s
      | Some b \<Rightarrow>
          if 0 < mb_len b \<and> ucast (mb_len b) \<le> MX_WIFI_PAYLOAD_MTU L then do {
            netif \<leftarrow> get_netif L idx s;
            (if length (mb_payload b) < 14 then None
             else if ethertype (mb_payload b) \<in> {ETHTYPE_IPV6, ETHTYPE_IP, ETHTYPE_ARP}
             then (case netif of
                 None \<Rightarrow> Some (by_do (by_pbuf_free L b) s)
               | Some n \<Rightarrow> (case by_call (by_tcpip_input L b n) s of (r, s) \<Rightarrow>
                   Some (if r \<noteq> ERR_OK then by_do (by_pbuf_free L b) s else s)))
             else Some (by_do (by_pbuf_free L b) s)) }
          else Some (by_do (by_pbuf_free L b) s))"

section \<open>Initialisation\<close>

definition by_hw_start :: "'m bypass_lib \<Rightarrow> netref \<Rightarrow> 'm by_net \<Rightarrow> (int, 'm by_world) res" where
  "by_hw_start L p s = do {
     (ret, s) \<leftarrow> in_module (hw_start (by_mx L) p) s;
     Some (if ret \<noteq> NET_OK then (ret, s)
           else (case by_call (MX_WIFI_Network_bypass_mode_set L True (Some p)) s of (r, s) \<Rightarrow>
             (if MX_WIFI_STATUS_OK (by_mx L) \<noteq> r then NET_ERROR_MODULE_INITIALIZATION else NET_OK, s))) }"

definition by_if_init :: "'m bypass_lib \<Rightarrow> 'm by_world env \<Rightarrow> netref \<Rightarrow> 'm by_net \<Rightarrow> (int, 'm by_world) res" where
  "by_if_init L E p s =
     (case net_malloc E (env_sizeof E Sizeof_net_if_drv) s of
        (None, s) \<Rightarrow> Some (NET_ERROR_NO_MEMORY, s)
      | (Some d, s) \<Rightarrow>
          (let s = upd_drv d (\<lambda>x. x\<lparr>d_if_class := NET_INTERFACE_CLASS_WIFI\<rparr>) (fresh_table d s) in
           case net_malloc E (env_sizeof E Sizeof_wifi_extension) s of
             (None, s) \<Rightarrow> Some (NET_ERROR_NO_MEMORY, net_free E d s)
           | (Some x, s) \<Rightarrow>
               (let s = upd_drv d (\<lambda>y. y\<lparr>d_wifi := Some zero_wifi_ext, d_wifi_ref := x\<rparr>) s;
                    s = upd_netif p (\<lambda>h. h\<lparr>h_dhcp_mode := True\<rparr>) s;
                    s = upd_netif p (\<lambda>h. h\<lparr>h_pdrv := Some d\<rparr>) s
                in by_hw_start L p s)))"

definition by_driver :: "'m bypass_lib \<Rightarrow> 'm by_world env \<Rightarrow> netref \<Rightarrow> 'm by_net \<Rightarrow> (int, 'm by_world) res" where
  "by_driver L E pnetif s = by_if_init L E pnetif (net_ip_init (by_lwip L) s)"

definition by_if_deinit :: "'m bypass_lib \<Rightarrow> 'm by_world env \<Rightarrow> netref \<Rightarrow> 'm by_net \<Rightarrow> (int, 'm by_world) res" where
  "by_if_deinit L E p s = do {
     let s = by_do (MX_WIFI_Network_bypass_mode_set L False None) s;
     let (r, s) = by_call (MX_WIFI_DeInit (by_mx L)) s;
     d \<leftarrow> h_pdrv (Netifs s p);
     let s = upd_drv d (\<lambda>x. x\<lparr>d_wifi := None\<rparr>) (net_free E (d_wifi_ref (Drivers s d)) s);
     let s = net_free E d s;
     Some (if MX_WIFI_STATUS_OK (by_mx L) \<noteq> r then NET_ERROR_GENERIC else NET_OK,
       upd_netif p (\<lambda>h. h\<lparr>h_pdrv := None\<rparr>) s) }"

section \<open>Start, stop and connection\<close>

definition by_if_start :: "'m bypass_lib \<Rightarrow> netref \<Rightarrow> 'm by_net \<Rightarrow> (int, 'm by_world) res" where
  "by_if_start L p s = do {
     x \<leftarrow> wifi_of p s;
     (if x_mode x = NET_WIFI_MODE_STA then do {
        (ret, s) \<leftarrow> in_module (mx_wifi_if_start_station (by_mx L) p) s;
        Some (ret, if NET_OK = ret then upd_bypass (\<lambda>b. b\<lparr>Station_pNetif := Some p\<rparr>) s else s) }
      else do {
        (ret, s) \<leftarrow> in_module (mx_wifi_if_start_softap (by_mx L) p) s;
        Some (ret, if NET_OK = ret then upd_bypass (\<lambda>b. b\<lparr>SoftAP_pNetif := Some p\<rparr>) s else s) }) }"

definition by_if_stop :: "'m bypass_lib \<Rightarrow> 'm by_world env \<Rightarrow> netref \<Rightarrow> 'm by_net \<Rightarrow> (int, 'm by_world) res" where
  "by_if_stop L E p s = do {
     x \<leftarrow> wifi_of p s;
     s \<leftarrow> (if x_mode x = NET_WIFI_MODE_STA then do {
             cr \<leftarrow> x_credentials x;
             let s = (if wps_mode cr then by_do (MX_WIFI_WPS_Stop (by_mx L)) s else s);
             let s = by_do (MX_WIFI_Disconnect (by_mx L)) s;
             Some (upd_bypass (\<lambda>b. b\<lparr>Station_pNetif := None\<rparr>) s) }
           else Some (upd_bypass (\<lambda>b. b\<lparr>SoftAP_pNetif := None\<rparr>) (by_do (MX_WIFI_StopAP (by_mx L)) s)));
     s \<leftarrow> driver_sends E p NET_EVENT_INTERFACE_INITIALIZED s;
     Some (NET_OK, s) }"

definition by_if_yield :: "'m bypass_lib \<Rightarrow> netref \<Rightarrow> u32 \<Rightarrow> 'm by_net \<Rightarrow> (int, 'm by_world) res" where
  "by_if_yield L p timeout_ms = in_module (mx_wifi_if_yield (by_mx L) p timeout_ms)"

definition by_if_connect :: "'m bypass_lib \<Rightarrow> 'm by_world env \<Rightarrow> netref \<Rightarrow> 'm by_net \<Rightarrow> (int, 'm by_world) res" where
  "by_if_connect L E p s = do {
     x \<leftarrow> wifi_of p s;
     (ret, s) \<leftarrow> net_ip_add_if (by_lwip L) E p (mx_low_level_init L (x_mode x)) NET_ETHERNET_FLAG_DEFAULT_IF s;
     (if ret = NET_OK then do {
        netif \<leftarrow> h_netif (Netifs s p);
        s \<leftarrow> netif_set_link_up (by_lwip L) netif s;
        (ret, s) \<leftarrow> net_ip_connect (by_lwip L) p s;
        Some (if ret \<noteq> NET_OK then NET_ERROR_NO_CONNECTION else ret, s) }
      else Some (ret, s)) }"

definition by_if_disconnect :: "'m bypass_lib \<Rightarrow> 'm by_world env \<Rightarrow> netref \<Rightarrow> 'm by_net \<Rightarrow> (int, 'm by_world) res" where
  "by_if_disconnect L E p s = do {
     (ret, s) \<leftarrow> net_ip_disconnect (by_lwip L) p s;
     (if ret = NET_OK then do {
        (ret, s) \<leftarrow> net_ip_remove_if (by_lwip L) E p None s;
        s \<leftarrow> (if ret = NET_OK then driver_sends E p NET_EVENT_INTERFACE_READY s else Some s);
        Some (ret, s) }
      else Some (ret, s)) }"

text \<open>The station that comes up counts while the interface is being started only.\<close>

definition by_status_changed ::
  "'m bypass_lib \<Rightarrow> 'm by_world env \<Rightarrow> u8 \<Rightarrow> u8 \<Rightarrow> netref \<Rightarrow> 'm by_net \<Rightarrow> 'm by_net option" where
  "by_status_changed L E cate status p s = do {
     ((_, net_state), s) \<leftarrow> net_if_getState (Some p) s;
     let M = by_mx L;
     (if mwifi_if_code M MC_STATION = cate then
        if status = MWIFI_EVENT_STA_DOWN M then
          if NET_STATE_STOPPING = net_state then driver_sends E p NET_EVENT_INTERFACE_INITIALIZED s
          else if NET_STATE_CONNECTED = net_state then driver_sends E p NET_EVENT_LINK_DOWN s
          else Some s
        else if status = MWIFI_EVENT_STA_UP M then
          if NET_STATE_STARTING = net_state then driver_sends E p NET_EVENT_INTERFACE_READY s else Some s
        else if status = MWIFI_EVENT_STA_GOT_IP M then do {
          (_, s) \<leftarrow> in_module (\<lambda>s. Some ((), take_settings p s)) s;
          driver_sends E p NET_EVENT_IPADDR s }
        else Some s
      else if mwifi_if_code M MC_SOFTAP = cate then
        if status = MWIFI_EVENT_AP_DOWN M then
          if NET_STATE_CONNECTED = net_state then driver_sends E p NET_EVENT_LINK_DOWN s
          else driver_sends E p NET_EVENT_INTERFACE_READY s
        else if status = MWIFI_EVENT_AP_UP M then
          (let s = upd_netif p (\<lambda>h. h\<lparr>h_ipaddr := h_static_ipaddr h\<rparr>) s;
               s = upd_netif p (\<lambda>h. h\<lparr>h_gateway := h_static_gateway h\<rparr>) s;
               s = upd_netif p (\<lambda>h. h\<lparr>h_netmask := h_static_netmask h\<rparr>) s
           in driver_sends E p NET_EVENT_INTERFACE_READY s)
        else Some s
      else Some s) }"

section \<open>The driver table\<close>

definition by_get_scan_result ::
  "'m bypass_lib \<Rightarrow> 'm by_world env \<Rightarrow> netref \<Rightarrow> net_wifi_scan_result list \<Rightarrow> u8 \<Rightarrow> 'm by_net \<Rightarrow>
     (int \<times> net_wifi_scan_result list, 'm by_world) res" where
  "by_get_scan_result L E p scan_bss_array scan_bss_count s =
     (if scan_bss_count = 0 then Some ((NET_ERROR_PARAMETER, scan_bss_array), s)
      else case net_malloc E (unat scan_bss_count * sizeof_mwifi_ap_info (by_mx L)) s of
        (None, s) \<Rightarrow> Some ((NET_ERROR_NO_MEMORY, scan_bss_array), s)
      | (Some a, s) \<Rightarrow> do {
          let ((number, aps), s) = by_call (MX_WIFI_Get_scan_result (by_mx L) scan_bss_count) s;
          results \<leftarrow> mx_copy_results 0 (nat (sint number)) aps scan_bss_array;
          Some ((sint number, results), net_free E a s) })"

definition by_drv :: "'m bypass_lib \<Rightarrow> 'm by_world env \<Rightarrow> drvref \<Rightarrow> 'm by_net net_if_drv" where
  "by_drv L E d = link_sockets (by_lwip L) d (null_drv\<lparr>
     if_init := Some (by_if_init L E), if_deinit := Some (by_if_deinit L E),
     if_start := Some (by_if_start L), if_stop := Some (by_if_stop L E), if_yield := Some (by_if_yield L),
     if_connect := Some (by_if_connect L E), if_disconnect := Some (by_if_disconnect L E),
     pping := Some (ping_member (by_ping L) (sockets_env (by_lwip L) E)),
     wifi_scan := Some (\<lambda>p mode ssid. in_module (mx_wifi_scan (by_mx L) p mode ssid)),
     wifi_get_scan_results := Some (by_get_scan_result L E)\<rparr>)"

definition by_env :: "'m bypass_lib \<Rightarrow> 'm by_world env \<Rightarrow> 'm by_world env" where
  "by_env L B = B\<lparr>env_drv := by_drv L B\<rparr>"

lemma by_env_sel [simp]:
  "env_drv (by_env L B) d = by_drv L B d" "env_notify (by_env L B) = env_notify B"
  by (simp_all add: by_env_def)

lemma by_drv_sel [simp]:
  "if_deinit (by_drv L B d) = Some (by_if_deinit L B)" "if_start (by_drv L B d) = Some (by_if_start L)"
  "if_stop (by_drv L B d) = Some (by_if_stop L B)" "if_connect (by_drv L B d) = Some (by_if_connect L B)"
  "if_disconnect (by_drv L B d) = Some (by_if_disconnect L B)"
  by (simp_all add: by_drv_def)

end
