(* ===== verification/Mx_Bypass_Props.thy ===== *)
theory Mx_Bypass_Props
  imports Mx_Bypass Mx_Wifi_Props Lwip_Demo
begin

text \<open>
  The bypass mode of the MXCHIP driver: the socket table under everything the module and lwIP may do, and what a frame
  does that arrives while no interface is started.
\<close>

section \<open>Relations the driver keeps\<close>

definition statics :: "'m bypass \<Rightarrow> netref option \<times> netref option" where
  "statics b = (Station_pNetif b, SoftAP_pNetif b)"

lemma statics_eq [simp]: "statics (b\<lparr>by_module := y\<rparr>) = statics b"
  by (simp add: statics_def)

lemma by_call_step:
  assumes "by_call f s = (r, t)"
  shows "only_dev s t" "same_part statics s t"
  using assms by (auto simp: by_call_def lw_call_def by_w_def on_rest_def Let_def same_part_def split: prod.splits)

lemma by_do_step: "only_dev s (by_do f s)" "same_part statics s (by_do f s)"
  using by_call_step [of f s "fst (by_call f s)" "by_do f s"] by (simp_all add: by_do_def)

lemma in_module_step:
  assumes "in_module f s = Some (r, t)" and "\<And>s r t. f s = Some (r, t) \<Longrightarrow> driver_ok p s t"
  shows "lib_frame s t" "same_part statics s t"
proof -
  obtain u where u: "f (with_dev (by_module (lw_rest (dev s))) s) = Some (r, u)"
      "t = with_dev ((dev s)\<lparr>lw_rest := (lw_rest (dev s))\<lparr>by_module := dev u\<rparr>\<rparr>) u"
    using assms(1) by (auto simp: in_module_def bind_Some_iff)
  have "lib_frame (with_dev (by_module (lw_rest (dev s))) s) u" by (rule driver_ok_lib_frame [OF assms(2) [OF u(1)]])
  then show "lib_frame s t" by (simp add: u(2) lib_frame_def with_dev_def held_def)
  show "same_part statics s t" by (simp add: u(2) same_part_def with_dev_def)
qed

text \<open>
  What happens without a command of the application: lwIP works on an interface or sends a frame, the module reports a
  status or hands over a frame, the transmission thread takes a turn.
\<close>

inductive by_callback ::
  "'m bypass_lib \<Rightarrow> 'm by_world env \<Rightarrow> ('m by_net \<Rightarrow> 'm by_net \<Rightarrow> bool) \<Rightarrow> netref \<Rightarrow> 'm by_net \<Rightarrow> 'm by_net \<Rightarrow> bool"
  for L B Q p s where
    by_lwip_works: "lw_run B Q n s t \<Longrightarrow> by_callback L B Q p s t"
  | by_sends: "mx_low_level_output L n b s = Some (r, t) \<Longrightarrow> by_callback L B Q p s t"
  | by_status: "by_status_changed L B cate status q s = Some t \<Longrightarrow> by_callback L B Q p s t"
  | by_packet: "net_mx_wifi_netlink_input_callback L b idx s = Some t \<Longrightarrow> by_callback L B Q p s t"
  | by_thread: "by_callback L B Q p s (PushToDriver L timeout s)"

text \<open>
  A relation as for the glue that also holds for every step that leaves the static variables alone, for a stop and for
  the addition of the interface.
\<close>

locale by_frame = lwip_frame "by_lwip L" B Q R for L :: "'m bypass_lib" and B Q R +
  assumes module_step: "lib_frame s t \<Longrightarrow> same_part statics s t \<Longrightarrow> R s t"
    and stop_step: "R s (upd_bypass (\<lambda>b. b\<lparr>Station_pNetif := None\<rparr>) s)" "R s (upd_bypass (\<lambda>b. b\<lparr>SoftAP_pNetif := None\<rparr>) s)"
    and add_step: "lw_call (netif_add (by_lwip L) n p (mx_low_level_init L m)) s = (q, t) \<Longrightarrow> R s t"
begin

lemma call_steps:
  "by_call f t = (r, u) \<Longrightarrow> R t u" "R t (by_do f t)"
  "in_module g t = Some (x, u) \<Longrightarrow> (\<And>s r t. g s = Some (r, t) \<Longrightarrow> driver_ok p s t) \<Longrightarrow> R t u"
proof -
  show "by_call f t = (r, u) \<Longrightarrow> R t u" "R t (by_do f t)"
    by (auto intro!: module_step lib_frame_only_dev dest: by_call_step intro: by_do_step)
  show "R t u" if "in_module g t = Some (x, u)" "\<And>s r t. g s = Some (r, t) \<Longrightarrow> driver_ok p s t"
    by (rule module_step) (rule in_module_step [OF that], assumption)+
qed

lemma after_call:
  "by_call f t = (r, u) \<Longrightarrow> R s t \<Longrightarrow> R s u" "R s t \<Longrightarrow> R s (by_do f t)"
  by (rule trans, assumption, erule call_steps) (erule trans, rule call_steps)

lemma after_glue:
  "net_ip_add_if (by_lwip L) B p (mx_low_level_init L m) fl t = Some (r, u) \<Longrightarrow> R s t \<Longrightarrow> R s u"
  "net_ip_connect (by_lwip L) p t = Some (r, u) \<Longrightarrow> R s t \<Longrightarrow> R s u"
  "net_ip_disconnect (by_lwip L) p t = Some (r, u) \<Longrightarrow> R s t \<Longrightarrow> R s u"
  "net_ip_remove_if (by_lwip L) B p None t = Some (r, u) \<Longrightarrow> R s t \<Longrightarrow> R s u"
proof -
  show "net_ip_add_if (by_lwip L) B p (mx_low_level_init L m) fl t = Some (r, u) \<Longrightarrow> R s t \<Longrightarrow> R s u"
    using add_if_keeps add_step trans by meson
  show "net_ip_remove_if (by_lwip L) B p None t = Some (r, u) \<Longrightarrow> R s t \<Longrightarrow> R s u"
    using remove_if_keeps [of p None t r u] trans by auto
qed (blast intro: connect_keeps disconnect_keeps trans)+

lemma after_stop: "R s t \<Longrightarrow> R s (upd_bypass (\<lambda>b. b\<lparr>Station_pNetif := None\<rparr>) t)"
  "R s t \<Longrightarrow> R s (upd_bypass (\<lambda>b. b\<lparr>SoftAP_pNetif := None\<rparr>) t)"
  using stop_step trans by blast+

lemma by_deinit_keeps: "by_if_deinit L B p s = Some (r, t) \<Longrightarrow> R s t"
  by (auto simp: by_if_deinit_def bind_Some_iff Let_def split: prod.splits intro!: after after_call(2) refl
      elim!: after_call(1))

lemma by_stop_keeps: "by_if_stop L B p s = Some (r, t) \<Longrightarrow> R s t"
  by (auto simp: by_if_stop_def bind_Some_iff Let_def split: if_splits elim!: after_sends intro!: after_stop after_call(2) refl)

lemma by_connect_keeps: "by_if_connect L B p s = Some (r, t) \<Longrightarrow> R s t"
  by (auto simp: by_if_connect_def bind_Some_iff refl split: if_splits elim!: after_glue(1,2) after_lwip [rotated])

lemma by_disconnect_keeps: "by_if_disconnect L B p s = Some (r, t) \<Longrightarrow> R s t"
  by (auto simp: by_if_disconnect_def bind_Some_iff refl split: if_splits elim!: after_glue(3,4) after_sends)

lemma status_keeps: "by_status_changed L B cate status p s = Some t \<Longrightarrow> R s t"
proof -
  assume run: "by_status_changed L B cate status p s = Some t"
  have "R s u" if "in_module (\<lambda>s. Some ((), take_settings p s)) s = Some (z, u)" for z u
    by (rule call_steps(3) [OF that, of p]) (auto simp: driver_ok_take_settings)
  then show "R s t"
    using run by (auto simp: by_status_changed_def Let_def bind_Some_iff dest!: getState_handle split: if_splits
        elim!: after_sends intro!: after intro: refl)
qed

lemma packet_keeps: "net_mx_wifi_netlink_input_callback L b idx s = Some t \<Longrightarrow> R s t"
  by (auto simp: net_mx_wifi_netlink_input_callback_def bind_Some_iff refl split: if_splits option.splits prod.splits
      intro!: after_call(2) intro: refl call_steps(1))

lemma output_keeps: "mx_low_level_output L n b s = Some (r, t) \<Longrightarrow> R s t"
  by (auto simp: mx_low_level_output_def push_packet_def bind_Some_iff Let_def refl split: if_splits option.splits prod.splits
      elim!: after_call(1) intro!: after_call(2) refl)

lemma thread_keeps: "R s (PushToDriver L timeout s)"
  by (auto simp: PushToDriver_def split: prod.splits option.splits intro!: after_call(2) intro: call_steps(1))

lemma callback_keeps: "by_callback L B Q p s t \<Longrightarrow> R s t"
  by (induction rule: by_callback.induct) (auto intro: run_step output_keeps status_keeps packet_keeps thread_keeps)

end

section \<open>The socket table\<close>

lemma upd_bypass_step: "only_dev s (upd_bypass g s)"
  by (simp add: upd_bypass_def lw_do_def)

lemma lib_by_frame: "lwip_contract (by_lwip L) B \<Longrightarrow> by_frame L B (\<lambda>_ _. True) lib_frame"
  unfolding by_frame_def by_frame_axioms_def
  by (auto intro: lib_lwip_frame lib_frame_only_dev upd_bypass_step elim: lw_call_frame)

lemma by_start_frame: "by_if_start L p s = Some (r, t) \<Longrightarrow> lib_frame s t"
proof -
  assume run: "by_if_start L p s = Some (r, t)"
  have set: "lib_frame s (upd_bypass g u)" if "lib_frame s u" for g u
    by (rule lib_frame_trans [OF that lib_frame_only_dev [OF upd_bypass_step]])
  have "in_module (mx_wifi_if_start_station M p) s = Some (z, u) \<Longrightarrow> lib_frame s u"
    "in_module (mx_wifi_if_start_softap M p) s = Some (z, u) \<Longrightarrow> lib_frame s u" for M z u
    by (erule in_module_step(1), erule mx_wifi_if_start_station_ok mx_wifi_if_start_softap_ok)+
  then show ?thesis
    using run by (auto simp: by_if_start_def bind_Some_iff split: if_splits intro!: set)
qed

lemma by_calls_frame:
  assumes "lwip_contract (by_lwip L) B" and "f \<in> {if_deinit, if_start, if_stop, if_connect, if_disconnect}"
    and "call_if f (by_env L B) p s = Some (r, t)"
  shows "lib_frame s t"
proof -
  note frame = lib_by_frame [OF assms(1)]
  show ?thesis
    using assms(2,3) by (auto simp: call_if_def drv_of_def bind_Some_iff
        dest: by_start_frame by_frame.by_stop_keeps [OF frame] by_frame.by_connect_keeps [OF frame]
          by_frame.by_disconnect_keeps [OF frame] by_frame.by_deinit_keeps [OF frame])
qed

lemma by_framed:
  assumes "lwip_contract (by_lwip L) B"
  shows "framed_driver (by_env L B) (by_callback L B (\<lambda>_ _. True))"
proof -
  have "socket_driver (by_env L B)"
    by (rule linked_socket_driver [of _ "by_lwip L"]) (auto simp: by_drv_def)
  then show ?thesis
    unfolding framed_driver_def framed_driver_axioms_def
    using by_calls_frame [OF assms] by_frame.callback_keeps [OF lib_by_frame [OF assms]] by blast
qed

text \<open>
  In bypass mode too, and with no assumption on the module, any interleaving of commands, events, socket calls without TLS,
  statuses and frames of the module, frames lwIP sends, turns of the transmission thread and calls lwIP makes by itself
  ends with no lock held and the socket table well formed.
\<close>

theorem by_history_keeps_table:
  assumes "lwip_contract (by_lwip L) B" and "mbedtls_contract (by_env L B)"
    and "lib_history (by_env L B) (by_callback L B (\<lambda>_ _. True)) plain_step s t" and "table_plain s"
  shows "table_plain t"
  by (rule framed_driver.history_keeps_table [OF by_framed [OF assms(1)] assms(2-4)])

section \<open>Frames without an interface\<close>

text \<open>The variables are static in their file: nothing outside the file changes them.\<close>

definition by_private :: "'m bypass_lib \<Rightarrow> 'm by_world env \<Rightarrow> bool" where
  "by_private L B \<longleftrightarrow> keeps_part statics (by_lwip L) B \<and> add_runs_init statics (by_lwip L)"

definition no_station :: "'m by_net \<Rightarrow> bool" where
  "no_station s \<longleftrightarrow> Station_pNetif (lw_rest (dev s)) = None"

definition stays_unstarted :: "'m by_net \<Rightarrow> 'm by_net \<Rightarrow> bool" where
  "stays_unstarted s t \<longleftrightarrow> (no_station s \<longrightarrow> no_station t)"

lemma stays_unstarted_eq:
  "stays_unstarted = (\<lambda>s t. (\<lambda>x y. fst x = None \<longrightarrow> fst y = None) (statics (lw_rest (dev s))) (statics (lw_rest (dev t))))"
  by (intro ext) (simp add: stays_unstarted_def no_station_def statics_def)

lemma mx_init_statics:
  assumes "\<And>n w. statics (lw_rest (netif_register_callbacks (by_lwip L) n w)) = statics (lw_rest w)"
    and "mx_low_level_init L m n w = (r, w')"
  shows "statics (lw_rest w') = statics (lw_rest w)"
  using assms(2) by (auto simp: mx_low_level_init_def Let_def by_w_def on_rest_def upd_lw_def assms(1) split: prod.splits if_splits)

lemma add_statics:
  assumes "by_private L B" and "lw_call (netif_add (by_lwip L) n p (mx_low_level_init L m)) s = (q, t)"
  shows "same_part statics s t"
proof -
  obtain w1 w2 w3 r where w: "statics (lw_rest w1) = statics (lw_rest (dev s))" "mx_low_level_init L m n w1 = (r, w2)"
      "statics (lw_rest w3) = statics (lw_rest w2)"
      "netif_add (by_lwip L) n p (mx_low_level_init L m) (dev s) = (if r = ERR_OK then Some n else None, w3)"
    using assms(1) unfolding by_private_def add_runs_init_def by metis
  have "\<And>n w. statics (lw_rest (netif_register_callbacks (by_lwip L) n w)) = statics (lw_rest w)"
    using assms(1) by (simp add: by_private_def keeps_part_def)
  from mx_init_statics [OF this w(2)] show ?thesis
    using assms(2) w by (auto simp: lw_call_def Let_def same_part_def)
qed

lemma station_by_frame:
  assumes "by_private L B"
  shows "by_frame L B (same_part statics) stays_unstarted"
proof -
  have "keeps_part statics (by_lwip L) B" using assms by (simp add: by_private_def)
  then have frame: "lwip_frame (by_lwip L) B (same_part statics) stays_unstarted"
    unfolding stays_unstarted_eq by (rule part_lwip_frame) auto
  have same: "same_part statics s t \<Longrightarrow> stays_unstarted s t" for s t :: "'a by_net"
    by (auto simp: same_part_def statics_def stays_unstarted_def no_station_def)
  moreover have "stays_unstarted s (upd_bypass (\<lambda>b. b\<lparr>Station_pNetif := None\<rparr>) s)"
    "stays_unstarted s (upd_bypass (\<lambda>b. b\<lparr>SoftAP_pNetif := None\<rparr>) s)" for s :: "'a by_net"
    by (simp_all add: stays_unstarted_def no_station_def upd_bypass_def lw_do_def)
  ultimately show ?thesis
    unfolding by_frame_def by_frame_axioms_def
    using frame add_statics [OF assms] by blast
qed

text \<open>Every command (\<open>net_if_deinit\<close> in full) and event but a start; no socket calls.\<close>

fun unstarted :: "library_step \<Rightarrow> bool" where
  "unstarted (Step_event q e) = (e \<noteq> NET_EVENT_CMD_START)"
| "unstarted (Step_call c) = False"

lemma event_stays_unstarted:
  assumes "by_private L B" and "e \<noteq> NET_EVENT_CMD_START" and "net_state_manage_event (by_env L B) (Some q) e s = Some (r, t)"
  shows "stays_unstarted s t"
proof (rule lwip_frame.command_keeps [OF by_frame.axioms(1) [OF station_by_frame [OF assms(1)]] assms(3)])
  note frame = station_by_frame [OF assms(1)]
  fix f s r t
  assume "f \<in> {if_stop, if_connect, if_disconnect} \<or> f = if_start \<and> e = NET_EVENT_CMD_START
      \<or> f = if_deinit \<and> e = NET_EVENT_CMD_DEINIT"
    and "call_if f (by_env L B) q s = Some (r, t)"
  then show "stays_unstarted s t"
    using assms(2) by (auto simp: call_if_def drv_of_def bind_Some_iff
        dest: by_frame.by_deinit_keeps [OF frame] by_frame.by_stop_keeps [OF frame] by_frame.by_connect_keeps [OF frame]
          by_frame.by_disconnect_keeps [OF frame])
qed simp

text \<open>Around its event \<open>net_if_deinit\<close> changes the state, the links and the locks only.\<close>

lemma deinit_dev:
  assumes "net_if_deinit E (Some p) s = Some (r, t)"
  shows "\<exists>q u. net_state_manage_event E (Some p) NET_EVENT_CMD_DEINIT s = Some (q, u) \<and> dev t = dev u"
  using assms by (auto simp: net_if_deinit_def Let_def bind_Some_iff split: if_splits
      dest!: netif_remove_links dest: links_onlyD(5))

lemma command_stays_unstarted:
  assumes "by_private L B" and "unstarted x" and "run_step (by_env L B) x s = Some (r, t)"
  shows "stays_unstarted s t"
proof -
  obtain q e where x: "x = Step_event q e" "e \<noteq> NET_EVENT_CMD_START" using assms(2) by (cases x) auto
  obtain r' u where "net_state_manage_event (by_env L B) (Some q) e s = Some (r', u)" "dev t = dev u"
    using assms(3) x(1) deinit_dev by (cases "e = NET_EVENT_CMD_DEINIT") fastforce+
  then show ?thesis
    using event_stays_unstarted [OF assms(1) x(2)] by (auto simp: stays_unstarted_def no_station_def)
qed

lemma history_stays_unstarted:
  assumes "by_private L B" and "lib_history (by_env L B) (by_callback L B (same_part statics)) unstarted s t"
    and "no_station s"
  shows "no_station t"
  using assms(2,3)
proof (induction rule: lib_history.induct)
  case (history_step t x r u)
  then show ?case using command_stays_unstarted [OF assms(1)] by (auto simp: stays_unstarted_def)
next
  case (history_callback t p u)
  then show ?case
    using by_frame.callback_keeps [OF station_by_frame [OF assms(1)]] by (auto simp: stays_unstarted_def)
qed

lemma stop_clears_station:
  assumes "by_private L B" and "wifi_of p s = Some x" and "x_mode x = NET_WIFI_MODE_STA" and "by_if_stop L B p s = Some (r, t)"
  shows "no_station t"
proof -
  have notify: "\<And>h e i w. statics (lw_rest (env_notify B h e i w)) = statics (lw_rest w)"
    using assms(1) by (simp add: by_private_def keeps_part_def)
  obtain u where u: "driver_sends B p NET_EVENT_INTERFACE_INITIALIZED (upd_bypass (\<lambda>b. b\<lparr>Station_pNetif := None\<rparr>) u) = Some t"
    using assms(2-4) by (auto simp: by_if_stop_def bind_Some_iff Let_def)
  have "statics (lw_rest (dev t)) = statics (lw_rest (dev (upd_bypass (\<lambda>b. b\<lparr>Station_pNetif := None\<rparr>) u)))"
    by (rule sends_keeps_view [where v = "\<lambda>w. statics (lw_rest w)" and E = B, OF notify _ u]) simp
  then show ?thesis by (simp add: no_station_def statics_def upd_bypass_def lw_do_def)
qed

text \<open>
  C7. In bypass mode, once the station has been stopped, and until an interface is started again, a frame the module
  hands over for the station makes the program read through a null pointer, whatever other commands (\<open>net_if_deinit\<close> in
  full), events of the drivers and callbacks of lwIP come in between (no socket calls): the test of the driver for a
  missing interface comes after the access. (The module hands over frames from the initialisation
  of the driver to its end.)
\<close>

theorem by_frame_after_stop:
  assumes "by_private L B" and "h_state (Netifs s p) = NET_STATE_READY"
    and "wifi_of p s = Some x" and "x_mode x = NET_WIFI_MODE_STA"
    and "net_state_manage_event (by_env L B) (Some p) NET_EVENT_CMD_STOP s = Some (r, t)"
    and "lib_history (by_env L B) (by_callback L B (same_part statics)) unstarted t u"
    and "STATION_IDX L \<noteq> SOFTAP_IDX L" and "0 < mb_len b" and "ucast (mb_len b) \<le> MX_WIFI_PAYLOAD_MTU L"
  shows "net_mx_wifi_netlink_input_callback L (Some b) (STATION_IDX L) u = None"
proof -
  let ?s = "set_state (by_env L B) p NET_STATE_STOPPING s"
  obtain q where "by_if_stop L B p ?s = Some (q, t)"
    using assms(2,5) by (auto simp: manage_event_Some handler_defs call_if_def drv_of_def bind_Some_iff)
  moreover have "wifi_of p ?s = Some x" using assms(3) by (simp add: wifi_of_def)
  ultimately have "no_station t" using stop_clears_station [OF assms(1) _ assms(4)] by blast
  then have "no_station u" by (rule history_stays_unstarted [OF assms(1,6)])
  then show ?thesis
    using assms(7-9) by (simp add: net_mx_wifi_netlink_input_callback_def get_netif_def no_station_def)
qed

section \<open>Witnesses\<close>

text \<open>Interface 1 as a ready station, its lwIP object 5 gone, over a module where every call succeeds.\<close>

definition demo_by :: "nat bypass_lib" where
  "demo_by = \<lparr>by_lwip = demo_lwip, by_ping = \<lparr>inet_chksum = (\<lambda>_. 0), sizeof_net_if_handle = 200\<rparr>, by_mx = demo_mx_lib,
     MX_WIFI_PAYLOAD_MTU = 1530, STATION_IDX = 0, SOFTAP_IDX = 1, MX_WIFI_MAX_TX_BUFFER_COUNT = 4, THREAD_OK = 0, FIFO_OK = 0,
     SysInfo_MAC = (\<lambda>_. replicate 6 1), SysInfo_apMAC = (\<lambda>_. replicate 6 2),
     MX_WIFI_Network_bypass_mode_set = (\<lambda>_ _ w. (0, w)), MX_WIFI_Network_bypass_netlink_output = (\<lambda>_ _ _ w. (0, w)),
     FIFO_INIT = (\<lambda>_ w. w), FIFO_PUSH = (\<lambda>_ w. (0, w)), FIFO_POP = (\<lambda>_ w. (None, w)), THREAD_INIT = (\<lambda>w. (0, w)),
     by_pbuf_ref = (\<lambda>_ w. w), by_pbuf_free = (\<lambda>_ w. (1, w)), pbuf_clone = (\<lambda>p w. (Some p, w)),
     by_tcpip_input = (\<lambda>_ _ w. (0, w))\<rparr>"

definition demo_bypass :: "net_state \<Rightarrow> nat by_net" where
  "demo_bypass = demo_over \<lparr>lw_netifs = (\<lambda>_. zero_netif), lw_errno = 0, tcpip_init_done = True, lw_linked = (\<lambda>_. True),
     lw_ping_seq = 1, lw_rest = \<lparr>Station_pNetif = Some 1, SoftAP_pNetif = None, by_module = dev (demo_mx 0 NET_STATE_READY)\<rparr>\<rparr>"

lemma demo_by_sel [simp]:
  "by_lwip demo_by = demo_lwip" "by_mx demo_by = demo_mx_lib" "STATION_IDX demo_by = 0" "SOFTAP_IDX demo_by = 1"
  "MX_WIFI_PAYLOAD_MTU demo_by = 1530"
  by (simp_all add: demo_by_def)

lemma demo_by_private: "by_private demo_by demo_base"
proof -
  have "same_part statics s (lw_do (upd_lw n f) s)" for n f and s :: "nat by_net"
    by (simp add: same_part_def lw_do_def upd_lw_def)
  then have "lwip_does (same_part statics) demo_lwip (demo_base :: nat by_world env)" by (rule demo_does)
  moreover have "\<exists>w1 w2 w3 r. statics (lw_rest w1) = statics (lw_rest w) \<and> f n w1 = (r, w2)
      \<and> statics (lw_rest w3) = statics (lw_rest w2)
      \<and> netif_add demo_lwip n p f w = (if r = ERR_OK then Some n else None, w3)" for n p f and w :: "nat by_world"
    by (rule exI [of _ "upd_lw n (\<lambda>v. v\<lparr>n_state := p\<rparr>) w"])
      (auto simp: demo_lwip_def upd_lw_def split: prod.splits)
  ultimately show ?thesis
    by (simp add: by_private_def keeps_part_def add_runs_init_def) (simp add: demo_lwip_def demo_base_def)
qed

interpretation demo_by_frame: by_frame demo_by demo_base "same_part statics" stays_unstarted
  by (rule station_by_frame [OF demo_by_private])

theorem by_history_keeps_table_witness:
  "table_plain (demo_bypass NET_STATE_READY)"
  using by_history_keeps_table [of demo_by demo_base "demo_bypass NET_STATE_READY" "demo_bypass NET_STATE_READY"]
    history_start demo_contract by (simp add: demo_over_plain demo_bypass_def by_env_def demo_base_mbedtls)

theorem by_frame_after_stop_witness:
  "\<exists>r t. net_state_manage_event (by_env demo_by demo_base) (Some 1) NET_EVENT_CMD_STOP (demo_bypass NET_STATE_READY) = Some (r, t)
     \<and> net_mx_wifi_netlink_input_callback demo_by
         (Some \<lparr>mb_ref = 3, mb_payload = replicate 12 0 @ [8, 0], mb_len = 14, mb_if_idx = 0, mb_chained = False\<rparr>) 0 t = None"
proof -
  let ?E = "by_env demo_by demo_base" and ?s = "demo_bypass NET_STATE_READY"
  let ?u = "set_state ?E 1 NET_STATE_STOPPING ?s"
  obtain x cr where x: "wifi_of 1 ?s = Some x" "x_mode x = NET_WIFI_MODE_STA" "x_credentials x = Some cr"
    by (simp add: wifi_of_def demo_bypass_def demo_over_def demo_netif_def demo_wifi_def)
  have "wifi_of 1 ?u = Some x" using x(1) by (simp add: wifi_of_def)
  then obtain t where "by_if_stop demo_by demo_base 1 ?u = Some (NET_OK, t)"
    using x(2,3) driver_sends_returns [of NET_EVENT_INTERFACE_INITIALIZED demo_base 1]
    by (fastforce simp: by_if_stop_def Let_def bind_Some_iff)
  then have run: "net_state_manage_event ?E (Some 1) NET_EVENT_CMD_STOP ?s = Some (NET_OK, t)"
    by (simp add: manage_event_Some handler_defs call_if_def drv_of_def if_failure_def demo_bypass_def demo_over_def demo_netif_def)
  have "net_mx_wifi_netlink_input_callback demo_by
      (Some \<lparr>mb_ref = 3, mb_payload = replicate 12 0 @ [8, 0], mb_len = 14, mb_if_idx = 0, mb_chained = False\<rparr>) (STATION_IDX demo_by) t = None"
    by (rule by_frame_after_stop [OF demo_by_private _ x(1,2) run history_start])
      (simp_all add: demo_bypass_def demo_over_def demo_netif_def)
  then show ?thesis using run by auto
qed

end
