(* ===== verification/Net_Alloc.thy ===== *)
theory Net_Alloc
  imports Net_Prelude
begin

text \<open>
  The allocation functions of \<open>core/net_os.c\<close>: \<open>net_calloc\<close> and \<open>net_realloc\<close> over the RTOS allocator, and
  the debugging allocator of \<open>NET_ALLOC_DEBUG\<close> with \<open>NET_ALLOC_DEBUG_TREE\<close> and \<open>NET_ALLOC_HISTOGRAM\<close>: a table of live
  allocations, four guard bytes behind each block, totals, and a tree that sums the allocations by the
  parts of the path of the source file. \<open>size_t\<close> has 32 bits. The allocator \<open>pvPortMalloc\<close>, \<open>vPortFree\<close> is a
  parameter; memory is a function from addresses to bytes. The scheduler is suspended for the whole of
  each debugging call, so a call is one step. A call that loops for ever, as after a failed check, is \<^term>\<open>None\<close>.
\<close>

section \<open>State\<close>

type_synonym ptr = nat   \<comment> \<open>an address; 0 is the null pointer\<close>

abbreviation (input) NET_LEAKAGE_ARRAY :: nat where "NET_LEAKAGE_ARRAY \<equiv> 300"
abbreviation (input) NET_ALLOC_MAX_NODE :: nat where "NET_ALLOC_MAX_NODE \<equiv> 50"
abbreviation (input) NET_MALLOC_MAX_HISTOGRAM :: nat where "NET_MALLOC_MAX_HISTOGRAM \<equiv> 11"
abbreviation (input) NET_ALLOC_BREAK :: u32 where "NET_ALLOC_BREAK \<equiv> 0xFFFFFFFF"
abbreviation (input) NET_ALLOC_OVERWRITE_CHECK_OFFSET :: nat where "NET_ALLOC_OVERWRITE_CHECK_OFFSET \<equiv> 4"
abbreviation (input) MAX_ALLOC_VALUE :: u32 where "MAX_ALLOC_VALUE \<equiv> 0x4000"

text \<open>A node's \<open>name\<close> points into the path it was made from: it is the rest of that path.\<close>

record net_alloc_node =
  n_name :: string
  n_namelen :: u32
  n_down :: "nat option"
  n_up :: "nat option"
  n_neighbour :: "nat option"
  n_current :: u32
  n_max :: u32
  n_histogram :: "u16 list"

record net_debug_alloc =
  ai_filename :: "string option"
  ai_line :: u16
  ai_iter :: u16
  ai_size :: u32
  ai_p :: ptr
  ai_node :: "nat option"

record 'w alloc_state =
  Nodes :: "net_alloc_node list"
  NodesCount :: nat
  RootNode :: "nat option"
  AllocInfos :: "net_debug_alloc list"
  AllocCurrent :: u32
  AllocTotalMax :: u32
  iteralloc :: u32
  iterfree :: u32
  max_alive_alloc :: u32
  memory :: "ptr \<Rightarrow> u8"
  port :: 'w

record 'w port_alloc =
  pvPortMalloc :: "u32 \<Rightarrow> 'w \<Rightarrow> ptr \<times> 'w"
  vPortFree :: "ptr \<Rightarrow> 'w \<Rightarrow> 'w"

definition port_malloc :: "'w port_alloc \<Rightarrow> u32 \<Rightarrow> 'w alloc_state \<Rightarrow> ptr \<times> 'w alloc_state" where
  "port_malloc A n s = (let (p, w) = pvPortMalloc A n (port s) in (p, s\<lparr>port := w\<rparr>))"

definition port_free :: "'w port_alloc \<Rightarrow> ptr \<Rightarrow> 'w alloc_state \<Rightarrow> 'w alloc_state" where
  "port_free A p s = s\<lparr>port := vPortFree A p (port s)\<rparr>"

definition upd_node :: "nat \<Rightarrow> (net_alloc_node \<Rightarrow> net_alloc_node) \<Rightarrow> 'w alloc_state \<Rightarrow> 'w alloc_state" where
  "upd_node i f s = s\<lparr>Nodes := (Nodes s)[i := f (Nodes s ! i)]\<rparr>"

definition zero_node :: net_alloc_node where
  "zero_node = \<lparr>n_name = [], n_namelen = 0, n_down = None, n_up = None, n_neighbour = None, n_current = 0,
     n_max = 0, n_histogram = replicate NET_MALLOC_MAX_HISTOGRAM 0\<rparr>"

definition zero_info :: net_debug_alloc where
  "zero_info = \<lparr>ai_filename = None, ai_line = 0, ai_iter = 0, ai_size = 0, ai_p = 0, ai_node = None\<rparr>"

section \<open>Memory\<close>

definition mem_set :: "ptr \<Rightarrow> nat \<Rightarrow> u8 \<Rightarrow> 'w alloc_state \<Rightarrow> 'w alloc_state" where
  "mem_set p n b s = s\<lparr>memory := (\<lambda>a. if p \<le> a \<and> a < p + n then b else memory s a)\<rparr>"

definition mem_copy :: "ptr \<Rightarrow> ptr \<Rightarrow> nat \<Rightarrow> 'w alloc_state \<Rightarrow> 'w alloc_state" where
  "mem_copy dst src n s = s\<lparr>memory := (\<lambda>a. if dst \<le> a \<and> a < dst + n then memory s (src + (a - dst)) else memory s a)\<rparr>"

section \<open>The plain functions\<close>

definition net_calloc :: "'w port_alloc \<Rightarrow> u32 \<Rightarrow> u32 \<Rightarrow> 'w alloc_state \<Rightarrow> ptr \<times> 'w alloc_state" where
  "net_calloc A num sz s =
     (let (p, s) = (if num < MAX_ALLOC_VALUE \<and> sz < MAX_ALLOC_VALUE then port_malloc A (num * sz) s else (0, s))
      in if p \<noteq> 0 then (p, mem_set p (unat (num * sz)) 0 s) else (p, s))"

definition net_realloc :: "'w port_alloc \<Rightarrow> ptr \<Rightarrow> u32 \<Rightarrow> 'w alloc_state \<Rightarrow> ptr \<times> 'w alloc_state" where
  "net_realloc A p sz s =
     (if p = 0 then if sz \<noteq> 0 then port_malloc A sz s else (0, s)
      else if sz \<noteq> 0 then
        let (new_ptr, s) = port_malloc A sz s in
        if new_ptr \<noteq> 0 then (new_ptr, port_free A p (mem_copy new_ptr p (unat sz) s)) else (0, s)
      else (0, port_free A p s))"

section \<open>The tree\<close>

definition getdirlen :: "string \<Rightarrow> nat" where
  "getdirlen filename =
     (if filename = [] then 0
      else let (len, f) = (if hd filename = CHR 0x5C then (1, tl filename) else (0, filename));
               (len, f) = (if take 3 f = [CHR ''C'', CHR '':'', CHR 0x5C] then (3, drop 3 f) else (len, f))
           in len + length (takeWhile (\<lambda>c. c \<noteq> CHR 0x5C) f))"

lemma getdirlen_zero: "getdirlen f = 0 \<longleftrightarrow> f = []"
  by (cases f) (auto simp: getdirlen_def Let_def)

text \<open>
  \<open>get_new_node\<close>: the node array has \<open>NET_ALLOC_MAX_NODE + 1\<close> elements; the call that takes the last but one
  never returns.
\<close>

function get_new_node :: "string \<Rightarrow> nat \<Rightarrow> u32 \<Rightarrow> 'w alloc_state \<Rightarrow> (nat \<times> 'w alloc_state) option" where
  "get_new_node filename dir_name_len n s = (
     let p = NodesCount s;
         next_dir_name_len = getdirlen (drop dir_name_len filename);
         s = s\<lparr>NodesCount := Suc p\<rparr>;
         s = upd_node p (\<lambda>x. x\<lparr>n_current := n, n_max := n, n_name := filename, n_namelen := of_nat dir_name_len\<rparr>) s
     in if NodesCount s = NET_ALLOC_MAX_NODE then None
        else if next_dir_name_len \<noteq> 0 then do {
          (q, s) \<leftarrow> get_new_node (drop dir_name_len filename) next_dir_name_len n s;
          let s = upd_node p (\<lambda>x. x\<lparr>n_down := Some q\<rparr>) s;
          Some (p, upd_node q (\<lambda>x. x\<lparr>n_up := Some p\<rparr>) s) }
        else Some (p, s))"
  by pat_completeness auto
termination
proof (relation "measure (\<lambda>(f, d, n, s). length (drop d f))")
  fix f :: string and d :: nat and n :: u32 and s x xa t u and k :: nat
  assume "k = getdirlen (drop d f)" "k \<noteq> 0"
  then show "((drop d f, k, n, u :: 'w alloc_state), f, d, n, s) \<in> measure (\<lambda>(f, d, n, s). length (drop d f))"
    using getdirlen_zero [of "drop d f"] by auto
qed auto

declare get_new_node.simps [simp del]

text \<open>\<open>while (nn != 0U) { nn >>= 1; ln2++; }\<close>: the number of significant bits.\<close>

function bit_count :: "u32 \<Rightarrow> nat" where
  "bit_count nn = (if nn \<noteq> 0 then Suc (bit_count (drop_bit 1 nn)) else 0)"
  by pat_completeness auto
termination
proof (relation "measure unat")
  fix nn :: u32 assume "nn \<noteq> 0"
  then show "(drop_bit 1 nn, nn) \<in> measure unat"
    by (simp add: drop_bit_Suc unat_div word_less_nat_alt unat_gt_0)
qed auto

declare bit_count.simps [simp del]

definition histogram :: "nat \<Rightarrow> u32 \<Rightarrow> 'w alloc_state \<Rightarrow> 'w alloc_state" where
  "histogram root n s =
     (let ln2 = int (bit_count n) - 5;
          ln2 = (if ln2 < 0 then 0 else ln2);
          ln2 = (if ln2 > int NET_MALLOC_MAX_HISTOGRAM - 1 then int NET_MALLOC_MAX_HISTOGRAM - 1 else ln2);
          k = nat ln2
      in upd_node root (\<lambda>x. x\<lparr>n_histogram := (n_histogram x)[k := n_histogram x ! k + 1]\<rparr>) s)"

text \<open>\<open>strncmp(a, b, n) == 0\<close> on strings without a zero character.\<close>

definition strncmp_zero :: "string \<Rightarrow> string \<Rightarrow> nat \<Rightarrow> bool" where
  "strncmp_zero a b n \<longleftrightarrow> take n a = take n b"

partial_function (option) lowest :: "'w alloc_state \<Rightarrow> nat \<Rightarrow> nat option" where
  "lowest s p = (case n_down (Nodes s ! p) of None \<Rightarrow> Some p | Some q \<Rightarrow> lowest s q)"

text \<open>The end of \<open>net_walk_malloc_node\<close>, where no neighbour matched.\<close>

definition new_neighbour :: "nat option \<Rightarrow> string \<Rightarrow> u32 \<Rightarrow> 'w alloc_state \<Rightarrow> (nat \<times> 'w alloc_state) option" where
  "new_neighbour root filename n s = do {
     (p, s) \<leftarrow> get_new_node filename (getdirlen filename) n s;
     let s = (case root of None \<Rightarrow> s
              | Some r \<Rightarrow>
                  let s = upd_node p (\<lambda>x. x\<lparr>n_up := n_up (Nodes s ! r)\<rparr>) s;
                      s = upd_node p (\<lambda>x. x\<lparr>n_neighbour := n_neighbour (Nodes s ! r)\<rparr>) s
                  in upd_node r (\<lambda>x. x\<lparr>n_neighbour := Some p\<rparr>) s);
     p \<leftarrow> lowest s p;
     Some (p, histogram p n s) }"

text \<open>A node on the path of an allocation: its total and its maximum.\<close>

definition node_alloc :: "nat \<Rightarrow> u32 \<Rightarrow> 'w alloc_state \<Rightarrow> 'w alloc_state" where
  "node_alloc i n s =
     (let s = upd_node i (\<lambda>x. x\<lparr>n_current := n_current x + n\<rparr>) s
      in if n_current (Nodes s ! i) > n_max (Nodes s ! i)
         then upd_node i (\<lambda>x. x\<lparr>n_max := n_current x\<rparr>) s else s)"

text \<open>The loop over the neighbours, from \<open>p\<close>; a level below is searched from its first node.\<close>

partial_function (option) walk_from ::
  "nat option \<Rightarrow> nat option \<Rightarrow> string \<Rightarrow> u32 \<Rightarrow> 'w alloc_state \<Rightarrow> (nat \<times> 'w alloc_state) option" where
  "walk_from root p filename n s =
     (case p of
        None \<Rightarrow> new_neighbour root filename n s
      | Some i \<Rightarrow>
          let d = getdirlen filename in
          if strncmp_zero (n_name (Nodes s ! i)) filename d
          then
            let s = node_alloc i n s
            in if drop d filename \<noteq> []
               then walk_from (n_down (Nodes s ! i)) (n_down (Nodes s ! i)) (drop d filename) n s
               else Some (i, histogram i n s)
          else walk_from root (n_neighbour (Nodes s ! i)) filename n s)"

definition net_walk_malloc_node ::
  "nat option \<Rightarrow> string \<Rightarrow> u32 \<Rightarrow> 'w alloc_state \<Rightarrow> (nat \<times> 'w alloc_state) option" where
  "net_walk_malloc_node root filename n s = walk_from root root filename n s"

partial_function (option) net_walk_free_node :: "nat option \<Rightarrow> u32 \<Rightarrow> 'w alloc_state \<Rightarrow> 'w alloc_state option" where
  "net_walk_free_node node n s =
     (case node of
        None \<Rightarrow> Some s
      | Some i \<Rightarrow>
          let s = upd_node i (\<lambda>x. x\<lparr>n_current := n_current x - n\<rparr>) s
          in net_walk_free_node (n_up (Nodes s ! i)) n s)"

partial_function (option) net_malloc_tree_start :: "nat option \<Rightarrow> 'w alloc_state \<Rightarrow> nat option option" where
  "net_malloc_tree_start root s =
     (case root of
        None \<Rightarrow> Some None
      | Some p \<Rightarrow>
          (case n_down (Nodes s ! p) of
             None \<Rightarrow> Some (Some p)
           | Some q \<Rightarrow> if n_neighbour (Nodes s ! q) = None then net_malloc_tree_start (Some q) s else Some (Some p)))"

partial_function (option) topmost :: "'w alloc_state \<Rightarrow> nat \<Rightarrow> nat option" where
  "topmost s p = (case n_up (Nodes s ! p) of None \<Rightarrow> Some p | Some q \<Rightarrow> topmost s q)"

section \<open>The debugging allocator\<close>

definition alloc_reset :: "'w alloc_state \<Rightarrow> 'w alloc_state" where
  "alloc_reset s = s\<lparr>AllocInfos := replicate NET_LEAKAGE_ARRAY zero_info, AllocCurrent := 0, AllocTotalMax := 0,
     NodesCount := 0, RootNode := None, Nodes := replicate (NET_ALLOC_MAX_NODE + 1) zero_node\<rparr>"

definition write_guard :: "ptr \<Rightarrow> 'w alloc_state \<Rightarrow> 'w alloc_state" where
  "write_guard e s = s\<lparr>memory := (memory s)(e := 0xDE, e + 1 := 0xAD, e + 2 := 0xBE, e + 3 := 0xEF)\<rparr>"

definition guard_ok :: "ptr \<Rightarrow> 'w alloc_state \<Rightarrow> bool" where
  "guard_ok e s \<longleftrightarrow> memory s e = 0xDE \<and> memory s (e + 1) = 0xAD \<and> memory s (e + 2) = 0xBE \<and> memory s (e + 3) = 0xEF"

definition find_info :: "ptr \<Rightarrow> 'w alloc_state \<Rightarrow> nat option" where
  "find_info p s = List.find (\<lambda>i. ai_p (AllocInfos s ! i) = p) [0..<NET_LEAKAGE_ARRAY]"

text \<open>What \<open>net_malloc_debug\<close> enters into slot \<open>i\<close> of the table and into the tree.\<close>

definition enter_info :: "nat \<Rightarrow> ptr \<Rightarrow> u32 \<Rightarrow> string \<Rightarrow> u32 \<Rightarrow> 'w alloc_state \<Rightarrow> 'w alloc_state option" where
  "enter_info i pp sz filename line s = do {
     let s = s\<lparr>AllocInfos := (AllocInfos s)[i := (AllocInfos s ! i)\<lparr>ai_p := pp, ai_size := sz, ai_line := ucast line,
               ai_filename := Some filename, ai_iter := ucast (iteralloc s)\<rparr>]\<rparr>;
     (node, s) \<leftarrow> net_walk_malloc_node (RootNode s) filename sz s;
     let s = s\<lparr>AllocInfos := (AllocInfos s)[i := (AllocInfos s ! i)\<lparr>ai_node := Some node\<rparr>]\<rparr>;
     (if RootNode s = None then do {
        top \<leftarrow> topmost s node;
        Some (s\<lparr>RootNode := Some top\<rparr>) }
      else Some s) }"

text \<open>The first allocation clears the books; each one counts itself, its size and the live allocations.\<close>

definition booted :: "'w alloc_state \<Rightarrow> 'w alloc_state" where
  "booted s = (if iteralloc s = 0 then alloc_reset s else s)"

definition count_alloc :: "u32 \<Rightarrow> 'w alloc_state \<Rightarrow> 'w alloc_state" where
  "count_alloc sz s =
     (let s = s\<lparr>iteralloc := iteralloc s + 1\<rparr>;
          s = s\<lparr>AllocCurrent := AllocCurrent s + sz\<rparr>
      in if AllocCurrent s > AllocTotalMax s then s\<lparr>AllocTotalMax := AllocCurrent s\<rparr> else s)"

definition count_alive :: "'w alloc_state \<Rightarrow> 'w alloc_state" where
  "count_alive s = (if iteralloc s - iterfree s > max_alive_alloc s
     then s\<lparr>max_alive_alloc := iteralloc s - iterfree s\<rparr> else s)"

definition net_malloc_debug ::
  "'w port_alloc \<Rightarrow> u32 \<Rightarrow> string \<Rightarrow> u32 \<Rightarrow> 'w alloc_state \<Rightarrow> (ptr \<times> 'w alloc_state) option" where
  "net_malloc_debug A sz filename line s = do {
     let s = count_alloc sz (booted s);
     let (pp, s) = port_malloc A (sz + of_nat NET_ALLOC_OVERWRITE_CHECK_OFFSET) s;
     (if pp = 0 then None
      else do {
        let s = count_alive (write_guard (pp + unat sz) s);
        i \<leftarrow> find_info 0 s;
        s \<leftarrow> enter_info i pp sz filename line s;
        (if iteralloc s = NET_ALLOC_BREAK then None else Some (pp, s)) }) }"

definition net_free_debug :: "'w port_alloc \<Rightarrow> ptr \<Rightarrow> 'w alloc_state \<Rightarrow> 'w alloc_state option" where
  "net_free_debug A p s = do {
     s \<leftarrow> (if p \<noteq> 0 then do {
             let s = s\<lparr>iterfree := iterfree s + 1\<rparr>;
             i \<leftarrow> find_info p s;
             let s = s\<lparr>AllocInfos := (AllocInfos s)[i := (AllocInfos s ! i)\<lparr>ai_p := 0\<rparr>]\<rparr>;
             let sz = ai_size (AllocInfos s ! i);
             let s = s\<lparr>AllocCurrent := AllocCurrent s - sz\<rparr>;
             (if \<not> guard_ok (p + unat sz) s then None
              else do {
                s \<leftarrow> net_walk_free_node (ai_node (AllocInfos s ! i)) sz s;
                Some (s\<lparr>AllocInfos := (AllocInfos s)[i := (AllocInfos s ! i)\<lparr>ai_size := 0\<rparr>]\<rparr>) }) }
           else Some s);
     Some (port_free A p s) }"

definition net_calloc_debug ::
  "'w port_alloc \<Rightarrow> u32 \<Rightarrow> u32 \<Rightarrow> string \<Rightarrow> u32 \<Rightarrow> 'w alloc_state \<Rightarrow> (ptr \<times> 'w alloc_state) option" where
  "net_calloc_debug A num sz filename line s = do {
     (p, s) \<leftarrow> net_malloc_debug A (num * sz) filename line s;
     Some (p, if p \<noteq> 0 then mem_set p (unat (num * sz)) 0 s else s) }"

definition net_realloc_debug ::
  "'w port_alloc \<Rightarrow> ptr \<Rightarrow> u32 \<Rightarrow> string \<Rightarrow> u32 \<Rightarrow> 'w alloc_state \<Rightarrow> (ptr \<times> 'w alloc_state) option" where
  "net_realloc_debug A p sz filename line s =
     (if p = 0 then if sz \<noteq> 0 then net_malloc_debug A sz filename line s else Some (0, s)
      else if sz \<noteq> 0 then do {
        (new_ptr, s) \<leftarrow> net_malloc_debug A sz filename line s;
        (if new_ptr \<noteq> 0 then do {
           s \<leftarrow> net_free_debug A p (mem_copy new_ptr p (unat sz) s);
           Some (new_ptr, s) }
         else Some (0, s)) }
      else do { s \<leftarrow> net_free_debug A p s; Some (0, s) })"

text \<open>The figures \<open>net_alloc_report\<close> prints: the count and the size of the live allocations.\<close>

definition net_alloc_report :: "'w alloc_state \<Rightarrow> u32 \<times> u32" where
  "net_alloc_report s =
     foldl (\<lambda>(count, leak) i. if ai_p (AllocInfos s ! i) \<noteq> 0 then (count + 1, leak + ai_size (AllocInfos s ! i))
                               else (count, leak)) (0, 0) [0..<NET_LEAKAGE_ARRAY]"

end
