(* ===== verification/Net_Alloc_Props.thy ===== *)
theory Net_Alloc_Props
  imports Net_Alloc
begin

text \<open>
  The debugging allocator keeps its books: totals, table and guards agree after every sequence of calls.
\<close>

section \<open>Frame of the tree\<close>

definition tree_only :: "'w alloc_state \<Rightarrow> 'w alloc_state \<Rightarrow> bool" where
  "tree_only s s' \<longleftrightarrow> s\<lparr>Nodes := Nodes s', NodesCount := NodesCount s'\<rparr> = s'"

lemma tree_only_refl [simp]: "tree_only s s"
  by (simp add: tree_only_def)

lemma tree_only_upd [simp]: "tree_only s (upd_node i f s)" "tree_only s (s\<lparr>NodesCount := k\<rparr>)" "tree_only s (histogram i n s)"
  by (simp_all add: tree_only_def upd_node_def histogram_def Let_def)

lemma tree_only_trans: "tree_only s t \<Longrightarrow> tree_only t u \<Longrightarrow> tree_only s u"
  unfolding tree_only_def by (cases s; cases t; cases u) simp

lemma tree_only_after [simp]:
  "tree_only s t \<Longrightarrow> tree_only s (upd_node i f t)" "tree_only s t \<Longrightarrow> tree_only s (t\<lparr>NodesCount := k\<rparr>)"
  "tree_only s t \<Longrightarrow> tree_only s (histogram i n t)"
  using tree_only_trans tree_only_upd by blast+

lemma tree_only_sel:
  assumes "tree_only s s'"
  shows "AllocInfos s' = AllocInfos s" "AllocCurrent s' = AllocCurrent s" "AllocTotalMax s' = AllocTotalMax s"
    "iteralloc s' = iteralloc s" "iterfree s' = iterfree s" "memory s' = memory s" "RootNode s' = RootNode s"
    "port s' = port s" "max_alive_alloc s' = max_alive_alloc s"
  using assms unfolding tree_only_def by (cases s; cases s'; simp)+

lemma get_new_node_tree: "get_new_node f d n s = Some (p, s') \<Longrightarrow> tree_only s s'"
proof (induction f d n s arbitrary: p s' rule: get_new_node.induct)
  case (1 f d n s)
  let ?t = "upd_node (NodesCount s) (\<lambda>x. x\<lparr>n_current := n, n_max := n, n_name := f, n_namelen := of_nat d\<rparr>)
    (s\<lparr>NodesCount := Suc (NodesCount s)\<rparr>)"
  have t: "tree_only s ?t" by simp
  show ?case
  proof (cases "getdirlen (drop d f) = 0")
    case True
    then show ?thesis
      using "1.prems" by (subst (asm) get_new_node.simps) (auto simp: Let_def split: if_splits)
  next
    case False
    then obtain q u where u: "get_new_node (drop d f) (getdirlen (drop d f)) n ?t = Some (q, u)"
        "s' = upd_node q (\<lambda>x. x\<lparr>n_up := Some (NodesCount s)\<rparr>) (upd_node (NodesCount s) (\<lambda>x. x\<lparr>n_down := Some q\<rparr>) u)"
        and c: "NodesCount ?t \<noteq> NET_ALLOC_MAX_NODE"
      using "1.prems" by (subst (asm) get_new_node.simps) (auto simp: Let_def bind_Some_iff split: if_splits)
    have "tree_only ?t u"
      using "1.IH" [OF refl refl refl refl c False u(1)] .
    then show ?thesis using tree_only_trans [OF t] u(2) by simp
  qed
qed

lemma new_neighbour_tree:
  assumes "new_neighbour r f n s = Some (p, s')"
  shows "tree_only s s'"
proof -
  obtain q t where t: "get_new_node f (getdirlen f) n s = Some (q, t)"
    using assms by (auto simp: new_neighbour_def bind_Some_iff)
  from get_new_node_tree [OF t] show ?thesis
    using assms t by (auto simp: new_neighbour_def bind_Some_iff Let_def split: option.splits)
qed

lemma node_alloc_tree [simp]: "tree_only s t \<Longrightarrow> tree_only s (node_alloc i n t)"
  by (simp add: node_alloc_def Let_def)

lemma walk_from_snd:
  assumes "walk_from r p f n s = Some x"
  shows "tree_only s (snd x)"
proof (rule walk_from.raw_induct [OF _ assms], goal_cases)
  case (1 walk r p f n s x)
  show ?case
  proof (cases p)
    case None
    then show ?thesis using 1(2) new_neighbour_tree [of r f n s "fst x" "snd x"] by simp
  next
    case (Some i)
    let ?d = "getdirlen f" and ?t = "node_alloc i n s"
    show ?thesis
    proof (cases "strncmp_zero (n_name (Nodes s ! i)) f ?d")
      case False
      then show ?thesis using 1 Some by (simp add: Let_def)
    next
      case True
      show ?thesis
      proof (cases "drop ?d f = []")
        case True
        then show ?thesis using 1(2) Some \<open>strncmp_zero _ _ _\<close> by (auto simp: Let_def)
      next
        case False
        with True 1 Some have "tree_only ?t (snd x)" by (simp add: Let_def)
        then show ?thesis using tree_only_trans [of s ?t "snd x"] by simp
      qed
    qed
  qed
qed

lemma walk_from_tree: "walk_from r p f n s = Some (q, s') \<Longrightarrow> tree_only s s'"
  using walk_from_snd by force

lemma net_walk_free_tree:
  assumes "net_walk_free_node p n s = Some s'"
  shows "tree_only s s'"
proof (rule net_walk_free_node.raw_induct [OF _ assms], goal_cases)
  case (1 walk p n s s')
  show ?case
  proof (cases p)
    case None
    then show ?thesis using 1(2) by simp
  next
    case (Some i)
    then have "tree_only (upd_node i (\<lambda>x. x\<lparr>n_current := n_current x - n\<rparr>) s) s'"
      using 1 by (simp add: Let_def)
    then show ?thesis using tree_only_trans tree_only_upd(1) by blast
  qed
qed

section \<open>One call\<close>

lemmas walk_sel = tree_only_sel [OF walk_from_tree]

definition entry :: "ptr \<Rightarrow> u32 \<Rightarrow> string \<Rightarrow> u32 \<Rightarrow> u32 \<Rightarrow> nat option \<Rightarrow> net_debug_alloc" where
  "entry p n f l k nd = \<lparr>ai_filename = Some f, ai_line = ucast l, ai_iter = ucast k, ai_size = n, ai_p = p, ai_node = nd\<rparr>"

lemma entry_eq: "a\<lparr>ai_p := p, ai_size := n, ai_line := ucast l, ai_filename := Some f, ai_iter := ucast k, ai_node := nd\<rparr>
    = entry p n f l k nd"
  by (cases a) (simp add: entry_def)

lemma enter_info_effect:
  assumes "enter_info i p n f l s = Some s'" and "i < length (AllocInfos s)"
  shows "(\<exists>nd. AllocInfos s' = (AllocInfos s)[i := entry p n f l (iteralloc s) nd])
    \<and> AllocCurrent s' = AllocCurrent s \<and> iteralloc s' = iteralloc s \<and> iterfree s' = iterfree s \<and> memory s' = memory s"
proof -
  let ?s = "s\<lparr>AllocInfos := (AllocInfos s)[i := (AllocInfos s ! i)\<lparr>ai_p := p, ai_size := n, ai_line := ucast l,
               ai_filename := Some f, ai_iter := ucast (iteralloc s)\<rparr>]\<rparr>"
  obtain nd t where t: "walk_from (RootNode ?s) (RootNode ?s) f n ?s = Some (nd, t)"
      "\<exists>r. s' = t\<lparr>AllocInfos := (AllocInfos t)[i := (AllocInfos t ! i)\<lparr>ai_node := Some nd\<rparr>], RootNode := r\<rparr>"
    using assms(1)
    by (auto simp: enter_info_def bind_Some_iff net_walk_malloc_node_def Let_def split: if_splits)
      (metis alloc_state.surjective alloc_state.update_convs(3))
  then show ?thesis
    using assms(2) tree_only_sel [OF walk_from_tree [OF t(1)]] by (auto simp: entry_eq)
qed

lemma find_info_Some: "find_info p s = Some i \<longleftrightarrow> i < 300 \<and> ai_p (AllocInfos s ! i) = p \<and> (\<forall>j<i. ai_p (AllocInfos s ! j) \<noteq> p)"
  unfolding find_info_def find_index_upt_Some by simp

lemma booted_sel [simp]:
  "iteralloc (booted s) = iteralloc s" "iterfree (booted s) = iterfree s" "memory (booted s) = memory s"
  "length (AllocInfos s) = 300 \<Longrightarrow> length (AllocInfos (booted s)) = 300"
  by (simp_all add: booted_def alloc_reset_def)

lemma port_malloc_sel [simp]:
  "AllocInfos (snd (port_malloc A n s)) = AllocInfos s" "AllocCurrent (snd (port_malloc A n s)) = AllocCurrent s"
  "iteralloc (snd (port_malloc A n s)) = iteralloc s" "iterfree (snd (port_malloc A n s)) = iterfree s"
  "memory (snd (port_malloc A n s)) = memory s" "Nodes (snd (port_malloc A n s)) = Nodes s"
  "NodesCount (snd (port_malloc A n s)) = NodesCount s" "RootNode (snd (port_malloc A n s)) = RootNode s"
  by (simp_all add: port_malloc_def Let_def split_def)

lemma counts_sel [simp]:
  "AllocInfos (count_alloc n s) = AllocInfos s" "AllocCurrent (count_alloc n s) = AllocCurrent s + n"
  "iteralloc (count_alloc n s) = iteralloc s + 1" "iterfree (count_alloc n s) = iterfree s"
  "memory (count_alloc n s) = memory s" "Nodes (count_alloc n s) = Nodes s" "NodesCount (count_alloc n s) = NodesCount s"
  "RootNode (count_alloc n s) = RootNode s"
  "AllocInfos (count_alive s) = AllocInfos s" "AllocCurrent (count_alive s) = AllocCurrent s"
  "iteralloc (count_alive s) = iteralloc s" "iterfree (count_alive s) = iterfree s" "memory (count_alive s) = memory s"
  "Nodes (count_alive s) = Nodes s" "NodesCount (count_alive s) = NodesCount s" "RootNode (count_alive s) = RootNode s"
  "AllocInfos (write_guard e s) = AllocInfos s" "AllocCurrent (write_guard e s) = AllocCurrent s"
  "iteralloc (write_guard e s) = iteralloc s" "iterfree (write_guard e s) = iterfree s" "Nodes (write_guard e s) = Nodes s"
  "NodesCount (write_guard e s) = NodesCount s" "RootNode (write_guard e s) = RootNode s"
  by (simp_all add: count_alloc_def count_alive_def write_guard_def Let_def)

lemma write_guard_memory: "memory s = memory t \<Longrightarrow> memory (write_guard e s) = memory (write_guard e t)"
  by (simp add: write_guard_def)

lemma net_malloc_debug_effect:
  assumes "net_malloc_debug A n f l s = Some (p, s')" and "length (AllocInfos s) = 300"
  shows "p \<noteq> 0 \<and> iteralloc s' \<noteq> NET_ALLOC_BREAK \<and>
    (\<exists>i nd. i < 300 \<and> ai_p (AllocInfos (booted s) ! i) = 0
       \<and> AllocInfos s' = (AllocInfos (booted s))[i := entry p n f l (iteralloc s') nd])
    \<and> AllocCurrent s' = AllocCurrent (booted s) + n \<and> iteralloc s' = iteralloc s + 1 \<and> iterfree s' = iterfree s
    \<and> memory s' = memory (write_guard (p + unat n) s)"
proof -
  define t where "t = snd (port_malloc A (n + 4) (count_alloc n (booted s)))"
  define v where "v = count_alive (write_guard (p + unat n) t)"
  obtain i where run: "p \<noteq> 0" "find_info 0 v = Some i" "enter_info i p n f l v = Some s'" "iteralloc s' \<noteq> NET_ALLOC_BREAK"
    using assms(1)
    by (auto simp: net_malloc_debug_def Let_def split_def bind_Some_iff t_def v_def split: if_splits)
  have v: "AllocInfos v = AllocInfos (booted s)" "AllocCurrent v = AllocCurrent (booted s) + n"
      "iteralloc v = iteralloc s + 1" "iterfree v = iterfree s" "memory v = memory (write_guard (p + unat n) s)"
    using write_guard_memory [of t s] by (simp_all add: v_def t_def)
  have "i < length (AllocInfos v)" using run(2) assms(2) by (simp add: find_info_Some v)
  from enter_info_effect [OF run(3) this] show ?thesis
    using run find_info_Some [of 0 v i] by (auto simp: v)
qed

lemma port_free_sel [simp]:
  "AllocInfos (port_free A p s) = AllocInfos s" "AllocCurrent (port_free A p s) = AllocCurrent s"
  "iteralloc (port_free A p s) = iteralloc s" "iterfree (port_free A p s) = iterfree s"
  "memory (port_free A p s) = memory s" "Nodes (port_free A p s) = Nodes s" "NodesCount (port_free A p s) = NodesCount s"
  "RootNode (port_free A p s) = RootNode s"
  by (simp_all add: port_free_def)

lemma net_free_debug_effect:
  assumes "net_free_debug A p s = Some s'" and "p \<noteq> 0" and "length (AllocInfos s) = 300"
  shows "\<exists>i. find_info p s = Some i \<and> guard_ok (p + unat (ai_size (AllocInfos s ! i))) s
     \<and> AllocInfos s' = (AllocInfos s)[i := (AllocInfos s ! i)\<lparr>ai_p := 0, ai_size := 0\<rparr>]
     \<and> AllocCurrent s' = AllocCurrent s - ai_size (AllocInfos s ! i) \<and> iteralloc s' = iteralloc s
     \<and> iterfree s' = iterfree s + 1 \<and> memory s' = memory s"
proof -
  obtain i where i: "find_info p s = Some i"
    using assms(1,2) by (auto simp: net_free_debug_def find_info_def Let_def bind_Some_iff)
  have l: "i < length (AllocInfos s)" using i assms(3) by (simp add: find_info_Some)
  let ?t = "s\<lparr>iterfree := iterfree s + 1, AllocInfos := (AllocInfos s)[i := (AllocInfos s ! i)\<lparr>ai_p := 0\<rparr>],
     AllocCurrent := AllocCurrent s - ai_size (AllocInfos s ! i)\<rparr>"
  have "guard_ok e ?t = guard_ok e s" for e by (simp add: guard_ok_def)
  moreover have "find_info p (s\<lparr>iterfree := k\<rparr>) = find_info p s" for k by (simp add: find_info_def)
  ultimately obtain u where u: "net_walk_free_node (ai_node (AllocInfos s ! i)) (ai_size (AllocInfos s ! i)) ?t = Some u"
      "guard_ok (p + unat (ai_size (AllocInfos s ! i))) s"
      "s' = port_free A p (u\<lparr>AllocInfos := (AllocInfos u)[i := (AllocInfos u ! i)\<lparr>ai_size := 0\<rparr>]\<rparr>)"
    using assms(1,2) i l by (auto simp: net_free_debug_def Let_def bind_Some_iff split: if_splits)
  then show ?thesis using i l tree_only_sel [OF net_walk_free_tree [OF u(1)]] by auto
qed

section \<open>The books\<close>

definition live :: "net_debug_alloc list \<Rightarrow> net_debug_alloc list" where
  "live xs = filter (\<lambda>a. ai_p a \<noteq> 0) xs"

definition sizes :: "net_debug_alloc list \<Rightarrow> u32" where
  "sizes xs = sum_list (map ai_size xs)"

text \<open>
  The current total is the sum of the sizes of the live entries, dead entries have size 0, the live entries
  are as many as there were allocations without a free, and before the first allocation the table is empty.
\<close>

definition books_ok :: "'w alloc_state \<Rightarrow> bool" where
  "books_ok s \<longleftrightarrow> length (AllocInfos s) = NET_LEAKAGE_ARRAY \<and> AllocCurrent s = sizes (live (AllocInfos s))
     \<and> (\<forall>a\<in>set (AllocInfos s). ai_p a = 0 \<longrightarrow> ai_size a = 0)
     \<and> of_nat (length (live (AllocInfos s))) = iteralloc s - iterfree s
     \<and> iteralloc s \<noteq> NET_ALLOC_BREAK
     \<and> (iteralloc s = 0 \<longrightarrow> iterfree s = 0 \<and> AllocCurrent s = 0 \<and> AllocInfos s = replicate NET_LEAKAGE_ARRAY zero_info)"

lemma live_update:
  assumes "i < length xs"
  shows "sizes (live (xs[i := a])) = sizes (live xs) - (if ai_p (xs ! i) \<noteq> 0 then ai_size (xs ! i) else 0)
       + (if ai_p a \<noteq> 0 then ai_size a else 0)"
    and "(of_nat (length (live (xs[i := a]))) :: u32) = of_nat (length (live xs))
       - (if ai_p (xs ! i) \<noteq> 0 then 1 else 0) + (if ai_p a \<noteq> 0 then 1 else 0)"
  using assms by (induction xs arbitrary: i) (auto simp: live_def sizes_def split: nat.splits)

lemma books_ok_booted: "books_ok s \<Longrightarrow> books_ok (booted s)"
  by (auto simp: books_ok_def booted_def alloc_reset_def)

lemma books_ok_malloc:
  assumes "net_malloc_debug A n f l s = Some (p, s')" and "books_ok s"
  shows "books_ok s'"
proof -
  have b: "books_ok (booted s)" and l: "length (AllocInfos s) = 300" "iteralloc s \<noteq> NET_ALLOC_BREAK"
    using assms(2) books_ok_booted by (auto simp: books_ok_def)
  from net_malloc_debug_effect [OF assms(1) l(1)] obtain i nd where
      e: "p \<noteq> 0" "iteralloc s' \<noteq> NET_ALLOC_BREAK" "i < 300" "ai_p (AllocInfos (booted s) ! i) = 0"
        "AllocInfos s' = (AllocInfos (booted s))[i := entry p n f l (iteralloc s') nd]"
        "AllocCurrent s' = AllocCurrent (booted s) + n" "iteralloc s' = iteralloc s + 1" "iterfree s' = iterfree s"
    by blast
  have "iteralloc s' \<noteq> 0"
  proof
    assume "iteralloc s' = 0"
    then have "iteralloc s = - 1" using e(7) by (metis add.commute add_eq_0_iff)
    with l(2) show False by simp
  qed
  with b e live_update [of i "AllocInfos (booted s)" "entry p n f l (iteralloc s') nd"] show ?thesis
    by (auto simp: books_ok_def entry_def dest: set_update_subset_insert [THEN subsetD])
qed

lemma books_ok_free:
  assumes "net_free_debug A p s = Some s'" and "books_ok s"
  shows "books_ok s'"
proof (cases "p = 0")
  case True
  then show ?thesis using assms by (auto simp: net_free_debug_def books_ok_def)
next
  case False
  have l: "length (AllocInfos s) = 300" using assms(2) by (simp add: books_ok_def)
  from net_free_debug_effect [OF assms(1) False l] obtain i where
      e: "i < 300" "ai_p (AllocInfos s ! i) = p" "AllocInfos s' = (AllocInfos s)[i := (AllocInfos s ! i)\<lparr>ai_p := 0, ai_size := 0\<rparr>]"
        "AllocCurrent s' = AllocCurrent s - ai_size (AllocInfos s ! i)" "iteralloc s' = iteralloc s" "iterfree s' = iterfree s + 1"
    by (auto simp: find_info_Some)
  have "iteralloc s \<noteq> 0"
    using assms(2) e(1,2) False by (auto simp: books_ok_def zero_info_def)
  let ?a = "(AllocInfos s ! i)\<lparr>ai_p := 0, ai_size := 0\<rparr>"
  have set: "\<forall>a\<in>set (AllocInfos s'). ai_p a = 0 \<longrightarrow> ai_size a = 0"
    using assms(2) e(3) set_update_subset_insert [of "AllocInfos s" i ?a] by (auto simp: books_ok_def)
  have "sizes (live (AllocInfos s')) = sizes (live (AllocInfos s)) - ai_size (AllocInfos s ! i)"
      "(of_nat (length (live (AllocInfos s'))) :: u32) = of_nat (length (live (AllocInfos s))) - 1"
    using live_update [of i "AllocInfos s" ?a] e l False by simp_all
  then have "AllocCurrent s' = sizes (live (AllocInfos s'))"
      "(of_nat (length (live (AllocInfos s'))) :: u32) = iteralloc s' - iterfree s'"
    using assms(2) e(4,5,6) by (simp_all add: books_ok_def)
  then show ?thesis using assms(2) e(3,5,6) set \<open>iteralloc s \<noteq> 0\<close>
    by (simp add: books_ok_def)
qed

section \<open>Histories of calls\<close>

datatype alloc_call =
    Call_malloc u32 string u32 | Call_calloc u32 u32 string u32 | Call_realloc ptr u32 string u32 | Call_free ptr

fun run_alloc :: "'w port_alloc \<Rightarrow> alloc_call \<Rightarrow> 'w alloc_state \<Rightarrow> 'w alloc_state option" where
  "run_alloc A (Call_malloc n f l) s = map_option snd (net_malloc_debug A n f l s)"
| "run_alloc A (Call_calloc k n f l) s = map_option snd (net_calloc_debug A k n f l s)"
| "run_alloc A (Call_realloc p n f l) s = map_option snd (net_realloc_debug A p n f l s)"
| "run_alloc A (Call_free p) s = net_free_debug A p s"

text \<open>The calls of a program, between which it writes memory as it likes.\<close>

inductive alloc_history :: "'w port_alloc \<Rightarrow> 'w alloc_state \<Rightarrow> 'w alloc_state \<Rightarrow> bool" for A where
  start: "alloc_history A s s"
| call: "alloc_history A s t \<Longrightarrow> run_alloc A c t = Some u \<Longrightarrow> alloc_history A s u"
| program: "alloc_history A s t \<Longrightarrow> alloc_history A s (t\<lparr>memory := m\<rparr>)"

definition alloc_boot :: "'w \<Rightarrow> (ptr \<Rightarrow> u8) \<Rightarrow> 'w alloc_state" where
  "alloc_boot w m = \<lparr>Nodes = replicate (NET_ALLOC_MAX_NODE + 1) zero_node, NodesCount = 0, RootNode = None,
     AllocInfos = replicate NET_LEAKAGE_ARRAY zero_info, AllocCurrent = 0, AllocTotalMax = 0, iteralloc = 0,
     iterfree = 0, max_alive_alloc = 0, memory = m, port = w\<rparr>"

lemma books_ok_memory [simp]: "books_ok (s\<lparr>memory := m\<rparr>) = books_ok s" "books_ok (mem_set p n b s) = books_ok s"
  "books_ok (mem_copy p q n s) = books_ok s"
  by (simp_all add: books_ok_def mem_set_def mem_copy_def)

lemma books_ok_realloc:
  assumes "net_realloc_debug A p n f l s = Some (q, t)" and "books_ok s"
  shows "books_ok t"
proof (cases "p = 0 \<or> n = 0")
  case True
  then show ?thesis using assms
    by (auto simp: net_realloc_debug_def bind_Some_iff dest: books_ok_malloc books_ok_free split: if_splits)
next
  case False
  then obtain u where u: "net_malloc_debug A n f l s = Some (q, u) \<and> net_free_debug A p (mem_copy q p (unat n) u) = Some t
      \<or> (\<exists>r. net_malloc_debug A n f l s = Some (r, t))"
    using assms(1) by (auto simp: net_realloc_debug_def bind_Some_iff split: if_splits)
  then show ?thesis
    using books_ok_malloc [OF _ assms(2)] books_ok_free [of A p "mem_copy q p (unat n) u" t] by auto
qed

lemma books_ok_call: "run_alloc A c s = Some t \<Longrightarrow> books_ok s \<Longrightarrow> books_ok t"
  by (cases c) (auto simp: net_calloc_debug_def bind_Some_iff
      dest: books_ok_malloc books_ok_free books_ok_realloc split: if_splits)

lemma books_ok_boot: "books_ok (alloc_boot w m)"
  by (simp add: books_ok_def alloc_boot_def live_def sizes_def zero_info_def)

lemma history_books_ok: "alloc_history A (alloc_boot w m) s \<Longrightarrow> books_ok s"
  by (induction "alloc_boot w m" s rule: alloc_history.induct) (auto simp: books_ok_boot dest: books_ok_call)

lemma report_list:
  "foldl (\<lambda>(c, l) a. if ai_p a \<noteq> 0 then (c + 1, l + ai_size a) else (c, l)) (c, l) xs
     = (c + of_nat (length (live xs)), l + sizes (live xs))"
  by (induction xs arbitrary: c l) (auto simp: live_def sizes_def add.assoc)

lemma net_alloc_report_live:
  assumes "length (AllocInfos s) = 300"
  shows "net_alloc_report s = (of_nat (length (live (AllocInfos s))), sizes (live (AllocInfos s)))"
proof -
  have "net_alloc_report s = foldl (\<lambda>(c, l) a. if ai_p a \<noteq> 0 then (c + 1, l + ai_size a) else (c, l)) (0, 0)
      (map ((!) (AllocInfos s)) [0..<300])"
    unfolding net_alloc_report_def foldl_map by (rule foldl_cong) auto
  also have "map ((!) (AllocInfos s)) [0..<300] = AllocInfos s"
    using map_nth [of "AllocInfos s"] assms by simp
  finally show ?thesis using report_list [of 0 0 "AllocInfos s"] by simp
qed

text \<open>
  C30. After any history of calls and of writes by the program, the two leakage figures of the report agree:
  the sum over the table is the running total; and the number of blocks it lists is the number of
  allocations less the number of frees.
\<close>

theorem alloc_report_agrees:
  assumes "alloc_history A (alloc_boot w m) s"
  shows "net_alloc_report s = (iteralloc s - iterfree s, AllocCurrent s)"
  using history_books_ok [OF assms] net_alloc_report_live [of s] by (simp add: books_ok_def)

section \<open>The tree\<close>

definition below :: "nat \<Rightarrow> nat option \<Rightarrow> bool" where
  "below k p \<longleftrightarrow> (case p of None \<Rightarrow> True | Some j \<Rightarrow> j < k)"

lemma below_simps [simp]: "below k None" "below k (Some j) = (j < k)"
  by (simp_all add: below_def)

lemma below_le: "below k p \<Longrightarrow> k \<le> m \<Longrightarrow> below m p"
  by (cases p) auto

text \<open>Parents have smaller indices than their children, and all links lead to nodes in use.\<close>

definition refs_ok :: "'w alloc_state \<Rightarrow> bool" where
  "refs_ok s \<longleftrightarrow> length (Nodes s) = NET_ALLOC_MAX_NODE + 1 \<and> NodesCount s < NET_ALLOC_MAX_NODE
     \<and> (\<forall>i<NET_ALLOC_MAX_NODE + 1. below i (n_up (Nodes s ! i)) \<and> below (NodesCount s) (n_down (Nodes s ! i))
        \<and> below (NodesCount s) (n_neighbour (Nodes s ! i)))"

lemma upd_node_sel [simp]:
  "NodesCount (upd_node i f s) = NodesCount s" "RootNode (upd_node i f s) = RootNode s"
  "AllocInfos (upd_node i f s) = AllocInfos s" "length (Nodes (upd_node i f s)) = length (Nodes s)"
  "Nodes (upd_node i f s) ! j = (if j = i \<and> i < length (Nodes s) then f (Nodes s ! i) else Nodes s ! j)"
  by (auto simp: upd_node_def nth_list_update list_update_beyond)

lemma refs_okD:
  assumes "refs_ok s" and "i < NodesCount s"
  shows "i < length (Nodes s)" "below i (n_up (Nodes s ! i))" "below (NodesCount s) (n_down (Nodes s ! i))"
    "below (NodesCount s) (n_neighbour (Nodes s ! i))"
  using assms by (simp_all add: refs_ok_def)

lemma refs_ok_link [simp, intro]:
  "refs_ok s \<Longrightarrow> below i p \<Longrightarrow> refs_ok (upd_node i (\<lambda>x. x\<lparr>n_up := p\<rparr>) s)"
  "refs_ok s \<Longrightarrow> below (NodesCount s) p \<Longrightarrow> refs_ok (upd_node i (\<lambda>x. x\<lparr>n_down := p\<rparr>) s)"
  "refs_ok s \<Longrightarrow> below (NodesCount s) p \<Longrightarrow> refs_ok (upd_node i (\<lambda>x. x\<lparr>n_neighbour := p\<rparr>) s)"
  unfolding refs_ok_def by (simp_all split: if_splits)

lemma refs_ok_keep:
  assumes "refs_ok s" and "\<And>x. n_up (f x) = n_up x" "\<And>x. n_down (f x) = n_down x" "\<And>x. n_neighbour (f x) = n_neighbour x"
  shows "refs_ok (upd_node i f s)"
  using assms unfolding refs_ok_def by (simp split: if_splits)

lemma refs_ok_grow:
  assumes "refs_ok s" and "Suc (NodesCount s) \<noteq> NET_ALLOC_MAX_NODE"
  shows "refs_ok (s\<lparr>NodesCount := Suc (NodesCount s)\<rparr>)"
  using assms unfolding refs_ok_def by (auto intro: below_le)

lemma get_new_node_refs:
  assumes "get_new_node f d n s = Some (p, s')" and "refs_ok s"
  shows "p = NodesCount s \<and> p < NodesCount s' \<and> refs_ok s'"
  using assms
proof (induction f d n s arbitrary: p s' rule: get_new_node.induct)
  case (1 f d n s)
  let ?t = "upd_node (NodesCount s) (\<lambda>x. x\<lparr>n_current := n, n_max := n, n_name := f, n_namelen := of_nat d\<rparr>)
    (s\<lparr>NodesCount := Suc (NodesCount s)\<rparr>)"
  have c: "NodesCount ?t \<noteq> NET_ALLOC_MAX_NODE"
    using "1.prems"(1) by (subst (asm) get_new_node.simps) (auto simp: Let_def split: if_splits)
  have t: "refs_ok ?t"
    using refs_ok_grow [OF "1.prems"(2)] c by (intro refs_ok_keep) simp_all
  show ?case
  proof (cases "getdirlen (drop d f) = 0")
    case True
    then show ?thesis
      using "1.prems"(1) t c by (subst (asm) get_new_node.simps) (auto simp: Let_def split: if_splits)
  next
    case False
    then obtain q u where u: "get_new_node (drop d f) (getdirlen (drop d f)) n ?t = Some (q, u)"
        "s' = upd_node q (\<lambda>x. x\<lparr>n_up := Some (NodesCount s)\<rparr>) (upd_node (NodesCount s) (\<lambda>x. x\<lparr>n_down := Some q\<rparr>) u)"
        "p = NodesCount s"
      using "1.prems"(1) by (subst (asm) get_new_node.simps) (auto simp: Let_def bind_Some_iff split: if_splits)
    have "q = Suc (NodesCount s)" "q < NodesCount u" "refs_ok u"
      using "1.IH" [OF refl refl refl refl c False u(1) t] by simp_all
    note q = this
    have "refs_ok s'" unfolding u(2) using q by simp
    then show ?thesis using u(2,3) q by simp
  qed
qed

lemma lowest_bound:
  assumes "lowest s p = Some q"
  shows "refs_ok s \<longrightarrow> p < NodesCount s \<longrightarrow> q < NodesCount s"
proof (rule lowest.raw_induct [OF _ assms], goal_cases)
  case (1 low s p q)
  then show ?case using refs_okD(3) [of s p] by (cases "n_down (Nodes s ! p)") auto
qed

lemma refs_ok_histogram: "refs_ok s \<Longrightarrow> refs_ok (histogram i n s)"
  unfolding histogram_def Let_def by (rule refs_ok_keep) simp_all

lemma histogram_count [simp]: "NodesCount (histogram i n s) = NodesCount s"
  by (simp add: histogram_def Let_def)

lemma new_neighbour_refs:
  assumes "new_neighbour r f n s = Some (q, s')" and "refs_ok s" and "below (NodesCount s) r"
  shows "q < NodesCount s' \<and> NodesCount s \<le> NodesCount s' \<and> refs_ok s'"
proof -
  obtain p t where t: "get_new_node f (getdirlen f) n s = Some (p, t)"
    using assms(1) by (auto simp: new_neighbour_def bind_Some_iff)
  have p: "p = NodesCount s" "p < NodesCount t" "refs_ok t" using get_new_node_refs [OF t assms(2)] by simp_all
  show ?thesis
  proof (cases r)
    case None
    then show ?thesis using assms(1) t p lowest_bound [of t p q]
      by (auto simp: new_neighbour_def bind_Some_iff refs_ok_histogram)
  next
    case (Some k)
    let ?u = "upd_node p (\<lambda>x. x\<lparr>n_up := n_up (Nodes t ! k)\<rparr>) t"
    let ?v = "upd_node p (\<lambda>x. x\<lparr>n_neighbour := n_neighbour (Nodes ?u ! k)\<rparr>) ?u"
    let ?w = "upd_node k (\<lambda>x. x\<lparr>n_neighbour := Some p\<rparr>) ?v"
    have k: "k < p" using assms(3) Some p by simp
    have up: "below p (n_up (Nodes t ! k))"
      using p k below_le [OF refs_okD(2) [OF p(3), of k]] by simp
    have u: "refs_ok ?u" using p up by simp
    have "refs_ok ?w"
      using p k up refs_okD(4) [OF u, of k] by (intro refs_ok_link(3)) simp_all
    then show ?thesis using assms(1) t p Some lowest_bound [of ?w p q]
      by (auto simp: new_neighbour_def bind_Some_iff refs_ok_histogram Let_def)
  qed
qed

lemma node_alloc_count [simp]: "NodesCount (node_alloc i n s) = NodesCount s"
  by (simp add: node_alloc_def Let_def)

lemma refs_ok_node_alloc [simp]: "refs_ok s \<Longrightarrow> refs_ok (node_alloc i n s)"
  unfolding node_alloc_def Let_def by (auto intro!: refs_ok_keep)

lemma walk_from_refs_raw:
  assumes "walk_from r p f n s = Some x"
  shows "refs_ok s \<longrightarrow> below (NodesCount s) r \<longrightarrow> below (NodesCount s) p
     \<longrightarrow> fst x < NodesCount (snd x) \<and> NodesCount s \<le> NodesCount (snd x) \<and> refs_ok (snd x)"
proof (rule walk_from.raw_induct [OF _ assms], goal_cases)
  case (1 walk r p f n s x)
  show ?case
  proof (cases p)
    case None
    then show ?thesis using 1(2) new_neighbour_refs [of r f n s "fst x" "snd x"] by auto
  next
    case (Some i)
    let ?d = "getdirlen f" and ?t = "node_alloc i n s"
    show ?thesis
    proof (cases "strncmp_zero (n_name (Nodes s ! i)) f ?d")
      case False
      then show ?thesis using 1 Some refs_okD(4) [of s i] by (auto simp: Let_def)
    next
      case True
      show ?thesis
      proof (cases "drop ?d f = []")
        case True
        then show ?thesis using 1(2) Some \<open>strncmp_zero _ _ _\<close> by (auto simp: Let_def refs_ok_histogram)
      next
        case False
        with 1(2) Some \<open>strncmp_zero _ _ _\<close>
        have "walk (n_down (Nodes ?t ! i)) (n_down (Nodes ?t ! i)) (drop ?d f) n ?t = Some x" by (simp add: Let_def)
        from 1(1) [OF this] Some refs_okD(3) [of ?t i] show ?thesis by simp
      qed
    qed
  qed
qed

lemma walk_from_refs:
  assumes "walk_from r r f n s = Some (q, s')" and "refs_ok s" and "below (NodesCount s) r"
  shows "q < NodesCount s'" "NodesCount s \<le> NodesCount s'" "refs_ok s'"
  using walk_from_refs_raw [OF assms(1)] assms(2,3) by auto

lemma topmost_bound:
  assumes "topmost s p = Some q"
  shows "refs_ok s \<longrightarrow> p < NodesCount s \<longrightarrow> q < NodesCount s"
proof (rule topmost.raw_induct [OF _ assms], goal_cases)
  case (1 top s p q)
  then show ?case using refs_okD(2) [of s p] by (cases "n_up (Nodes s ! p)") auto
qed

text \<open>The walk to the root ends: every step goes to a smaller index.\<close>

lemma net_walk_free_ends_at: "refs_ok s \<Longrightarrow> p < NodesCount s \<Longrightarrow> \<exists>s'. net_walk_free_node (Some p) n s = Some s' \<and> refs_ok s'"
proof (induction p arbitrary: s rule: less_induct)
  case (less p)
  let ?t = "upd_node p (\<lambda>x. x\<lparr>n_current := n_current x - n\<rparr>) s"
  have t: "refs_ok ?t" using less.prems(1) by (rule refs_ok_keep) simp_all
  show ?case
  proof (cases "n_up (Nodes ?t ! p)")
    case None
    then show ?thesis using t by (simp add: net_walk_free_node.simps Let_def)
  next
    case (Some q)
    then have "q < p" using refs_okD(2) [OF t, of p] less.prems by simp
    then obtain u where "net_walk_free_node (Some q) n ?t = Some u" "refs_ok u"
      using less.IH [OF _ t] less.prems by auto
    then show ?thesis using Some by (subst net_walk_free_node.simps) (simp add: Let_def)
  qed
qed

lemma net_walk_free_ends:
  assumes "refs_ok s" and "below (NodesCount s) p"
  obtains s' where "net_walk_free_node p n s = Some s'" "refs_ok s'"
  using assms net_walk_free_ends_at [OF assms(1)] by (cases p) (auto simp: net_walk_free_node.simps)

lemma net_walk_free_count:
  assumes "net_walk_free_node p n s = Some s'"
  shows "NodesCount s' = NodesCount s"
proof (rule net_walk_free_node.raw_induct [OF _ assms], goal_cases)
  case (1 walk p n s s')
  then show ?case by (cases p) (auto simp: Let_def)
qed

definition entries_ok :: "nat \<Rightarrow> net_debug_alloc list \<Rightarrow> bool" where
  "entries_ok k xs \<longleftrightarrow> (\<forall>a\<in>set xs. below k (ai_node a))"

lemma entries_ok_simps [simp]:
  "entries_ok k xs \<Longrightarrow> below k (ai_node a) \<Longrightarrow> entries_ok k (xs[i := a])"
  "entries_ok k xs \<Longrightarrow> i < length xs \<Longrightarrow> below k (ai_node (xs ! i))"
  "entries_ok k (replicate m zero_info)"
  using set_update_subset_insert [of xs i a] by (auto simp: entries_ok_def zero_info_def)

lemma entries_ok_le: "entries_ok k xs \<Longrightarrow> k \<le> m \<Longrightarrow> entries_ok m xs"
  by (auto simp: entries_ok_def intro: below_le)

definition tree_ok :: "'w alloc_state \<Rightarrow> bool" where
  "tree_ok s \<longleftrightarrow> refs_ok s \<and> below (NodesCount s) (RootNode s) \<and> entries_ok (NodesCount s) (AllocInfos s)"

lemma refs_ok_cong: "Nodes s = Nodes t \<Longrightarrow> NodesCount s = NodesCount t \<Longrightarrow> refs_ok s = refs_ok t"
  by (simp add: refs_ok_def)

lemma tree_ok_cong:
  "Nodes s = Nodes t \<Longrightarrow> NodesCount s = NodesCount t \<Longrightarrow> RootNode s = RootNode t \<Longrightarrow> AllocInfos s = AllocInfos t
    \<Longrightarrow> tree_ok s = tree_ok t"
  using refs_ok_cong [of s t] by (simp add: tree_ok_def)

lemma refs_ok_zero: "refs_ok s" if "Nodes s = replicate 51 zero_node" "NodesCount s = 0"
  using that by (simp add: refs_ok_def zero_node_def)

lemma tree_ok_booted: "tree_ok s \<Longrightarrow> tree_ok (booted s)"
  using refs_ok_zero [of "booted s"] by (auto simp: tree_ok_def booted_def alloc_reset_def)

lemma enter_info_tree:
  assumes "enter_info i p n f l s = Some s'" and "tree_ok s" and "i < length (AllocInfos s)"
  shows "tree_ok s'"
proof -
  let ?s = "s\<lparr>AllocInfos := (AllocInfos s)[i := (AllocInfos s ! i)\<lparr>ai_p := p, ai_size := n, ai_line := ucast l,
               ai_filename := Some f, ai_iter := ucast (iteralloc s)\<rparr>]\<rparr>"
  obtain q t where t: "walk_from (RootNode ?s) (RootNode ?s) f n ?s = Some (q, t)"
      and s': "s' = t\<lparr>AllocInfos := (AllocInfos t)[i := (AllocInfos t ! i)\<lparr>ai_node := Some q\<rparr>]\<rparr> \<and> RootNode t \<noteq> None
        \<or> (\<exists>r. topmost (t\<lparr>AllocInfos := (AllocInfos t)[i := (AllocInfos t ! i)\<lparr>ai_node := Some q\<rparr>]\<rparr>) q = Some r
            \<and> s' = t\<lparr>AllocInfos := (AllocInfos t)[i := (AllocInfos t ! i)\<lparr>ai_node := Some q\<rparr>], RootNode := Some r\<rparr>)"
    using assms(1)
    by (auto simp: enter_info_def bind_Some_iff net_walk_malloc_node_def Let_def split: if_splits)
  have s: "refs_ok ?s" "below (NodesCount ?s) (RootNode ?s)" "entries_ok (NodesCount ?s) (AllocInfos ?s)"
    using assms(2,3) by (simp_all add: tree_ok_def refs_ok_def)
  note w = walk_from_refs [OF t s(1,2)] and fr = tree_only_sel [OF walk_from_tree [OF t]]
  have a: "entries_ok (NodesCount t) ((AllocInfos t)[i := (AllocInfos t ! i)\<lparr>ai_node := Some q\<rparr>])"
    by (rule entries_ok_simps(1)) (use entries_ok_le [OF s(3), of "NodesCount t"] w(1,2) fr(1) in simp_all)
  have r: "below (NodesCount t) (RootNode t)" using below_le [OF s(2), of "NodesCount t"] w(2) fr(7) by simp
  have n: "refs_ok (t\<lparr>AllocInfos := x\<rparr>)" "refs_ok (t\<lparr>AllocInfos := x, RootNode := y\<rparr>)" for x y
    using w(3) by (simp_all add: refs_ok_def)
  show ?thesis using s' a r n w(1)
      topmost_bound [of "t\<lparr>AllocInfos := (AllocInfos t)[i := (AllocInfos t ! i)\<lparr>ai_node := Some q\<rparr>]\<rparr>" q]
    by (auto simp: tree_ok_def)
qed

lemma tree_ok_malloc:
  assumes "net_malloc_debug A n f l s = Some (p, s')" and "tree_ok s" and "length (AllocInfos s) = 300"
  shows "tree_ok s'"
proof -
  define v where "v = count_alive (write_guard (p + unat n) (snd (port_malloc A (n + 4) (count_alloc n (booted s)))))"
  obtain i where run: "find_info 0 v = Some i" "enter_info i p n f l v = Some s'"
    using assms(1)
    by (auto simp: net_malloc_debug_def Let_def split_def bind_Some_iff v_def split: if_splits)
  have v: "tree_ok v" using tree_ok_cong [of v "booted s"] tree_ok_booted [OF assms(2)] by (simp add: v_def)
  have "i < length (AllocInfos v)" using run(1) assms(3) by (simp add: find_info_Some v_def)
  then show ?thesis using enter_info_tree [OF run(2) v] by simp
qed

text \<open>A free, its guards and its walk over the tree.\<close>

lemma net_free_debug_steps:
  assumes "p \<noteq> 0" and "length (AllocInfos s) = 300"
  shows "net_free_debug A p s = do {
     i \<leftarrow> find_info p s;
     let a = AllocInfos s ! i;
     (if guard_ok (p + unat (ai_size a)) s then do {
        t \<leftarrow> net_walk_free_node (ai_node a) (ai_size a)
               (s\<lparr>iterfree := iterfree s + 1, AllocInfos := (AllocInfos s)[i := a\<lparr>ai_p := 0\<rparr>],
                  AllocCurrent := AllocCurrent s - ai_size a\<rparr>);
        Some (port_free A p (t\<lparr>AllocInfos := (AllocInfos t)[i := (AllocInfos t ! i)\<lparr>ai_size := 0\<rparr>]\<rparr>)) }
      else None) }"
proof -
  have f: "find_info p (s\<lparr>iterfree := k\<rparr>) = find_info p s" for k by (simp add: find_info_def)
  show ?thesis
  proof (cases "find_info p s")
    case None
    then show ?thesis using assms f by (simp add: net_free_debug_def Let_def)
  next
    case (Some i)
    then have "i < length (AllocInfos s)" using assms(2) by (simp add: find_info_Some)
    then show ?thesis using assms f Some by (simp add: net_free_debug_def Let_def guard_ok_def)
  qed
qed

lemma tree_ok_dead:
  assumes "tree_ok s" and "i < length (AllocInfos s)"
  shows "tree_ok (s\<lparr>iterfree := k, AllocInfos := (AllocInfos s)[i := (AllocInfos s ! i)\<lparr>ai_p := 0\<rparr>], AllocCurrent := c\<rparr>)"
  using assms by (simp add: tree_ok_def refs_ok_def)

lemma tree_ok_free:
  assumes "net_free_debug A p s = Some s'" and "tree_ok s" and "length (AllocInfos s) = 300"
  shows "tree_ok s'"
proof (cases "p = 0")
  case True
  then show ?thesis using assms tree_ok_cong [of s' s] by (auto simp: net_free_debug_def)
next
  case False
  obtain i u where i: "find_info p s = Some i"
      and u: "net_walk_free_node (ai_node (AllocInfos s ! i)) (ai_size (AllocInfos s ! i))
        (s\<lparr>iterfree := iterfree s + 1, AllocInfos := (AllocInfos s)[i := (AllocInfos s ! i)\<lparr>ai_p := 0\<rparr>],
           AllocCurrent := AllocCurrent s - ai_size (AllocInfos s ! i)\<rparr>) = Some u"
      and s': "s' = port_free A p (u\<lparr>AllocInfos := (AllocInfos u)[i := (AllocInfos u ! i)\<lparr>ai_size := 0\<rparr>]\<rparr>)"
    using assms(1) unfolding net_free_debug_steps [OF False assms(3)]
    by (auto simp: Let_def bind_Some_iff split: if_splits)
  have l: "i < length (AllocInfos s)" using i assms(3) by (simp add: find_info_Some)
  let ?t = "s\<lparr>iterfree := iterfree s + 1, AllocInfos := (AllocInfos s)[i := (AllocInfos s ! i)\<lparr>ai_p := 0\<rparr>],
           AllocCurrent := AllocCurrent s - ai_size (AllocInfos s ! i)\<rparr>"
  have t: "tree_ok ?t" using tree_ok_dead [OF assms(2) l] .
  have "below (NodesCount ?t) (ai_node (AllocInfos s ! i))" using assms(2) l by (simp add: tree_ok_def)
  then have r: "refs_ok u" using net_walk_free_ends [of ?t] t u by (metis option.inject tree_ok_def)
  have "tree_ok (u\<lparr>AllocInfos := (AllocInfos u)[i := (AllocInfos u ! i)\<lparr>ai_size := 0\<rparr>]\<rparr>)"
    using assms(2) r tree_only_sel [OF net_walk_free_tree [OF u]] net_walk_free_count [OF u] l
    by (simp add: tree_ok_def refs_ok_def)
  then show ?thesis using s' tree_ok_cong [of s' "u\<lparr>AllocInfos := (AllocInfos u)[i := (AllocInfos u ! i)\<lparr>ai_size := 0\<rparr>]\<rparr>"] by simp
qed

lemma tree_ok_memory [simp]: "tree_ok (s\<lparr>memory := m\<rparr>) = tree_ok s" "tree_ok (mem_set p n b s) = tree_ok s"
  "tree_ok (mem_copy p q n s) = tree_ok s"
  by (rule tree_ok_cong; simp add: mem_set_def mem_copy_def)+

lemma tree_ok_call:
  assumes "run_alloc A c s = Some t" and "tree_ok s" and "books_ok s"
  shows "tree_ok t"
proof -
  have l: "length (AllocInfos s) = 300" using assms(3) by (simp add: books_ok_def)
  note m = tree_ok_malloc [OF _ assms(2) l] and fr = tree_ok_free [OF _ assms(2) l]
  show ?thesis
  proof (cases c)
    case (Call_realloc p n f g)
    show ?thesis
    proof (cases "p = 0 \<or> n = 0")
      case True
      then show ?thesis using assms(1,2) Call_realloc m fr
        by (auto simp: net_realloc_debug_def bind_Some_iff split: if_splits)
    next
      case False
      then obtain q u where u: "net_malloc_debug A n f g s = Some (q, u)"
          "net_free_debug A p (mem_copy q p (unat n) u) = Some t \<or> t = u"
        using assms(1) Call_realloc by (auto simp: net_realloc_debug_def bind_Some_iff split: if_splits)
      have "length (AllocInfos (mem_copy q p (unat n) u)) = 300"
        using books_ok_malloc [OF u(1) assms(3)] by (simp add: books_ok_def mem_copy_def)
      then show ?thesis using tree_ok_free [of A p "mem_copy q p (unat n) u" t] m [OF u(1)] u(2) by auto
    qed
  qed (use assms(1) m fr in \<open>auto simp: net_calloc_debug_def bind_Some_iff split: if_splits\<close>)
qed

lemma history_ok: "alloc_history A (alloc_boot w m) s \<Longrightarrow> books_ok s \<and> tree_ok s"
proof (induction "alloc_boot w m" s rule: alloc_history.induct)
  case start
  have "tree_ok (alloc_boot w m)" using refs_ok_zero [of "alloc_boot w m"] by (simp add: tree_ok_def alloc_boot_def)
  then show ?case by (simp add: books_ok_boot)
qed (auto dest: books_ok_call tree_ok_call)

lemma free_returns:
  assumes "books_ok s" and "tree_ok s" and "p \<noteq> 0"
  shows "net_free_debug A p s \<noteq> None \<longleftrightarrow> (\<exists>i. find_info p s = Some i \<and> guard_ok (p + unat (ai_size (AllocInfos s ! i))) s)"
proof (cases "find_info p s")
  case None
  then show ?thesis using net_free_debug_steps [OF assms(3), of s A] assms(1) by (simp add: books_ok_def)
next
  case (Some i)
  let ?a = "AllocInfos s ! i"
  let ?t = "s\<lparr>iterfree := iterfree s + 1, AllocInfos := (AllocInfos s)[i := ?a\<lparr>ai_p := 0\<rparr>],
                  AllocCurrent := AllocCurrent s - ai_size ?a\<rparr>"
  have l: "length (AllocInfos s) = 300" "i < length (AllocInfos s)" using Some assms(1) by (simp_all add: books_ok_def find_info_Some)
  have "tree_ok ?t" using tree_ok_dead [OF assms(2) l(2)] .
  moreover have "below (NodesCount ?t) (ai_node ?a)" using assms(2) l by (simp add: tree_ok_def)
  ultimately obtain u where "net_walk_free_node (ai_node ?a) (ai_size ?a) ?t = Some u"
    using net_walk_free_ends [of ?t] unfolding tree_ok_def by blast
  then show ?thesis using Some net_free_debug_steps [OF assms(3) l(1), of A] by (simp add: Let_def)
qed

text \<open>
  C31. After any history, the free of a non-null pointer returns exactly when the pointer is in the table of live
  allocations and the four bytes behind the block are still the guard: an unknown pointer, a second free
  and a block written past its end all stop the program, and nothing else does; the walk over the
  tree always ends.
\<close>

theorem free_returns_iff_guarded:
  assumes "alloc_history A (alloc_boot w m) s" and "p \<noteq> 0"
  shows "net_free_debug A p s \<noteq> None \<longleftrightarrow>
    (\<exists>i. find_info p s = Some i \<and> guard_ok (p + unat (ai_size (AllocInfos s ! i))) s)"
  using history_ok [OF assms(1)] assms(2) by (intro free_returns) simp_all

text \<open>A block taken and given back.\<close>

lemma find_info_None: "length (AllocInfos s) = 300 \<Longrightarrow> find_info p s = None \<longleftrightarrow> (\<forall>i<300. ai_p (AllocInfos s ! i) \<noteq> p)"
  unfolding find_info_def by (auto simp: find_None_iff)

lemma find_info_memory [simp]: "find_info p (s\<lparr>memory := m\<rparr>) = find_info p s"
  by (simp add: find_info_def)

lemma booted_id:
  assumes "books_ok s"
  shows "AllocInfos (booted s) = AllocInfos s" "AllocCurrent (booted s) = AllocCurrent s"
  using assms by (auto simp: books_ok_def booted_def alloc_reset_def)

lemma guard_ok_written: "guard_ok e (write_guard e s)"
  by (simp add: guard_ok_def write_guard_def)

lemma guard_ok_cong:
  assumes "\<forall>k<4. memory s (e + k) = memory t (e + k)"
  shows "guard_ok e s = guard_ok e t"
  using assms [rule_format, of 0] assms [rule_format, of 1] assms [rule_format, of 2] assms [rule_format, of 3]
  by (simp add: guard_ok_def)

text \<open>What a successful allocation leaves behind, over an invariant state.\<close>

lemma net_malloc_debug_entry:
  assumes "net_malloc_debug A n f l s = Some (p, t)" and "books_ok s"
  obtains i nd where "i < 300" "p \<noteq> 0" "ai_p (AllocInfos s ! i) = 0"
    "AllocInfos t = (AllocInfos s)[i := entry p n f l (iteralloc t) nd]" "AllocCurrent t = AllocCurrent s + n"
    "iteralloc t = iteralloc s + 1" "iterfree t = iterfree s" "memory t = memory (write_guard (p + unat n) s)"
proof -
  have "length (AllocInfos s) = 300" using assms(2) by (simp add: books_ok_def)
  from net_malloc_debug_effect [OF assms(1) this] show ?thesis
    using that unfolding booted_id [OF assms(2)] by blast
qed

lemma find_info_new:
  assumes "i < 300" "length (AllocInfos s) = 300" "AllocInfos t = (AllocInfos s)[i := entry p n f l k nd]" "find_info p s = None"
  shows "find_info p t = Some i"
  using assms by (auto simp: find_info_Some find_info_None entry_def nth_list_update)

text \<open>
  C32. A block taken and given back: when the allocator hands out an address that is not in use and the program
  leaves the four bytes behind the block alone, whatever else it writes, the free returns, and the
  report shows the same live blocks and bytes as before the allocation.
\<close>

theorem alloc_free_roundtrip:
  assumes "alloc_history A (alloc_boot w m) s" and "net_malloc_debug A n f l s = Some (p, t)"
    and "find_info p s = None" and "\<forall>k<4. m' (p + unat n + k) = memory t (p + unat n + k)"
  shows "\<exists>u. net_free_debug A p (t\<lparr>memory := m'\<rparr>) = Some u \<and> net_alloc_report u = net_alloc_report s"
proof -
  note inv = history_ok [OF assms(1)]
  then have l: "length (AllocInfos s) = 300" by (simp add: books_ok_def)
  obtain i nd where t: "i < 300" "p \<noteq> 0" "ai_p (AllocInfos s ! i) = 0"
    "AllocInfos t = (AllocInfos s)[i := entry p n f l (iteralloc t) nd]" "AllocCurrent t = AllocCurrent s + n"
    "iteralloc t = iteralloc s + 1" "iterfree t = iterfree s" "memory t = memory (write_guard (p + unat n) s)"
    by (rule net_malloc_debug_entry [OF assms(2) conjunct1 [OF inv]])
  let ?t = "t\<lparr>memory := m'\<rparr>"
  have inv': "books_ok ?t" "tree_ok ?t"
    using books_ok_malloc [OF assms(2)] tree_ok_malloc [OF assms(2)] inv l by simp_all
  have f: "find_info p ?t = Some i" using find_info_new [OF t(1) l t(4) assms(3)] by simp
  have z: "ai_size (AllocInfos ?t ! i) = n" using t(1,4) l by (simp add: entry_def)
  have "guard_ok (p + unat n) t" using guard_ok_written [of "p + unat n" s] t(8) by (simp add: guard_ok_def)
  then have "guard_ok (p + unat n) ?t" using guard_ok_cong [of ?t "p + unat n" t] assms(4) by simp
  then obtain u where u: "net_free_debug A p ?t = Some u"
    using free_returns [OF inv' t(2), of A] f z by auto
  have l': "length (AllocInfos ?t) = 300" using inv' by (simp add: books_ok_def)
  have "iteralloc u - iterfree u = iteralloc s - iterfree s" "AllocCurrent u = AllocCurrent s"
    using net_free_debug_effect [OF u t(2) l'] f z t by auto
  moreover have "net_alloc_report x = (iteralloc x - iterfree x, AllocCurrent x)" if "books_ok x" for x :: "'a alloc_state"
    using that net_alloc_report_live [of x] by (simp add: books_ok_def)
  ultimately show ?thesis using u inv books_ok_free [OF u inv'(1)] by auto
qed

section \<open>Reallocation and clearing\<close>

lemma mem_copy_at: "a < n \<Longrightarrow> memory (mem_copy dst src n s) (dst + a) = memory s (src + a)"
  by (simp add: mem_copy_def)

lemma net_free_debug_memory:
  assumes "net_free_debug A p s = Some t" and "length (AllocInfos s) = 300"
  shows "memory t = memory s"
proof (cases "p = 0")
  case True
  then show ?thesis using assms(1) by (auto simp: net_free_debug_def)
qed (use net_free_debug_effect [OF assms(1) _ assms(2)] in auto)

lemma net_realloc_debug_moves:
  assumes "net_realloc_debug A p n f l s = Some (q, t)" and "books_ok s" and "p \<noteq> 0" "n \<noteq> 0"
  shows "q \<noteq> 0 \<and> memory t = memory (mem_copy q p (unat n) (write_guard (q + unat n) s))"
proof -
  obtain r u where u: "net_malloc_debug A n f l s = Some (r, u)"
    using assms by (auto simp: net_realloc_debug_def bind_Some_iff split: if_splits)
  obtain i nd where i: "r \<noteq> 0" "memory u = memory (write_guard (r + unat n) s)"
    by (rule net_malloc_debug_entry [OF u assms(2)])
  have t: "net_free_debug A p (mem_copy q p (unat n) u) = Some t" "r = q"
    using assms u i(1) by (auto simp: net_realloc_debug_def bind_Some_iff split: if_splits)
  have "length (AllocInfos (mem_copy q p (unat n) u)) = 300"
    using books_ok_malloc [OF u assms(2)] by (simp add: books_ok_def mem_copy_def)
  from net_free_debug_memory [OF t(1) this] have "memory t = memory (mem_copy q p (unat n) u)" .
  also have "\<dots> = memory (mem_copy q p (unat n) (write_guard (q + unat n) s))"
    unfolding mem_copy_def i(2) [unfolded t(2)] by simp
  finally show ?thesis using i(1) t(2) by simp
qed

text \<open>
  The debugging reallocation copies as many bytes as the new block has, not as the old one had: when a block of size
  \<open>sz\<close> grows by four bytes or more and the new block does not overlap the old one, the new block holds the old
  contents followed by the old block's guard, which the program never wrote; the bytes after it
  come from whatever lies behind the old block.
\<close>

theorem realloc_copies_past_the_end:
  assumes "alloc_history A (alloc_boot w m) s" and "net_realloc_debug A p n f l s = Some (q, t)"
    and "p \<noteq> 0" and "find_info p s = Some i" and "sz = unat (ai_size (AllocInfos s ! i))" and "sz + 4 \<le> unat n"
    and "guard_ok (p + sz) s" and "p + unat n \<le> q \<or> q + unat n + 4 \<le> p"
  shows "(\<forall>a<unat n. memory t (q + a) = memory s (p + a)) \<and> guard_ok (q + sz) t"
proof -
  have "n \<noteq> 0" using assms(6) by auto
  then have t: "memory t = memory (mem_copy q p (unat n) (write_guard (q + unat n) s))"
    using net_realloc_debug_moves [OF assms(2)] history_ok [OF assms(1)] assms(3) by simp
  have c: "memory t (q + a) = memory s (p + a)" if "a < unat n" for a
    using mem_copy_at [OF that, of q p "write_guard (q + unat n) s"] assms(8) that unfolding t
    by (auto simp: write_guard_def)
  have k: "memory t (q + sz + k) = memory s (p + sz + k)" if "k < 4" for k
    using c [of "sz + k"] that assms(6) by (simp add: add.assoc)
  have "guard_ok (q + sz) t"
    using assms(7) k [of 0] k [of 1] k [of 2] k [of 3] by (simp add: guard_ok_def)
  then show ?thesis using c by simp
qed

text \<open>
  C33. The plain \<open>net_calloc\<close>: with both factors below 0x4000 the product does not wrap, exactly that many bytes are
  asked for, and the block it returns is zero in all of them and unchanged around it; with a factor at or
  above the bound it returns the null pointer and asks for nothing.
\<close>

theorem net_calloc_bounded:
  assumes "net_calloc A num sz s = (p, t)"
  shows "if num < MAX_ALLOC_VALUE \<and> sz < MAX_ALLOC_VALUE
     then unat (num * sz) = unat num * unat sz \<and> p = fst (pvPortMalloc A (num * sz) (port s))
       \<and> (p \<noteq> 0 \<longrightarrow> (\<forall>a. memory t a = (if p \<le> a \<and> a < p + unat num * unat sz then 0 else memory s a)))
     else p = 0 \<and> t = s"
proof (cases "num < MAX_ALLOC_VALUE \<and> sz < MAX_ALLOC_VALUE")
  case True
  then have "unat num < 0x4000" "unat sz < 0x4000" by (simp_all add: word_less_nat_alt)
  then have "unat num * unat sz < 0x4000 * 0x4000" by (intro mult_strict_mono) simp_all
  then have "unat (num * sz) = unat num * unat sz" by (subst unat_mult_lem [symmetric]) simp
  then show ?thesis using True assms
    by (auto simp: net_calloc_def port_malloc_def mem_set_def Let_def split_def split: if_splits)
qed (use assms in \<open>auto simp: net_calloc_def\<close>)

section \<open>Concrete runs\<close>

text \<open>An allocator that hands out fresh memory and never takes any back.\<close>

definition bump :: "nat port_alloc" where
  "bump = \<lparr>pvPortMalloc = (\<lambda>n w. (w, w + unat n)), vPortFree = (\<lambda>p w. w)\<rparr>"

declare walk_from.simps [code] lowest.simps [code] topmost.simps [code] net_walk_free_node.simps [code]

definition run_bump :: "alloc_call list \<Rightarrow> nat alloc_state option" where
  "run_bump cs = foldl (\<lambda>r c. Option.bind r (run_alloc bump c)) (Some (alloc_boot 64 (\<lambda>a. 0))) cs"

lemma foldl_bind_None: "foldl (\<lambda>r c. Option.bind r (f c)) None cs = None"
  by (induction cs) simp_all

lemma run_bump_history:
  assumes "run_bump cs = Some s"
  shows "alloc_history bump (alloc_boot 64 (\<lambda>a. 0)) s"
proof -
  have "foldl (\<lambda>r c. Option.bind r (run_alloc bump c)) (Some t) cs = Some s \<Longrightarrow> alloc_history bump b t \<Longrightarrow> alloc_history bump b s"
    for t b
  proof (induction cs arbitrary: t)
    case (Cons c cs)
    then obtain u where "run_alloc bump c t = Some u"
      by (cases "run_alloc bump c t") (auto simp: foldl_bind_None)
    then show ?case using Cons.IH [of u] Cons.prems alloc_history.call [OF Cons.prems(2)] by simp
  qed simp
  then show ?thesis using assms alloc_history.start unfolding run_bump_def by blast
qed

definition demo_calls :: "alloc_call list" where
  "demo_calls = [Call_malloc 16 [CHR ''n'', CHR 0x5C, CHR ''a''] 7, Call_malloc 8 [CHR ''n'', CHR 0x5C, CHR ''b''] 9]"

definition demo_state :: "nat alloc_state" where
  "demo_state = the (run_bump demo_calls)"

lemma demo_some: "run_bump demo_calls \<noteq> None" by code_simp

lemma demo_history: "alloc_history bump (alloc_boot 64 (\<lambda>a. 0)) demo_state"
  using demo_some by (intro run_bump_history) (auto simp: demo_state_def)

lemma alloc_report_agrees_witness: "net_alloc_report demo_state = (2, 24)"
proof -
  have "(iteralloc demo_state - iterfree demo_state, AllocCurrent demo_state) = (2, 24)" unfolding demo_state_def by code_simp
  then show ?thesis using alloc_report_agrees [OF demo_history] by simp
qed

lemma find_info_absent: "length (AllocInfos s) = 300 \<Longrightarrow> list_all (\<lambda>a. ai_p a \<noteq> p) (AllocInfos s) \<Longrightarrow> find_info p s = None"
  by (simp add: find_info_None list_all_length)

text \<open>The block at 64 is live and guarded; one written past its end is not given back.\<close>

lemma free_returns_iff_guarded_witness:
  "net_free_debug bump 64 demo_state \<noteq> None \<and> net_free_debug bump 64 (demo_state\<lparr>memory := \<lambda>a. 0\<rparr>) = None"
proof -
  have f: "find_info 64 demo_state = Some 0" "guard_ok (64 + unat (ai_size (AllocInfos demo_state ! 0))) demo_state"
    unfolding demo_state_def by code_simp+
  have "alloc_history bump (alloc_boot 64 (\<lambda>a. 0)) (demo_state\<lparr>memory := \<lambda>a. 0\<rparr>)"
    using demo_history by (rule alloc_history.program)
  from free_returns_iff_guarded [OF this, of 64] have "net_free_debug bump 64 (demo_state\<lparr>memory := \<lambda>a. 0\<rparr>) = None"
    by (simp add: guard_ok_def)
  then show ?thesis using f free_returns_iff_guarded [OF demo_history, of 64] by auto
qed

lemma alloc_free_roundtrip_witness:
  "\<exists>p t u. net_malloc_debug bump 40 [CHR ''x''] 1 demo_state = Some (p, t) \<and> net_free_debug bump p t = Some u
     \<and> net_alloc_report u = net_alloc_report demo_state"
proof -
  have m: "map_option fst (net_malloc_debug bump 40 [CHR ''x''] 1 demo_state) = Some 96"
    unfolding demo_state_def by code_simp
  have "list_all (\<lambda>a. ai_p a \<noteq> 96) (AllocInfos demo_state)"
    unfolding demo_state_def by code_simp
  then have f: "find_info 96 demo_state = None"
    using find_info_absent history_ok [OF demo_history] by (auto simp: books_ok_def)
  obtain t where t: "net_malloc_debug bump 40 [CHR ''x''] 1 demo_state = Some (96, t)" using m by auto
  from alloc_free_roundtrip [OF demo_history t f, of "memory t"] obtain u where
    "net_free_debug bump 96 (t\<lparr>memory := memory t\<rparr>) = Some u" "net_alloc_report u = net_alloc_report demo_state" by auto
  then show ?thesis using t by auto
qed

lemma realloc_copies_past_the_end_witness:
  "\<exists>q t. net_realloc_debug bump 64 32 [CHR ''x''] 1 demo_state = Some (q, t) \<and> memory t (q + 16) = 0xDE"
proof -
  have m: "map_option fst (net_realloc_debug bump 64 32 [CHR ''x''] 1 demo_state) = Some 96" "find_info 64 demo_state = Some 0"
    "unat (ai_size (AllocInfos demo_state ! 0)) = 16" "guard_ok (64 + 16) demo_state"
    unfolding demo_state_def by code_simp+
  then obtain t where t: "net_realloc_debug bump 64 32 [CHR ''x''] 1 demo_state = Some (96, t)" by auto
  have "guard_ok (96 + 16) t"
    using realloc_copies_past_the_end [OF demo_history t _ m(2) m(3) [symmetric]] m(4) by simp
  then show ?thesis using t by (auto simp: guard_ok_def)
qed

lemma net_calloc_bounded_witness:
  "memory (snd (net_calloc bump 3 5 demo_state)) 96 = 0 \<and> fst (net_calloc bump 0x10000 0x10000 demo_state) = 0"
proof -
  obtain p t q u where r: "net_calloc bump 3 5 demo_state = (p, t)" "net_calloc bump 0x10000 0x10000 demo_state = (q, u)"
    by (metis surj_pair)
  have "port demo_state = 96" unfolding demo_state_def by code_simp
  then have "p = 96" "memory t 96 = 0" using net_calloc_bounded [OF r(1)] by (simp_all add: bump_def)
  moreover have "q = 0" using net_calloc_bounded [OF r(2)] by simp
  ultimately show ?thesis using r by simp
qed

section \<open>The tree by directories\<close>

text \<open>
  The tree compares a part of a path with the start of a node's name and never links a node made below a leaf: after one
  allocation from a file \<open>bc\<close> of a directory and one from a file \<open>d\<close> of its subdirectory \<open>b\<close>, and both frees, no byte is
  allocated and the directory's node still counts the second block.
\<close>

definition bc_then_bd :: "alloc_call list" where
  "bc_then_bd = [Call_malloc 16 [CHR ''a'', CHR 0x5C, CHR ''b'', CHR ''c''] 7,
     Call_malloc 8 [CHR ''a'', CHR 0x5C, CHR ''b'', CHR 0x5C, CHR ''d''] 9, Call_free 64, Call_free 84]"

lemma tree_keeps_freed_bytes:
  "map_option (\<lambda>s. (AllocCurrent s, map (\<lambda>x. (n_current x, n_up x)) (take 3 (Nodes s)))) (run_bump bc_then_bd)
     = Some (0, [(8, None), (8, Some 0), (0, None)])"
  by code_simp

end
