(* ===== verification/Spec2Isabelle.thy ===== *)
theory Spec2Isabelle
  imports Net_Core Net_Address Wifi_Class Socket_Errors Sdhcp_Props Es_Wifi_Props Mx_Wifi_Props Net_Ping_Props Eth_Props Cy_Props
    St_Props Mx_Bypass_Props Net_Alloc_Props
begin

text \<open>
  A verification library for the STM32 network library, the C code of this repository under
  \<open>src/firmware/libs/stm32-network-lib\<close>. All file names below are relative to that directory.

  The program. An application registers network interfaces (\<open>net_if_init\<close> with the entry function of a
  driver), drives each through its life cycle by commands (\<open>net_if_start\<close>, \<open>_connect\<close>, \<open>_disconnect\<close>, \<open>_stop\<close>,
  \<open>_deinit\<close>) and communicates through a BSD-like socket interface. A driver is a table of functions
  (\<open>struct net_if_drv_s\<close>) found through the interface handle; it reports what happened by sending events to
  the interface's state machine. TLS on a socket is mbedTLS over the library's own transport functions.
  On top of the sockets the library has services, of which the DHCP server is the largest.

  The configuration modelled: \<open>NET_USE_RTOS\<close> and \<open>NET_MBEDTLS_HOST_SUPPORT\<close> defined,
  \<open>NET_USE_DEFAULT_INTERFACE\<close> 1, \<open>NET_USE_IPV6\<close> 0, \<open>NET_MAX_SOCKETS_NBR\<close> 5. The ES-WiFi driver is modelled with
  and without \<open>NET_MBEDTLS_WIFI_MODULE_SUPPORT\<close> (field \<open>module_tls\<close>).

  The state is the record \<open>net\<close> of \<open>Net_System\<close>: the interface handles (a heap, since they are linked into a
  list by pointers), the head of the list, the socket table, the drivers' data, the TLS objects, the log of
  lock operations and \<open>dev\<close>, everything outside the library. A function that returns is \<^term>\<open>Some\<close> of its result
  (with its out-parameters) and the new state; \<^term>\<open>None\<close> is a null dereference, an access outside an array, a
  failed assertion of the service or a loop that does not end. Error codes are the library's negative
  integers. The code outside (\<open>env\<close>): driver tables, the event callback, the clock, the wait primitive, the
  allocator and the mbedTLS functions are parameters; \<open>held\<close> replays the lock log, and
  \<open>Lock_error\<close> in it is a lock taken twice, released unheld or used after its destruction.

  Theories, in the order of their imports.
    \<^item> \<open>Net_Prelude\<close>: machine types, option binds, lists, words, generic rules of the components.
    \<^item> \<open>Net_Types\<close>: enumerations and structures of \<open>Includes/net_connect.h\<close>, \<open>net_core.h\<close>, \<open>net_address.h\<close>,
      \<open>net_wifi.h\<close>, \<open>net_class_extension.h\<close>, \<open>net_mbedtls.h\<close>.
    \<^item> \<open>Net_System\<close>: the state, the driver table, the environment, the lock log, memory.
    \<^item> \<open>Net_Registry\<close>: the interface list of \<open>core/net_core.c\<close>; the locale \<open>registry\<close> is what a registry promises
      and \<open>iflist\<close> its interpretation on the pointer code.
    \<^item> \<open>Net_Demo\<close>: a small concrete system on which the witnesses are evaluated.
    \<^item> \<open>Net_State\<close>: \<open>core/net_state.c\<close>, handler by handler; the machine equals a transition table; the locale
      \<open>netif_driver\<close> (what the interface functions of a driver may do); \<open>ends_after\<close>, the states a sequence of events may
      end in by the table and the events the driver functions may report, and the machine ends in one of them.
    \<^item> \<open>Net_Core\<close>: the rest of \<open>core/net_core.c\<close>: init and deinit with the locks and the threading of mbedTLS, commands,
      \<open>net_if_wait_state\<close> (a late second reading of the clock), getters and setters.
    \<^item> \<open>Net_Address\<close>: \<open>core/net_address.c\<close>: parsing and printing addresses.
    \<^item> \<open>Wifi_Class\<close>: \<open>core/net_class_extension.c\<close>.
    \<^item> \<open>Net_Mbedtls\<close>: \<open>services/net_mbedtls.c\<close>, over the mbedTLS functions of the environment.
    \<^item> \<open>Net_Socket\<close>: \<open>core/net_socket.c\<close>.
    \<^item> \<open>Socket_Frame\<close>, \<open>Socket_Api\<close>: the locale \<open>socket_driver\<close> (what the socket functions of a driver may touch),
      the contract of mbedTLS, and the frame of every socket operation: its own slot, with the lock of
      that slot held between the calls into the driver.
    \<^item> \<open>Socket_Props\<close>, \<open>Socket_Errors\<close>: lock discipline and isolation for single calls and sequences;
      closing; lost links, refused sockets.
    \<^item> \<open>Net_Bytes\<close>, \<open>Sdhcp\<close>, \<open>Sdhcp_Props\<close>: \<open>services/net_sdhcp.c\<close>: packet formats as bytes, the option search, the
      lease table, the answers, one task as an inductive step relation (create, task start, one datagram, finish, delete) and
      the service \<open>service_step\<close> over any number of tasks that share \<open>RunTask\<close> and \<open>SdhcpTask\<close>, with its reachable states.
    \<^item> \<open>Net_Ping\<close>, \<open>Net_Ping_Props\<close>: \<open>services/net_ping.c\<close>: the echo message, the loop that waits for the reply, the
      client; what it takes for a reply and what becomes of its socket.
    \<^item> \<open>Driver_Frame\<close>: what drivers share: events sent from a driver, the locale \<open>net_driver\<close> that joins the two driver
      contracts, \<open>calling_driver\<close> for a driver whose module also calls back at any time, and \<open>framed_driver\<close>, all that the
      socket table needs of either; \<open>lib_history\<close> is any
      interleaving of commands, socket calls, events and callbacks; the command deinit is the whole of \<open>net_if_deinit\<close>, and
      each theorem on histories says which steps it admits.
    \<^item> \<open>Es_Wifi\<close>, \<open>Es_Wifi_Props\<close>: \<open>netif/wifi_if/es_wifi/net_es_wifi.c\<close> over the component library of the module
      (the record \<open>es_lib\<close>, a parameter). \<open>es_netif\<close>, \<open>es_sockets\<close> and \<open>es\<close> interpret the three driver locales on
      it, so that what holds for every driver holds with this one and no assumption about a driver.
    \<^item> \<open>Mx_Wifi\<close>, \<open>Mx_Wifi_Props\<close>: \<open>netif/wifi_if/mx_wifi/net_mx_wifi.c\<close> over the component library
      of that module (the record \<open>mx_lib\<close>), with its status callback; the interpretations \<open>mx_netif\<close>, \<open>mx_sockets\<close>, \<open>mx\<close>.
    \<^item> \<open>Net_Lwip\<close>, \<open>Net_Lwip_Props\<close>: \<open>services/net_ip_lwip.c\<close> over lwIP, a parameter (\<open>lwip_lib\<close>, \<open>lwip_dhcp\<close>); \<open>lw_run\<close> is what lwIP
      may do while it works on an interface, its status callbacks included, \<open>lwip_contract\<close> says that its functions do no more;
      the locale \<open>lwip_frame\<close> carries a relation between states through the glue. \<open>Lwip_Driver\<close>: what the drivers over lwIP
      share (\<open>keeps_part\<close>: a part of the state of the driver that only its own functions change); \<open>Lwip_Static\<close>: an interface with a static address, whatever its driver; \<open>Lwip_Demo\<close>: a concrete stack for the
      witnesses.
    \<^item> \<open>Eth_Driver\<close>, \<open>Eth_Props\<close>: \<open>netif/ethernet_if/net_ethernet_driver.c\<close>; a static address and the loss of the link.
    \<^item> \<open>Cy_Wifi\<close>, \<open>Cy_Props\<close>: \<open>netif/wifi_if/cypress_wifi/net_cypress_whd_driver.c\<close> over lwIP and the Cypress host driver WHD (the
      record \<open>whd_lib\<close>, a parameter); the statics of the file are \<open>whd_state\<close>. The locale \<open>cy_frame\<close> carries a relation through
      every function: once for the socket table, once for the table \<open>netif2ifp\<close>. Packets, events of the link, start and end.
    \<^item> \<open>St_Wifi\<close>, \<open>St_Props\<close>: \<open>netif/wifi_if/st_wifi/net_st_wifi.c\<close> over lwIP and the WiFi stack of ST (the record
      \<open>st_lib\<close>, a parameter): the socket table, the second connect, power save, scan results.
    \<^item> \<open>Mx_Bypass\<close>, \<open>Mx_Bypass_Props\<close>: the MXCHIP driver built with \<open>MX_WIFI_NETWORK_BYPASS_MODE\<close> 1, over lwIP and the same module
      (what the mode adds is the record \<open>bypass_lib\<close>); the locale \<open>by_frame\<close>, the socket table, frames after a stop.
    \<^item> \<open>Net_Alloc\<close>, \<open>Net_Alloc_Props\<close>: the allocation functions of \<open>core/net_os.c\<close> (\<open>net_calloc\<close>, \<open>net_realloc\<close>, the debugging
      allocator with its table, guard bytes and tree by directories) over an RTOS allocator given as a parameter;
      \<open>alloc_history\<close> is any sequence of calls and writes, \<open>books_ok\<close> and \<open>tree_ok\<close> are its invariants.

  What the lemmas show. The state machine is a transition table, and under any driver that keeps its contract
  a sequence of events ends where the table allows. \<open>net_if_init\<close> on an interface that is not registered returns, with the
  registry and the locks as the answer of the driver asks for. A socket call on a sound slot that returns has released its
  locks and changed its own slot only (the clone of a TLS socket is the slot that is not sound); sequences without TLS keep
  the table well formed; a close frees the slot, with or without TLS. The DHCP server keeps its lease table well formed, offers the
  least free address, answers requests by its leases. Printing and parsing are inverse where the code
  means them to be. A ping leaves every socket but its own alone. The debugging allocator's totals, table and tree stay consistent, and a free returns
  exactly when its block is live and its guard intact. The rest are theorems about error paths where the code does something else than it means
  to: these are also listed as findings of the development.

  Loops and bounds. Loops over lists of pointers and retry loops are \<open>partial_function (option)\<close>: a list with a
  cycle or an endless retry is \<^term>\<open>None\<close>, and theorems that such a loop returns are stated as such
  (\<open>net_if_init\<close>, \<open>net_if_wait_state\<close>). All other loops are total, by structural recursion or a measure;
  no definition uses fuel. Integers are words of their width where the code wraps, \<^typ>\<open>int\<close> for \<open>int32_t\<close> error
  codes and handles.

  Not modelled, and why. The random number, clock and debug callbacks that \<open>net_mbedtls.c\<close> hands to
  mbedTLS (outside); debug output; in \<open>core/net_os.c\<close> the printing of the tree, the cycle counters and task
  statistics (the locks are the lock log); the configuration templates.
  Concurrency between tasks is modelled in the DHCP service, where creation and the task race; the socket
  calls are run one after another, each as a whole.
\<close>

end
